(* ===== verification/JS_Prelude.thy ===== *)
theory JS_Prelude
  imports Main "HOL-Library.Multiset" "HOL-Library.AList"
begin

text \<open>
  The part of the JavaScript language and of its standard library that every
  component of CosmosVote uses: strings and their methods, truthiness, thrown
  values, and generic facts on lists that the component theories share.

  A JavaScript string is a sequence of UTF-16 code units; \<open>jstring\<close> is the list of
  the units as numbers, so \<open>length\<close> is exactly JavaScript's \<open>.length\<close>.  An ASCII
  literal is written \<open>js ''abc''\<close>; a unit outside ASCII is written as its number
  (the sign \<^verbatim>\<open>less-or-equal\<close> is 8804, the en dash 8211, the ellipsis 8230).
\<close>

named_theorems js_simps \<open>defining equations of the modelled JavaScript library functions\<close>

section \<open>Strings\<close>

type_synonym jstring = "nat list"

definition js :: "string \<Rightarrow> jstring" where
  "js s = map of_char s"

lemma js_Nil [simp]: "js [] = []"
  by (simp add: js_def)

lemma js_append: "js (s @ t) = js s @ js t"
  by (simp add: js_def)

lemma js_inject [simp]: "js s = js t \<longleftrightarrow> s = t"
proof -
  have "inj (of_char :: char \<Rightarrow> nat)"
    by (simp add: inj_def)
  then show ?thesis
    by (simp add: js_def inj_map_eq_map)
qed

lemma js_eq_Nil [simp]: "js s = [] \<longleftrightarrow> s = []" "[] = js s \<longleftrightarrow> s = []"
  by (auto simp add: js_def)

lemma length_js [simp]: "length (js s) = length s"
  by (simp add: js_def)

text \<open>
  \<open>Array.prototype.slice\<close> and \<open>String.prototype.slice\<close>: a negative position counts
  from the end, and both positions are clamped to the length.
\<close>

definition slice_pos :: "nat \<Rightarrow> int \<Rightarrow> nat" where
  "slice_pos n i = (if i < 0 then nat (max (int n + i) 0) else min (nat i) n)"

definition slice :: "'a list \<Rightarrow> int \<Rightarrow> int \<Rightarrow> 'a list" where
  "slice xs i j =
     (let a = slice_pos (length xs) i; b = slice_pos (length xs) j
      in take (b - a) (drop a xs))"

definition slice_from :: "'a list \<Rightarrow> int \<Rightarrow> 'a list" where
  "slice_from xs i = drop (slice_pos (length xs) i) xs"

lemma slice_0_nonneg [js_simps]: "slice xs 0 (int n) = take n xs"
  by (simp add: slice_def slice_pos_def min_def)

lemma slice_0_neg [js_simps]: "0 < n \<Longrightarrow> slice xs 0 (- int n) = take (length xs - n) xs"
  by (simp add: slice_def slice_pos_def max_def nat_diff_distrib)

lemma slice_from_neg [js_simps]: "0 < n \<Longrightarrow> slice_from xs (- int n) = drop (length xs - n) xs"
  by (simp add: slice_from_def slice_pos_def max_def nat_diff_distrib)

lemma slice_nonneg:
  "slice xs (int i) (int j) = take (j - i) (drop i xs)"
proof (cases "i \<le> length xs")
  case True
  then show ?thesis by (simp add: slice_def slice_pos_def min_def)
next
  case False
  then show ?thesis by (simp add: slice_def slice_pos_def min_def)
qed

lemma length_slice_0 [simp]: "length (slice xs 0 (int n)) = min (length xs) n"
  by (simp add: slice_0_nonneg)

text \<open>\<open>startsWith\<close> and \<open>includes\<close>.\<close>

definition starts_with :: "'a list \<Rightarrow> 'a list \<Rightarrow> bool" where
  "starts_with s p \<longleftrightarrow> take (length p) s = p"

fun js_includes :: "'a list \<Rightarrow> 'a list \<Rightarrow> bool" where
  "js_includes [] q \<longleftrightarrow> q = []"
| "js_includes (c # s) q \<longleftrightarrow> starts_with (c # s) q \<or> js_includes s q"

lemma starts_with_iff: "starts_with s p \<longleftrightarrow> (\<exists>r. s = p @ r)"
  by (metis append_eq_conv_conj append_take_drop_id starts_with_def)

lemma includes_Nil [simp]: "js_includes s []"
  by (cases s) (simp_all add: starts_with_def)

lemma includes_iff: "js_includes s q \<longleftrightarrow> (\<exists>a b. s = a @ q @ b)"
proof (induction s)
  case Nil
  then show ?case by simp
next
  case (Cons c s)
  show ?case (is "?l = ?r")
  proof
    assume ?l
    then show ?r
    proof (cases "starts_with (c # s) q")
      case True
      then show ?thesis by (metis append_Nil starts_with_iff)
    next
      case False
      with \<open>?l\<close> Cons.IH show ?thesis by (metis append_Cons js_includes.simps(2))
    qed
  next
    assume ?r
    then obtain a b where ab: "c # s = a @ q @ b" by blast
    show ?l
    proof (cases a)
      case Nil
      with ab have "starts_with (c # s) q" by (auto simp add: starts_with_iff)
      then show ?thesis by simp
    next
      case (Cons d a')
      with ab have "s = a' @ q @ b" by simp
      with \<open>js_includes s q \<longleftrightarrow> _\<close> show ?thesis by auto
    qed
  qed
qed

text \<open>
  \<open>trim\<close> removes white space and line terminators of the language definition at both
  ends.
\<close>

definition is_space :: "nat \<Rightarrow> bool" where
  "is_space c \<longleftrightarrow> c \<in> {9, 10, 11, 12, 13, 32, 160, 5760, 8232, 8233, 8239, 8287, 12288, 65279}
     \<or> 8192 \<le> c \<and> c \<le> 8202"

definition trim :: "jstring \<Rightarrow> jstring" where
  "trim s = rev (dropWhile is_space (rev (dropWhile is_space s)))"

lemma length_dropWhile_rev_le: "length (rev (dropWhile P (rev xs))) \<le> length xs"
  by (metis length_dropWhile_le length_rev)

lemma length_trim_le: "length (trim s) \<le> length s"
proof -
  have "length (trim s) \<le> length (dropWhile is_space s)"
    unfolding trim_def by (rule length_dropWhile_rev_le)
  also have "\<dots> \<le> length s" by (rule length_dropWhile_le)
  finally show ?thesis .
qed

lemma set_trim_subset: "set (trim s) \<subseteq> set s"
  unfolding trim_def by (auto dest!: set_dropWhileD)

lemma trim_eq_Nil_iff: "trim s = [] \<longleftrightarrow> (\<forall>c \<in> set s. is_space c)"
  by (auto simp add: trim_def dropWhile_eq_Nil_conv dest: set_dropWhileD)
     (metis dropWhile_eq_Nil_conv hd_dropWhile hd_in_set)

lemma dropWhile_none: "\<forall>c \<in> set s. \<not> P c \<Longrightarrow> dropWhile P s = s"
  by (cases s) auto

lemma trim_no_space: "\<forall>c \<in> set s. \<not> is_space c \<Longrightarrow> trim s = s"
  by (simp add: trim_def dropWhile_none)

text \<open>\<open>split\<close> at one separating unit, and the corresponding \<open>join\<close>.\<close>

fun split_on :: "nat \<Rightarrow> jstring \<Rightarrow> jstring list" where
  "split_on d [] = [[]]"
| "split_on d (c # s) =
     (if c = d then [] # split_on d s
      else case split_on d s of [] \<Rightarrow> [[c]] | w # ws \<Rightarrow> (c # w) # ws)"

fun join_with :: "jstring \<Rightarrow> jstring list \<Rightarrow> jstring" where
  "join_with d [] = []"
| "join_with d [w] = w"
| "join_with d (w # v # ws) = w @ d @ join_with d (v # ws)"

lemma split_on_nonempty [simp]: "split_on d s \<noteq> []"
  by (cases s) (auto split: list.splits)

lemma join_split_on: "join_with [d] (split_on d s) = s"
proof (induction s)
  case Nil
  then show ?case by simp
next
  case (Cons c s)
  obtain w ws where ws: "split_on d s = w # ws"
    by (cases "split_on d s") auto
  with Cons show ?case by (cases ws) auto
qed

lemma split_on_no_sep: "d \<notin> set s \<Longrightarrow> split_on d s = [s]"
  by (induction s) auto

text \<open>
  \<open>toLowerCase\<close>, on the cased letters of the Basic Latin, Latin-1, Greek and Cyrillic
  blocks; other units are left as they are.
\<close>

definition lower_unit :: "nat \<Rightarrow> nat" where
  "lower_unit c =
     (if 65 \<le> c \<and> c \<le> 90 \<or> 192 \<le> c \<and> c \<le> 222 \<and> c \<noteq> 215
         \<or> 913 \<le> c \<and> c \<le> 939 \<and> c \<noteq> 930 \<or> 1040 \<le> c \<and> c \<le> 1071 then c + 32
      else if 1024 \<le> c \<and> c \<le> 1039 then c + 80 else c)"

definition toLowerCase :: "jstring \<Rightarrow> jstring" where
  "toLowerCase s = map lower_unit s"

lemma toLowerCase_idem [simp]: "toLowerCase (toLowerCase s) = toLowerCase s"
  by (auto simp add: toLowerCase_def lower_unit_def)

text \<open>\<open>padStart\<close> and \<open>padEnd\<close> with a one-unit filler.\<close>

definition padStart :: "nat \<Rightarrow> nat \<Rightarrow> jstring \<Rightarrow> jstring" where
  "padStart n c s = replicate (n - length s) c @ s"

definition padEnd :: "nat \<Rightarrow> nat \<Rightarrow> jstring \<Rightarrow> jstring" where
  "padEnd n c s = s @ replicate (n - length s) c"

lemma length_padStart [simp]: "length (padStart n c s) = max n (length s)"
  by (simp add: padStart_def)

lemma length_padEnd [simp]: "length (padEnd n c s) = max n (length s)"
  by (simp add: padEnd_def)

text \<open>
  An optional string is truthy when it is present and not empty; \<open>s ?? d\<close> replaces only
  an absent value.
\<close>

fun truthy :: "jstring option \<Rightarrow> bool" where
  "truthy None \<longleftrightarrow> False"
| "truthy (Some s) \<longleftrightarrow> s \<noteq> []"

fun orelse :: "'a option \<Rightarrow> 'a option \<Rightarrow> 'a option" where
  "orelse None y = y"
| "orelse (Some x) y = Some x"

lemma truthy_iff: "truthy x \<longleftrightarrow> (\<exists>s. x = Some s \<and> s \<noteq> [])"
  by (cases x) auto

section \<open>Decimal numerals\<close>

text \<open>The digits \<open>String(n)\<close> writes for a non-negative integer, and the value they denote.\<close>

fun show_nat :: "nat \<Rightarrow> jstring" where
  "show_nat n = (if n < 10 then [48 + n] else show_nat (n div 10) @ [48 + n mod 10])"

declare show_nat.simps [simp del]

definition show_int :: "int \<Rightarrow> jstring" where
  "show_int i = (if i < 0 then 45 # show_nat (nat (- i)) else show_nat (nat i))"

definition is_digit :: "nat \<Rightarrow> bool" where
  "is_digit c \<longleftrightarrow> 48 \<le> c \<and> c \<le> 57"

definition digits_val :: "jstring \<Rightarrow> nat" where
  "digits_val s = foldl (\<lambda>a c. 10 * a + (c - 48)) 0 s"

lemma digits_val_snoc [simp]: "digits_val (s @ [c]) = 10 * digits_val s + (c - 48)"
  by (simp add: digits_val_def)

lemma digits_val_Nil [simp]: "digits_val [] = 0"
  by (simp add: digits_val_def)

lemma show_nat_digits: "c \<in> set (show_nat n) \<Longrightarrow> is_digit c"
proof (induction n rule: show_nat.induct)
  case (1 n)
  show ?case
  proof (cases "n < 10")
    case True
    with "1.prems" show ?thesis by (simp add: show_nat.simps [of n] is_digit_def)
  next
    case False
    have "48 + n mod 10 \<le> 57" by simp
    with False 1 show ?thesis by (auto simp add: show_nat.simps [of n] is_digit_def)
  qed
qed

lemma show_nat_nonempty [simp]: "show_nat n \<noteq> []"
  by (subst show_nat.simps) simp

lemma digits_val_show_nat [simp]: "digits_val (show_nat n) = n"
proof (induction n rule: show_nat.induct)
  case (1 n)
  show ?case
  proof (cases "n < 10")
    case True
    then show ?thesis by (simp add: show_nat.simps [of n] digits_val_def)
  next
    case False
    with 1 show ?thesis by (simp add: show_nat.simps [of n])
  qed
qed

lemma show_nat_inject [simp]: "show_nat m = show_nat n \<longleftrightarrow> m = n"
  by (metis digits_val_show_nat)

lemma digits_val_append: "digits_val (s @ t) = digits_val s * 10 ^ length t + digits_val t"
proof (induction t rule: rev_induct)
  case Nil
  then show ?case by simp
next
  case (snoc c t)
  have "digits_val ((s @ t) @ [c]) = 10 * digits_val (s @ t) + (c - 48)"
    by (rule digits_val_snoc)
  with snoc show ?case by (simp add: algebra_simps)
qed

lemma digits_val_replicate_0 [simp]: "digits_val (replicate n 48) = 0"
  by (induction n) (simp_all add: digits_val_def)

lemma digits_val_padStart [simp]: "digits_val (padStart n 48 s) = digits_val s"
  by (simp add: padStart_def digits_val_append)

lemma is_digit_not_space: "is_digit c \<Longrightarrow> \<not> is_space c"
  by (auto simp add: is_digit_def is_space_def)

lemma digits_val_bound: "\<forall>c \<in> set s. is_digit c \<Longrightarrow> digits_val s < 10 ^ length s"
proof (induction s rule: rev_induct)
  case Nil
  then show ?case by simp
next
  case (snoc c s)
  then have "digits_val s < 10 ^ length s" and "c - 48 \<le> 9"
    by (auto simp add: is_digit_def)
  then show ?case by simp
qed

lemma length_show_nat_le:
  assumes "n < 10 ^ k" and "0 < k"
  shows "length (show_nat n) \<le> k"
  using assms
proof (induction n arbitrary: k rule: show_nat.induct)
  case (1 n)
  show ?case
  proof (cases "n < 10")
    case True
    with "1.prems" show ?thesis by (simp add: show_nat.simps [of n])
  next
    case False
    with "1.prems" obtain j where j: "k = Suc j" and "0 < j"
      by (cases k; cases "k - 1") auto
    with "1.prems" have "n div 10 < 10 ^ j" by auto
    with False "1.IH" \<open>0 < j\<close> have "length (show_nat (n div 10)) \<le> j" by blast
    with False j show ?thesis by (simp add: show_nat.simps [of n])
  qed
qed

section \<open>UTF-8\<close>

text \<open>The length in UTF-8 of a string of UTF-16 units (a lone surrogate counts as its replacement).\<close>

fun utf8_len :: "jstring \<Rightarrow> nat" where
  "utf8_len [] = 0"
| "utf8_len [c] = (if c < 128 then 1 else if c < 2048 then 2 else 3)"
| "utf8_len (c # d # s) =
     (if c < 128 then 1 + utf8_len (d # s)
      else if c < 2048 then 2 + utf8_len (d # s)
      else if 55296 \<le> c \<and> c \<le> 56319 \<and> 56320 \<le> d \<and> d \<le> 57343 then 4 + utf8_len s
      else 3 + utf8_len (d # s))"

definition ascii :: "jstring \<Rightarrow> bool" where
  "ascii s \<longleftrightarrow> (\<forall>c \<in> set s. c < 128)"

lemma utf8_len_ascii: "ascii s \<Longrightarrow> utf8_len s = length s"
  by (induction s rule: utf8_len.induct) (auto simp add: ascii_def)

lemma length_le_utf8_len: "length s \<le> utf8_len s"
  by (induction s rule: utf8_len.induct) auto

lemma ascii_trim: "ascii s \<Longrightarrow> ascii (trim s)"
  using set_trim_subset [of s] by (auto simp add: ascii_def)

lemma utf8_len_ascii_append: "ascii s \<Longrightarrow> utf8_len (s @ t) = length s + utf8_len t"
proof (induction s)
  case Nil
  then show ?case by simp
next
  case (Cons c s)
  then have "c < 128" "ascii s" by (simp_all add: ascii_def)
  with Cons.IH show ?case by (cases "s @ t") auto
qed

section \<open>Thrown values\<close>

text \<open>
  What a \<open>throw\<close> or a rejected promise carries: an object of class \<open>Error\<close> (or of a
  subclass, told apart by its \<open>name\<close>) with its message, or some other value, given by its
  \<open>String\<close> conversion.  A fallible operation returns \<open>'a result\<close>, with \<open>Inl\<close> the thrown
  value.
\<close>

datatype thrown = ErrorObj (err_name: jstring) (err_msg: jstring) | OtherThrown jstring

type_synonym 'a result = "thrown + 'a"

definition new_Error :: "jstring \<Rightarrow> thrown" where
  "new_Error m = ErrorObj (js ''Error'') m"

text \<open>\<open>err instanceof Error ? err.message : String(err)\<close>\<close>

fun message_of :: "thrown \<Rightarrow> jstring" where
  "message_of (ErrorObj n m) = m"
| "message_of (OtherThrown s) = s"

text \<open>\<open>String(err)\<close>\<close>

fun String_of_thrown :: "thrown \<Rightarrow> jstring" where
  "String_of_thrown (ErrorObj n m) =
     (if m = [] then n else if n = [] then m else n @ js '': '' @ m)"
| "String_of_thrown (OtherThrown s) = s"

lemma message_of_new_Error [simp]: "message_of (new_Error m) = m"
  by (simp add: new_Error_def)

section \<open>Promises\<close>

text \<open>\<open>Promise.all\<close> of two promises: the first rejection wins; \<open>second_first\<close> tells which one it is.\<close>

definition promise_all2 :: "bool \<Rightarrow> 'a result \<Rightarrow> 'b result \<Rightarrow> ('a \<times> 'b) result" where
  "promise_all2 second_first x y =
     (case (x, y) of
        (Inr a, Inr b) \<Rightarrow> Inr (a, b)
      | (Inl e, Inr _) \<Rightarrow> Inl e
      | (Inr _, Inl e) \<Rightarrow> Inl e
      | (Inl e, Inl e') \<Rightarrow> Inl (if second_first then e' else e))"

section \<open>Reachable states\<close>

text \<open>
  Components that run across several turns of the event loop are transition systems; the
  states they can be in are the least set with the start states that is closed under
  steps.  The locale is the proof rule every component uses: an invariant that holds at
  the start and is kept by every step holds in every reachable state.
\<close>

inductive reachable :: "('s \<Rightarrow> bool) \<Rightarrow> ('s \<Rightarrow> 's \<Rightarrow> bool) \<Rightarrow> 's \<Rightarrow> bool"
  for init :: "'s \<Rightarrow> bool" and step :: "'s \<Rightarrow> 's \<Rightarrow> bool" where
  reach_init: "init s \<Longrightarrow> reachable init step s"
| reach_step: "reachable init step s \<Longrightarrow> step s t \<Longrightarrow> reachable init step t"

lemma reachable_mono:
  assumes "reachable init step s" and "\<And>s t. step s t \<Longrightarrow> t = s \<or> step' s t"
  shows "reachable init step' s"
  using assms(1)
proof induction
  case (reach_step s t)
  then show ?case using assms(2) [of s t] by (auto intro: reachable.reach_step)
qed (rule reach_init)

locale invariant_system =
  fixes init :: "'s \<Rightarrow> bool"
    and step :: "'s \<Rightarrow> 's \<Rightarrow> bool"
    and inv :: "'s \<Rightarrow> bool"
  assumes inv_init: "init s \<Longrightarrow> inv s"
    and inv_step: "inv s \<Longrightarrow> step s t \<Longrightarrow> inv t"
begin

lemma reachable_inv: "reachable init step s \<Longrightarrow> inv s"
  by (induction rule: reachable.induct) (auto intro: inv_init inv_step)

lemma reachable_from_inv: "step\<^sup>*\<^sup>* s t \<Longrightarrow> inv s \<Longrightarrow> inv t"
  by (induction rule: rtranclp.induct) (auto intro: inv_step)

end

end
