(* ===== verification/Notify_Auth.thy ===== *)
theory Notify_Auth
  imports JS_Prelude
begin

text \<open>
  \<^verbatim>\<open>notification-service/src/auth.ts\<close>: role-based access control of the notification service.
  The two API keys are read from the environment when the module is loaded; an unset
  variable is the empty string.
\<close>

datatype Role = Admin | Viewer | NoRole

record auth_keys =
  ADMIN_KEY :: jstring
  VIEWER_KEY :: jstring

definition load_keys :: "jstring option \<Rightarrow> jstring option \<Rightarrow> auth_keys" where
  "load_keys admin viewer =
     \<lparr>ADMIN_KEY = (case admin of None \<Rightarrow> [] | Some k \<Rightarrow> k),
      VIEWER_KEY = (case viewer of None \<Rightarrow> [] | Some k \<Rightarrow> k)\<rparr>"

definition bearer_token :: "jstring \<Rightarrow> jstring" where
  "bearer_token h = (if starts_with h (js ''Bearer '') then slice_from h 7 else h)"

definition resolveRole :: "auth_keys \<Rightarrow> jstring option \<Rightarrow> Role" where
  "resolveRole k authHeader =
     (case authHeader of
        None \<Rightarrow> NoRole
      | Some h \<Rightarrow>
          if h = [] then NoRole
          else let token = bearer_token h
               in if ADMIN_KEY k \<noteq> [] \<and> token = ADMIN_KEY k then Admin
                  else if VIEWER_KEY k \<noteq> [] \<and> token = VIEWER_KEY k then Viewer
                  else NoRole)"

fun hasRole :: "Role \<Rightarrow> Role \<Rightarrow> bool" where
  "hasRole actual NoRole = True"
| "hasRole actual Viewer = (actual = Viewer \<or> actual = Admin)"
| "hasRole actual Admin = (actual = Admin)"

datatype auth_error = Unauthorized | Forbidden

fun auth_error_message :: "auth_error \<Rightarrow> jstring" where
  "auth_error_message Unauthorized = js ''Unauthorized: missing or invalid API key.''"
| "auth_error_message Forbidden = js ''Forbidden: insufficient role.''"

definition requireRole :: "auth_keys \<Rightarrow> jstring option \<Rightarrow> Role \<Rightarrow> auth_error + unit" where
  "requireRole k authHeader required =
     (let role = resolveRole k authHeader
      in if \<not> hasRole role required
         then Inl (if role = NoRole then Unauthorized else Forbidden)
         else Inr ())"

text \<open>The keys a header carries: the header itself, or what follows its \<open>Bearer\<close> prefix.\<close>

lemma bearer_token_prefix [simp]: "bearer_token (js ''Bearer '' @ key) = key"
  by (simp add: bearer_token_def starts_with_def slice_from_def slice_pos_def min_def)

lemma resolveRole_Admin_iff:
  "resolveRole k h = Admin \<longleftrightarrow>
     ADMIN_KEY k \<noteq> [] \<and> (\<exists>x. h = Some x \<and> x \<noteq> [] \<and> bearer_token x = ADMIN_KEY k)"
  by (auto simp add: resolveRole_def Let_def split: option.splits if_splits)

lemma resolveRole_Viewer_iff:
  "resolveRole k h = Viewer \<longleftrightarrow>
     VIEWER_KEY k \<noteq> [] \<and>
     (\<exists>x. h = Some x \<and> x \<noteq> [] \<and> bearer_token x = VIEWER_KEY k
          \<and> \<not> (ADMIN_KEY k \<noteq> [] \<and> bearer_token x = ADMIN_KEY k))"
  by (auto simp add: resolveRole_def Let_def split: option.splits if_splits)

lemma requireRole_ok_iff: "requireRole k h r = Inr () \<longleftrightarrow> hasRole (resolveRole k h) r"
  by (simp add: requireRole_def Let_def)

text \<open>Roles are ordered by what they permit; a role satisfies a requirement when it is at least as high.\<close>

fun rank :: "Role \<Rightarrow> nat" where
  "rank NoRole = 0"
| "rank Viewer = 1"
| "rank Admin = 2"

lemma rank_inject: "rank a = rank b \<Longrightarrow> a = b"
  by (cases a; cases b) simp_all

instantiation Role :: linorder
begin

definition less_eq_Role :: "Role \<Rightarrow> Role \<Rightarrow> bool" where
  "less_eq_Role a b \<longleftrightarrow> rank a \<le> rank b"

definition less_Role :: "Role \<Rightarrow> Role \<Rightarrow> bool" where
  "less_Role a b \<longleftrightarrow> rank a < rank b"

instance
  by standard (auto simp add: less_eq_Role_def less_Role_def intro: rank_inject)

end

lemma hasRole_iff_le: "hasRole actual required \<longleftrightarrow> required \<le> actual"
  by (cases required; cases actual) (simp_all add: less_eq_Role_def)

lemma requireRole_antimono: "requireRole k h r = Inr () \<Longrightarrow> r' \<le> r \<Longrightarrow> requireRole k h r' = Inr ()"
  by (auto simp add: requireRole_ok_iff hasRole_iff_le)

text \<open>
  An admin endpoint opens exactly for a non-empty header whose token (with or without the
  Bearer prefix) equals a configured, non-empty admin key; a caller without any role is
  answered Unauthorized and one with the viewer role Forbidden.
\<close>

theorem requireRole_admin:
  "(requireRole k h Admin = Inr () \<longleftrightarrow>
      ADMIN_KEY k \<noteq> [] \<and> (\<exists>x. h = Some x \<and> x \<noteq> [] \<and> bearer_token x = ADMIN_KEY k))
   \<and> (requireRole k h Admin = Inl Forbidden \<longleftrightarrow> resolveRole k h = Viewer)
   \<and> (requireRole k h Admin = Inl Unauthorized \<longleftrightarrow> resolveRole k h = NoRole)"
proof -
  have "requireRole k h Admin = (case resolveRole k h of
      Admin \<Rightarrow> Inr () | Viewer \<Rightarrow> Inl Forbidden | NoRole \<Rightarrow> Inl Unauthorized)"
    by (simp add: requireRole_def Let_def split: Role.split)
  then show ?thesis
    unfolding resolveRole_Admin_iff [symmetric] by (simp split: Role.split)
qed

text \<open>
  With neither key configured no header whatsoever is given a role, so every protected
  endpoint answers Unauthorized: the service fails closed and does not run in the open mode
  that the module's documentation and its start-up warning announce.
\<close>

theorem no_keys_fails_closed:
  "requireRole (load_keys None None) h r = Inr () \<longleftrightarrow> r = NoRole"
proof -
  have "resolveRole (load_keys None None) h = NoRole"
    by (auto simp add: resolveRole_def load_keys_def Let_def split: option.splits)
  then show ?thesis by (cases r) (simp_all add: requireRole_def Let_def)
qed

end
