(* ===== verification/JS_Number.thy ===== *)
theory JS_Number
  imports Complex_Main JS_Prelude
begin

text \<open>
  JavaScript's \<open>Number\<close> type: IEEE 754 binary64 values with round-to-nearest, ties to even.
  A finite number is its exact rational value; minus zero is identified with zero (nothing
  modelled here can tell them apart).  \<open>BigInt\<close> values are \<open>int\<close>.  The theory gives the
  conversions the program uses (\<open>Number(string)\<close>, \<open>Number(bigint)\<close>, \<open>BigInt(number)\<close>,
  \<open>Math.round\<close>, \<open>toFixed\<close>) and the facts the components rest on: integers of magnitude
  at most \<open>2^53\<close> are exact, every rounding error is at most half a unit in the last place,
  and a decimal numeral reads back as the integer it denotes.
\<close>

datatype jnum = NaN | PosInf | NegInf | Fin rat

section \<open>Rounding to binary64\<close>

definition pow2 :: "int \<Rightarrow> rat" where
  "pow2 e = (if 0 \<le> e then 2 ^ nat e else 1 / 2 ^ nat (- e))"

fun log2_floor :: "nat \<Rightarrow> nat" where
  "log2_floor n = (if n < 2 then 0 else Suc (log2_floor (n div 2)))"

declare log2_floor.simps [simp del]

text \<open>The exponent \<open>e\<close> of a positive rational: \<open>2^e \<le> x < 2^(e+1)\<close>.\<close>

definition bin_exp :: "rat \<Rightarrow> int" where
  "bin_exp x =
     (let k = int (log2_floor (nat (fst (quotient_of x))))
            - int (log2_floor (nat (snd (quotient_of x))))
      in if pow2 k \<le> x then k else k - 1)"

text \<open>Round to the nearest integer, ties to even.\<close>

definition rne :: "rat \<Rightarrow> int" where
  "rne y =
     (let f = \<lfloor>y\<rfloor>; d = y - of_int f
      in if d < 1 / 2 then f else if 1 / 2 < d then f + 1 else if even f then f else f + 1)"

definition ulp_exp :: "rat \<Rightarrow> int" where
  "ulp_exp x = max (bin_exp x - 52) (-1074)"

definition round_mag :: "rat \<Rightarrow> rat" where
  "round_mag x = of_int (rne (x / pow2 (ulp_exp x))) * pow2 (ulp_exp x)"

definition round64 :: "rat \<Rightarrow> jnum" where
  "round64 x =
     (if x = 0 then Fin 0
      else if 0 < x then (if pow2 1024 \<le> round_mag x then PosInf else Fin (round_mag x))
      else (if pow2 1024 \<le> round_mag (- x) then NegInf else Fin (- round_mag (- x))))"

lemma pow2_pos [simp]: "0 < pow2 e"
  by (simp add: pow2_def)

lemma pow2_neq_0 [simp]: "pow2 e \<noteq> 0"
  by (simp add: pow2_def)

lemma pow2_powi: "pow2 e = 2 powi e"
  by (simp add: pow2_def power_int_def field_simps)

lemma pow2_add: "pow2 (a + b) = pow2 a * pow2 b"
  by (simp add: pow2_powi power_int_add)

lemma pow2_diff: "pow2 (a - b) = pow2 a / pow2 b"
  by (simp add: pow2_powi power_int_diff)

lemma pow2_nat [simp]: "pow2 (int n) = 2 ^ n"
  by (simp add: pow2_def)

lemma pow2_mono: "a \<le> b \<Longrightarrow> pow2 a \<le> pow2 b"
  by (simp add: pow2_powi power_int_increasing)

lemma pow2_strict_mono: "a < b \<Longrightarrow> pow2 a < pow2 b"
  by (simp add: pow2_powi power_int_strict_increasing)

lemma pow2_less_iff: "pow2 a < pow2 b \<longleftrightarrow> a < b"
  by (meson linorder_not_le pow2_mono pow2_strict_mono)

lemma log2_floor_bounds:
  "0 < n \<Longrightarrow> 2 ^ log2_floor n \<le> n \<and> n < 2 ^ Suc (log2_floor n)"
proof (induction n rule: log2_floor.induct)
  case (1 n)
  show ?case
  proof (cases "n < 2")
    case True
    with "1.prems" show ?thesis by (simp add: log2_floor.simps [of n])
  next
    case False
    with "1.IH" have "2 ^ log2_floor (n div 2) \<le> n div 2 \<and> n div 2 < 2 ^ Suc (log2_floor (n div 2))"
      by simp
    with False show ?thesis by (auto simp add: log2_floor.simps [of n])
  qed
qed

lemma quotient_bounds:
  assumes "2 ^ a \<le> p" "p < 2 ^ Suc a" "2 ^ b \<le> q" "q < 2 ^ Suc b"
  shows "pow2 (int a - int b - 1) \<le> of_int p / of_int q \<and>
    of_int p / of_int q < pow2 (int a - int b + 1)"
proof
  have rp: "2 ^ a \<le> (of_int p :: rat)" "(of_int p :: rat) < 2 ^ Suc a"
    using assms by (metis of_int_le_iff of_int_numeral of_int_power,
                    metis of_int_less_iff of_int_numeral of_int_power)
  have rq: "2 ^ b \<le> (of_int q :: rat)" "(of_int q :: rat) < 2 ^ Suc b"
    using assms by (metis of_int_le_iff of_int_numeral of_int_power,
                    metis of_int_less_iff of_int_numeral of_int_power)
  have pos: "0 < (of_int p :: rat)" "0 < (of_int q :: rat)"
    by (rule order_less_le_trans [OF _ rp(1)], simp, rule order_less_le_trans [OF _ rq(1)], simp)
  have "pow2 (int a - int b - 1) = 2 ^ a / 2 ^ Suc b"
    by (simp add: pow2_diff) (simp add: pow2_def)
  also have "\<dots> \<le> of_int p / 2 ^ Suc b"
    using rp by (simp add: divide_right_mono del: power_Suc)
  also have "\<dots> \<le> of_int p / of_int q"
    using rq pos by (intro divide_left_mono) (auto simp del: power_Suc)
  finally show "pow2 (int a - int b - 1) \<le> of_int p / of_int q" .
  have "(of_int p :: rat) / of_int q \<le> of_int p / 2 ^ b"
    using rq pos by (intro divide_left_mono) auto
  also have "\<dots> < 2 ^ Suc a / 2 ^ b"
    using rp by (simp add: divide_strict_right_mono del: power_Suc)
  also have "\<dots> = pow2 (int a - int b + 1)"
    by (simp add: pow2_add pow2_diff) (simp add: pow2_def)
  finally show "of_int p / of_int q < pow2 (int a - int b + 1)" .
qed

lemma bin_exp_bounds:
  assumes "0 < x"
  shows "pow2 (bin_exp x) \<le> x \<and> x < pow2 (bin_exp x + 1)"
proof -
  obtain p q where pq: "quotient_of x = (p, q)" by (cases "quotient_of x")
  have q: "0 < q" using quotient_of_denom_pos [OF pq] .
  have x: "x = of_int p / of_int q" using quotient_of_div [OF pq] .
  with assms q have p: "0 < p" by (simp add: zero_less_divide_iff)
  define a where "a = log2_floor (nat p)"
  define b where "b = log2_floor (nat q)"
  have "2 ^ a \<le> nat p \<and> nat p < 2 ^ Suc a" and "2 ^ b \<le> nat q \<and> nat q < 2 ^ Suc b"
    unfolding a_def b_def using p q by (intro log2_floor_bounds; simp)+
  then have "2 ^ a \<le> p" "p < 2 ^ Suc a" and "2 ^ b \<le> q" "q < 2 ^ Suc b"
    using p q by (simp_all add: le_nat_iff nat_less_iff del: power_Suc)
  note quotient_bounds [OF this, folded x]
  moreover have "bin_exp x = (if pow2 (int a - int b) \<le> x then int a - int b else int a - int b - 1)"
    by (simp add: bin_exp_def pq a_def b_def)
  ultimately show ?thesis by auto
qed

lemma bin_exp_less:
  assumes "0 < x" and "x < pow2 (e + 1)"
  shows "bin_exp x \<le> e"
proof -
  have "pow2 (bin_exp x) < pow2 (e + 1)"
    using bin_exp_bounds [OF assms(1)] assms(2) by linarith
  then show ?thesis by (simp add: pow2_less_iff)
qed

lemma bin_exp_ge:
  assumes "pow2 e \<le> x"
  shows "e \<le> bin_exp x"
proof -
  have "0 < x" using assms pow2_pos [of e] by linarith
  then have "pow2 e < pow2 (bin_exp x + 1)"
    using bin_exp_bounds [of x] assms by linarith
  then show ?thesis by (simp add: pow2_less_iff)
qed

lemma rne_of_int [simp]: "rne (of_int k) = k"
  by (simp add: rne_def)

lemma rne_error: "\<bar>of_int (rne y) - y\<bar> \<le> 1 / 2"
proof -
  have "of_int \<lfloor>y\<rfloor> \<le> y" "y < of_int \<lfloor>y\<rfloor> + 1" by linarith+
  then show ?thesis unfolding rne_def Let_def by auto
qed

lemma rne_ge: "of_int k \<le> y \<Longrightarrow> k \<le> rne y"
proof -
  assume "of_int k \<le> y"
  then have "k \<le> \<lfloor>y\<rfloor>" by (simp add: le_floor_iff)
  then show ?thesis unfolding rne_def Let_def by auto
qed

lemma rne_le:
  assumes "y \<le> of_int k"
  shows "rne y \<le> k"
proof (cases "\<lfloor>y\<rfloor> < k")
  case True
  then show ?thesis unfolding rne_def Let_def by auto
next
  case False
  with assms have "y = of_int k" by (metis floor_le_iff floor_of_int le_floor_iff linorder_not_less nle_le)
  then show ?thesis by simp
qed

lemma round_mag_exact:
  assumes "x / pow2 (ulp_exp x) = of_int m"
  shows "round_mag x = x"
proof -
  have "round_mag x = of_int m * pow2 (ulp_exp x)"
    by (simp add: round_mag_def assms)
  also have "\<dots> = x" by (simp flip: assms)
  finally show ?thesis .
qed

lemma round_mag_error: "\<bar>round_mag x - x\<bar> \<le> pow2 (ulp_exp x) / 2"
proof -
  let ?u = "pow2 (ulp_exp x)"
  have "\<bar>round_mag x - x\<bar> = \<bar>of_int (rne (x / ?u)) - x / ?u\<bar> * ?u"
  proof -
    have "round_mag x - x = (of_int (rne (x / ?u)) - x / ?u) * ?u"
      by (simp add: round_mag_def left_diff_distrib)
    then show ?thesis by (simp add: abs_mult abs_of_pos)
  qed
  also have "\<dots> \<le> 1 / 2 * ?u"
    using rne_error by (intro mult_right_mono) (auto intro: less_imp_le)
  finally show ?thesis by simp
qed

text \<open>Integers up to \<open>2^53\<close> are represented exactly.\<close>

lemma round_mag_of_nat:
  assumes "0 < n" and "n \<le> 2 ^ 53"
  shows "round_mag (of_nat n) = of_nat n"
proof (cases "n = 2 ^ 53")
  case True
  have "bin_exp (of_nat n) = 53"
  proof (rule antisym)
    show "bin_exp (of_nat n) \<le> 53"
      by (rule bin_exp_less) (simp_all add: True pow2_def)
    show "53 \<le> bin_exp (of_nat n)"
      by (rule bin_exp_ge) (simp add: True pow2_def)
  qed
  then have "ulp_exp (of_nat n) = 1" by (simp add: ulp_exp_def)
  then have "of_nat n / pow2 (ulp_exp (of_nat n)) = of_int (2 ^ 52)"
    by (simp add: True pow2_def)
  then show ?thesis by (rule round_mag_exact)
next
  case False
  with assms have n: "n < 2 ^ 53" by simp
  have nz: "(0 :: rat) < of_nat n" using assms by simp
  have "(of_nat n :: rat) < of_nat (2 ^ 53)" using n of_nat_less_iff by blast
  then have "bin_exp (of_nat n) \<le> 52"
    by (intro bin_exp_less nz) (simp add: pow2_def)
  moreover have "0 \<le> bin_exp (of_nat n)"
    by (rule bin_exp_ge) (use assms in \<open>simp add: pow2_def\<close>)
  ultimately obtain j where u: "ulp_exp (of_nat n) = - int j"
    by (intro that [of "nat (52 - bin_exp (of_nat n))"]) (simp add: ulp_exp_def)
  have "pow2 (- int j) = 1 / 2 ^ j" by (simp add: pow2_def)
  then have "of_nat n / pow2 (ulp_exp (of_nat n)) = of_int (int (n * 2 ^ j))"
    by (simp add: u)
  then show ?thesis by (rule round_mag_exact)
qed


lemma round64_of_nat:
  assumes "n \<le> 2 ^ 53"
  shows "round64 (of_nat n) = Fin (of_nat n)"
proof (cases "n = 0")
  case True
  then show ?thesis by (simp add: round64_def)
next
  case False
  have "(of_nat n :: rat) \<le> of_nat (2 ^ 53)" using assms of_nat_le_iff by blast
  also have "\<dots> < pow2 1024" by (simp add: pow2_def)
  finally have "\<not> pow2 1024 \<le> of_nat n" by simp
  with False assms show ?thesis by (simp add: round64_def round_mag_of_nat)
qed

lemma round_mag_ge_2_53:
  assumes "2 ^ 53 \<le> x"
  shows "2 ^ 53 \<le> round_mag x"
proof -
  have x: "0 < x" using assms by (rule less_le_trans [rotated]) simp
  have e: "53 \<le> bin_exp x" by (rule bin_exp_ge) (use assms in \<open>simp add: pow2_def\<close>)
  then have u: "ulp_exp x = bin_exp x - 52" by (simp add: ulp_exp_def)
  have "pow2 52 \<le> x / pow2 (ulp_exp x)"
    using bin_exp_bounds [OF x] by (simp add: u pow2_diff field_simps)
  then have "of_int (2 ^ 52) \<le> x / pow2 (ulp_exp x)" by (simp add: pow2_def)
  then have "2 ^ 52 \<le> rne (x / pow2 (ulp_exp x))" by (rule rne_ge)
  then have "(2 :: rat) ^ 52 \<le> of_int (rne (x / pow2 (ulp_exp x)))"
    by (metis of_int_le_iff of_int_numeral of_int_power)
  moreover have "2 \<le> pow2 (ulp_exp x)"
    using pow2_mono [of 1 "ulp_exp x"] e by (simp add: u pow2_def)
  ultimately have "(2 :: rat) ^ 52 * 2 \<le> round_mag x"
    unfolding round_mag_def by (intro mult_mono) auto
  then show ?thesis by simp
qed

lemma round64_neg: "0 < x \<Longrightarrow> round64 x = Fin y \<Longrightarrow> round64 (- x) = Fin (- y)"
  unfolding round64_def by (auto split: if_splits)

lemma round64_of_int:
  assumes "\<bar>n\<bar> \<le> 2 ^ 53"
  shows "round64 (of_int n) = Fin (of_int n)"
proof -
  have nat: "round64 (of_nat m) = Fin (of_nat m)" if "int m \<le> 2 ^ 53" for m
  proof (rule round64_of_nat)
    from that have "int m \<le> int (2 ^ 53)" by simp
    then show "m \<le> 2 ^ 53" by (simp only: of_nat_le_iff)
  qed
  show ?thesis
  proof (cases "0 \<le> n")
    case True
    with nat [of "nat n"] assms show ?thesis by simp
  next
    case False
    define m where "m = nat (- n)"
    with False have m: "n = - int m" "0 < m" by simp_all
    with nat [of m] assms have "round64 (of_nat m) = Fin (of_nat m)" by simp
    moreover from m have "(0 :: rat) < of_nat m" by simp
    ultimately show ?thesis using round64_neg [of "of_nat m" "of_nat m"] m by simp
  qed
qed

section \<open>Operations on numbers\<close>

fun num_lt :: "jnum \<Rightarrow> jnum \<Rightarrow> bool" where
  "num_lt NaN _ = False"
| "num_lt _ NaN = False"
| "num_lt NegInf y = (y \<noteq> NegInf)"
| "num_lt _ NegInf = False"
| "num_lt PosInf _ = False"
| "num_lt _ PosInf = True"
| "num_lt (Fin a) (Fin b) = (a < b)"

fun num_le :: "jnum \<Rightarrow> jnum \<Rightarrow> bool" where
  "num_le NaN _ = False"
| "num_le _ NaN = False"
| "num_le NegInf _ = True"
| "num_le _ PosInf = True"
| "num_le PosInf _ = False"
| "num_le _ NegInf = False"
| "num_le (Fin a) (Fin b) = (a \<le> b)"

definition isNaN :: "jnum \<Rightarrow> bool" where
  "isNaN x \<longleftrightarrow> x = NaN"

fun isInteger :: "jnum \<Rightarrow> bool" where
  "isInteger (Fin r) = (of_int \<lfloor>r\<rfloor> = r)"
| "isInteger _ = False"

text \<open>\<open>Number(n)\<close> for a \<open>BigInt\<close>, \<open>BigInt(x)\<close> for a number (a \<open>RangeError\<close> unless the number
  is an integer), \<open>Math.round\<close> (ties towards plus infinity).\<close>

definition Number_of_BigInt :: "int \<Rightarrow> jnum" where
  "Number_of_BigInt n = round64 (of_int n)"

fun BigInt_of_Number :: "jnum \<Rightarrow> int result" where
  "BigInt_of_Number (Fin r) =
     (if of_int \<lfloor>r\<rfloor> = r then Inr \<lfloor>r\<rfloor>
      else Inl (ErrorObj (js ''RangeError'') (js ''The number cannot be converted to a BigInt because it is not an integer'')))"
| "BigInt_of_Number _ =
     Inl (ErrorObj (js ''RangeError'') (js ''The number cannot be converted to a BigInt because it is not an integer''))"

fun Math_round :: "jnum \<Rightarrow> jnum" where
  "Math_round (Fin r) = Fin (of_int \<lfloor>r + 1 / 2\<rfloor>)"
| "Math_round x = x"

fun Math_min :: "jnum \<Rightarrow> jnum \<Rightarrow> jnum" where
  "Math_min NaN _ = NaN"
| "Math_min _ NaN = NaN"
| "Math_min x y = (if num_lt y x then y else x)"

text \<open>Division of a number by a positive finite number.\<close>

fun num_div_pos :: "jnum \<Rightarrow> rat \<Rightarrow> jnum" where
  "num_div_pos (Fin r) d = round64 (r / d)"
| "num_div_pos x d = x"

lemma num_not_le: "\<not> isNaN x \<Longrightarrow> \<not> num_le x (Fin a) \<Longrightarrow> num_lt (Fin a) x"
  by (cases x) (auto simp add: isNaN_def)

lemma num_not_lt: "\<not> isNaN x \<Longrightarrow> \<not> num_lt x (Fin a) \<Longrightarrow> num_le (Fin a) x"
  by (cases x) (auto simp add: isNaN_def)

lemma num_not_gt: "\<not> isNaN x \<Longrightarrow> \<not> num_lt (Fin a) x \<Longrightarrow> num_le x (Fin a)"
  by (cases x) (auto simp add: isNaN_def)

lemma Number_of_BigInt_exact:
  "0 \<le> n \<Longrightarrow> n \<le> 2 ^ 53 \<Longrightarrow> Number_of_BigInt n = Fin (of_int n)"
proof -
  assume "0 \<le> n" and "n \<le> 2 ^ 53"
  then obtain m where m: "n = int m" "m \<le> 2 ^ 53"
    by (metis of_nat_le_iff of_nat_numeral of_nat_power zero_le_imp_eq_int)
  then show ?thesis using round64_of_nat [OF m(2)] by (simp add: Number_of_BigInt_def)
qed

lemma Number_of_BigInt_large:
  assumes "2 ^ 53 \<le> n"
  shows "Number_of_BigInt n = PosInf \<or> (\<exists>r. Number_of_BigInt n = Fin r \<and> 2 ^ 53 \<le> r)"
proof -
  have "(2 :: rat) ^ 53 \<le> of_int n"
    using assms by (metis of_int_le_iff of_int_numeral of_int_power)
  then have "2 ^ 53 \<le> round_mag (of_int n)" by (rule round_mag_ge_2_53)
  moreover have "0 < n" using assms by (rule less_le_trans [rotated]) simp
  ultimately show ?thesis by (auto simp add: Number_of_BigInt_def round64_def)
qed

section \<open>Number(string)\<close>

text \<open>
  The value of the decimal part of the language's \<open>StringNumericLiteral\<close>: digits, an optional
  fraction, an optional exponent; then the other radices and the signs.
\<close>

fun exponent_val :: "jstring \<Rightarrow> int option" where
  "exponent_val [] = Some 0"
| "exponent_val (c # s) =
     (if c \<noteq> 101 \<and> c \<noteq> 69 then None
      else let neg = starts_with s [45]; t = (if neg \<or> starts_with s [43] then tl s else s)
           in if t = [] \<or> \<not> list_all is_digit t then None
              else Some (if neg then - int (digits_val t) else int (digits_val t)))"

definition unsigned_decimal :: "jstring \<Rightarrow> rat option" where
  "unsigned_decimal s =
     (let ip = takeWhile is_digit s; r1 = dropWhile is_digit s;
          dot = starts_with r1 [46];
          fp = (if dot then takeWhile is_digit (tl r1) else []);
          r2 = (if dot then dropWhile is_digit (tl r1) else r1)
      in if ip = [] \<and> fp = [] then None
         else case exponent_val r2 of
                None \<Rightarrow> None
              | Some e \<Rightarrow>
                  Some (of_nat (digits_val (ip @ fp)) *
                        (let k = e - int (length fp) in if 0 \<le> k then 10 ^ nat k else 1 / 10 ^ nat (- k))))"

definition radix_digit :: "nat \<Rightarrow> nat option" where
  "radix_digit c =
     (if 48 \<le> c \<and> c \<le> 57 then Some (c - 48) else if 97 \<le> c \<and> c \<le> 102 then Some (c - 87)
      else if 65 \<le> c \<and> c \<le> 70 then Some (c - 55) else None)"

fun radix_val :: "nat \<Rightarrow> nat \<Rightarrow> jstring \<Rightarrow> nat option" where
  "radix_val b a [] = Some a"
| "radix_val b a (c # s) =
     (case radix_digit c of
        None \<Rightarrow> None
      | Some d \<Rightarrow> if d < b then radix_val b (b * a + d) s else None)"

definition radix_of :: "jstring \<Rightarrow> nat option" where
  "radix_of s =
     (if starts_with s [48, 120] \<or> starts_with s [48, 88] then Some 16
      else if starts_with s [48, 111] \<or> starts_with s [48, 79] then Some 8
      else if starts_with s [48, 98] \<or> starts_with s [48, 66] then Some 2 else None)"

definition js_Number :: "jstring \<Rightarrow> jnum" where
  "js_Number s =
     (let t = trim s
      in if t = [] then Fin 0
         else case radix_of t of
                Some b \<Rightarrow>
                  (case (if drop 2 t = [] then None else radix_val b 0 (drop 2 t)) of
                     None \<Rightarrow> NaN | Some n \<Rightarrow> round64 (of_nat n))
              | None \<Rightarrow>
                  (let neg = starts_with t [45]; u = (if neg \<or> starts_with t [43] then tl t else t)
                   in if u = js ''Infinity'' then (if neg then NegInf else PosInf)
                      else case unsigned_decimal u of
                             None \<Rightarrow> NaN
                           | Some v \<Rightarrow> round64 (if neg then - v else v)))"

lemma starts_with_Cons: "starts_with (c # s) (d # p) \<longleftrightarrow> c = d \<and> starts_with s p"
  by (auto simp add: starts_with_def)

lemma starts_with_Nil [simp]: "starts_with s []"
  by (simp add: starts_with_def)

lemma not_starts_with_digits:
  assumes "\<forall>c \<in> set s. is_digit c" and "x \<in> set p" and "\<not> is_digit x"
  shows "\<not> starts_with s p"
  using assms by (auto simp add: starts_with_iff)

text \<open>A digit string has no white space, sign or radix prefix.\<close>

lemma digits_plain:
  assumes d: "\<forall>c \<in> set s. is_digit c"
  shows trim_digits: "trim s = s"
    and radix_of_digits: "radix_of s = None"
    and digits_unsigned: "\<not> starts_with s [45]" "\<not> starts_with s [43]"
proof -
  show "trim s = s" using d by (intro trim_no_space) (auto dest: is_digit_not_space)
  have "\<not> is_digit x \<Longrightarrow> \<not> starts_with s [48, x]" for x
    using d by (rule not_starts_with_digits) auto
  then show "radix_of s = None" by (simp add: radix_of_def is_digit_def)
  show "\<not> starts_with s [45]" "\<not> starts_with s [43]"
    by (rule not_starts_with_digits [OF d, where x = 45] not_starts_with_digits [OF d, where x = 43];
        simp add: is_digit_def)+
qed

text \<open>A non-empty string of digits reads as the integer it denotes, rounded.\<close>

lemma js_Number_digits:
  assumes "s \<noteq> []" and d: "\<forall>c \<in> set s. is_digit c"
  shows "js_Number s = round64 (of_nat (digits_val s))"
proof -
  have inf: "s \<noteq> js ''Infinity''"
    using assms by (auto simp add: js_def is_digit_def)
  have tw: "takeWhile is_digit s = s" "dropWhile is_digit s = []"
    using d by (auto simp add: takeWhile_eq_all_conv dropWhile_eq_Nil_conv)
  have "unsigned_decimal s = Some (of_nat (digits_val s))"
    using assms(1) by (simp add: unsigned_decimal_def starts_with_def Let_def tw)
  with assms(1) digits_plain [OF d] inf show ?thesis by (simp add: js_Number_def)
qed

lemma js_Number_show_nat: "js_Number (show_nat n) = round64 (of_nat n)"
  by (simp add: js_Number_digits show_nat_digits)

text \<open>\<open>parseInt(s, 10)\<close>: the sign and digits after leading white space.\<close>

definition js_parseInt :: "jstring \<Rightarrow> jnum" where
  "js_parseInt s =
     (let t = dropWhile is_space s;
          neg = starts_with t [45];
          d = takeWhile is_digit (if neg \<or> starts_with t [43] then tl t else t)
      in if d = [] then NaN
         else round64 (if neg then - of_nat (digits_val d) else of_nat (digits_val d)))"

section \<open>BigInt(string)\<close>

text \<open>\<open>BigInt(s)\<close>: an optionally signed decimal or a prefixed literal, else a \<open>SyntaxError\<close>.\<close>

definition BigInt_of_String :: "jstring \<Rightarrow> int result" where
  "BigInt_of_String s =
     (let t = trim s;
          err = Inl (ErrorObj (js ''SyntaxError'') (js ''Cannot convert '' @ s @ js '' to a BigInt''));
          sgn = starts_with t [45] \<or> starts_with t [43];
          d = (if sgn then tl t else t)
      in if t = [] then Inr 0
         else case radix_of t of
                Some b \<Rightarrow> (if length t = 2 then err
                   else case radix_val b 0 (drop 2 t) of None \<Rightarrow> err | Some n \<Rightarrow> Inr (int n))
              | None \<Rightarrow> (if d \<noteq> [] \<and> list_all is_digit d
                   then Inr (if starts_with t [45] then - int (digits_val d) else int (digits_val d))
                   else err))"

lemma BigInt_of_String_show_nat: "BigInt_of_String (show_nat n) = Inr (int n)"
proof -
  have d: "\<forall>c \<in> set (show_nat n). is_digit c" by (simp add: show_nat_digits)
  have "list_all is_digit (show_nat n)" using d by (simp add: list_all_iff)
  with digits_plain [OF d] show ?thesis by (simp add: BigInt_of_String_def)
qed

section \<open>toFixed\<close>

text \<open>
  \<open>x.toFixed(f)\<close>: the integer \<open>n\<close> nearest to \<open>x * 10^f\<close> (the larger one in a tie), written with
  \<open>f\<close> decimals.  From \<open>10^21\<close> on the language falls back to \<open>Number::toString\<close>, which is
  the argument \<open>big\<close>.
\<close>

definition fixed_digits :: "nat \<Rightarrow> nat \<Rightarrow> jstring" where
  "fixed_digits f n =
     (if f = 0 then show_nat n
      else let m = padStart (f + 1) 48 (show_nat n)
           in take (length m - f) m @ [46] @ drop (length m - f) m)"

fun toFixed :: "(rat \<Rightarrow> jstring) \<Rightarrow> nat \<Rightarrow> jnum \<Rightarrow> jstring" where
  "toFixed big f NaN = js ''NaN''"
| "toFixed big f PosInf = js ''Infinity''"
| "toFixed big f NegInf = js ''-Infinity''"
| "toFixed big f (Fin r) =
     (if 10 ^ 21 \<le> \<bar>r\<bar> then big r
      else (if r < 0 then [45] else []) @ fixed_digits f (nat \<lfloor>\<bar>r\<bar> * 10 ^ f + 1 / 2\<rfloor>))"

text \<open>
  A number in a template string: integers of magnitude at most \<open>2^53\<close> are written in
  decimal; the notation of every other finite number is the argument \<open>fmt\<close>.
\<close>

fun num_to_string :: "(rat \<Rightarrow> jstring) \<Rightarrow> jnum \<Rightarrow> jstring" where
  "num_to_string fmt NaN = js ''NaN''"
| "num_to_string fmt PosInf = js ''Infinity''"
| "num_to_string fmt NegInf = js ''-Infinity''"
| "num_to_string fmt (Fin r) =
     (if of_int \<lfloor>r\<rfloor> = r \<and> \<bar>r\<bar> \<le> 2 ^ 53 then show_int \<lfloor>r\<rfloor> else fmt r)"

end
