(* ===== verification/Notify_Subscriptions.thy ===== *)
theory Notify_Subscriptions
  imports JS_Number
begin

text \<open>
  \<^verbatim>\<open>notification-service/src/types.ts\<close> and \<^verbatim>\<open>notification-service/src/subscriptions.ts\<close>: the
  subscribers, the persisted store and its operations.

  An event type is a string at run time (the command line stores what the user typed), so
  \<open>GovernanceEventType\<close> is \<open>jstring\<close>; the five types the contract emits are \<open>ALL_EVENTS\<close>.
  The subscriptions file is missing, unreadable, or holds a store (\<open>JSON.parse\<close> inverts
  \<open>JSON.stringify\<close> on such plain data); \<open>fwritable\<close> tells whether \<open>writeFileSync\<close> succeeds.
\<close>

section \<open>Types\<close>

type_synonym GovernanceEventType = jstring

record Subscriber =
  sub_id :: jstring
  sub_proposalId :: "jstring option"
  sub_events :: "GovernanceEventType list"
  email :: "jstring option"
  webhookUrl :: "jstring option"
  slackWebhookUrl :: "jstring option"
  discordWebhookUrl :: "jstring option"

record SubscriptionStore =
  subscribers :: "Subscriber list"
  cursor :: jstring

record sub_opts =
  opt_proposalId :: "jstring option"
  opt_events :: "GovernanceEventType list"
  opt_email :: "jstring option"
  opt_webhookUrl :: "jstring option"
  opt_slackWebhookUrl :: "jstring option"
  opt_discordWebhookUrl :: "jstring option"

datatype file_content = Missing | Garbage | Json SubscriptionStore

record subs_file =
  fcontent :: file_content
  fwritable :: bool

section \<open>Operations\<close>

definition load :: "subs_file \<Rightarrow> SubscriptionStore" where
  "load f = (case fcontent f of
     Json st \<Rightarrow> st
   | _ \<Rightarrow> \<lparr>subscribers = [], cursor = js ''now''\<rparr>)"

definition save :: "SubscriptionStore \<Rightarrow> subs_file \<Rightarrow> subs_file result" where
  "save st f =
     (if fwritable f then Inr (f\<lparr>fcontent := Json st\<rparr>)
      else Inl (new_Error (js ''write failed'')))"

definition getStore :: "subs_file \<Rightarrow> SubscriptionStore" where
  "getStore f = load f"

definition saveCursor :: "jstring \<Rightarrow> subs_file \<Rightarrow> subs_file result" where
  "saveCursor c f = save ((load f)\<lparr>cursor := c\<rparr>) f"

definition subscriber_of :: "jstring \<Rightarrow> sub_opts \<Rightarrow> Subscriber" where
  "subscriber_of uuid opts =
     \<lparr>sub_id = uuid, sub_proposalId = opt_proposalId opts, sub_events = opt_events opts,
      email = opt_email opts, webhookUrl = opt_webhookUrl opts,
      slackWebhookUrl = opt_slackWebhookUrl opts,
      discordWebhookUrl = opt_discordWebhookUrl opts\<rparr>"

definition addSubscriber ::
  "jstring \<Rightarrow> sub_opts \<Rightarrow> subs_file \<Rightarrow> (Subscriber \<times> subs_file) result" where
  "addSubscriber uuid opts f =
     (if \<not> truthy (opt_email opts) \<and> \<not> truthy (opt_webhookUrl opts)
         \<and> \<not> truthy (opt_slackWebhookUrl opts) \<and> \<not> truthy (opt_discordWebhookUrl opts)
      then Inl (new_Error (js ''At least one notification channel is required: --email, --webhook, --slack, or --discord.''))
      else let store = load f; subscriber = subscriber_of uuid opts
           in case save (store\<lparr>subscribers := subscribers store @ [subscriber]\<rparr>) f of
                Inl e \<Rightarrow> Inl e
              | Inr f' \<Rightarrow> Inr (subscriber, f'))"

definition removeSubscriber :: "jstring \<Rightarrow> subs_file \<Rightarrow> (bool \<times> subs_file) result" where
  "removeSubscriber i f =
     (let store = load f; before = length (subscribers store);
          rest = filter (\<lambda>s. sub_id s \<noteq> i) (subscribers store)
      in if length rest = before then Inr (False, f)
         else case save (store\<lparr>subscribers := rest\<rparr>) f of
                Inl e \<Rightarrow> Inl e
              | Inr f' \<Rightarrow> Inr (True, f'))"

definition listSubscribers :: "subs_file \<Rightarrow> Subscriber list" where
  "listSubscribers f = subscribers (load f)"

definition wants :: "GovernanceEventType \<Rightarrow> jstring option \<Rightarrow> Subscriber \<Rightarrow> bool" where
  "wants eventType proposalId s =
     (if eventType \<notin> set (sub_events s) then False
      else if truthy (sub_proposalId s) \<and> sub_proposalId s \<noteq> proposalId then False
      else True)"

definition matchingSubscribers ::
  "GovernanceEventType \<Rightarrow> jstring option \<Rightarrow> subs_file \<Rightarrow> Subscriber list" where
  "matchingSubscribers eventType proposalId f =
     filter (wants eventType proposalId) (subscribers (load f))"

section \<open>The contract other components rely on\<close>

text \<open>
  What the watcher and the command line need of a subscription repository, over an abstract
  state: recording a cursor changes only the cursor, adding and removing change only the
  list, and who is notified depends on the list alone.
\<close>

locale subscription_repo =
  fixes subs :: "'s \<Rightarrow> Subscriber list"
    and cur :: "'s \<Rightarrow> jstring"
    and save_cursor :: "jstring \<Rightarrow> 's \<Rightarrow> 's result"
    and add :: "jstring \<Rightarrow> sub_opts \<Rightarrow> 's \<Rightarrow> (Subscriber \<times> 's) result"
    and remove :: "jstring \<Rightarrow> 's \<Rightarrow> (bool \<times> 's) result"
    and matching :: "GovernanceEventType \<Rightarrow> jstring option \<Rightarrow> 's \<Rightarrow> Subscriber list"
  assumes cursor_saved: "save_cursor c s = Inr s' \<Longrightarrow> cur s' = c \<and> subs s' = subs s"
    and added: "add u opts s = Inr (x, s') \<Longrightarrow>
      x = subscriber_of u opts \<and> subs s' = subs s @ [x] \<and> cur s' = cur s"
    and removed: "remove i s = Inr (b, s') \<Longrightarrow>
      subs s' = filter (\<lambda>x. sub_id x \<noteq> i) (subs s) \<and> cur s' = cur s
      \<and> b = (\<exists>x \<in> set (subs s). sub_id x = i)"
    and matching_def: "matching t p s = filter (wants t p) (subs s)"
begin

lemma matching_save_cursor: "save_cursor c s = Inr s' \<Longrightarrow> matching t p s' = matching t p s"
  by (drule cursor_saved) (simp add: matching_def)

lemma matching_after_add:
  "add u opts s = Inr (x, s') \<Longrightarrow>
     matching t p s' = matching t p s @ (if wants t p x then [x] else [])"
  by (drule added) (simp add: matching_def)

lemma matching_after_remove:
  "remove i s = Inr (b, s') \<Longrightarrow>
     matching t p s' = filter (\<lambda>x. sub_id x \<noteq> i) (matching t p s)"
  by (drule removed) (auto simp add: matching_def intro: filter_cong)

lemma removed_not_matching:
  "remove i s = Inr (b, s') \<Longrightarrow> x \<in> set (matching t p s') \<Longrightarrow> sub_id x \<noteq> i"
  by (drule matching_after_remove [where t = t and p = p]) simp

lemma add_then_remove:
  assumes "\<forall>x \<in> set (subs s). sub_id x \<noteq> u"
    and "add u opts s = Inr (x, s')" and "remove u s' = Inr (b, s'')"
  shows "b \<and> subs s'' = subs s \<and> cur s'' = cur s"
proof -
  from assms(2) have a: "x = subscriber_of u opts" "subs s' = subs s @ [x]" "cur s' = cur s"
    using added by blast+
  from assms(3) have r: "subs s'' = filter (\<lambda>y. sub_id y \<noteq> u) (subs s')" "cur s'' = cur s'"
      "b = (\<exists>y \<in> set (subs s'). sub_id y = u)"
    using removed by blast+
  from assms(1) have "filter (\<lambda>y. sub_id y \<noteq> u) (subs s) = subs s" by (simp add: filter_id_conv)
  with a r show ?thesis by (auto simp add: subscriber_of_def)
qed

end

lemma load_save: "save st f = Inr f' \<Longrightarrow> load f' = st"
  by (auto simp add: save_def load_def split: if_splits)

lemma save_Inr_iff: "(\<exists>f'. save st f = Inr f') \<longleftrightarrow> fwritable f"
  by (simp add: save_def)

lemma fwritable_save: "save st f = Inr f' \<Longrightarrow> fwritable f' = fwritable f"
  by (auto simp add: save_def split: if_splits)

lemma length_filter_neq_iff:
  "length (filter P xs) = length xs \<longleftrightarrow> (\<forall>x \<in> set xs. P x)"
  by (induction xs) (auto, metis le_imp_less_Suc length_filter_le less_irrefl)

lemma saveCursor_effect:
  assumes "saveCursor c s = Inr s'"
  shows "cursor (getStore s') = c \<and> listSubscribers s' = listSubscribers s"
  using load_save [OF assms [unfolded saveCursor_def]]
  by (simp add: getStore_def listSubscribers_def)

lemma addSubscriber_effect:
  assumes "addSubscriber u opts s = Inr (x, s')"
  shows "x = subscriber_of u opts \<and> listSubscribers s' = listSubscribers s @ [x]
    \<and> cursor (getStore s') = cursor (getStore s)"
proof -
  from assms have "x = subscriber_of u opts \<and>
      save ((load s)\<lparr>subscribers := subscribers (load s) @ [x]\<rparr>) s = Inr s'"
    by (auto simp add: addSubscriber_def Let_def split: if_splits sum.splits)
  then have "x = subscriber_of u opts" "load s' = (load s)\<lparr>subscribers := subscribers (load s) @ [x]\<rparr>"
    using load_save by blast+
  then show ?thesis by (simp add: getStore_def listSubscribers_def)
qed

lemma removeSubscriber_effect:
  assumes r: "removeSubscriber i s = Inr (b, s')"
  shows "listSubscribers s' = filter (\<lambda>x. sub_id x \<noteq> i) (listSubscribers s)
    \<and> cursor (getStore s') = cursor (getStore s)
    \<and> b = (\<exists>x \<in> set (listSubscribers s). sub_id x = i)"
proof -
  let ?rest = "filter (\<lambda>y. sub_id y \<noteq> i) (subscribers (load s))"
  show ?thesis
  proof (cases "length ?rest = length (subscribers (load s))")
    case True
    then have "\<forall>x \<in> set (subscribers (load s)). sub_id x \<noteq> i"
      by (simp only: length_filter_neq_iff)
    moreover from True r have "b = False" "s' = s"
      by (simp_all add: removeSubscriber_def Let_def)
    ultimately show ?thesis
      by (simp add: getStore_def listSubscribers_def filter_id_conv)
  next
    case False
    then have "\<exists>x \<in> set (subscribers (load s)). sub_id x = i"
      unfolding length_filter_neq_iff by blast
    moreover from False r have b: "b" and "save ((load s)\<lparr>subscribers := ?rest\<rparr>) s = Inr s'"
      by (auto simp add: removeSubscriber_def Let_def split: sum.splits)
    then have "load s' = (load s)\<lparr>subscribers := ?rest\<rparr>" using load_save by blast
    ultimately show ?thesis by (simp add: getStore_def listSubscribers_def b)
  qed
qed

interpretation subs: subscription_repo listSubscribers "\<lambda>f. cursor (getStore f)" saveCursor
  addSubscriber removeSubscriber matchingSubscribers
  by unfold_locales
    (erule saveCursor_effect addSubscriber_effect removeSubscriber_effect
      | simp add: matchingSubscribers_def listSubscribers_def)+

section \<open>The store over time\<close>

definition has_channel :: "Subscriber \<Rightarrow> bool" where
  "has_channel s \<longleftrightarrow> truthy (email s) \<or> truthy (webhookUrl s)
     \<or> truthy (slackWebhookUrl s) \<or> truthy (discordWebhookUrl s)"

lemma addSubscriber_has_channel: "addSubscriber u opts f = Inr (x, f') \<Longrightarrow> has_channel x"
  by (auto simp add: addSubscriber_def Let_def has_channel_def subscriber_of_def
      split: if_splits sum.splits)

lemma addSubscriber_fails_iff:
  "isl (addSubscriber u opts f) \<longleftrightarrow> \<not> (has_channel (subscriber_of u opts) \<and> fwritable f)"
proof (cases "has_channel (subscriber_of u opts)")
  case True
  then have "truthy (opt_email opts) \<or> truthy (opt_webhookUrl opts)
      \<or> truthy (opt_slackWebhookUrl opts) \<or> truthy (opt_discordWebhookUrl opts)"
    by (simp add: has_channel_def subscriber_of_def)
  then have "addSubscriber u opts f = (case save ((load f)\<lparr>subscribers := subscribers (load f)
      @ [subscriber_of u opts]\<rparr>) f of Inl e \<Rightarrow> Inl e | Inr f' \<Rightarrow> Inr (subscriber_of u opts, f'))"
    unfolding addSubscriber_def Let_def by (intro if_not_P) blast
  with True show ?thesis by (simp add: save_def)
next
  case False
  then show ?thesis by (simp add: addSubscriber_def has_channel_def subscriber_of_def)
qed

text \<open>
  What happens to the file: a subscribe (with the identifier that was generated), an unsubscribe, a cursor
  update, or a change of the permission to write.  An operation that throws leaves the file as it is.
\<close>

datatype store_op = SAdd jstring sub_opts | SRemove jstring | SCursor jstring | SAccess bool

fun store_run :: "store_op \<Rightarrow> subs_file \<Rightarrow> subs_file" where
  "store_run (SAdd u opts) f = (case addSubscriber u opts f of Inl _ \<Rightarrow> f | Inr (_, f') \<Rightarrow> f')"
| "store_run (SRemove i) f = (case removeSubscriber i f of Inl _ \<Rightarrow> f | Inr (_, f') \<Rightarrow> f')"
| "store_run (SCursor c) f = (case saveCursor c f of Inl _ \<Rightarrow> f | Inr f' \<Rightarrow> f')"
| "store_run (SAccess w) f = f\<lparr>fwritable := w\<rparr>"

text \<open>
  What should be in the store, read off the operations alone: \<open>w\<close> tells whether the file is writable at the
  start.  A subscriber is kept if it has a channel, could be written and is not removed later.
\<close>

fun removed_in :: "bool \<Rightarrow> store_op list \<Rightarrow> jstring \<Rightarrow> bool" where
  "removed_in w [] u = False"
| "removed_in w (SRemove i # ops) u = (w \<and> i = u \<or> removed_in w ops u)"
| "removed_in w (SAccess b # ops) u = removed_in b ops u"
| "removed_in w (_ # ops) u = removed_in w ops u"

fun kept :: "bool \<Rightarrow> store_op list \<Rightarrow> Subscriber list" where
  "kept w [] = []"
| "kept w (SAdd u opts # ops) =
     (if w \<and> has_channel (subscriber_of u opts) \<and> \<not> removed_in w ops u then [subscriber_of u opts] else []) @ kept w ops"
| "kept w (SAccess b # ops) = kept b ops"
| "kept w (_ # ops) = kept w ops"

fun last_cursor :: "bool \<Rightarrow> store_op list \<Rightarrow> jstring \<Rightarrow> jstring" where
  "last_cursor w [] c = c"
| "last_cursor w (SCursor d # ops) c = last_cursor w ops (if w then d else c)"
| "last_cursor w (SAccess b # ops) c = last_cursor b ops c"
| "last_cursor w (_ # ops) c = last_cursor w ops c"

lemma store_run_add:
  "listSubscribers (store_run (SAdd u opts) f) = listSubscribers f @
     (if fwritable f \<and> has_channel (subscriber_of u opts) then [subscriber_of u opts] else [])
   \<and> cursor (getStore (store_run (SAdd u opts) f)) = cursor (getStore f)
   \<and> fwritable (store_run (SAdd u opts) f) = fwritable f"
proof (cases "addSubscriber u opts f")
  case (Inl e)
  then have "isl (addSubscriber u opts f)" by simp
  then have "\<not> (fwritable f \<and> has_channel (subscriber_of u opts))" unfolding addSubscriber_fails_iff by blast
  with Inl show ?thesis by auto
next
  case (Inr r)
  obtain x f' where r: "r = (x, f')" by (cases r)
  from Inr have "\<not> isl (addSubscriber u opts f)" by simp
  then have "has_channel (subscriber_of u opts)" "fwritable f" by (simp_all add: addSubscriber_fails_iff)
  moreover have "fwritable f' = fwritable f"
    using Inr r by (auto simp add: addSubscriber_def Let_def split: if_splits sum.splits dest: fwritable_save)
  ultimately show ?thesis using subs.added [of u opts f x f'] Inr r by simp
qed

lemma store_run_remove:
  "listSubscribers (store_run (SRemove i) f) =
     filter (\<lambda>s. \<not> (fwritable f \<and> sub_id s = i)) (listSubscribers f)
   \<and> cursor (getStore (store_run (SRemove i) f)) = cursor (getStore f)
   \<and> fwritable (store_run (SRemove i) f) = fwritable f"
proof (cases "removeSubscriber i f")
  case (Inl e)
  then have "\<not> fwritable f" by (auto simp add: removeSubscriber_def Let_def save_def split: if_splits)
  with Inl show ?thesis by simp
next
  case (Inr r)
  obtain b f' where r: "r = (b, f')" by (cases r)
  have w: "fwritable f' = fwritable f"
    using Inr r by (auto simp add: removeSubscriber_def Let_def split: if_splits sum.splits dest: fwritable_save)
  have "listSubscribers f' = listSubscribers f" if "\<not> fwritable f"
    using that Inr r by (auto simp add: removeSubscriber_def Let_def save_def split: if_splits)
  with w show ?thesis using subs.removed [of i f b f'] Inr r by (cases "fwritable f") simp_all
qed

lemma store_run_cursor:
  "listSubscribers (store_run (SCursor c) f) = listSubscribers f
   \<and> cursor (getStore (store_run (SCursor c) f)) = (if fwritable f then c else cursor (getStore f))
   \<and> fwritable (store_run (SCursor c) f) = fwritable f"
proof (cases "saveCursor c f")
  case (Inl e)
  then have "\<not> fwritable f" by (auto simp add: saveCursor_def save_def split: if_splits)
  with Inl show ?thesis by simp
next
  case (Inr f')
  then have "fwritable f" "fwritable f' = fwritable f"
    by (auto simp add: saveCursor_def save_def split: if_splits)
  with subs.cursor_saved [OF Inr] Inr show ?thesis by simp
qed

lemma store_run_access:
  "listSubscribers (store_run (SAccess w) f) = listSubscribers f
   \<and> cursor (getStore (store_run (SAccess w) f)) = cursor (getStore f) \<and> fwritable (store_run (SAccess w) f) = w"
  by (simp add: listSubscribers_def getStore_def load_def)

lemma store_runs:
  "listSubscribers (fold store_run ops f) =
     filter (\<lambda>s. \<not> removed_in (fwritable f) ops (sub_id s)) (listSubscribers f) @ kept (fwritable f) ops
   \<and> cursor (getStore (fold store_run ops f)) = last_cursor (fwritable f) ops (cursor (getStore f))"
proof (induction ops arbitrary: f)
  case (Cons x ops)
  show ?case
  proof (cases x)
    case (SAdd u opts)
    with Cons.IH [of "store_run x f"] store_run_add [of u opts f] show ?thesis
      by (auto simp del: store_run.simps simp add: subscriber_of_def)
  next
    case (SRemove i)
    with Cons.IH [of "store_run x f"] store_run_remove [of i f] show ?thesis
      by (auto simp del: store_run.simps intro: filter_cong)
  next
    case (SCursor c)
    with Cons.IH [of "store_run x f"] store_run_cursor [of c f] show ?thesis by (simp del: store_run.simps)
  next
    case (SAccess w)
    with Cons.IH [of "store_run x f"] store_run_access [of w f] show ?thesis by (simp del: store_run.simps)
  qed
qed simp

lemma kept_has_channel: "s \<in> set (kept w ops) \<Longrightarrow> has_channel s"
  by (induction w ops rule: kept.induct) (auto split: if_splits)

text \<open>
  C25. Starting without a readable file, after any sequence of subscribes, unsubscribes and cursor updates, during
  which the file may become read-only and writable again, the stored subscribers are, in the order in
  which they subscribed, exactly those with at least one channel that could be written and were not removed later;
  the cursor is the last that could be written, or \<^verbatim>\<open>now\<close>; an event is matched to exactly the stored subscribers that want
  it, each of which has a channel.
\<close>

theorem subscription_store_contents:
  assumes "fcontent f \<in> {Missing, Garbage}"
  shows "listSubscribers (fold store_run ops f) = kept (fwritable f) ops
    \<and> cursor (getStore (fold store_run ops f)) = last_cursor (fwritable f) ops (js ''now'')
    \<and> matchingSubscribers t p (fold store_run ops f) = filter (wants t p) (kept (fwritable f) ops)
    \<and> (\<forall>s \<in> set (matchingSubscribers t p (fold store_run ops f)). has_channel s)"
proof -
  have "listSubscribers f = []" "cursor (getStore f) = js ''now''"
    using assms by (auto simp add: listSubscribers_def getStore_def load_def)
  with store_runs [of ops f] have s: "listSubscribers (fold store_run ops f) = kept (fwritable f) ops"
    "cursor (getStore (fold store_run ops f)) = last_cursor (fwritable f) ops (js ''now'')" by simp_all
  then show ?thesis using kept_has_channel by (auto simp add: subs.matching_def)
qed

definition example_opts :: sub_opts where
  "example_opts = \<lparr>opt_proposalId = Some (js ''42''), opt_events = [js ''final''],
     opt_email = Some (js ''a@b.c''), opt_webhookUrl = None, opt_slackWebhookUrl = None,
     opt_discordWebhookUrl = None\<rparr>"

definition example_file :: subs_file where
  "example_file = \<lparr>fcontent = Missing, fwritable = True\<rparr>"

lemma example_add:
  "addSubscriber (js ''u1'') example_opts example_file =
     Inr (subscriber_of (js ''u1'') example_opts,
          \<lparr>fcontent = Json \<lparr>subscribers = [subscriber_of (js ''u1'') example_opts], cursor = js ''now''\<rparr>,
           fwritable = True\<rparr>)"
  by (simp add: addSubscriber_def example_opts_def example_file_def load_def save_def Let_def)

theorem subscription_store_contents_witness:
  "matchingSubscribers (js ''final'') (Some (js ''42''))
     (fold store_run [SAdd (js ''u1'') example_opts, SAdd (js ''u2'') example_opts, SAdd (js ''u3'') (example_opts\<lparr>opt_email := None\<rparr>),
        SCursor (js ''7''), SRemove (js ''u1''), SAccess False, SRemove (js ''u2''), SCursor (js ''8'')] example_file)
   = [subscriber_of (js ''u2'') example_opts]"
proof -
  have "fcontent example_file \<in> {Missing, Garbage}" by (simp add: example_file_def)
  note c = subscription_store_contents [OF this, THEN conjunct2, THEN conjunct2, THEN conjunct1]
  show ?thesis unfolding c
    by (simp add: example_file_def example_opts_def subscriber_of_def has_channel_def wants_def js_def)
qed

text \<open>
  Unsubscribing right after subscribing under a fresh identifier reports success and gives
  back exactly the previous subscriber list and cursor; and after any unsubscribe no event is
  matched to a subscriber with that identifier.
\<close>

theorem unsubscribe_inverts_subscribe:
  assumes "u \<notin> sub_id ` set (listSubscribers f)"
    and "addSubscriber u opts f = Inr (x, f1)"
    and "removeSubscriber u f1 = Inr (b, f2)"
  shows "b \<and> listSubscribers f2 = listSubscribers f \<and> cursor (getStore f2) = cursor (getStore f)
    \<and> (\<forall>t p. \<forall>y \<in> set (matchingSubscribers t p f2). sub_id y \<noteq> u)"
proof -
  have "\<forall>x \<in> set (listSubscribers f). sub_id x \<noteq> u" using assms(1) by blast
  from subs.add_then_remove [OF this assms(2,3)] subs.removed_not_matching [OF assms(3)]
  show ?thesis by blast
qed

theorem unsubscribe_inverts_subscribe_witness:
  "\<exists>x f1 f2. addSubscriber (js ''u1'') example_opts example_file = Inr (x, f1)
     \<and> removeSubscriber (js ''u1'') f1 = Inr (True, f2) \<and> listSubscribers f2 = []"
proof -
  let ?x = "subscriber_of (js ''u1'') example_opts"
  let ?f1 = "\<lparr>fcontent = Json \<lparr>subscribers = [?x], cursor = js ''now''\<rparr>, fwritable = True\<rparr>"
  let ?f2 = "\<lparr>fcontent = Json \<lparr>subscribers = [], cursor = js ''now''\<rparr>, fwritable = True\<rparr>"
  have r: "removeSubscriber (js ''u1'') ?f1 = Inr (True, ?f2)"
    by (simp add: removeSubscriber_def load_def save_def subscriber_of_def)
  have "js ''u1'' \<notin> sub_id ` set (listSubscribers example_file)"
    by (simp add: listSubscribers_def load_def example_file_def)
  from unsubscribe_inverts_subscribe [OF this example_add r] r example_add
  show ?thesis by (metis (no_types, lifting) listSubscribers_def load_def example_file_def
      file_content.simps(8) subs_file.simps(1) SubscriptionStore.simps(1))
qed

end
