(* ===== verification/Notify_Channels.thy ===== *)
theory Notify_Channels
  imports Notify_Subscriptions
begin

text \<open>
  \<^verbatim>\<open>notification-service/src/channels.ts\<close> and \<^verbatim>\<open>notification-service/src/notifier.ts\<close>: the
  channel plugins (e-mail, webhook, Slack, Discord), the registry, and the dispatch of one event
  to one subscriber.

  The transports (nodemailer, axios) are the parameter \<open>net\<close>: the outcome of the \<open>n\<close>-th request
  of the process.  Sending appends the request to the log of requests made.
\<close>

section \<open>Events, environment and requests\<close>

text \<open>One entry of a Horizon record's \<open>topic\<close>: a decoded object or a plain string.\<close>

datatype topic = TopicObj (topic_type: jstring) (topic_val: "jstring option") | TopicStr jstring

text \<open>
  A Horizon contract event record: \<open>hr_topic\<close> may be absent; \<open>hr_value\<close> lists the \<open>toString\<close>
  images of the elements of the decoded value (an element that is null or undefined has
  none), and is absent when there is no decoded tuple.
\<close>

record horizon_record =
  hr_id :: jstring
  hr_topic :: "topic list option"
  hr_value :: "jstring option list option"
  hr_ledger_closed_at :: "jstring option"

record GovernanceEvent =
  ev_type :: GovernanceEventType
  ev_proposalId :: "jstring option"
  ev_ledger :: jnum
  ev_raw :: horizon_record

record channel_env =
  EMAIL_FROM :: "jstring option"
  SLACK_WEBHOOK_URL :: "jstring option"
  DISCORD_WEBHOOK_URL :: "jstring option"
  num_fmt :: "rat \<Rightarrow> jstring"

datatype post_body =
    WebhookBody GovernanceEvent
  | SlackBody (slack_text: jstring) (slack_block: jstring)
  | DiscordBody (discord_content: jstring)

datatype request =
    SendMail (mail_from: "jstring option") (mail_to: jstring) (mail_subject: jstring) (mail_text: jstring)
  | HttpPost (post_url: jstring) (post_data: post_body) (post_timeout: nat)

type_synonym net = "nat \<Rightarrow> request \<Rightarrow> unit result"

definition deliver :: "net \<Rightarrow> request \<Rightarrow> request list \<Rightarrow> request list \<times> unit result" where
  "deliver net r lg = (lg @ [r], net (length lg) r)"

section \<open>Message texts\<close>

definition text_labels :: "(jstring \<times> jstring) list" where
  "text_labels =
    [(js ''created'', js ''A new governance proposal has been created.''),
     (js ''voted'', js ''A vote has been cast on a proposal.''),
     (js ''final'', js ''A proposal has been finalized.''),
     (js ''exec'', js ''A proposal has been executed.''),
     (js ''cancel'', js ''A proposal has been cancelled.'')]"

definition buildTextMessage :: "channel_env \<Rightarrow> GovernanceEvent \<Rightarrow> jstring" where
  "buildTextMessage env ev =
     (let base = (case map_of text_labels (ev_type ev) of
                    Some l \<Rightarrow> l
                  | None \<Rightarrow> js ''Governance event: '' @ ev_type ev);
          ledger = num_to_string (num_fmt env) (ev_ledger ev)
      in case ev_proposalId ev of
           Some i \<Rightarrow>
             if i \<noteq> [] then base @ [10] @ js ''Proposal ID: '' @ i @ [10] @ js ''Ledger: '' @ ledger
             else base @ [10] @ js ''Ledger: '' @ ledger
         | None \<Rightarrow> base @ [10] @ js ''Ledger: '' @ ledger)"

definition subject_verbs :: "(jstring \<times> jstring) list" where
  "subject_verbs =
    [(js ''created'', js ''created''), (js ''voted'', js ''vote cast on''),
     (js ''final'', js ''finalized''), (js ''exec'', js ''executed''), (js ''cancel'', js ''cancelled'')]"

definition buildSubjectLine :: "GovernanceEvent \<Rightarrow> jstring" where
  "buildSubjectLine ev =
     (let action = (case map_of subject_verbs (ev_type ev) of Some v \<Rightarrow> v | None \<Rightarrow> ev_type ev)
      in case ev_proposalId ev of
           Some i \<Rightarrow>
             if i \<noteq> [] then js ''CosmosVote: proposal #'' @ i @ js '' '' @ action
             else js ''CosmosVote: proposal '' @ action
         | None \<Rightarrow> js ''CosmosVote: proposal '' @ action)"

section \<open>Channels\<close>

record NotificationChannel =
  ch_name :: jstring
  isConfigured :: "channel_env \<Rightarrow> Subscriber \<Rightarrow> bool"
  send :: "channel_env \<Rightarrow> net \<Rightarrow> Subscriber \<Rightarrow> GovernanceEvent \<Rightarrow> request list
             \<Rightarrow> request list \<times> unit result"

definition EmailChannel :: NotificationChannel where
  "EmailChannel =
    \<lparr>ch_name = js ''email'',
     isConfigured = (\<lambda>env sub. truthy (email sub)),
     send = (\<lambda>env net sub ev lg.
       case email sub of
         None \<Rightarrow> (lg, Inr ())
       | Some addr \<Rightarrow>
           if addr = [] then (lg, Inr ())
           else deliver net
             (SendMail (EMAIL_FROM env) addr (buildSubjectLine ev) (buildTextMessage env ev)) lg)\<rparr>"

definition WebhookChannel :: NotificationChannel where
  "WebhookChannel =
    \<lparr>ch_name = js ''webhook'',
     isConfigured = (\<lambda>env sub. truthy (webhookUrl sub)),
     send = (\<lambda>env net sub ev lg.
       case webhookUrl sub of
         None \<Rightarrow> (lg, Inr ())
       | Some url \<Rightarrow>
           if url = [] then (lg, Inr ())
           else deliver net (HttpPost url (WebhookBody ev) 10000) lg)\<rparr>"

definition slack_emoji :: "(jstring \<times> jstring) list" where
  "slack_emoji =
    [(js ''created'', js '':memo:''), (js ''voted'', js '':ballot_box:''),
     (js ''final'', js '':checkered_flag:''), (js ''exec'', js '':rocket:''), (js ''cancel'', js '':x:'')]"

definition slack_body :: "channel_env \<Rightarrow> GovernanceEvent \<Rightarrow> post_body" where
  "slack_body env ev =
     (let txt = buildTextMessage env ev;
          icon = (case map_of slack_emoji (ev_type ev) of Some i \<Rightarrow> i | None \<Rightarrow> js '':bell:'')
      in SlackBody (icon @ js '' *CosmosVote* '' @ [8212, 32] @ buildSubjectLine ev)
           (icon @ js '' *'' @ buildSubjectLine ev @ js ''*'' @ [10, 96, 96, 96] @ txt @ [96, 96, 96]))"

definition SlackChannel :: NotificationChannel where
  "SlackChannel =
    \<lparr>ch_name = js ''slack'',
     isConfigured = (\<lambda>env sub. truthy (orelse (slackWebhookUrl sub) (SLACK_WEBHOOK_URL env))),
     send = (\<lambda>env net sub ev lg.
       case orelse (slackWebhookUrl sub) (SLACK_WEBHOOK_URL env) of
         None \<Rightarrow> (lg, Inr ())
       | Some url \<Rightarrow>
           if url = [] then (lg, Inr ())
           else deliver net (HttpPost url (slack_body env ev) 10000) lg)\<rparr>"

definition discord_body :: "channel_env \<Rightarrow> GovernanceEvent \<Rightarrow> post_body" where
  "discord_body env ev =
     DiscordBody (js ''**CosmosVote** '' @ [8212, 32] @ buildSubjectLine ev
       @ [10, 96, 96, 96, 10] @ buildTextMessage env ev @ [10, 96, 96, 96])"

definition DiscordChannel :: NotificationChannel where
  "DiscordChannel =
    \<lparr>ch_name = js ''discord'',
     isConfigured = (\<lambda>env sub. truthy (orelse (discordWebhookUrl sub) (DISCORD_WEBHOOK_URL env))),
     send = (\<lambda>env net sub ev lg.
       case orelse (discordWebhookUrl sub) (DISCORD_WEBHOOK_URL env) of
         None \<Rightarrow> (lg, Inr ())
       | Some url \<Rightarrow>
           if url = [] then (lg, Inr ())
           else deliver net (HttpPost url (discord_body env ev) 10000) lg)\<rparr>"

definition CHANNELS :: "NotificationChannel list" where
  "CHANNELS = [EmailChannel, WebhookChannel, SlackChannel, DiscordChannel]"

section \<open>Dispatch to one subscriber\<close>

record ChannelResult =
  cr_channel :: jstring
  cr_success :: bool
  cr_error :: "jstring option"

definition channel_result :: "NotificationChannel \<Rightarrow> unit result \<Rightarrow> ChannelResult" where
  "channel_result ch r =
     (case r of
        Inr _ \<Rightarrow> \<lparr>cr_channel = ch_name ch, cr_success = True, cr_error = None\<rparr>
      | Inl err \<Rightarrow> \<lparr>cr_channel = ch_name ch, cr_success = False, cr_error = Some (message_of err)\<rparr>)"

fun run_tasks :: "channel_env \<Rightarrow> net \<Rightarrow> Subscriber \<Rightarrow> GovernanceEvent \<Rightarrow> NotificationChannel list
    \<Rightarrow> request list \<Rightarrow> request list \<times> ChannelResult list" where
  "run_tasks env net sub ev [] lg = (lg, [])"
| "run_tasks env net sub ev (ch # chs) lg =
     (let (lg1, r) = send ch env net sub ev lg;
          (lg2, rs) = run_tasks env net sub ev chs lg1
      in (lg2, channel_result ch r # rs))"

definition notify :: "channel_env \<Rightarrow> net \<Rightarrow> Subscriber \<Rightarrow> GovernanceEvent
    \<Rightarrow> request list \<Rightarrow> request list \<times> ChannelResult list" where
  "notify env net sub ev lg =
     run_tasks env net sub ev (filter (\<lambda>ch. isConfigured ch env sub) CHANNELS) lg"

section \<open>The plugin contract\<close>

text \<open>
  What the notifier relies on for every entry of the registry: an unconfigured channel does
  nothing, a configured one makes exactly one request, the one \<open>req\<close> describes, and reports
  that request's outcome.
\<close>

locale channel_plugin =
  fixes ch :: NotificationChannel
    and req :: "channel_env \<Rightarrow> Subscriber \<Rightarrow> GovernanceEvent \<Rightarrow> request"
  assumes send_unconfigured:
      "\<not> isConfigured ch env sub \<Longrightarrow> send ch env net sub ev lg = (lg, Inr ())"
    and send_configured:
      "isConfigured ch env sub \<Longrightarrow> send ch env net sub ev lg = deliver net (req env sub ev) lg"
begin

lemma at_most_one_request:
  "\<exists>rs. fst (send ch env net sub ev lg) = lg @ rs \<and> length rs \<le> 1"
  by (cases "isConfigured ch env sub") (auto simp add: send_unconfigured send_configured deliver_def)

end

definition email_request :: "channel_env \<Rightarrow> Subscriber \<Rightarrow> GovernanceEvent \<Rightarrow> request" where
  "email_request env sub ev =
     SendMail (EMAIL_FROM env) (the (email sub)) (buildSubjectLine ev) (buildTextMessage env ev)"

definition webhook_request :: "channel_env \<Rightarrow> Subscriber \<Rightarrow> GovernanceEvent \<Rightarrow> request" where
  "webhook_request env sub ev = HttpPost (the (webhookUrl sub)) (WebhookBody ev) 10000"

definition slack_request :: "channel_env \<Rightarrow> Subscriber \<Rightarrow> GovernanceEvent \<Rightarrow> request" where
  "slack_request env sub ev =
     HttpPost (the (orelse (slackWebhookUrl sub) (SLACK_WEBHOOK_URL env))) (slack_body env ev) 10000"

definition discord_request :: "channel_env \<Rightarrow> Subscriber \<Rightarrow> GovernanceEvent \<Rightarrow> request" where
  "discord_request env sub ev =
     HttpPost (the (orelse (discordWebhookUrl sub) (DISCORD_WEBHOOK_URL env)))
       (discord_body env ev) 10000"

interpretation email_ch: channel_plugin EmailChannel email_request
  by unfold_locales (auto simp add: EmailChannel_def email_request_def split: option.splits)

interpretation webhook_ch: channel_plugin WebhookChannel webhook_request
  by unfold_locales (auto simp add: WebhookChannel_def webhook_request_def split: option.splits)

interpretation slack_ch: channel_plugin SlackChannel slack_request
  by unfold_locales (auto simp add: SlackChannel_def slack_request_def split: option.splits)

interpretation discord_ch: channel_plugin DiscordChannel discord_request
  by unfold_locales (auto simp add: DiscordChannel_def discord_request_def split: option.splits)

text \<open>The registry as a list of plugins with their requests, and what a subscriber is sent.\<close>

definition plugins ::
  "(NotificationChannel \<times> (channel_env \<Rightarrow> Subscriber \<Rightarrow> GovernanceEvent \<Rightarrow> request)) list" where
  "plugins = [(EmailChannel, email_request), (WebhookChannel, webhook_request),
     (SlackChannel, slack_request), (DiscordChannel, discord_request)]"

definition requests_for :: "channel_env \<Rightarrow> Subscriber \<Rightarrow> GovernanceEvent \<Rightarrow> request list" where
  "requests_for env sub ev =
     map (\<lambda>(ch, req). req env sub ev) (filter (\<lambda>(ch, req). isConfigured ch env sub) plugins)"

lemma plugins_ok: "(ch, req) \<in> set plugins \<Longrightarrow> channel_plugin ch req"
  by (auto simp add: plugins_def email_ch.channel_plugin_axioms webhook_ch.channel_plugin_axioms
      slack_ch.channel_plugin_axioms discord_ch.channel_plugin_axioms)

lemma map_fst_plugins: "map fst plugins = CHANNELS"
  by (simp add: plugins_def CHANNELS_def)

lemma run_tasks_plugins:
  assumes "\<forall>(ch, req) \<in> set ps. channel_plugin ch req \<and> isConfigured ch env sub"
  shows "run_tasks env net sub ev (map fst ps) lg =
    (lg @ map (\<lambda>(ch, req). req env sub ev) ps,
     map (\<lambda>(i, ch, req). channel_result ch (net i (req env sub ev))) (enumerate (length lg) ps))"
  using assms
proof (induction ps arbitrary: lg)
  case Nil
  then show ?case by simp
next
  case (Cons p ps)
  obtain ch req where p: "p = (ch, req)" by (cases p)
  with Cons.prems have "channel_plugin ch req" "isConfigured ch env sub" by auto
  then have s: "send ch env net sub ev lg = (lg @ [req env sub ev], net (length lg) (req env sub ev))"
    by (simp add: channel_plugin.send_configured deliver_def)
  have "run_tasks env net sub ev (map fst ps) (lg @ [req env sub ev]) =
      ((lg @ [req env sub ev]) @ map (\<lambda>(ch, req). req env sub ev) ps,
       map (\<lambda>(i, ch, req). channel_result ch (net i (req env sub ev)))
         (enumerate (length (lg @ [req env sub ev])) ps))"
    by (rule Cons.IH) (use Cons.prems in auto)
  with s show ?case by (simp add: p)
qed

lemma filter_CHANNELS:
  "filter (\<lambda>ch. isConfigured ch env sub) CHANNELS =
     map fst (filter (\<lambda>(ch, req). isConfigured ch env sub) plugins)"
  unfolding map_fst_plugins [symmetric] filter_map by (simp add: comp_def case_prod_unfold)

lemma notify_eq:
  "notify env net sub ev lg =
    (lg @ requests_for env sub ev,
     map (\<lambda>(i, ch, req). channel_result ch (net i (req env sub ev)))
       (enumerate (length lg) (filter (\<lambda>(ch, req). isConfigured ch env sub) plugins)))"
  unfolding notify_def filter_CHANNELS requests_for_def
  by (rule run_tasks_plugins) (auto intro: plugins_ok)

lemma fst_notify [simp]: "fst (notify env net sub ev lg) = lg @ requests_for env sub ev"
  by (simp add: notify_eq)

lemma cr_channel_result [simp]:
  "cr_channel (channel_result ch r) = ch_name ch"
  "cr_success (channel_result ch r) = (\<not> isl r)"
  by (simp_all add: channel_result_def split: sum.splits)

lemma map_enumerate_cong:
  "map (\<lambda>(i, x). f i (g x)) (enumerate n xs) = map (\<lambda>(i, y). f i y) (enumerate n (map g xs))"
  by (simp add: enumerate_eq_zip zip_map2 case_prod_unfold comp_def)

lemma map_snd_enumerate: "map (\<lambda>x. f (snd x)) (enumerate n xs) = map f xs"
  by (induction xs arbitrary: n) simp_all

text \<open>
  C21. Dispatching an event to a subscriber makes exactly the requests of the channels the
  subscriber has configured, in registry order, whatever the transports answer; it returns one
  result per configured channel, and a result reports success exactly when the transport
  accepted that channel's own request.  A failing channel changes nothing for the others.
\<close>

theorem notify_isolates_channels:
  "fst (notify env net sub ev lg) = lg @ requests_for env sub ev
   \<and> map cr_channel (snd (notify env net sub ev lg)) =
       map ch_name (filter (\<lambda>ch. isConfigured ch env sub) CHANNELS)
   \<and> map cr_success (snd (notify env net sub ev lg)) =
       map (\<lambda>(i, r). \<not> isl (net i r)) (enumerate (length lg) (requests_for env sub ev))"
proof (intro conjI)
  show "fst (notify env net sub ev lg) = lg @ requests_for env sub ev" by simp
  show "map cr_channel (snd (notify env net sub ev lg)) =
      map ch_name (filter (\<lambda>ch. isConfigured ch env sub) CHANNELS)"
    by (simp add: notify_eq filter_CHANNELS comp_def case_prod_unfold
        map_snd_enumerate [where f = "\<lambda>p. ch_name (fst p)"])
  show "map cr_success (snd (notify env net sub ev lg)) =
      map (\<lambda>(i, r). \<not> isl (net i r)) (enumerate (length lg) (requests_for env sub ev))"
    unfolding requests_for_def map_enumerate_cong [symmetric, where f = "\<lambda>i r. \<not> isl (net i r)"]
    by (simp add: notify_eq comp_def case_prod_unfold)
qed

end
