(* ===== verification/Notify_Watcher.thy ===== *)
theory Notify_Watcher
  imports Notify_Channels
begin

text \<open>
  \<^verbatim>\<open>notification-service/src/watcher.ts\<close>: the polling loop of the notification service.  Horizon is
  the parameter \<open>horizon\<close> (contract id, cursor, limit).  One poll is one turn of the loop; the timer
  that starts the next one is \<open>w_timer\<close>.  The subscriptions file is not changed by others while one
  poll runs.
\<close>

section \<open>Definitions\<close>

definition TRACKED_TOPICS :: "GovernanceEventType list" where
  "TRACKED_TOPICS = [js ''created'', js ''voted'', js ''final'', js ''exec'', js ''cancel'']"

fun topic_value :: "topic \<Rightarrow> jstring" where
  "topic_value (TopicObj t (Some v)) = v"
| "topic_value (TopicObj t None) = []"
| "topic_value (TopicStr s) = []"

definition parseEvent :: "horizon_record \<Rightarrow> GovernanceEvent option" where
  "parseEvent r =
     (case hr_topic r of
        None \<Rightarrow> None
      | Some topics \<Rightarrow>
          if length topics < 2 then None
          else let nsVal = topic_value (topics ! 0); subtypeVal = topic_value (topics ! 1)
               in if nsVal \<noteq> js ''gov'' then None
                  else if subtypeVal \<notin> set TRACKED_TOPICS then None
                  else Some
                    \<lparr>ev_type = subtypeVal,
                     ev_proposalId = (case hr_value r of Some (v # _) \<Rightarrow> v | _ \<Rightarrow> None),
                     ev_ledger = (if truthy (hr_ledger_closed_at r)
                                  then js_Number (hd (split_on 45 (hr_id r))) else Fin 0),
                     ev_raw = r\<rparr>)"

type_synonym horizon = "jstring \<Rightarrow> jstring option \<Rightarrow> nat \<Rightarrow> horizon_record list result"

record watcher_cfg =
  CONTRACT_ID :: jstring
  w_env :: channel_env

fun scan_records :: "horizon_record list \<Rightarrow> GovernanceEvent list \<Rightarrow> jstring
    \<Rightarrow> GovernanceEvent list \<times> jstring" where
  "scan_records [] events nextCursor = (events, nextCursor)"
| "scan_records (r # rs) events nextCursor =
     scan_records rs (case parseEvent r of Some ev \<Rightarrow> events @ [ev] | None \<Rightarrow> events) (hr_id r)"

definition fetchNewEvents :: "watcher_cfg \<Rightarrow> horizon \<Rightarrow> jstring
    \<Rightarrow> (GovernanceEvent list \<times> jstring) result" where
  "fetchNewEvents cfg horizon c =
     (case horizon (CONTRACT_ID cfg) (if c \<noteq> js ''now'' then Some c else None) 50 of
        Inl e \<Rightarrow> Inl e
      | Inr records \<Rightarrow> Inr (scan_records records [] c))"

fun notify_all :: "channel_env \<Rightarrow> net \<Rightarrow> GovernanceEvent \<Rightarrow> Subscriber list
    \<Rightarrow> request list \<Rightarrow> request list" where
  "notify_all env net ev [] lg = lg"
| "notify_all env net ev (sub # rest) lg =
     notify_all env net ev rest (fst (notify env net sub ev lg))"

fun processEvents :: "channel_env \<Rightarrow> net \<Rightarrow> subs_file \<Rightarrow> GovernanceEvent list
    \<Rightarrow> request list \<Rightarrow> request list" where
  "processEvents env net f [] lg = lg"
| "processEvents env net f (ev # evs) lg =
     processEvents env net f evs
       (notify_all env net ev (matchingSubscribers (ev_type ev) (ev_proposalId ev) f) lg)"

record watcher =
  w_file :: subs_file
  w_log :: "request list"
  w_errors :: "thrown list"
  w_timer :: bool

definition poll :: "watcher_cfg \<Rightarrow> net \<Rightarrow> horizon \<Rightarrow> watcher \<Rightarrow> watcher" where
  "poll cfg net horizon w =
     (let c = cursor (getStore (w_file w));
          w' = (case fetchNewEvents cfg horizon c of
                  Inl e \<Rightarrow> w\<lparr>w_errors := w_errors w @ [e]\<rparr>
                | Inr (events, nextCursor) \<Rightarrow>
                    if 0 < length events
                    then let lg = processEvents (w_env cfg) net (w_file w) events (w_log w)
                         in case saveCursor nextCursor (w_file w) of
                              Inl e \<Rightarrow> w\<lparr>w_log := lg, w_errors := w_errors w @ [e]\<rparr>
                            | Inr f \<Rightarrow> w\<lparr>w_log := lg, w_file := f\<rparr>
                    else w)
      in w'\<lparr>w_timer := True\<rparr>)"

definition startWatcher :: "watcher_cfg \<Rightarrow> net \<Rightarrow> horizon \<Rightarrow> watcher \<Rightarrow> watcher result" where
  "startWatcher cfg net horizon w =
     (if CONTRACT_ID cfg = [] then Inl (new_Error (js ''GOVERNANCE_CONTRACT_ID is not set.''))
      else Inr (poll cfg net horizon w))"

section \<open>What a poll sends\<close>

text \<open>
  The specification of delivery: for every event in order, for every subscriber that wants it in
  the order of the list, the requests of the channels configured for that subscriber.
\<close>

definition deliveries :: "channel_env \<Rightarrow> Subscriber list \<Rightarrow> GovernanceEvent list \<Rightarrow> request list" where
  "deliveries env subs evs =
     concat (map (\<lambda>ev. concat (map (\<lambda>s. requests_for env s ev)
       (filter (wants (ev_type ev) (ev_proposalId ev)) subs))) evs)"

lemma deliveries_append: "deliveries env subs (a @ b) = deliveries env subs a @ deliveries env subs b"
  by (simp add: deliveries_def)

lemma deliveries_Nil [simp]: "deliveries env subs [] = []"
  by (simp add: deliveries_def)

lemma notify_all_eq:
  "notify_all env net ev ss lg = lg @ concat (map (\<lambda>s. requests_for env s ev) ss)"
  by (induction ss arbitrary: lg) simp_all

lemma processEvents_eq:
  "processEvents env net f evs lg = lg @ deliveries env (listSubscribers f) evs"
  by (induction evs arbitrary: lg)
     (simp_all add: deliveries_def notify_all_eq subs.matching_def)

lemma scan_records_eq:
  "scan_records rs evs c =
     (evs @ List.map_filter parseEvent rs, if rs = [] then c else hr_id (last rs))"
  by (induction rs arbitrary: evs c) (auto simp add: map_filter_simps split: option.splits)

lemma map_filter_eq_Nil: "List.map_filter f xs = [] \<longleftrightarrow> (\<forall>x \<in> set xs. f x = None)"
  by (induction xs) (auto simp add: map_filter_simps split: option.splits)

lemma poll_ok:
  assumes "horizon (CONTRACT_ID cfg) (if cursor (getStore (w_file w)) \<noteq> js ''now''
      then Some (cursor (getStore (w_file w))) else None) 50 = Inr rs"
    and "fwritable (w_file w)"
  shows "poll cfg net horizon w =
    (if List.map_filter parseEvent rs = [] then w\<lparr>w_timer := True\<rparr>
     else w\<lparr>w_log := w_log w @ deliveries (w_env cfg) (listSubscribers (w_file w))
              (List.map_filter parseEvent rs),
            w_file := (w_file w)\<lparr>fcontent :=
              Json ((load (w_file w))\<lparr>cursor := hr_id (last rs)\<rparr>)\<rparr>,
            w_timer := True\<rparr>)"
proof -
  have f: "fetchNewEvents cfg horizon (cursor (getStore (w_file w))) =
      Inr (List.map_filter parseEvent rs,
           if rs = [] then cursor (getStore (w_file w)) else hr_id (last rs))"
    using assms(1) by (simp add: fetchNewEvents_def scan_records_eq)
  show ?thesis
  proof (cases "List.map_filter parseEvent rs = []")
    case True
    with f show ?thesis by (simp add: poll_def)
  next
    case False
    then have "rs \<noteq> []" by (auto simp add: map_filter_simps)
    with False f assms(2) show ?thesis
      by (simp add: poll_def processEvents_eq saveCursor_def save_def)
  qed
qed

text \<open>
  When Horizon answers and the file can be written, a poll sends exactly the deliveries of
  the governance events of the page, in order, to every matching subscriber over every configured
  channel, whatever the transports answer; and if there was such an event, the saved cursor is
  the identifier of the last record of the page.  The subscriber list is untouched.
\<close>

theorem poll_delivers_page:
  assumes "horizon (CONTRACT_ID cfg) (if cursor (getStore (w_file w)) \<noteq> js ''now''
      then Some (cursor (getStore (w_file w))) else None) 50 = Inr rs"
    and "fwritable (w_file w)"
  shows "w_log (poll cfg net horizon w) =
      w_log w @ deliveries (w_env cfg) (listSubscribers (w_file w)) (List.map_filter parseEvent rs)
    \<and> cursor (getStore (w_file (poll cfg net horizon w))) =
      (if List.map_filter parseEvent rs = [] then cursor (getStore (w_file w)) else hr_id (last rs))
    \<and> listSubscribers (w_file (poll cfg net horizon w)) = listSubscribers (w_file w)
    \<and> w_errors (poll cfg net horizon w) = w_errors w"
  unfolding poll_ok [where horizon = horizon and cfg = cfg and w = w and rs = rs and net = net, OF assms]
  by (simp add: getStore_def listSubscribers_def load_def [of "_\<lparr>fcontent := _\<rparr>"])

definition sample_record :: "string \<Rightarrow> string \<Rightarrow> horizon_record" where
  "sample_record i subtype =
     \<lparr>hr_id = js i,
      hr_topic = Some [TopicObj (js ''symbol'') (Some (js ''gov'')),
                       TopicObj (js ''symbol'') (Some (js subtype))],
      hr_value = Some [Some (js ''42'')], hr_ledger_closed_at = None\<rparr>"

definition sample_env :: channel_env where
  "sample_env = \<lparr>EMAIL_FROM = None, SLACK_WEBHOOK_URL = None, DISCORD_WEBHOOK_URL = None,
     num_fmt = (\<lambda>_. [])\<rparr>"

definition sample_cfg :: watcher_cfg where
  "sample_cfg = \<lparr>CONTRACT_ID = js ''C1'', w_env = sample_env\<rparr>"

definition sample_watcher :: watcher where
  "sample_watcher = \<lparr>w_file = \<lparr>fcontent = Json \<lparr>subscribers = [subscriber_of (js ''u1'') example_opts],
     cursor = js ''now''\<rparr>, fwritable = True\<rparr>, w_log = [], w_errors = [], w_timer = False\<rparr>"

lemma parse_sample:
  "parseEvent (sample_record i subtype) =
     (if js subtype \<in> set TRACKED_TOPICS
      then Some \<lparr>ev_type = js subtype, ev_proposalId = Some (js ''42''), ev_ledger = Fin 0,
                 ev_raw = sample_record i subtype\<rparr>
      else None)"
  by (auto simp add: parseEvent_def sample_record_def Let_def)

theorem poll_delivers_page_witness:
  "let rs = [sample_record ''7-1'' ''final'', sample_record ''7-2'' ''paused''];
       w = poll sample_cfg (\<lambda>_ _. Inr ()) (\<lambda>_ _ _. Inr rs) sample_watcher
   in cursor (getStore (w_file w)) = js ''7-2''
      \<and> w_log w = deliveries sample_env [subscriber_of (js ''u1'') example_opts]
          (List.map_filter parseEvent rs)
      \<and> length (List.map_filter parseEvent rs) = 1"
proof -
  let ?rs = "[sample_record ''7-1'' ''final'', sample_record ''7-2'' ''paused'']"
  have rs: "length (List.map_filter parseEvent ?rs) = 1"
    by (simp add: map_filter_simps parse_sample TRACKED_TOPICS_def)
  then have ne: "List.map_filter parseEvent ?rs \<noteq> []" by fastforce
  have h: "fwritable (w_file sample_watcher)" by (simp add: sample_watcher_def)
  have "(\<lambda>_ _ _. Inr ?rs) (CONTRACT_ID sample_cfg)
      (if cursor (getStore (w_file sample_watcher)) \<noteq> js ''now''
       then Some (cursor (getStore (w_file sample_watcher))) else None) (50 :: nat) = Inr ?rs"
    by simp
  from poll_delivers_page [where net = "\<lambda>_ _. Inr ()" and horizon = "\<lambda>_ _ _. Inr ?rs"
      and cfg = sample_cfg and w = sample_watcher, OF this h] rs ne
  show ?thesis
    by (simp add: Let_def)
       (simp add: sample_watcher_def sample_cfg_def listSubscribers_def load_def sample_record_def)
qed

text \<open>
  A poll never fails: when Horizon rejects the request nothing is sent, the subscriptions file
  is unchanged, the error is logged, and the next poll is still scheduled.
\<close>

theorem poll_survives_horizon_error:
  assumes "horizon (CONTRACT_ID cfg) (if cursor (getStore (w_file w)) \<noteq> js ''now''
      then Some (cursor (getStore (w_file w))) else None) 50 = Inl e"
  shows "poll cfg net horizon w = w\<lparr>w_errors := w_errors w @ [e], w_timer := True\<rparr>"
  using assms by (simp add: poll_def fetchNewEvents_def)

theorem poll_survives_horizon_error_witness:
  "poll sample_cfg (\<lambda>_ _. Inr ()) (\<lambda>_ _ _. Inl (new_Error [])) sample_watcher =
     sample_watcher\<lparr>w_errors := [new_Error []], w_timer := True\<rparr>"
  using poll_survives_horizon_error [of "\<lambda>_ _ _. Inl (new_Error [])" sample_cfg sample_watcher "new_Error []"
      "\<lambda>_ _. Inr ()"]
  by (simp add: sample_watcher_def)

section \<open>Progress through the event stream\<close>

text \<open>
  Polling stalls on a full page without governance events: the cursor is saved only when the
  page held one, so if Horizon answers the current cursor with a page of other records, every
  later poll asks for the same page again, sends nothing and leaves the file as it is, for ever.
\<close>

theorem watcher_stalls:
  assumes "\<And>i l. horizon i (if cursor (getStore (w_file w)) \<noteq> js ''now''
      then Some (cursor (getStore (w_file w))) else None) l = Inr rs"
    and "\<forall>r \<in> set rs. parseEvent r = None"
  shows "w_file ((poll cfg net horizon ^^ n) w) = w_file w
    \<and> w_log ((poll cfg net horizon ^^ n) w) = w_log w"
proof (induction n)
  case 0
  then show ?case by simp
next
  case (Suc n)
  let ?v = "(poll cfg net horizon ^^ n) w"
  have "fetchNewEvents cfg horizon (cursor (getStore (w_file ?v))) = Inr ([], snd (scan_records rs [] (cursor (getStore (w_file w)))))"
    using Suc.IH assms by (simp add: fetchNewEvents_def scan_records_eq map_filter_eq_Nil)
  then have "poll cfg net horizon ?v = ?v\<lparr>w_timer := True\<rparr>"
    by (simp add: poll_def)
  with Suc.IH show ?case by simp
qed

theorem watcher_stalls_witness:
  "w_file ((poll sample_cfg (\<lambda>_ _. Inr ()) (\<lambda>_ _ _. Inr (replicate 50 (sample_record ''7-2'' ''paused''))) ^^ 1000)
     sample_watcher) = w_file sample_watcher
   \<and> w_log ((poll sample_cfg (\<lambda>_ _. Inr ()) (\<lambda>_ _ _. Inr (replicate 50 (sample_record ''7-2'' ''paused''))) ^^ 1000)
     sample_watcher) = []"
proof -
  let ?rs = "replicate 50 (sample_record ''7-2'' ''paused'')"
  have none: "\<forall>r \<in> set ?rs. parseEvent r = None"
    by (simp add: parse_sample TRACKED_TOPICS_def)
  show ?thesis
    using watcher_stalls [where horizon = "\<lambda>_ _ _. Inr ?rs" and w = sample_watcher and rs = ?rs
        and cfg = sample_cfg and net = "\<lambda>_ _. Inr ()" and n = 1000, OF refl none]
    by (simp add: sample_watcher_def)
qed

text \<open>
  The stream of records of a contract, and the page Horizon documents for a cursor: the first 50
  records after the one with that identifier, from the start without a cursor.
\<close>

definition page :: "horizon_record list \<Rightarrow> jstring option \<Rightarrow> horizon_record list" where
  "page L c = (case c of
     None \<Rightarrow> take 50 L
   | Some i \<Rightarrow> take 50 (tl (dropWhile (\<lambda>r. hr_id r \<noteq> i) L)))"

definition cursor_after :: "horizon_record list \<Rightarrow> nat \<Rightarrow> jstring" where
  "cursor_after L n = (if n = 0 then js ''now'' else hr_id (L ! (n - 1)))"

lemma dropWhile_to_index:
  assumes "distinct (map hr_id L)" and "i < length L"
  shows "tl (dropWhile (\<lambda>r. hr_id r \<noteq> hr_id (L ! i)) L) = drop (Suc i) L"
  using assms
proof (induction L arbitrary: i)
  case Nil
  then show ?case by simp
next
  case (Cons a L)
  show ?case
  proof (cases i)
    case 0
    then show ?thesis by simp
  next
    case (Suc j)
    with Cons.prems have "hr_id a \<noteq> hr_id (L ! j)" by auto
    with Suc Cons show ?thesis by simp
  qed
qed

lemma page_cursor_after:
  assumes "distinct (map hr_id L)" and "n \<le> length L" and "js ''now'' \<notin> hr_id ` set L"
  shows "page L (if cursor_after L n \<noteq> js ''now'' then Some (cursor_after L n) else None) =
    take 50 (drop n L)"
proof (cases n)
  case 0
  then show ?thesis by (simp add: cursor_after_def page_def)
next
  case (Suc i)
  with assms(2) have "hr_id (L ! i) \<in> hr_id ` set L" by simp
  with assms(3) have "hr_id (L ! i) \<noteq> js ''now''" by metis
  with Suc assms show ?thesis
    by (simp add: cursor_after_def page_def dropWhile_to_index)
qed

lemma last_page:
  assumes "n < length L"
  shows "hr_id (last (take 50 (drop n L))) = cursor_after L (min (n + 50) (length L))"
proof -
  have i: "n + (min (length L - n) 50 - 1) = min (n + 50) (length L) - 1"
    using assms by linarith
  have "last (take 50 (drop n L)) = L ! (n + (min (length L - n) 50 - 1))"
    using assms by (simp add: last_conv_nth)
  moreover have "min (n + 50) (length L) \<noteq> 0" using assms by linarith
  ultimately show ?thesis unfolding i cursor_after_def by (simp only: if_False)
qed

lemma map_filter_append: "List.map_filter f (a @ b) = List.map_filter f a @ List.map_filter f b"
  by (induction a) (auto simp add: map_filter_simps split: option.splits)

text \<open>
  The state of the watcher once it has read the first \<open>n\<close> records of the stream \<open>L\<close>, having
  started in \<open>w0\<close>: their deliveries have been requested and the cursor stands behind them.
\<close>

definition has_read :: "watcher_cfg \<Rightarrow> horizon_record list \<Rightarrow> watcher \<Rightarrow> nat \<Rightarrow> watcher \<Rightarrow> bool" where
  "has_read cfg L w0 n v \<longleftrightarrow>
     w_log v = w_log w0 @ deliveries (w_env cfg) (listSubscribers (w_file w0))
       (List.map_filter parseEvent (take n L))
     \<and> fwritable (w_file v)
     \<and> listSubscribers (w_file v) = listSubscribers (w_file w0)
     \<and> cursor (getStore (w_file v)) = cursor_after L (min n (length L))"

lemma poll_reads_page:
  assumes hz: "\<And>i c. horizon i c 50 = Inr (page L c)"
    and "distinct (map hr_id L)" and "js ''now'' \<notin> hr_id ` set L"
    and page: "n < length L \<Longrightarrow> \<exists>r \<in> set (take 50 (drop n L)). parseEvent r \<noteq> None"
    and v: "has_read cfg L w0 n v"
  shows "has_read cfg L w0 (n + 50) (poll cfg net horizon v)"
proof -
  let ?rs = "take 50 (drop n L)"
  from v have IH: "w_log v = w_log w0 @ deliveries (w_env cfg) (listSubscribers (w_file w0))
       (List.map_filter parseEvent (take n L))" "fwritable (w_file v)"
    "listSubscribers (w_file v) = listSubscribers (w_file w0)"
    "cursor (getStore (w_file v)) = cursor_after L (min n (length L))"
    by (simp_all add: has_read_def)
  have dn: "drop (min n (length L)) L = drop n L" by (simp add: min_def)
  have "horizon (CONTRACT_ID cfg) (if cursor (getStore (w_file v)) \<noteq> js ''now''
      then Some (cursor (getStore (w_file v))) else None) 50 = Inr ?rs"
    using IH page_cursor_after [OF assms(2) _ assms(3), of "min n (length L)"] dn
    by (simp only: hz min.cobounded2 simp_thms)
  note p = poll_ok [where horizon = horizon and cfg = cfg and w = v and rs = ?rs and net = net, OF this IH(2)]
  show ?thesis
  proof (cases "n < length L")
    case True
    with page have ev: "List.map_filter parseEvent ?rs \<noteq> []"
      by (auto simp add: map_filter_eq_Nil)
    from p ev have "poll cfg net horizon v = v\<lparr>w_log := w_log v
        @ deliveries (w_env cfg) (listSubscribers (w_file v)) (List.map_filter parseEvent ?rs),
        w_file := (w_file v)\<lparr>fcontent := Json ((load (w_file v))\<lparr>cursor := hr_id (last ?rs)\<rparr>)\<rparr>,
        w_timer := True\<rparr>"
      by simp
    with IH last_page [OF True] show ?thesis
      by (simp add: has_read_def take_add map_filter_append deliveries_append getStore_def
          listSubscribers_def load_def [of "_\<lparr>fcontent := _\<rparr>"])
  next
    case False
    then have "?rs = []" by simp
    with p have "poll cfg net horizon v = v\<lparr>w_timer := True\<rparr>"
      by (simp add: map_filter_simps)
    with False IH show ?thesis by (simp add: has_read_def min_def)
  qed
qed

text \<open>
  C4. Exactly-once, in-order delivery: if Horizon serves pages as documented, identifiers are
  distinct, the file is writable, and every page of 50 records holds a governance event, then after
  any number of polls the requests sent are precisely the deliveries of the governance events among
  the records read so far, each once and in stream order.
\<close>

theorem watcher_exactly_once:
  assumes "\<And>i c. horizon i c 50 = Inr (page L c)"
    and "distinct (map hr_id L)" and "js ''now'' \<notin> hr_id ` set L"
    and "\<forall>j. 50 * j < length L \<longrightarrow> (\<exists>r \<in> set (take 50 (drop (50 * j) L)). parseEvent r \<noteq> None)"
    and "fwritable (w_file w)" and "cursor (getStore (w_file w)) = js ''now''"
  shows "w_log ((poll cfg net horizon ^^ k) w) =
    w_log w @ deliveries (w_env cfg) (listSubscribers (w_file w))
      (List.map_filter parseEvent (take (50 * k) L))"
proof -
  have "has_read cfg L w (50 * k) ((poll cfg net horizon ^^ k) w)"
  proof (induction k)
    case 0
    with assms(5,6) show ?case by (simp add: has_read_def cursor_after_def map_filter_simps)
  next
    case (Suc k)
    have "50 * k < length L \<Longrightarrow> \<exists>r \<in> set (take 50 (drop (50 * k) L)). parseEvent r \<noteq> None"
      using assms(4) by blast
    from poll_reads_page [where horizon = horizon, OF assms(1,2,3) this Suc] show ?case by (simp add: add.commute)
  qed
  then show ?thesis by (simp only: has_read_def)
qed

theorem watcher_exactly_once_witness:
  "let L = [sample_record ''7-1'' ''final'', sample_record ''7-2'' ''paused''];
       horizon = (\<lambda>_ c _. Inr (page L c))
   in w_log ((poll sample_cfg (\<lambda>_ _. Inl (new_Error [])) horizon ^^ 3) sample_watcher) =
        deliveries sample_env [subscriber_of (js ''u1'') example_opts] (List.map_filter parseEvent L)"
proof -
  let ?L = "[sample_record ''7-1'' ''final'', sample_record ''7-2'' ''paused'']"
  let ?h = "\<lambda>_ c _. Inr (page ?L c)"
  have d: "distinct (map hr_id ?L)" "js ''now'' \<notin> hr_id ` set ?L"
    by (simp_all add: sample_record_def)
  have e: "\<forall>j. 50 * j < length ?L \<longrightarrow> (\<exists>r \<in> set (take 50 (drop (50 * j) ?L)). parseEvent r \<noteq> None)"
  proof (intro allI impI)
    fix j :: nat
    assume "50 * j < length ?L"
    then have "j = 0" by simp
    then show "\<exists>r \<in> set (take 50 (drop (50 * j) ?L)). parseEvent r \<noteq> None"
      by (simp add: parse_sample TRACKED_TOPICS_def)
  qed
  have w: "fwritable (w_file sample_watcher)" "cursor (getStore (w_file sample_watcher)) = js ''now''"
    by (simp_all add: sample_watcher_def getStore_def load_def)
  show ?thesis
    using watcher_exactly_once [where horizon = ?h and L = ?L and w = sample_watcher
        and cfg = sample_cfg and net = "\<lambda>_ _. Inl (new_Error [])" and k = 3, OF refl d e w]
    by (simp add: Let_def sample_watcher_def sample_cfg_def listSubscribers_def load_def)
qed

end
