(* ===== verification/Notify_Cli.thy ===== *)
theory Notify_Cli
  imports Notify_Watcher
begin

text \<open>
  \<^verbatim>\<open>notification-service/src/index.ts\<close>: the command line of the notification service.  The
  arguments are \<open>process.argv\<close>; what a run prints is a list of console lines, \<open>process.exit(1)\<close>
  is the exit status \<open>Some 1\<close>, and \<open>None\<close> means that \<open>main\<close> returned (or that the watcher
  it started keeps the process alive).  The two progress lines the watcher prints at its start are
  left out.
\<close>

section \<open>Definitions\<close>

definition ALL_EVENTS :: "GovernanceEventType list" where
  "ALL_EVENTS = [js ''created'', js ''voted'', js ''final'', js ''exec'', js ''cancel'']"

definition parseArgs :: "jstring list \<Rightarrow> jstring \<times> jstring list" where
  "parseArgs argv = (case drop 2 argv of [] \<Rightarrow> (js ''start'', []) | cmd # args \<Rightarrow> (cmd, args))"

fun index_of :: "'a \<Rightarrow> 'a list \<Rightarrow> nat option" where
  "index_of x [] = None"
| "index_of x (y # ys) = (if y = x then Some 0 else map_option Suc (index_of x ys))"

definition flag :: "jstring list \<Rightarrow> jstring \<Rightarrow> jstring option" where
  "flag args nm =
     (case index_of (js ''--'' @ nm) args of
        Some idx \<Rightarrow> if idx + 1 < length args then Some (args ! (idx + 1)) else None
      | None \<Rightarrow> None)"

definition parseEvents :: "jstring option \<Rightarrow> GovernanceEventType list" where
  "parseEvents raw =
     (case raw of
        Some s \<Rightarrow> if s = [] then ALL_EVENTS else map trim (split_on 44 s)
      | None \<Rightarrow> ALL_EVENTS)"

datatype console =
    Log jstring
  | LogSubscriber Subscriber
  | LogSubscribers "Subscriber list"
  | ConsoleError jstring
  | ConsoleErrorObj thrown

definition cli_opts :: "jstring list \<Rightarrow> sub_opts" where
  "cli_opts args =
     \<lparr>opt_proposalId = flag args (js ''proposal-id''),
      opt_events = parseEvents (flag args (js ''events'')),
      opt_email = flag args (js ''email''),
      opt_webhookUrl = flag args (js ''webhook''),
      opt_slackWebhookUrl = flag args (js ''slack''),
      opt_discordWebhookUrl = flag args (js ''discord'')\<rparr>"

type_synonym cli_run = "watcher \<times> console list \<times> nat option"

definition cmd_subscribe :: "jstring \<Rightarrow> jstring list \<Rightarrow> watcher \<Rightarrow> cli_run result" where
  "cmd_subscribe uuid args w =
     (let o' = cli_opts args
      in if \<not> truthy (opt_email o') \<and> \<not> truthy (opt_webhookUrl o')
            \<and> \<not> truthy (opt_slackWebhookUrl o') \<and> \<not> truthy (opt_discordWebhookUrl o')
         then Inr (w, [ConsoleError (js ''Error: at least one channel is required.'' @ [10]
                @ js ''Use: --email <addr>, --webhook <url>, --slack <url>, or --discord <url>'')], Some 1)
         else case addSubscriber uuid o' (w_file w) of
                Inl e \<Rightarrow> Inl e
              | Inr (subscriber, f) \<Rightarrow>
                  Inr (w\<lparr>w_file := f\<rparr>, [Log (js ''Subscriber added:''), LogSubscriber subscriber], None))"

definition cmd_unsubscribe :: "jstring list \<Rightarrow> watcher \<Rightarrow> cli_run result" where
  "cmd_unsubscribe args w =
     (case args of
        [] \<Rightarrow> Inr (w, [ConsoleError (js ''Usage: unsubscribe <id>'')], Some 1)
      | i # _ \<Rightarrow>
          if i = [] then Inr (w, [ConsoleError (js ''Usage: unsubscribe <id>'')], Some 1)
          else case removeSubscriber i (w_file w) of
                 Inl e \<Rightarrow> Inl e
               | Inr (removed, f) \<Rightarrow>
                   Inr (w\<lparr>w_file := f\<rparr>,
                        [Log (if removed then js ''Removed subscriber '' @ i
                              else js ''No subscriber found with id '' @ i)], None))"

definition main_body :: "watcher_cfg \<Rightarrow> net \<Rightarrow> horizon \<Rightarrow> jstring \<Rightarrow> jstring list \<Rightarrow> watcher
    \<Rightarrow> cli_run result" where
  "main_body cfg net horizon uuid argv w =
     (let (cmd, args) = parseArgs argv
      in if cmd = js ''start'' then
           (case startWatcher cfg net horizon w of Inl e \<Rightarrow> Inl e | Inr w' \<Rightarrow> Inr (w', [], None))
         else if cmd = js ''subscribe'' then cmd_subscribe uuid args w
         else if cmd = js ''unsubscribe'' then cmd_unsubscribe args w
         else if cmd = js ''list'' then Inr (w, [LogSubscribers (listSubscribers (w_file w))], None)
         else Inr (w, [ConsoleError (js ''Unknown command: '' @ cmd)], Some 1))"

definition main :: "watcher_cfg \<Rightarrow> net \<Rightarrow> horizon \<Rightarrow> jstring \<Rightarrow> jstring list \<Rightarrow> watcher
    \<Rightarrow> cli_run" where
  "main cfg net horizon uuid argv w =
     (case main_body cfg net horizon uuid argv w of
        Inl e \<Rightarrow> (w, [ConsoleErrorObj e], Some 1)
      | Inr r \<Rightarrow> r)"

section \<open>Flags\<close>

lemma index_of_bound: "index_of x xs = Some i \<Longrightarrow> i < length xs \<and> xs ! i = x"
proof (induction xs arbitrary: i)
  case Nil
  then show ?case by simp
next
  case (Cons y ys)
  then show ?case by (cases i) (auto split: if_splits)
qed

lemma index_of_append: "x \<notin> set pre \<Longrightarrow> index_of x (pre @ x # post) = Some (length pre)"
  by (induction pre) auto

lemma flag_after:
  "js ''--'' @ nm \<notin> set pre \<Longrightarrow> flag (pre @ (js ''--'' @ nm) # v # post) nm = Some v"
  by (simp add: flag_def index_of_append nth_append)

lemma flag_in_args: "flag args nm = Some v \<Longrightarrow> v \<in> set args"
  by (auto simp add: flag_def split: option.splits if_splits)

section \<open>Properties\<close>

lemma added_wants:
  assumes "addSubscriber u opts f = Inr (x, f')"
  shows "x \<in> set (matchingSubscribers t p f') \<longleftrightarrow>
    t \<in> set (opt_events opts) \<and> (truthy (opt_proposalId opts) \<longrightarrow> p = opt_proposalId opts)"
proof -
  from subs.added [OF assms] have x: "x = subscriber_of u opts"
    and "listSubscribers f' = listSubscribers f @ [x]" by auto
  then have "x \<in> set (matchingSubscribers t p f') \<longleftrightarrow> wants t p x"
    by (simp add: subs.matching_def)
  with x show ?thesis by (auto simp add: wants_def subscriber_of_def)
qed

lemma subscribe_runs:
  assumes "parseArgs argv = (js ''subscribe'', args)"
    and "truthy (flag args (js ''email'')) \<or> truthy (flag args (js ''webhook''))
      \<or> truthy (flag args (js ''slack'')) \<or> truthy (flag args (js ''discord''))"
    and "fwritable (w_file w)"
  obtains x f where "addSubscriber uuid (cli_opts args) (w_file w) = Inr (x, f)"
    and "main cfg net horizon uuid argv w =
      (w\<lparr>w_file := f\<rparr>, [Log (js ''Subscriber added:''), LogSubscriber x], None)"
proof -
  let ?o = "cli_opts args"
  have "has_channel (subscriber_of uuid ?o)"
    using assms(2) by (simp add: has_channel_def subscriber_of_def cli_opts_def)
  with assms(3) have "\<not> isl (addSubscriber uuid ?o (w_file w))"
    by (simp add: addSubscriber_fails_iff)
  then obtain x f where a: "addSubscriber uuid ?o (w_file w) = Inr (x, f)"
    by (cases "addSubscriber uuid ?o (w_file w)") auto
  have "cmd_subscribe uuid args w =
      Inr (w\<lparr>w_file := f\<rparr>, [Log (js ''Subscriber added:''), LogSubscriber x], None)"
    using assms(2) a by (auto simp add: cmd_subscribe_def cli_opts_def Let_def)
  with assms(1) have "main cfg net horizon uuid argv w =
      (w\<lparr>w_file := f\<rparr>, [Log (js ''Subscriber added:''), LogSubscriber x], None)"
    by (simp add: main_def main_body_def)
  with a that show ?thesis by blast
qed

text \<open>
  \<open>subscribe\<close> does what its flags say: with some non-empty channel flag and a writable file the
  command returns normally, stores one subscriber at the end of the list under the new identifier,
  and from then on an event reaches that subscriber exactly when its type is one of the
  comma-separated words of \<^verbatim>\<open>--events\<close> (of all five types without the flag) and, if
  \<^verbatim>\<open>--proposal-id\<close> was given, it is about that proposal.
\<close>

theorem cli_subscribe_matched:
  assumes "parseArgs argv = (js ''subscribe'', args)"
    and "truthy (flag args (js ''email'')) \<or> truthy (flag args (js ''webhook''))
      \<or> truthy (flag args (js ''slack'')) \<or> truthy (flag args (js ''discord''))"
    and "fwritable (w_file w)"
    and "main cfg net horizon uuid argv w = (w', out, status)"
  shows "\<exists>x. status = None \<and> out = [Log (js ''Subscriber added:''), LogSubscriber x]
    \<and> sub_id x = uuid \<and> listSubscribers (w_file w') = listSubscribers (w_file w) @ [x]
    \<and> (\<forall>t p. x \<in> set (matchingSubscribers t p (w_file w')) \<longleftrightarrow>
        t \<in> set (parseEvents (flag args (js ''events'')))
        \<and> (truthy (flag args (js ''proposal-id'')) \<longrightarrow> p = flag args (js ''proposal-id'')))"
proof -
  obtain x f where a: "addSubscriber uuid (cli_opts args) (w_file w) = Inr (x, f)"
    and m: "main cfg net horizon uuid argv w =
      (w\<lparr>w_file := f\<rparr>, [Log (js ''Subscriber added:''), LogSubscriber x], None)"
    using subscribe_runs [OF assms(1-3)] .
  with assms(4) subs.added [OF a] added_wants [OF a] show ?thesis
    by (auto simp add: subscriber_of_def cli_opts_def)
qed

definition sample_argv :: "jstring list" where
  "sample_argv = [js ''node'', js ''index.js'', js ''subscribe'', js ''--email'', js ''a@b.c'',
     js ''--events'', js ''final, exec'']"

lemma sample_parse:
  "parseArgs sample_argv =
     (js ''subscribe'', [js ''--email'', js ''a@b.c'', js ''--events'', js ''final, exec''])"
  by (simp add: parseArgs_def sample_argv_def numeral_2_eq_2)

theorem cli_subscribe_matched_witness:
  "\<exists>x. sub_id x = js ''u9''
     \<and> x \<in> set (matchingSubscribers (js ''exec'') (Some (js ''5''))
           (w_file (fst (main sample_cfg (\<lambda>_ _. Inr ()) (\<lambda>_ _ _. Inr []) (js ''u9'') sample_argv sample_watcher))))"
proof -
  let ?m = "main sample_cfg (\<lambda>_ _. Inr ()) (\<lambda>_ _ _. Inr []) (js ''u9'') sample_argv sample_watcher"
  let ?args = "[js ''--email'', js ''a@b.c'', js ''--events'', js ''final, exec'']"
  have em: "flag ?args (js ''email'') = Some (js ''a@b.c'')"
    and ev: "flag ?args (js ''events'') = Some (js ''final, exec'')"
    and np: "flag ?args (js ''proposal-id'') = None"
    by (simp_all add: flag_def js_append [symmetric])
  have e: "js ''exec'' \<in> set (parseEvents (flag ?args (js ''events'')))"
    unfolding ev by (simp add: parseEvents_def js_def of_char_def trim_def is_space_def)
  have wr: "fwritable (w_file sample_watcher)" by (simp add: sample_watcher_def)
  have ch: "truthy (flag ?args (js ''email'')) \<or> truthy (flag ?args (js ''webhook''))
      \<or> truthy (flag ?args (js ''slack'')) \<or> truthy (flag ?args (js ''discord''))"
    unfolding em by simp
  obtain w' out status where m: "?m = (w', out, status)" by (cases ?m) auto
  from cli_subscribe_matched [OF sample_parse ch wr m] e np show ?thesis
    unfolding m by auto
qed

text \<open>
  A command that ends with an exit status ends with status 1 and has had no effect: nothing
  was sent and the subscriptions file is as before.  So unknown commands, a \<open>subscribe\<close> without a
  channel, an \<open>unsubscribe\<close> without an identifier, a watcher without a contract id and every failing
  write are harmless.
\<close>

theorem cli_failure_is_harmless:
  assumes "main cfg net horizon uuid argv w = (w', out, Some c)"
  shows "c = 1 \<and> w' = w \<and> out \<noteq> []"
proof (cases "main_body cfg net horizon uuid argv w")
  case (Inl e)
  with assms show ?thesis by (auto simp add: main_def)
next
  case (Inr r)
  with assms have "main_body cfg net horizon uuid argv w = Inr (w', out, Some c)"
    by (simp add: main_def)
  then show ?thesis
    by (auto simp add: main_body_def cmd_subscribe_def cmd_unsubscribe_def Let_def
        split: prod.splits if_splits sum.splits list.splits)
qed

theorem cli_failure_is_harmless_witness:
  "let r = main sample_cfg (\<lambda>_ _. Inr ()) (\<lambda>_ _ _. Inr []) (js ''u9'')
         [js ''node'', js ''index.js'', js ''unsubscribe''] sample_watcher
   in snd (snd r) = Some 1 \<and> fst r = sample_watcher"
proof -
  let ?m = "main sample_cfg (\<lambda>_ _. Inr ()) (\<lambda>_ _ _. Inr []) (js ''u9'')
         [js ''node'', js ''index.js'', js ''unsubscribe''] sample_watcher"
  have m: "?m = (sample_watcher, [ConsoleError (js ''Usage: unsubscribe <id>'')], Some 1)"
    by (simp add: main_def main_body_def parseArgs_def cmd_unsubscribe_def numeral_2_eq_2)
  from cli_failure_is_harmless [OF m] m show ?thesis by simp
qed

end
