(* ===== verification/Backend_Service.thy ===== *)
theory Backend_Service
  imports JS_Prelude JS_Number
begin

text \<open>
  \<^verbatim>\<open>backend/src\<close>: the webhook service (\<^verbatim>\<open>notificationService.ts\<close>), its error tracking
  (\<^verbatim>\<open>errorTracking.ts\<close>) and its entry point (\<^verbatim>\<open>index.ts\<close>).  Axios and Sentry are outside: the
  replies of the RPC node and of the webhook are arguments, the calls to Sentry are a list.  The
  loop of \<open>start\<close> and \<open>stop\<close> is a transition system whose state has the armed timers and the rounds
  in flight; the effects of a round are recorded when it ends.
\<close>

section \<open>Error tracking\<close>

datatype extras =
    PollingExtras (ex_contractId: jstring) (ex_failures: nat) (ex_alert: bool)
  | DeliveryExtras (ex_webhookUrl: jstring) (ex_event: jstring)

record tracking =
  captured :: "(thrown \<times> extras option) list"
  stderr_log :: "(jstring \<times> extras option) list"

definition initErrorTracking :: "jstring option \<Rightarrow> bool \<times> jstring" where
  "initErrorTracking dsn =
     (if \<not> truthy dsn
      then (False, js ''[error-tracking] SENTRY_DSN not set '' @ [8212] @ js '' Sentry disabled, logging to stderr only'')
      else (True, js ''[error-tracking] Sentry initialised''))"

fun to_Error :: "thrown \<Rightarrow> thrown" where
  "to_Error (ErrorObj n m) = ErrorObj n m"
| "to_Error (OtherThrown s) = new_Error s"

definition captureError :: "thrown \<Rightarrow> extras option \<Rightarrow> tracking \<Rightarrow> tracking" where
  "captureError error context t =
     (let err = to_Error error
      in t\<lparr>captured := captured t @ [(err, context)],
           stderr_log := stderr_log t @ [(js ''[error-tracking] '' @ message_of err, context)]\<rparr>)"

section \<open>The service\<close>

definition MAX_POLL_FAILURES :: nat where
  "MAX_POLL_FAILURES = 3"

record WebhookPayload =
  pl_contractId :: jstring
  pl_event :: jstring
  pl_ledger :: jnum
  pl_data :: jstring

record NotificationServiceConfig =
  svc_rpcUrl :: jstring
  svc_contractId :: jstring
  svc_webhookUrl :: jstring
  svc_pollIntervalMs :: "jnum option"

text \<open>
  The reply to a poll: rejected, a body that is \<open>null\<close>, or a body whose \<open>events\<close> may be absent.
\<close>

datatype poll_reply = Rejected thrown | NullBody | Body "WebhookPayload list option"

record service =
  consecutiveFailures :: nat
  tracker :: tracking
  posts :: "(jstring \<times> WebhookPayload) list"
  alerts :: "nat list"

definition poll_failed :: "NotificationServiceConfig \<Rightarrow> thrown \<Rightarrow> service \<Rightarrow> service" where
  "poll_failed cfg err s =
     (let n = consecutiveFailures s + 1
      in s\<lparr>consecutiveFailures := n,
           tracker := captureError err
             (Some (PollingExtras (svc_contractId cfg) n (n \<ge> MAX_POLL_FAILURES))) (tracker s),
           alerts := (if n \<ge> MAX_POLL_FAILURES then alerts s @ [n] else alerts s)\<rparr>)"

definition null_body_error :: thrown where
  "null_body_error = ErrorObj (js ''TypeError'') (js ''Cannot read properties of null (reading 'events')'')"

definition pollEvents :: "NotificationServiceConfig \<Rightarrow> poll_reply \<Rightarrow> service
    \<Rightarrow> service \<times> WebhookPayload list" where
  "pollEvents cfg reply s =
     (case reply of
        Rejected err \<Rightarrow> (poll_failed cfg err s, [])
      | NullBody \<Rightarrow> (poll_failed cfg null_body_error (s\<lparr>consecutiveFailures := 0\<rparr>), [])
      | Body events \<Rightarrow> (s\<lparr>consecutiveFailures := 0\<rparr>, case events of Some es \<Rightarrow> es | None \<Rightarrow> []))"

definition deliverWebhook :: "NotificationServiceConfig \<Rightarrow> (WebhookPayload \<Rightarrow> unit result)
    \<Rightarrow> WebhookPayload \<Rightarrow> service \<Rightarrow> service" where
  "deliverWebhook cfg hook payload s =
     (let s' = s\<lparr>posts := posts s @ [(svc_webhookUrl cfg, payload)]\<rparr>
      in case hook payload of
           Inr _ \<Rightarrow> s'
         | Inl err \<Rightarrow> s'\<lparr>tracker := captureError err
              (Some (DeliveryExtras (svc_webhookUrl cfg) (pl_event payload))) (tracker s')\<rparr>)"

fun deliver_each :: "NotificationServiceConfig \<Rightarrow> (WebhookPayload \<Rightarrow> unit result)
    \<Rightarrow> WebhookPayload list \<Rightarrow> service \<Rightarrow> service" where
  "deliver_each cfg hook [] s = s"
| "deliver_each cfg hook (p # ps) s = deliver_each cfg hook ps (deliverWebhook cfg hook p s)"

definition runOnce :: "NotificationServiceConfig \<Rightarrow> poll_reply \<Rightarrow> (WebhookPayload \<Rightarrow> unit result)
    \<Rightarrow> service \<Rightarrow> service" where
  "runOnce cfg reply hook s =
     (let (s', events) = pollEvents cfg reply s in deliver_each cfg hook events s')"

section \<open>The loop\<close>

record svc_loop =
  running :: bool
  svc_timer :: "nat option"
  armed :: "nat list"
  in_flight :: nat
  next_handle :: nat
  rounds :: nat
  lp_service :: service

datatype svc_action = Start | Stop | RoundEnds poll_reply "WebhookPayload \<Rightarrow> unit result" | Fires nat

definition tick :: "svc_loop \<Rightarrow> svc_loop" where
  "tick l = (if \<not> running l then l
     else l\<lparr>in_flight := in_flight l + 1, rounds := rounds l + 1\<rparr>)"

definition start :: "svc_loop \<Rightarrow> svc_loop" where
  "start l = tick (l\<lparr>running := True\<rparr>)"

definition stop :: "svc_loop \<Rightarrow> svc_loop" where
  "stop l =
     (let l' = l\<lparr>running := False\<rparr>
      in case svc_timer l of
           None \<Rightarrow> l'
         | Some h \<Rightarrow> l'\<lparr>armed := filter (\<lambda>a. a \<noteq> h) (armed l')\<rparr>)"

definition round_ends :: "NotificationServiceConfig \<Rightarrow> poll_reply \<Rightarrow> (WebhookPayload \<Rightarrow> unit result)
    \<Rightarrow> svc_loop \<Rightarrow> svc_loop" where
  "round_ends cfg reply hook l =
     l\<lparr>lp_service := runOnce cfg reply hook (lp_service l),
       in_flight := in_flight l - 1,
       svc_timer := Some (next_handle l),
       armed := armed l @ [next_handle l],
       next_handle := next_handle l + 1\<rparr>"

fun svc_step :: "NotificationServiceConfig \<Rightarrow> svc_action \<Rightarrow> svc_loop \<Rightarrow> svc_loop option" where
  "svc_step cfg Start l = Some (start l)"
| "svc_step cfg Stop l = Some (stop l)"
| "svc_step cfg (RoundEnds reply hook) l =
     (if in_flight l = 0 then None else Some (round_ends cfg reply hook l))"
| "svc_step cfg (Fires h) l =
     (if h \<in> set (armed l) then Some (tick (l\<lparr>armed := remove1 h (armed l)\<rparr>)) else None)"

fun svc_run :: "NotificationServiceConfig \<Rightarrow> svc_action list \<Rightarrow> svc_loop \<Rightarrow> svc_loop option" where
  "svc_run cfg [] l = Some l"
| "svc_run cfg (a # as) l = (case svc_step cfg a l of None \<Rightarrow> None | Some l' \<Rightarrow> svc_run cfg as l')"

definition poll_delay :: "NotificationServiceConfig \<Rightarrow> jnum" where
  "poll_delay cfg = (case svc_pollIntervalMs cfg of Some d \<Rightarrow> d | None \<Rightarrow> Fin 6000)"

definition initial_service :: service where
  "initial_service = \<lparr>consecutiveFailures = 0, tracker = \<lparr>captured = [], stderr_log = []\<rparr>,
     posts = [], alerts = []\<rparr>"

definition initial_loop :: svc_loop where
  "initial_loop = \<lparr>running = False, svc_timer = None, armed = [], in_flight = 0, next_handle = 0,
     rounds = 0, lp_service = initial_service\<rparr>"

section \<open>The entry point\<close>

record backend_env =
  STELLAR_RPC_URL :: "jstring option"
  GOVERNANCE_CONTRACT_ID :: "jstring option"
  WEBHOOK_URL :: "jstring option"
  POLL_INTERVAL_MS :: "jstring option"

definition backend_config :: "backend_env \<Rightarrow> NotificationServiceConfig" where
  "backend_config env =
     \<lparr>svc_rpcUrl = (case STELLAR_RPC_URL env of Some u \<Rightarrow> u | None \<Rightarrow> js ''http://localhost:8000''),
      svc_contractId = (case GOVERNANCE_CONTRACT_ID env of Some i \<Rightarrow> i | None \<Rightarrow> []),
      svc_webhookUrl = (case WEBHOOK_URL env of Some u \<Rightarrow> u | None \<Rightarrow> []),
      svc_pollIntervalMs = Some (case POLL_INTERVAL_MS env of
         Some s \<Rightarrow> js_Number s | None \<Rightarrow> Fin 6000)\<rparr>"

definition default_config :: NotificationServiceConfig where
  "default_config = backend_config \<lparr>STELLAR_RPC_URL = None, GOVERNANCE_CONTRACT_ID = None,
     WEBHOOK_URL = None, POLL_INTERVAL_MS = None\<rparr>"

definition shutdown :: "svc_loop \<Rightarrow> svc_loop \<times> nat" where
  "shutdown l = (stop l, 0)"

section \<open>Rounds\<close>

lemma captureError_captured [simp]:
  "captured (captureError e c t) = captured t @ [(to_Error e, c)]"
  by (simp add: captureError_def Let_def)

definition delivery_errors :: "NotificationServiceConfig \<Rightarrow> (WebhookPayload \<Rightarrow> unit result)
    \<Rightarrow> WebhookPayload list \<Rightarrow> (thrown \<times> extras option) list" where
  "delivery_errors cfg hook ps =
     concat (map (\<lambda>p. case hook p of
         Inl e \<Rightarrow> [(to_Error e, Some (DeliveryExtras (svc_webhookUrl cfg) (pl_event p)))]
       | Inr _ \<Rightarrow> []) ps)"

lemma deliver_each_effects:
  "posts (deliver_each cfg hook ps s) = posts s @ map (Pair (svc_webhookUrl cfg)) ps
   \<and> captured (tracker (deliver_each cfg hook ps s)) =
       captured (tracker s) @ delivery_errors cfg hook ps
   \<and> consecutiveFailures (deliver_each cfg hook ps s) = consecutiveFailures s
   \<and> alerts (deliver_each cfg hook ps s) = alerts s"
  by (induction ps arbitrary: s)
     (auto simp add: deliverWebhook_def delivery_errors_def Let_def split: sum.splits)

text \<open>
  A round that polls successfully posts every event to the webhook exactly once, in order and
  whatever the earlier posts answered; it reports each failed delivery, and nothing else, to error
  tracking, and it resets the failure counter.
\<close>

theorem runOnce_posts_every_event:
  "posts (runOnce cfg (Body (Some es)) hook s) = posts s @ map (Pair (svc_webhookUrl cfg)) es
   \<and> captured (tracker (runOnce cfg (Body (Some es)) hook s)) =
       captured (tracker s) @ delivery_errors cfg hook es
   \<and> consecutiveFailures (runOnce cfg (Body (Some es)) hook s) = 0"
  using deliver_each_effects [of cfg hook es "s\<lparr>consecutiveFailures := 0\<rparr>"]
  by (simp add: runOnce_def pollEvents_def)

section \<open>The failure counter\<close>

definition polls :: "NotificationServiceConfig \<Rightarrow> poll_reply list \<Rightarrow> service \<Rightarrow> service" where
  "polls cfg rs s = fold (\<lambda>r s. fst (pollEvents cfg r s)) rs s"

fun is_Rejected :: "poll_reply \<Rightarrow> bool" where
  "is_Rejected (Rejected e) = True"
| "is_Rejected _ = False"

lemma polls_snoc [simp]: "polls cfg (rs @ [r]) s = fst (pollEvents cfg r (polls cfg rs s))"
  by (simp add: polls_def)

lemma counter_trailing:
  assumes "NullBody \<notin> set rs"
  shows "consecutiveFailures (polls cfg rs initial_service) = length (takeWhile is_Rejected (rev rs))"
  using assms
proof (induction rs rule: rev_induct)
  case Nil
  then show ?case by (simp add: polls_def initial_service_def)
next
  case (snoc r rs)
  then show ?case
    by (cases r) (auto simp add: pollEvents_def poll_failed_def Let_def)
qed

text \<open>
  The alert counts consecutive failures: as long as every answered poll has a body, a rejected
  poll is reported with the number of rejections since the last success, and it is flagged as an
  alert exactly from the third on.
\<close>

theorem poll_failure_alert:
  assumes "NullBody \<notin> set rs"
  shows "\<exists>e'. last (captured (tracker (polls cfg (rs @ [Rejected e]) initial_service))) =
      (e', Some (PollingExtras (svc_contractId cfg)
        (length (takeWhile is_Rejected (rev (rs @ [Rejected e]))))
        (3 \<le> length (takeWhile is_Rejected (rev (rs @ [Rejected e]))))))"
  using counter_trailing [OF assms, of cfg]
  by (simp add: pollEvents_def poll_failed_def Let_def MAX_POLL_FAILURES_def)

theorem poll_failure_alert_witness:
  "\<exists>e'. last (captured (tracker (polls default_config ([Body None, Rejected (OtherThrown []), Rejected (OtherThrown [])]
      @ [Rejected (OtherThrown [])]) initial_service))) =
      (e', Some (PollingExtras (svc_contractId default_config) 3 True))"
  using poll_failure_alert [of "[Body None, Rejected (OtherThrown []), Rejected (OtherThrown [])]" default_config "OtherThrown []"]
  by (simp add: numeral_3_eq_3)

text \<open>
  A reply without a body never raises the alert: the counter is reset before the body is read,
  so however often the node answers with \<open>null\<close>, the count stays at one and no alert is recorded.
\<close>

theorem null_bodies_never_alert:
  "alerts (polls cfg (replicate n NullBody) initial_service) = []
   \<and> consecutiveFailures (polls cfg (replicate n NullBody) initial_service) = (if n = 0 then 0 else 1)"
proof (induction n)
  case 0
  then show ?case by (simp add: polls_def initial_service_def)
next
  case (Suc n)
  have "replicate (Suc n) NullBody = replicate n NullBody @ [NullBody]"
    by (simp add: replicate_append_same)
  with Suc show ?case
    by (simp add: pollEvents_def poll_failed_def Let_def MAX_POLL_FAILURES_def)
qed

section \<open>Starting and stopping\<close>

definition activity :: "svc_loop \<Rightarrow> nat" where
  "activity l = 2 * in_flight l + length (armed l)"

fun is_Stop :: "svc_action \<Rightarrow> bool" where
  "is_Stop Stop = True"
| "is_Stop _ = False"

lemma stopped_step:
  assumes "svc_step cfg a l = Some l'" and "a \<noteq> Start" and "\<not> running l"
  shows "\<not> running l' \<and> rounds l' = rounds l
    \<and> (if is_Stop a then activity l' \<le> activity l else activity l' < activity l)"
proof (cases a)
  case Start
  with assms show ?thesis by simp
next
  case Stop
  with assms show ?thesis
    by (auto simp add: stop_def activity_def Let_def split: option.splits)
next
  case (RoundEnds r h)
  with assms show ?thesis by (auto simp add: round_ends_def activity_def split: if_splits)
next
  case (Fires h)
  with assms have "h \<in> set (armed l)" by (auto split: if_splits)
  then have "0 < length (armed l)" by (auto simp add: length_pos_if_in_set)
  with Fires assms show ?thesis
    by (auto simp add: tick_def activity_def length_remove1 split: if_splits)
qed

lemma stopped_run:
  assumes "svc_run cfg as l = Some l'" and "Start \<notin> set as" and "\<not> running l"
  shows "\<not> running l' \<and> rounds l' = rounds l
    \<and> length (filter (\<lambda>a. \<not> is_Stop a) as) + activity l' \<le> activity l"
  using assms
proof (induction as arbitrary: l)
  case Nil
  then show ?case by simp
next
  case (Cons a as)
  then obtain m where m: "svc_step cfg a l = Some m" and r: "svc_run cfg as m = Some l'"
    by (auto split: option.splits)
  from Cons.prems have "a \<noteq> Start" by auto
  from stopped_step [OF m this Cons.prems(3)] Cons.IH [OF r] Cons.prems
  show ?case by (auto split: if_splits)
qed

text \<open>
  C24. \<open>stop\<close> is final: after it, and until the next \<open>start\<close>, no poll begins, even if a round was in
  flight and armed a timer after the stop; and the loop dies out, after at most two steps per round
  in flight and one per armed timer.
\<close>

theorem stop_is_final:
  assumes "svc_run cfg as (stop l) = Some l'" and "Start \<notin> set as"
  shows "rounds l' = rounds l \<and> \<not> running l'
    \<and> length (filter (\<lambda>a. \<not> is_Stop a) as) \<le> 2 * in_flight l + length (armed l)"
proof -
  have s: "\<not> running (stop l)" "rounds (stop l) = rounds l" "activity (stop l) \<le> activity l"
    by (auto simp add: stop_def activity_def Let_def split: option.splits)
  from stopped_run [OF assms s(1)] s(2,3) show ?thesis
    unfolding activity_def by linarith
qed

theorem stop_is_final_witness:
  "\<exists>l'. svc_run default_config [RoundEnds (Body None) (\<lambda>_. Inr ()), Fires 0]
      (stop (start initial_loop)) = Some l' \<and> rounds l' = 1 \<and> \<not> running l'"
proof -
  let ?c = "default_config"
  let ?as = "[RoundEnds (Body None) (\<lambda>_. Inr ()), Fires 0]"
  have "svc_run ?c ?as (stop (start initial_loop)) \<noteq> None"
    by (simp add: start_def tick_def stop_def initial_loop_def round_ends_def)
  then obtain l' where l: "svc_run ?c ?as (stop (start initial_loop)) = Some l'" by blast
  have "rounds (start initial_loop) = 1" by (simp add: start_def tick_def initial_loop_def)
  with stop_is_final [OF l] l show ?thesis by simp
qed

lemma single_step:
  assumes "svc_step cfg a l = Some l'" and "a \<noteq> Start" and "in_flight l + length (armed l) \<le> 1"
  shows "in_flight l' + length (armed l') \<le> 1"
proof (cases a)
  case Start
  with assms show ?thesis by simp
next
  case Stop
  with assms(1) have "in_flight l' = in_flight l \<and> length (armed l') \<le> length (armed l)"
    by (auto simp add: stop_def Let_def split: option.splits)
  with assms(3) show ?thesis by linarith
next
  case (RoundEnds r h)
  with assms(1) have "0 < in_flight l" and l': "l' = round_ends cfg r h l"
    by (auto split: if_splits)
  with assms(3) have "in_flight l = 1" "length (armed l) = 0" by linarith+
  then show ?thesis by (simp add: l' round_ends_def)
next
  case (Fires h)
  with assms have "h \<in> set (armed l)" by (auto split: if_splits)
  then have "0 < length (armed l)" by (auto simp add: length_pos_if_in_set)
  with assms(3) have "in_flight l = 0" "length (armed l) = 1" by linarith+
  with Fires assms(1) show ?thesis
    by (auto simp add: tick_def length_remove1 split: if_splits)
qed

lemma single_run:
  assumes "svc_run cfg as l = Some l'" and "Start \<notin> set as" and "in_flight l + length (armed l) \<le> 1"
  shows "in_flight l' + length (armed l') \<le> 1"
  using assms
proof (induction as arbitrary: l)
  case Nil
  then show ?case by simp
next
  case (Cons a as)
  then obtain m where m: "svc_step cfg a l = Some m" and r: "svc_run cfg as m = Some l'"
    by (auto split: option.splits)
  from Cons.prems have "a \<noteq> Start" "Start \<notin> set as" by auto
  with single_step [OF m _ Cons.prems(3)] Cons.IH [OF r] show ?case by blast
qed

text \<open>
  One \<open>start\<close> is one loop: whatever happens after it, at most one round is in flight or one
  timer armed, never both, so rounds do not overlap.
\<close>

theorem one_start_one_loop:
  assumes "svc_run cfg (Start # as) initial_loop = Some l" and "Start \<notin> set as"
  shows "in_flight l + length (armed l) \<le> 1"
proof -
  have "in_flight (start initial_loop) + length (armed (start initial_loop)) \<le> 1"
    by (simp add: start_def tick_def initial_loop_def)
  with assms single_run show ?thesis by (metis option.simps(5) svc_run.simps(2) svc_step.simps(1))
qed

theorem one_start_one_loop_witness:
  "\<exists>l. svc_run default_config [Start, RoundEnds (Body None) (\<lambda>_. Inr ()), Fires 0]
      initial_loop = Some l \<and> in_flight l + length (armed l) \<le> 1 \<and> rounds l = 2"
proof -
  let ?c = "default_config"
  let ?as = "[RoundEnds (Body None) (\<lambda>_. Inr ()), Fires 0]"
  have "(case svc_run ?c (Start # ?as) initial_loop of None \<Rightarrow> False | Some l \<Rightarrow> rounds l = 2)"
    by (simp add: start_def tick_def initial_loop_def round_ends_def)
  then obtain l where l: "svc_run ?c (Start # ?as) initial_loop = Some l" "rounds l = 2"
    by (auto split: option.splits)
  from one_start_one_loop [OF l(1)] l show ?thesis by auto
qed

text \<open>
  Restarting while a round is in flight leaves two loops: \<open>stop\<close> does not cancel the round, and
  after the next \<open>start\<close> both rounds end by arming a timer of their own.
\<close>

theorem restart_doubles_loop:
  "\<exists>l. svc_run cfg [Start, Stop, Start, RoundEnds r h, RoundEnds r' h'] initial_loop = Some l
    \<and> length (armed l) = 2 \<and> running l"
  by (simp add: start_def stop_def tick_def initial_loop_def round_ends_def)

end
