(* ===== verification/Contract_Errors.thy ===== *)
theory Contract_Errors
  imports JS_Prelude
begin

text \<open>
  \<^verbatim>\<open>frontend/src/errors.ts\<close>: the catalogue of contract errors shown to users, beside the codes
  the contracts return (\<open>ContractError\<close> of \<^verbatim>\<open>contracts/governance/src/types.rs\<close> and
  the enumeration of the same name in \<^verbatim>\<open>contracts/token/src/types.rs\<close>).
\<close>

section \<open>The catalogue\<close>

record ErrorMessage =
  em_code :: nat
  em_name :: string
  em_description :: jstring
  em_commonCause :: jstring
  em_resolution :: jstring

definition msg :: "nat \<Rightarrow> string \<Rightarrow> jstring \<Rightarrow> jstring \<Rightarrow> jstring \<Rightarrow> ErrorMessage" where
  "msg c n d cause r =
     \<lparr>em_code = c, em_name = n, em_description = d, em_commonCause = cause, em_resolution = r\<rparr>"

definition governance_messages :: "(string \<times> ErrorMessage) list" where
  "governance_messages =
     [(''AlreadyInitialized'', msg 1 ''AlreadyInitialized''
        (js ''The contract has already been initialized and cannot be initialized again.'')
        (js ''The frontend attempted to initialize a contract that is already deployed and configured.'')
        (js ''Skip contract initialization or use the existing deployed contract address.'')),
      (''NotInitialized'', msg 2 ''NotInitialized''
        (js ''The contract has not been initialized yet and is not ready for use.'')
        (js ''A contract action was called before the initial setup step completed.'')
        (js ''Ensure the contract has been initialized before invoking other methods.'')),
      (''ProposalNotFound'', msg 10 ''ProposalNotFound''
        (js ''The requested proposal could not be found on-chain.'')
        (js ''The proposal ID is invalid or the proposal does not exist.'')
        (js ''Refresh proposal data and verify the proposal ID.'')),
      (''ProposalNotActive'', msg 11 ''ProposalNotActive''
        (js ''The proposal is not currently in an active voting state.'')
        (js ''The user attempted to vote on a proposal that is pending, passed, rejected, or cancelled.'')
        (js ''Only vote on active proposals and refresh proposal state.'')),
      (''ProposalNotPassed'', msg 12 ''ProposalNotPassed''
        (js ''The proposal did not pass and cannot be executed.'')
        (js ''The proposal failed quorum or majority requirements.'')
        (js ''Check proposal results and review voting thresholds before execution.'')),
      (''InvalidTitle'', msg 13 ''InvalidTitle''
        (js ''The proposal title is missing or exceeds the supported length.'')
        (js ''User entered an empty title or a title longer than 128 characters.'')
        (js ''Use a non-empty title with 128 characters or fewer.'')),
      (''InvalidDescription'', msg 14 ''InvalidDescription''
        (js ''The proposal description is missing or exceeds the supported length.'')
        (js ''User entered an empty description or a description longer than 1024 characters.'')
        (js ''Use a non-empty description with 1024 characters or fewer.'')),
      (''InvalidQuorum'', msg 15 ''InvalidQuorum''
        (js ''The specified quorum is invalid for this proposal.'')
        (js ''Quorum is zero, negative, or otherwise unsupported.'')
        (js ''Choose a quorum greater than zero and within the allowed range.'')),
      (''QuorumExceedsSupply'', msg 16 ''QuorumExceedsSupply''
        (js ''The quorum requirement is higher than the total token supply.'')
        (js ''Quorum was set too high compared to available voting supply.'')
        (js ''Set a quorum value that is no larger than the total token supply.'')),
      (''InvalidDurationRange'', msg 17 ''InvalidDurationRange''
        (js ''The voting duration is outside the allowed contract limits.'')
        (js ''The selected duration is shorter than 60 seconds or longer than the maximum allowed.'')
        (js ''Choose a valid voting duration within the allowed interval.'')),
      (''InsufficientBalance'', msg 18 ''InsufficientBalance''
        (js ''The account balance is too low to create a proposal or perform a token action.'')
        (js ''User has insufficient tokens for proposal creation, transfer, or voting operations.'')
        (js ''Hold enough tokens in the account or use a different account with sufficient balance.'')),
      (''ProposalCooldown'', msg 19 ''ProposalCooldown''
        (js ''The proposer is still in a cooldown period and cannot submit another proposal yet.'')
        (js ''A proposal was created too recently and the cooldown timer has not expired.'')
        (js ''Wait until the proposer cooldown period ends before submitting another proposal.'')),
      (''VotingNotStarted'', msg 20 ''VotingNotStarted''
        (js ''Voting has not started for this proposal yet.'')
        (js ''The proposal voting window is not open yet.'')
        (js ''Wait until voting begins before casting a vote.'')),
      (''VotingPeriodEnded'', msg 21 ''VotingPeriodEnded''
        (js ''The voting period has already ended for this proposal.'')
        (js ''The proposal voting window is closed.'')
        (js ''Review proposal results instead of attempting to vote.'')),
      (''VotingStillOpen'', msg 22 ''VotingStillOpen''
        (js ''The proposal voting period is still open and cannot be finalized yet.'')
        (js ''A finalization or execution action was attempted before voting ended.'')
        (js ''Wait for the voting period to finish before finalizing or executing.'')),
      (''AlreadyVoted'', msg 23 ''AlreadyVoted''
        (js ''The voter has already voted on this proposal.'')
        (js ''The same account attempted to vote more than once on the same proposal.'')
        (js ''Use a different account or view the existing vote status.'')),
      (''NoVotingPower'', msg 24 ''NoVotingPower''
        (js ''The account has no voting power for this proposal.'')
        (js ''The voter holds zero governance tokens or voting power is not available.'')
        (js ''Acquire governance tokens before attempting to vote.'')),
      (''AdminVoteRestricted'', msg 25 ''AdminVoteRestricted''
        (js ''The admin is not allowed to vote on their own proposals.'')
        (js ''An admin account tried to vote on a proposal it created or controls.'')
        (js ''Use a non-admin account to vote on the proposal.'')),
      (''VoteNotFound'', msg 26 ''VoteNotFound''
        (js ''No vote record was found for the given voter and proposal.'')
        (js ''The user has not voted yet or the wrong proposal ID was queried.'')
        (js ''Confirm the proposal ID and vote status, then vote if needed.'')),
      (''NotAdmin'', msg 30 ''NotAdmin''
        (js ''The caller is not authorized as the admin for the contract action.'')
        (js ''A restricted admin-only operation was attempted from a non-admin account.'')
        (js ''Use the admin account or remove the admin-only restriction.'')),
      (''InvalidNewAdmin'', msg 31 ''InvalidNewAdmin''
        (js ''The new admin address provided is invalid.'')
        (js ''An incorrect or malformed address was supplied when changing admin.'')
        (js ''Verify and provide a valid Stellar address for the new admin.''))]"

definition later_messages :: "(string \<times> ErrorMessage) list" where
  "later_messages =
     [(''ContractPaused'', msg 40 ''ContractPaused''
        (js ''The contract is currently paused and cannot perform this action.'')
        (js ''The admin paused the contract for maintenance or security reasons.'')
        (js ''Wait until the contract is unpaused or contact the administrator.'')),
      (''NotPaused'', msg 41 ''NotPaused''
        (js ''The contract is not paused and cannot be unpaused.'')
        (js ''An unpause action was attempted when the contract is already active.'')
        (js ''Verify contract state before calling unpause.'')),
      (''ArithmeticOverflow'', msg 50 ''ArithmeticOverflow''
        (js ''An arithmetic operation exceeded the contract'' @ [8217] @ js ''s safe numeric range.'')
        (js ''A numeric computation overflowed during vote or balance calculations.'')
        (js ''Retry with valid values and check the contract configuration.'')),
      (''InvalidAmount'', msg 20 ''InvalidAmount''
        (js ''The token transfer amount is invalid or non-positive.'')
        (js ''The user attempted to send zero or negative tokens.'')
        (js ''Send a positive amount greater than zero.'')),
      (''AllowanceExceeded'', msg 22 ''AllowanceExceeded''
        (js ''The spender'' @ [8217] @ js ''s allowance is insufficient for the requested transfer.'')
        (js ''A transfer-with-allowance was attempted without enough approved funds.'')
        (js ''Increase the allowance or use a smaller transfer amount.''))]"

definition ERROR_MESSAGES :: "(string \<times> ErrorMessage) list" where
  "ERROR_MESSAGES = governance_messages @ later_messages"

lemmas message_defs = ERROR_MESSAGES_def governance_messages_def later_messages_def msg_def

section \<open>The contracts' codes\<close>

definition ContractError :: "(string \<times> nat) list" where
  "ContractError =
     [(''AlreadyInitialized'', 1), (''NotInitialized'', 2), (''ProposalNotFound'', 10),
      (''ProposalNotActive'', 11), (''ProposalNotPassed'', 12), (''InvalidTitle'', 13),
      (''InvalidDescription'', 14), (''InvalidQuorum'', 15), (''QuorumExceedsSupply'', 16),
      (''InvalidDurationRange'', 17), (''InsufficientBalance'', 18), (''ProposalCooldown'', 19),
      (''QuorumBelowFloor'', 20), (''ProposalsStillActive'', 21), (''VotingNotStarted'', 22),
      (''VotingPeriodEnded'', 23), (''VotingStillOpen'', 24), (''AlreadyVoted'', 25),
      (''NoVotingPower'', 26), (''AdminVoteRestricted'', 27), (''VoteNotFound'', 28),
      (''VoteAlreadySame'', 29), (''NotAdmin'', 30), (''InvalidNewAdmin'', 31),
      (''QuorumUpdateNotAllowed'', 32), (''NoPendingAdmin'', 33), (''NotPendingAdmin'', 34),
      (''NotProposer'', 35), (''VotesAlreadyCast'', 36), (''InvalidLink'', 37),
      (''ContractPaused'', 40), (''NotPaused'', 41), (''ArithmeticOverflow'', 50),
      (''ExecutionFailed'', 60)]"

definition TokenContractError :: "(string \<times> nat) list" where
  "TokenContractError =
     [(''AlreadyInitialized'', 1), (''NotInitialized'', 2), (''NotAdmin'', 10),
      (''InvalidNewAdmin'', 11), (''InvalidAmount'', 20), (''InsufficientBalance'', 21),
      (''AllowanceExceeded'', 22), (''CannotDelegateSelf'', 30), (''AlreadyDelegating'', 31),
      (''NotDelegating'', 32), (''InvalidExpiry'', 40), (''NoPendingAdmin'', 50),
      (''NotPendingAdmin'', 51), (''ContractPaused'', 60), (''NotPaused'', 61)]"

section \<open>Properties\<close>

text \<open>Name and code of every entry: what the comparisons below need of the catalogue.\<close>

definition catalogue :: "(string \<times> nat) list" where
  "catalogue = map (\<lambda>(k, m). (k, em_code m)) ERROR_MESSAGES"

lemma catalogue_eq:
  "catalogue =
     [(''AlreadyInitialized'', 1), (''NotInitialized'', 2), (''ProposalNotFound'', 10),
      (''ProposalNotActive'', 11), (''ProposalNotPassed'', 12), (''InvalidTitle'', 13),
      (''InvalidDescription'', 14), (''InvalidQuorum'', 15), (''QuorumExceedsSupply'', 16),
      (''InvalidDurationRange'', 17), (''InsufficientBalance'', 18), (''ProposalCooldown'', 19),
      (''VotingNotStarted'', 20), (''VotingPeriodEnded'', 21), (''VotingStillOpen'', 22),
      (''AlreadyVoted'', 23), (''NoVotingPower'', 24), (''AdminVoteRestricted'', 25),
      (''VoteNotFound'', 26), (''NotAdmin'', 30), (''InvalidNewAdmin'', 31),
      (''ContractPaused'', 40), (''NotPaused'', 41), (''ArithmeticOverflow'', 50),
      (''InvalidAmount'', 20), (''AllowanceExceeded'', 22)]"
  by (simp add: catalogue_def message_defs)

text \<open>
  The catalogue is well formed: every key is the \<open>name\<close> of its entry, keys are unique, and
  every entry has a description, a cause and a resolution to show.
\<close>

theorem error_catalogue_wellformed:
  "list_all (\<lambda>(k, m). em_name m = k
      \<and> em_description m \<noteq> [] \<and> em_commonCause m \<noteq> [] \<and> em_resolution m \<noteq> []) ERROR_MESSAGES
   \<and> distinct (map fst ERROR_MESSAGES)"
  by (simp add: message_defs)

text \<open>
  The codes against the contracts: exactly seven entries of the catalogue, all about voting,
  have a code that neither contract returns under that name; two codes, 20 and 22, stand for two
  different errors each; and ten errors of the governance contract are not in the catalogue.
\<close>

theorem error_codes_vs_contract:
  "filter (\<lambda>(n, c). map_of ContractError n \<noteq> Some c \<and> map_of TokenContractError n \<noteq> Some c) catalogue =
     [(''VotingNotStarted'', 20), (''VotingPeriodEnded'', 21), (''VotingStillOpen'', 22),
      (''AlreadyVoted'', 23), (''NoVotingPower'', 24), (''AdminVoteRestricted'', 25),
      (''VoteNotFound'', 26)]
   \<and> map fst (filter (\<lambda>(n, c). c = 20) catalogue) = [''VotingNotStarted'', ''InvalidAmount'']
   \<and> map fst (filter (\<lambda>(n, c). c = 22) catalogue) = [''VotingStillOpen'', ''AllowanceExceeded'']
   \<and> length (filter (\<lambda>(n, c). n \<notin> fst ` set catalogue) ContractError) = 10"
proof (intro conjI)
  show "filter (\<lambda>(n, c). map_of ContractError n \<noteq> Some c \<and> map_of TokenContractError n \<noteq> Some c) catalogue =
     [(''VotingNotStarted'', 20), (''VotingPeriodEnded'', 21), (''VotingStillOpen'', 22),
      (''AlreadyVoted'', 23), (''NoVotingPower'', 24), (''AdminVoteRestricted'', 25),
      (''VoteNotFound'', 26)]"
    by (simp add: catalogue_eq ContractError_def TokenContractError_def)
qed (simp_all add: catalogue_eq ContractError_def)

end
