(* ===== verification/Contract_Types.thy ===== *)
theory Contract_Types
  imports JS_Prelude JS_Number
begin

text \<open>
  \<^verbatim>\<open>frontend/src/types.ts\<close> and \<^verbatim>\<open>frontend/src/events.ts\<close>: the data the front end exchanges with the
  contracts, and its catalogue of on-chain events.  A \<open>bigint\<close> is an \<open>int\<close>, a \<open>number\<close> a \<open>jnum\<close>.
  The topics the governance contract publishes (\<^verbatim>\<open>contracts/governance/src/events.rs\<close>) are listed
  beside them for comparison.
\<close>

section \<open>Types\<close>

datatype ProposalState = Active | Passed | Rejected | Executed | Cancelled

datatype VoteType = Yes | No | Abstain

record Proposal =
  prop_id :: int
  proposer :: jstring
  title :: jstring
  description :: jstring
  cancellation_reason :: "jstring option"
  votes_yes :: int
  votes_no :: int
  votes_abstain :: int
  quorum :: int
  start_time :: int
  end_time :: int
  state :: ProposalState

record VoteRecord =
  vr_vote :: VoteType
  vr_weight :: int

record NetworkConfig =
  rpcUrl :: jstring
  networkPassphrase :: jstring
  governanceContractId :: jstring
  tokenContractId :: jstring
  treasuryContractId :: jstring

datatype TreasuryProposalType = Transfer | Allocation | Spend | Freeze

record TreasuryInfo =
  ti_contractId :: jstring
  ti_balance :: int
  ti_pendingTransfers :: jnum
  ti_isActive :: bool

record TreasuryProposal =
  tp_proposal :: Proposal
  tp_treasuryType :: TreasuryProposalType
  tp_targetAddress :: jstring
  tp_amount :: int

record VoteHistoryEntry =
  vh_proposalId :: int
  vh_proposalTitle :: jstring
  vh_vote :: VoteType
  vh_weight :: int
  vh_timestamp :: int

record ProposalComment =
  pc_id :: jstring
  pc_proposalId :: int
  pc_author :: jstring
  pc_content :: jstring
  pc_timestamp :: jnum
  pc_txHash :: "jstring option"

type_synonym CommentsStore = "jstring \<rightharpoonup> ProposalComment list"

section \<open>Events\<close>

text \<open>The outcome a finalised event may carry: \<open>Extract<ProposalState, 'Passed' | 'Rejected'>\<close>.\<close>

datatype final_state = FinalPassed | FinalRejected

datatype CosmosVoteEvent =
    GovInitializedEvent (gi_admin: jstring) (gi_token: jstring)
  | GovProposalCreatedEvent (gc_id: int) (gc_proposer: jstring) (gc_title: jstring) (gc_quorum: int) (gc_end_time: int)
  | GovVoteCastEvent (gv_proposal_id: int) (gv_voter: jstring) (gv_vote: VoteType) (gv_weight: int)
  | GovProposalFinalizedEvent (gf_proposal_id: int) (gf_state: final_state)
  | GovProposalExecutedEvent (ge_proposal_id: int) (ge_admin: jstring)
  | GovProposalCancelledEvent (gx_proposal_id: int) (gx_admin: jstring)
  | GovQuorumUpdatedEvent (gq_proposal_id: int) (gq_old: int) (gq_new: int)
  | GovAdminTransferInitiatedEvent (ga_current: jstring) (ga_pending: jstring)
  | GovAdminTransferCompletedEvent (gt_previous: jstring) (gt_new: jstring)
  | GovAdminTransferredEvent (gd_old: jstring) (gd_new: jstring)
  | GovPausedEvent (gp_admin: jstring)
  | GovUnpausedEvent (gu_admin: jstring)
  | TokenInitializedEvent (ti_admin: jstring) (ti_supply: int)
  | TokenTransferEvent (tt_from: jstring) (tt_to: jstring) (tt_amount: int)
  | TokenApprovalEvent (ta_owner: jstring) (ta_spender: jstring) (ta_amount: int)
  | TokenMintedEvent (tm_admin: jstring) (tm_to: jstring) (tm_amount: int)
  | TokenBurnedEvent (tb_admin: jstring) (tb_from: jstring) (tb_amount: int)
  | TokenAdminTransferredEvent (td_old: jstring) (td_new: jstring)

fun topics :: "CosmosVoteEvent \<Rightarrow> string \<times> string" where
  "topics (GovInitializedEvent _ _) = (''gov'', ''init'')"
| "topics (GovProposalCreatedEvent _ _ _ _ _) = (''gov'', ''created'')"
| "topics (GovVoteCastEvent _ _ _ _) = (''gov'', ''voted'')"
| "topics (GovProposalFinalizedEvent _ _) = (''gov'', ''final'')"
| "topics (GovProposalExecutedEvent _ _) = (''gov'', ''exec'')"
| "topics (GovProposalCancelledEvent _ _) = (''gov'', ''cancel'')"
| "topics (GovQuorumUpdatedEvent _ _ _) = (''gov'', ''quorum'')"
| "topics (GovAdminTransferInitiatedEvent _ _) = (''gov'', ''admint'')"
| "topics (GovAdminTransferCompletedEvent _ _) = (''gov'', ''admina'')"
| "topics (GovAdminTransferredEvent _ _) = (''gov'', ''admin'')"
| "topics (GovPausedEvent _) = (''gov'', ''paused'')"
| "topics (GovUnpausedEvent _) = (''gov'', ''unpause'')"
| "topics (TokenInitializedEvent _ _) = (''token'', ''init'')"
| "topics (TokenTransferEvent _ _ _) = (''token'', ''xfer'')"
| "topics (TokenApprovalEvent _ _ _) = (''token'', ''approve'')"
| "topics (TokenMintedEvent _ _ _) = (''token'', ''mint'')"
| "topics (TokenBurnedEvent _ _ _) = (''token'', ''burn'')"
| "topics (TokenAdminTransferredEvent _ _) = (''token'', ''admin'')"

definition GOV_TAGS :: "(string \<times> string) list" where
  "GOV_TAGS =
     [(''INITIALIZED'', ''init''), (''PROPOSAL_CREATED'', ''created''), (''VOTE_CAST'', ''voted''),
      (''PROPOSAL_FINALIZED'', ''final''), (''PROPOSAL_EXECUTED'', ''exec''),
      (''PROPOSAL_CANCELLED'', ''cancel''), (''QUORUM_UPDATED'', ''quorum''),
      (''ADMIN_TRANSFER_INITIATED'', ''admint''), (''ADMIN_TRANSFER_COMPLETED'', ''admina''),
      (''ADMIN_TRANSFERRED'', ''admin''), (''PAUSED'', ''paused''), (''UNPAUSED'', ''unpause'')]"

definition TOKEN_TAGS :: "(string \<times> string) list" where
  "TOKEN_TAGS =
     [(''INITIALIZED'', ''init''), (''TRANSFER'', ''xfer''), (''APPROVAL'', ''approve''),
      (''MINTED'', ''mint''), (''BURNED'', ''burn''), (''ADMIN_TRANSFERRED'', ''admin'')]"

text \<open>The second topics the governance contract publishes, in the order of its \<open>Events\<close>.\<close>

definition contract_gov_topics :: "string list" where
  "contract_gov_topics =
     [''init'', ''created'', ''voted'', ''final'', ''exec'', ''cancel'', ''upgraded'', ''quorum'',
      ''retract'', ''chgvote'', ''admin'', ''propose'', ''accept'', ''adm_cncl'', ''amended'',
      ''paused'', ''unpause'', ''token'', ''upgrade'']"

section \<open>Properties\<close>

text \<open>Which kind of event it is, as a number.\<close>

fun event_kind :: "CosmosVoteEvent \<Rightarrow> nat" where
  "event_kind (GovInitializedEvent _ _) = 0"
| "event_kind (GovProposalCreatedEvent _ _ _ _ _) = 1"
| "event_kind (GovVoteCastEvent _ _ _ _) = 2"
| "event_kind (GovProposalFinalizedEvent _ _) = 3"
| "event_kind (GovProposalExecutedEvent _ _) = 4"
| "event_kind (GovProposalCancelledEvent _ _) = 5"
| "event_kind (GovQuorumUpdatedEvent _ _ _) = 6"
| "event_kind (GovAdminTransferInitiatedEvent _ _) = 7"
| "event_kind (GovAdminTransferCompletedEvent _ _) = 8"
| "event_kind (GovAdminTransferredEvent _ _) = 9"
| "event_kind (GovPausedEvent _) = 10"
| "event_kind (GovUnpausedEvent _) = 11"
| "event_kind (TokenInitializedEvent _ _) = 12"
| "event_kind (TokenTransferEvent _ _ _) = 13"
| "event_kind (TokenApprovalEvent _ _ _) = 14"
| "event_kind (TokenMintedEvent _ _ _) = 15"
| "event_kind (TokenBurnedEvent _ _ _) = 16"
| "event_kind (TokenAdminTransferredEvent _ _) = 17"

definition topic_table :: "(string \<times> string) list" where
  "topic_table = map (Pair ''gov'' \<circ> snd) GOV_TAGS @ map (Pair ''token'' \<circ> snd) TOKEN_TAGS"

lemma topic_table_distinct: "distinct topic_table"
  by (simp add: topic_table_def GOV_TAGS_def TOKEN_TAGS_def)

lemma topic_table_kind: "event_kind e < length topic_table \<and> topics e = topic_table ! event_kind e"
  by (cases e) (simp_all add: topic_table_def GOV_TAGS_def TOKEN_TAGS_def)

text \<open>
  The two topics of an event determine its kind, so a consumer may dispatch on them; and the tag
  constants are complete: the pair is always one of those of \<open>GOV_TAGS\<close> under \<^verbatim>\<open>gov\<close> or of
  \<open>TOKEN_TAGS\<close> under \<^verbatim>\<open>token\<close>.
\<close>

theorem topics_identify_event:
  "(topics e = topics e' \<longleftrightarrow> event_kind e = event_kind e')
   \<and> (fst (topics e) = ''gov'' \<and> snd (topics e) \<in> snd ` set GOV_TAGS
      \<or> fst (topics e) = ''token'' \<and> snd (topics e) \<in> snd ` set TOKEN_TAGS)"
proof
  show "topics e = topics e' \<longleftrightarrow> event_kind e = event_kind e'"
    using topic_table_kind [of e] topic_table_kind [of e'] topic_table_distinct
    by (metis nth_eq_iff_index_eq)
  show "fst (topics e) = ''gov'' \<and> snd (topics e) \<in> snd ` set GOV_TAGS
      \<or> fst (topics e) = ''token'' \<and> snd (topics e) \<in> snd ` set TOKEN_TAGS"
    by (cases e) (simp_all add: GOV_TAGS_def TOKEN_TAGS_def)
qed

text \<open>
  The governance catalogue against the contract: of the tags of the front end, exactly the two for
  starting and completing an admin transfer are never published; of the topics the contract
  publishes, exactly nine have no tag, among them the two that report those transfers.
\<close>

theorem gov_tags_vs_contract:
  "filter (\<lambda>t. t \<notin> set contract_gov_topics) (map snd GOV_TAGS) = [''admint'', ''admina'']
   \<and> filter (\<lambda>t. t \<notin> snd ` set GOV_TAGS) contract_gov_topics =
       [''upgraded'', ''retract'', ''chgvote'', ''propose'', ''accept'', ''adm_cncl'', ''amended'',
        ''token'', ''upgrade'']"
  by (simp add: GOV_TAGS_def contract_gov_topics_def)

end
