(* ===== verification/Frontend_Config.thy ===== *)
theory Frontend_Config
  imports Contract_Types
begin

text \<open>
  \<^verbatim>\<open>frontend/src/config.ts\<close>: the networks, the choice of the active one from the build
  environment, explorer links and the validation of the contract ids at start-up.  The module's
  constants depend on \<open>import.meta.env\<close>, so they are functions of it.
\<close>

section \<open>Definitions\<close>

record vite_env =
  VITE_GOVERNANCE_CONTRACT_ID :: "jstring option"
  VITE_TOKEN_CONTRACT_ID :: "jstring option"
  VITE_TREASURY_CONTRACT_ID :: "jstring option"
  VITE_NETWORK :: "jstring option"

fun or_empty :: "jstring option \<Rightarrow> jstring" where
  "or_empty None = []"
| "or_empty (Some s) = s"

definition testnet_config :: "vite_env \<Rightarrow> NetworkConfig" where
  "testnet_config env =
     \<lparr>rpcUrl = js ''https://soroban-testnet.stellar.org'',
      networkPassphrase = js ''Test SDF Network ; September 2015'',
      governanceContractId = or_empty (VITE_GOVERNANCE_CONTRACT_ID env),
      tokenContractId = or_empty (VITE_TOKEN_CONTRACT_ID env),
      treasuryContractId = or_empty (VITE_TREASURY_CONTRACT_ID env)\<rparr>"

definition mainnet_config :: "vite_env \<Rightarrow> NetworkConfig" where
  "mainnet_config env =
     \<lparr>rpcUrl = js ''https://soroban-mainnet.stellar.org'',
      networkPassphrase = js ''Public Global Stellar Network ; September 2015'',
      governanceContractId = or_empty (VITE_GOVERNANCE_CONTRACT_ID env),
      tokenContractId = or_empty (VITE_TOKEN_CONTRACT_ID env),
      treasuryContractId = or_empty (VITE_TREASURY_CONTRACT_ID env)\<rparr>"

definition NETWORKS :: "vite_env \<Rightarrow> (jstring \<times> NetworkConfig) list" where
  "NETWORKS env = [(js ''testnet'', testnet_config env), (js ''mainnet'', mainnet_config env)]"

definition ACTIVE_NETWORK :: "vite_env \<Rightarrow> jstring" where
  "ACTIVE_NETWORK env = (case VITE_NETWORK env of Some n \<Rightarrow> n | None \<Rightarrow> js ''testnet'')"

definition config :: "vite_env \<Rightarrow> NetworkConfig" where
  "config env = (case map_of (NETWORKS env) (ACTIVE_NETWORK env) of
     Some c \<Rightarrow> c | None \<Rightarrow> testnet_config env)"

definition EXPLORER_BASE :: "(jstring \<times> jstring) list" where
  "EXPLORER_BASE =
     [(js ''testnet'', js ''https://stellar.expert/explorer/testnet''),
      (js ''mainnet'', js ''https://stellar.expert/explorer/public'')]"

definition explorerBase :: "vite_env \<Rightarrow> jstring" where
  "explorerBase env = (case map_of EXPLORER_BASE (ACTIVE_NETWORK env) of
     Some u \<Rightarrow> u | None \<Rightarrow> js ''https://stellar.expert/explorer/testnet'')"

definition explorerAccountUrl :: "vite_env \<Rightarrow> jstring \<Rightarrow> jstring" where
  "explorerAccountUrl env address = explorerBase env @ js ''/account/'' @ address"

definition explorerTxUrl :: "vite_env \<Rightarrow> jstring \<Rightarrow> jstring" where
  "explorerTxUrl env hash = explorerBase env @ js ''/tx/'' @ hash"

definition GOVERNANCE_ID_ERROR :: jstring where
  "GOVERNANCE_ID_ERROR = js ''VITE_GOVERNANCE_CONTRACT_ID must be a valid Stellar contract ID (starts with C, 56 characters).''"

definition TOKEN_ID_ERROR :: jstring where
  "TOKEN_ID_ERROR = js ''VITE_TOKEN_CONTRACT_ID must be a valid Stellar contract ID (starts with C, 56 characters).''"

definition bad_id :: "jstring \<Rightarrow> bool" where
  "bad_id i \<longleftrightarrow> i = [] \<or> \<not> starts_with i (js ''C'') \<or> length i \<noteq> 56"

definition validateConfig :: "NetworkConfig \<Rightarrow> unit result" where
  "validateConfig cfg =
     (let errors = (if bad_id (governanceContractId cfg) then [GOVERNANCE_ID_ERROR] else [])
                 @ (if bad_id (tokenContractId cfg) then [TOKEN_ID_ERROR] else [])
      in if 0 < length errors
         then Inl (new_Error (js ''Configuration Error:'' @ [10] @ join_with [10] errors))
         else Inr ())"

section \<open>Properties\<close>

text \<open>
  The start-up check accepts a configuration exactly when both contract ids begin with \<^verbatim>\<open>C\<close> and
  have 56 units; otherwise the message names exactly the ids that are wrong, governance first.
\<close>

theorem validateConfig_correct:
  "validateConfig cfg =
     (let good = (\<lambda>i. \<exists>r. i = js ''C'' @ r \<and> length r = 55)
      in if good (governanceContractId cfg) \<and> good (tokenContractId cfg) then Inr ()
         else Inl (new_Error (js ''Configuration Error:'' @ [10] @
           (if good (governanceContractId cfg) then TOKEN_ID_ERROR
            else if good (tokenContractId cfg) then GOVERNANCE_ID_ERROR
            else GOVERNANCE_ID_ERROR @ [10] @ TOKEN_ID_ERROR))))"
proof -
  have g: "(\<exists>r. i = js ''C'' @ r \<and> length r = 55) \<longleftrightarrow> \<not> bad_id i" for i
    by (auto simp add: bad_id_def starts_with_iff)
  show ?thesis
    unfolding validateConfig_def Let_def g by simp
qed

text \<open>
  Links and transactions are on the same network: whatever the environment says, the explorer
  is the public one exactly when transactions carry the public network's passphrase and go to the
  main-net node; any name other than \<^verbatim>\<open>mainnet\<close> selects the test network.
\<close>

theorem network_choice_consistent:
  "(networkPassphrase (config env) = js ''Public Global Stellar Network ; September 2015''
      \<longleftrightarrow> explorerBase env = js ''https://stellar.expert/explorer/public'')
   \<and> (rpcUrl (config env) = js ''https://soroban-mainnet.stellar.org''
      \<longleftrightarrow> explorerBase env = js ''https://stellar.expert/explorer/public'')
   \<and> (explorerBase env = js ''https://stellar.expert/explorer/public''
      \<longleftrightarrow> VITE_NETWORK env = Some (js ''mainnet''))"
  by (simp add: config_def explorerBase_def NETWORKS_def EXPLORER_BASE_def ACTIVE_NETWORK_def
      testnet_config_def mainnet_config_def split: option.splits)

end
