(* ===== verification/Api.thy ===== *)
theory Api
  imports Frontend_Config
begin

text \<open>
  \<^verbatim>\<open>frontend/src/api.ts\<close>: the calls of the front end to the Soroban RPC node.  The Stellar SDK and the
  node are outside the repository; the record \<open>sdk\<close> holds what the code uses of them: the check in
  the constructor \<open>Account\<close>, whether \<open>nativeToScVal\<close> converts a value and the builder accepts a
  transaction, the simulation of a transaction (whose \<open>result\<close> may be absent), \<open>scValToNative\<close>, and
  the views of a returned value at the types the code casts it to.  Every theorem holds for all
  such records.
\<close>

section \<open>Transactions and the SDK\<close>

datatype ScVal =
    Sc_u64 int
  | Sc_u32 nat
  | Sc_i128 int
  | Sc_string jstring
  | Sc_address jstring
  | Sc_vec "ScVal list"

record transaction =
  tx_source :: jstring
  tx_sequence :: jstring
  tx_fee :: jstring
  tx_passphrase :: jstring
  tx_contract :: jstring
  tx_function :: string
  tx_args :: "ScVal list"
  tx_timeout :: nat

record 'v sdk =
  newAccount :: "jstring \<Rightarrow> jstring \<Rightarrow> unit result"
  nativeToScVal :: "ScVal \<Rightarrow> unit result"
  buildTransaction :: "transaction \<Rightarrow> unit result"
  simulateTransaction :: "transaction \<Rightarrow> 'v option result"
  scValToNative :: "'v \<Rightarrow> 'v result"
  as_Number :: "'v \<Rightarrow> jnum"
  as_Proposal :: "'v \<Rightarrow> Proposal"
  as_VoteRecord :: "'v \<Rightarrow> VoteRecord"
  as_Boolean :: "'v \<Rightarrow> bool"
  as_String :: "'v \<Rightarrow> jstring"
  show_retval :: "'v \<Rightarrow> jstring"

section \<open>Calls\<close>

text \<open>
  Evaluating a list of arguments from left to right: an argument that throws ends the evaluation, and
  every value goes through \<open>nativeToScVal\<close>.
\<close>

fun scargs :: "(ScVal \<Rightarrow> unit result) \<Rightarrow> ScVal result list \<Rightarrow> ScVal list result" where
  "scargs conv [] = Inr []"
| "scargs conv (Inl e # vs) = Inl e"
| "scargs conv (Inr v # vs) =
     (case conv v of
        Inl e \<Rightarrow> Inl e
      | Inr _ \<Rightarrow> (case scargs conv vs of Inl e \<Rightarrow> Inl e | Inr ws \<Rightarrow> Inr (v # ws)))"

definition buildTx :: "'v sdk \<Rightarrow> NetworkConfig \<Rightarrow> jstring \<Rightarrow> jstring \<Rightarrow> string \<Rightarrow> ScVal list
    \<Rightarrow> transaction result" where
  "buildTx k cfg senderOrDummy contractId m args =
     (case newAccount k senderOrDummy (js ''0'') of
        Inl e \<Rightarrow> Inl e
      | Inr _ \<Rightarrow>
          let tx = \<lparr>tx_source = senderOrDummy, tx_sequence = js ''0'', tx_fee = js ''100'',
            tx_passphrase = networkPassphrase cfg, tx_contract = contractId, tx_function = m,
            tx_args = args, tx_timeout = 30\<rparr>
          in case buildTransaction k tx of Inl e \<Rightarrow> Inl e | Inr _ \<Rightarrow> Inr tx)"

definition dummyAccount :: jstring where
  "dummyAccount = js ''GAAZI4TCR3TY5OJHCTJC2A4QSY6CJWJH5IAJTGKIN2ER7LBNVKOCCWN''"

definition simulateCall :: "'v sdk \<Rightarrow> NetworkConfig \<Rightarrow> jstring \<Rightarrow> string \<Rightarrow> ScVal list
    \<Rightarrow> 'v result" where
  "simulateCall k cfg contractId m args =
     (case buildTx k cfg dummyAccount contractId m args of
        Inl e \<Rightarrow> Inl e
      | Inr tx \<Rightarrow>
          (case simulateTransaction k tx of
             Inl e \<Rightarrow> Inl e
           | Inr None \<Rightarrow> Inl (new_Error (js ''Simulation failed for '' @ js m))
           | Inr (Some retval) \<Rightarrow> scValToNative k retval))"

text \<open>A call \<open>simulateCall(contractId, method, nativeToScVal(...), ...)\<close> with its arguments.\<close>

definition callContract :: "'v sdk \<Rightarrow> NetworkConfig \<Rightarrow> jstring \<Rightarrow> string \<Rightarrow> ScVal result list
    \<Rightarrow> 'v result" where
  "callContract k cfg contractId m vs =
     (case scargs (nativeToScVal k) vs of
        Inl e \<Rightarrow> Inl e
      | Inr args \<Rightarrow> simulateCall k cfg contractId m args)"

datatype rpc_body = NullJson | RpcBody (rpc_error: "jstring option")

record http_response =
  resp_ok :: bool
  resp_status :: nat
  resp_json :: "rpc_body result"

definition health_check :: "http_response result \<Rightarrow> unit result" where
  "health_check reply =
     (case reply of
        Inl e \<Rightarrow> Inl e
      | Inr response \<Rightarrow>
          if \<not> resp_ok response
          then Inl (new_Error (js ''RPC returned HTTP '' @ show_nat (resp_status response)))
          else (case resp_json response of
                  Inl e \<Rightarrow> Inl e
                | Inr NullJson \<Rightarrow> Inl (ErrorObj (js ''TypeError'') (js ''Cannot read properties of null (reading 'error')''))
                | Inr (RpcBody (Some err)) \<Rightarrow> Inl (new_Error (js ''RPC error: '' @ err))
                | Inr (RpcBody None) \<Rightarrow> Inr ()))"

definition checkRpcReachability :: "NetworkConfig \<Rightarrow> (jstring \<Rightarrow> http_response result) \<Rightarrow> unit result" where
  "checkRpcReachability cfg fetch =
     (case health_check (fetch (rpcUrl cfg)) of
        Inr _ \<Rightarrow> Inr ()
      | Inl err \<Rightarrow> Inl (new_Error (js ''Unable to reach Soroban RPC at '' @ rpcUrl cfg
          @ js ''. Confirm the RPC endpoint is running and that CORS allows browser access. ''
          @ message_of err)))"

definition fetchProposalCount :: "'v sdk \<Rightarrow> NetworkConfig \<Rightarrow> jnum result" where
  "fetchProposalCount k cfg =
     (case simulateCall k cfg (governanceContractId cfg) ''proposal_count'' [] of
        Inl e \<Rightarrow> Inl e
      | Inr v \<Rightarrow> Inr (as_Number k v))"

definition fetchProposal :: "'v sdk \<Rightarrow> NetworkConfig \<Rightarrow> jnum \<Rightarrow> Proposal result" where
  "fetchProposal k cfg i =
     (case callContract k cfg (governanceContractId cfg) ''get_proposal''
         [map_sum id Sc_u64 (BigInt_of_Number i)] of
        Inl e \<Rightarrow> Inl e
      | Inr v \<Rightarrow> Inr (as_Proposal k v))"

text \<open>
  The number of elements of \<open>Array.from({ length })\<close>: the length is truncated and clamped below at
  zero, and a length of \<open>2 ^ 32\<close> or more is a \<open>RangeError\<close>.
\<close>

fun array_length :: "jnum \<Rightarrow> nat result" where
  "array_length NaN = Inr 0"
| "array_length NegInf = Inr 0"
| "array_length PosInf = Inl (ErrorObj (js ''RangeError'') (js ''Invalid array length''))"
| "array_length (Fin r) =
     (if r < 1 then Inr 0
      else if 2 ^ 32 \<le> r then Inl (ErrorObj (js ''RangeError'') (js ''Invalid array length''))
      else Inr (nat \<lfloor>r\<rfloor>))"

fun keep_fulfilled :: "'a result list \<Rightarrow> 'a list" where
  "keep_fulfilled [] = []"
| "keep_fulfilled (Inl e # rs) = keep_fulfilled rs"
| "keep_fulfilled (Inr v # rs) = v # keep_fulfilled rs"

definition fetchAllProposals :: "'v sdk \<Rightarrow> NetworkConfig \<Rightarrow> Proposal list result" where
  "fetchAllProposals k cfg =
     (case fetchProposalCount k cfg of
        Inl e \<Rightarrow> Inl e
      | Inr cnt \<Rightarrow>
          (case array_length cnt of
             Inl e \<Rightarrow> Inl e
           | Inr n \<Rightarrow> Inr (keep_fulfilled
               (map (\<lambda>i. fetchProposal k cfg (Fin (of_nat i))) [0..<n]))))"

definition fetchHasVoted :: "'v sdk \<Rightarrow> NetworkConfig \<Rightarrow> jnum \<Rightarrow> jstring \<Rightarrow> bool result" where
  "fetchHasVoted k cfg proposalId voter =
     (case callContract k cfg (governanceContractId cfg) ''has_voted''
         [map_sum id Sc_u64 (BigInt_of_Number proposalId), Inr (Sc_address voter)] of
        Inl e \<Rightarrow> Inl e
      | Inr v \<Rightarrow> Inr (as_Boolean k v))"

definition fetchVoteRecord :: "'v sdk \<Rightarrow> NetworkConfig \<Rightarrow> jnum \<Rightarrow> jstring \<Rightarrow> VoteRecord option result" where
  "fetchVoteRecord k cfg proposalId voter =
     (case callContract k cfg (governanceContractId cfg) ''get_vote''
         [map_sum id Sc_u64 (BigInt_of_Number proposalId), Inr (Sc_address voter)] of
        Inl e \<Rightarrow> Inr None
      | Inr v \<Rightarrow> Inr (Some (as_VoteRecord k v)))"

definition fetchTokenBalance :: "'v sdk \<Rightarrow> NetworkConfig \<Rightarrow> jstring \<Rightarrow> int result" where
  "fetchTokenBalance k cfg address =
     (case callContract k cfg (tokenContractId cfg) ''balance'' [Inr (Sc_address address)] of
        Inl e \<Rightarrow> Inl e
      | Inr v \<Rightarrow> BigInt_of_String (as_String k v))"

definition fetchTokenDecimals :: "'v sdk \<Rightarrow> NetworkConfig \<Rightarrow> jnum result" where
  "fetchTokenDecimals k cfg =
     (case simulateCall k cfg (tokenContractId cfg) ''decimals'' [] of
        Inl e \<Rightarrow> Inl e
      | Inr v \<Rightarrow> Inr (as_Number k v))"

definition fetchDelegation :: "'v sdk \<Rightarrow> NetworkConfig \<Rightarrow> jstring \<Rightarrow> jstring option result" where
  "fetchDelegation k cfg owner =
     (case callContract k cfg (tokenContractId cfg) ''get_delegation'' [Inr (Sc_address owner)] of
        Inl e \<Rightarrow> Inr None
      | Inr v \<Rightarrow> Inr (if as_Boolean k v then Some (as_String k v) else None))"

definition fetchDelegatedWeight :: "'v sdk \<Rightarrow> NetworkConfig \<Rightarrow> jstring \<Rightarrow> jstring list \<Rightarrow> int result" where
  "fetchDelegatedWeight k cfg voter delegators =
     (case scargs (nativeToScVal k) (map (\<lambda>d. Inr (Sc_address d)) delegators) of
        Inl e \<Rightarrow> Inl e
      | Inr delegatorVals \<Rightarrow>
          (case scargs (nativeToScVal k) [Inr (Sc_address voter)] of
             Inl e \<Rightarrow> Inl e
           | Inr voterVal \<Rightarrow>
               (case simulateCall k cfg (tokenContractId cfg) ''get_delegated_weight''
                   (voterVal @ [Sc_vec delegatorVals]) of
                  Inl e \<Rightarrow> Inl e
                | Inr v \<Rightarrow> BigInt_of_String (as_String k v))))"

fun voteEnum :: "VoteType \<Rightarrow> nat" where
  "voteEnum Yes = 0"
| "voteEnum No = 1"
| "voteEnum Abstain = 2"

definition castVote :: "'v sdk \<Rightarrow> NetworkConfig \<Rightarrow> jstring \<Rightarrow> jnum \<Rightarrow> VoteType \<Rightarrow> jstring result" where
  "castVote k cfg walletAddress proposalId vote =
     (case newAccount k walletAddress (js ''0'') of
        Inl e \<Rightarrow> Inl e
      | Inr _ \<Rightarrow>
          (case scargs (nativeToScVal k) [Inr (Sc_address walletAddress),
               map_sum id Sc_u64 (BigInt_of_Number proposalId), Inr (Sc_u32 (voteEnum vote))] of
             Inl e \<Rightarrow> Inl e
           | Inr args \<Rightarrow>
               let tx = \<lparr>tx_source = walletAddress, tx_sequence = js ''0'', tx_fee = js ''100'',
                    tx_passphrase = networkPassphrase cfg, tx_contract = governanceContractId cfg,
                    tx_function = ''cast_vote'', tx_args = args, tx_timeout = 30\<rparr>
               in case buildTransaction k tx of
                    Inl e \<Rightarrow> Inl e
                  | Inr _ \<Rightarrow>
                      (case simulateTransaction k tx of
                         Inl e \<Rightarrow> Inl e
                       | Inr None \<Rightarrow> Inl (new_Error (js ''Transaction simulation failed''))
                       | Inr (Some retval) \<Rightarrow> Inr (show_retval k retval))))"

section \<open>Reading the contract\<close>

lemma array_length_of_nat: "n < 2 ^ 32 \<Longrightarrow> array_length (Fin (of_nat n)) = Inr n"
proof -
  assume n: "n < 2 ^ 32"
  then have "(of_nat n :: rat) < of_nat (2 ^ 32)" by (simp only: of_nat_less_iff)
  then have "\<not> (2 :: rat) ^ 32 \<le> of_nat n" by simp
  then show ?thesis by (cases n) (simp_all del: of_nat_Suc)
qed

lemma keep_fulfilled_map:
  "keep_fulfilled (map f xs) = map (\<lambda>x. projr (f x)) (filter (\<lambda>x. \<not> isl (f x)) xs)"
proof (induction xs)
  case Nil
  then show ?case by simp
next
  case (Cons x xs)
  then show ?case by (cases "f x") simp_all
qed

text \<open>
  Loading the proposals: when the contract reports \<open>n\<close> proposals, the list is made of the
  proposals \<open>0, \<dots>, n - 1\<close> whose request succeeded, in this order; a failing request drops only its own
  proposal, so with none failing all \<open>n\<close> are there.
\<close>

theorem fetchAllProposals_correct:
  assumes "fetchProposalCount k cfg = Inr (Fin (of_nat n))" and "n < 2 ^ 32"
  shows "fetchAllProposals k cfg =
      Inr (map (\<lambda>i. projr (fetchProposal k cfg (Fin (of_nat i))))
        (filter (\<lambda>i. \<not> isl (fetchProposal k cfg (Fin (of_nat i)))) [0..<n]))"
  using assms by (simp add: fetchAllProposals_def array_length_of_nat keep_fulfilled_map)

definition sample_proposal :: Proposal where
  "sample_proposal = \<lparr>prop_id = 0, proposer = js ''G1'', title = js ''Budget'', description = js ''Spend it'',
     cancellation_reason = None, votes_yes = 60, votes_no = 30, votes_abstain = 10, quorum = 50,
     start_time = 0, end_time = 100, state = Active\<rparr>"

text \<open>A node that serves two proposals, one of them not retrievable; values are numbers.\<close>

definition sample_sdk :: "int sdk" where
  "sample_sdk = \<lparr>newAccount = (\<lambda>_ _. Inr ()), nativeToScVal = (\<lambda>_. Inr ()),
     buildTransaction = (\<lambda>_. Inr ()),
     simulateTransaction = (\<lambda>tx.
       if tx_function tx = ''proposal_count'' then Inr (Some 2)
       else if tx_args tx = [Sc_u64 1] then Inr None else Inr (Some 7)),
     scValToNative = Inr, as_Number = (\<lambda>v. Fin (of_int v)), as_Proposal = (\<lambda>_. sample_proposal),
     as_VoteRecord = (\<lambda>v. \<lparr>vr_vote = Yes, vr_weight = v\<rparr>), as_Boolean = (\<lambda>v. v \<noteq> 0),
     as_String = show_int, show_retval = show_int\<rparr>"

definition sample_net :: NetworkConfig where
  "sample_net = config \<lparr>VITE_GOVERNANCE_CONTRACT_ID = None, VITE_TOKEN_CONTRACT_ID = None,
     VITE_TREASURY_CONTRACT_ID = None, VITE_NETWORK = None\<rparr>"

lemma sample_count: "fetchProposalCount sample_sdk sample_net = Inr (Fin (of_nat 2))"
  by (simp add: fetchProposalCount_def simulateCall_def buildTx_def sample_sdk_def Let_def)

theorem fetchAllProposals_correct_witness:
  "fetchAllProposals sample_sdk sample_net = Inr [sample_proposal]"
proof -
  have p: "fetchProposal sample_sdk sample_net (Fin (of_nat i)) =
      (if i = 1 then Inl (new_Error (js ''Simulation failed for '' @ js ''get_proposal''))
       else Inr sample_proposal)" for i
    by (simp add: fetchProposal_def callContract_def simulateCall_def buildTx_def sample_sdk_def Let_def)
  have "(2 :: nat) < 2 ^ 32" by simp
  from fetchAllProposals_correct [OF sample_count this] show ?thesis
    by (simp only: p) (simp add: upt_rec numeral_2_eq_2)
qed

text \<open>
  The account used for read-only calls is not an account id: it has 55 characters.  With an SDK
  that, as documented, accepts only ids of 56 characters, every read fails before any request is
  made: the proposals, balances, decimals and votes cannot be loaded, and the vote record and the
  delegation of every user are reported as absent.
\<close>

theorem dummy_account_rejected:
  assumes "\<And>a s. length a \<noteq> 56 \<Longrightarrow> newAccount k a s = Inl (rej a)"
  shows "fetchAllProposals k cfg = Inl (rej dummyAccount)
    \<and> isl (fetchTokenBalance k cfg address)
    \<and> fetchTokenDecimals k cfg = Inl (rej dummyAccount)
    \<and> isl (fetchHasVoted k cfg proposalId address)
    \<and> fetchVoteRecord k cfg proposalId address = Inr None
    \<and> fetchDelegation k cfg address = Inr None"
proof -
  have "newAccount k dummyAccount s = Inl (rej dummyAccount)" for s
    by (rule assms) (simp add: dummyAccount_def)
  then have c: "simulateCall k cfg c m args = Inl (rej dummyAccount)" for c m args
    by (simp add: simulateCall_def buildTx_def)
  show ?thesis
    by (simp add: c callContract_def fetchAllProposals_def fetchProposalCount_def fetchTokenBalance_def
        fetchTokenDecimals_def fetchHasVoted_def fetchVoteRecord_def fetchDelegation_def
        split: sum.splits)
qed

definition strict_sdk :: "int sdk" where
  "strict_sdk = sample_sdk\<lparr>newAccount := (\<lambda>a _. if length a \<noteq> 56
     then Inl (new_Error (js ''accountId is invalid'')) else Inr ())\<rparr>"

theorem dummy_account_rejected_witness:
  "fetchAllProposals strict_sdk sample_net = Inl (new_Error (js ''accountId is invalid''))"
proof -
  have "length a \<noteq> 56 \<Longrightarrow> newAccount strict_sdk a s = Inl (new_Error (js ''accountId is invalid''))"
    for a s by (simp add: strict_sdk_def)
  from dummy_account_rejected [where rej = "\<lambda>_. new_Error (js ''accountId is invalid'')", OF this]
  show ?thesis by blast
qed

section \<open>Balances\<close>

text \<open>
  Balances are exact: when the token contract answers with the balance \<open>b \<ge> 0\<close>, whatever its size,
  the front end obtains exactly \<open>b\<close>, although the value passes through a decimal string.
\<close>

theorem fetchTokenBalance_exact:
  assumes "callContract k cfg (tokenContractId cfg) ''balance'' [Inr (Sc_address address)] = Inr v"
    and "as_String k v = show_int b" and "0 \<le> b"
  shows "fetchTokenBalance k cfg address = Inr b"
  using assms BigInt_of_String_show_nat [of "nat b"]
  by (simp add: fetchTokenBalance_def show_int_def)

theorem fetchTokenBalance_exact_witness:
  "fetchTokenBalance sample_sdk sample_net (js ''G1'') = Inr 7"
  by (rule fetchTokenBalance_exact [of _ _ _ 7])
     (simp_all add: callContract_def simulateCall_def buildTx_def sample_sdk_def Let_def)

end
