(* ===== verification/Wallet_Store.thy ===== *)
theory Wallet_Store
  imports Api
begin

text \<open>
  \<^verbatim>\<open>frontend/src/store/walletStore.ts\<close>: the connected wallet and its token balance.  The wallet
  extensions are arguments; a balance request that is under way is an entry of \<open>ws_pending\<close>, and its
  answer, \<open>bal\<close> of the address (\<open>fetchTokenBalance\<close> at a node), is a step of its own, so that it
  may arrive after any other action.
\<close>

section \<open>Definitions\<close>

datatype WalletName = Freighter | xBull

record WalletState =
  walletAddress :: "jstring option"
  walletName :: "WalletName option"
  tokenBalance :: "int option"
  showModal :: bool

record wallet_ext =
  isConnected :: "bool result"
  requestAccess :: "unit result"
  getAddress :: "(jstring option \<times> jstring) result"
  xBullSDK :: "jstring result option"

record wallet_sys =
  ws_store :: WalletState
  ws_pending :: "jstring list"

definition initial_wallet :: wallet_sys where
  "initial_wallet = \<lparr>ws_store = \<lparr>walletAddress = None, walletName = None, tokenBalance = None,
     showModal = False\<rparr>, ws_pending = []\<rparr>"

definition openModal :: "wallet_sys \<Rightarrow> wallet_sys" where
  "openModal s = s\<lparr>ws_store := (ws_store s)\<lparr>showModal := True\<rparr>\<rparr>"

definition closeModal :: "wallet_sys \<Rightarrow> wallet_sys" where
  "closeModal s = s\<lparr>ws_store := (ws_store s)\<lparr>showModal := False\<rparr>\<rparr>"

definition freighter_address :: "wallet_ext \<Rightarrow> jstring result" where
  "freighter_address x =
     (case isConnected x of
        Inl e \<Rightarrow> Inl e
      | Inr False \<Rightarrow> Inl (new_Error (js ''Freighter extension not found''))
      | Inr True \<Rightarrow>
          (case requestAccess x of
             Inl e \<Rightarrow> Inl e
           | Inr _ \<Rightarrow>
               (case getAddress x of
                  Inl e \<Rightarrow> Inl e
                | Inr (Some msg, _) \<Rightarrow> Inl (new_Error msg)
                | Inr (None, address) \<Rightarrow> Inr address)))"

definition xbull_address :: "wallet_ext \<Rightarrow> jstring result" where
  "xbull_address x =
     (case xBullSDK x of
        None \<Rightarrow> Inl (new_Error (js ''xBull extension not found''))
      | Some connect_reply \<Rightarrow> connect_reply)"

definition connect :: "wallet_ext \<Rightarrow> WalletName \<Rightarrow> wallet_sys \<Rightarrow> wallet_sys result" where
  "connect x wallet s =
     (case (case wallet of Freighter \<Rightarrow> freighter_address x | xBull \<Rightarrow> xbull_address x) of
        Inl e \<Rightarrow> Inl e
      | Inr address \<Rightarrow>
          if address = [] then Inr s
          else Inr (s\<lparr>ws_store := (ws_store s)\<lparr>walletAddress := Some address,
                        walletName := Some wallet, showModal := False\<rparr>,
                      ws_pending := ws_pending s @ [address]\<rparr>))"

definition disconnect :: "wallet_sys \<Rightarrow> wallet_sys" where
  "disconnect s = s\<lparr>ws_store := (ws_store s)\<lparr>walletAddress := None, walletName := None,
     tokenBalance := None\<rparr>\<rparr>"

definition refreshBalance :: "wallet_sys \<Rightarrow> wallet_sys" where
  "refreshBalance s =
     (if truthy (walletAddress (ws_store s))
      then s\<lparr>ws_pending := ws_pending s @ [the (walletAddress (ws_store s))]\<rparr>
      else s)"

definition balance_arrives :: "jstring \<Rightarrow> int result \<Rightarrow> wallet_sys \<Rightarrow> wallet_sys" where
  "balance_arrives a reply s =
     s\<lparr>ws_store := (ws_store s)\<lparr>tokenBalance := (case reply of Inr b \<Rightarrow> Some b | Inl _ \<Rightarrow> None)\<rparr>,
       ws_pending := remove1 a (ws_pending s)\<rparr>"

inductive wallet_step :: "(jstring \<Rightarrow> int result) \<Rightarrow> wallet_sys \<Rightarrow> wallet_sys \<Rightarrow> bool"
  for bal :: "jstring \<Rightarrow> int result" where
  ws_open: "wallet_step bal s (openModal s)"
| ws_close: "wallet_step bal s (closeModal s)"
| ws_connect: "connect x w s = Inr s' \<Longrightarrow> wallet_step bal s s'"
| ws_disconnect: "wallet_step bal s (disconnect s)"
| ws_refresh: "wallet_step bal s (refreshBalance s)"
| ws_balance: "a \<in> set (ws_pending s) \<Longrightarrow> wallet_step bal s (balance_arrives a (bal a) s)"

section \<open>Connected and disconnected\<close>

definition wallet_ok :: "wallet_sys \<Rightarrow> bool" where
  "wallet_ok s \<longleftrightarrow> (walletAddress (ws_store s) = None \<longleftrightarrow> walletName (ws_store s) = None)
     \<and> walletAddress (ws_store s) \<noteq> Some [] \<and> [] \<notin> set (ws_pending s)"

lemmas wallet_ops = openModal_def closeModal_def disconnect_def refreshBalance_def balance_arrives_def

lemma connect_cases:
  assumes "connect x w s = Inr s'"
  obtains "s' = s"
  | a where "a \<noteq> []" and "s' = s\<lparr>ws_store := (ws_store s)\<lparr>walletAddress := Some a,
      walletName := Some w, showModal := False\<rparr>, ws_pending := ws_pending s @ [a]\<rparr>"
  using assms by (auto simp add: connect_def split: sum.splits if_splits WalletName.splits)

lemma wallet_step_ok: "wallet_ok s \<Longrightarrow> wallet_step bal s t \<Longrightarrow> wallet_ok t"
proof (erule wallet_step.cases)
  fix x w u u'
  assume ok: "wallet_ok s" and eq: "s = u" "t = u'" and c: "connect x w u = Inr u'"
  from c show "wallet_ok t" by (rule connect_cases) (use ok eq in \<open>auto simp add: wallet_ok_def\<close>)
next
  fix a u
  assume "wallet_ok s" and "s = u" and "t = balance_arrives a (bal a) u"
  then show "wallet_ok t"
    by (auto simp add: wallet_ok_def balance_arrives_def dest: notin_set_remove1)
qed (auto simp add: wallet_ok_def wallet_ops truthy_iff)

interpretation wallet: invariant_system "\<lambda>s. s = initial_wallet" "wallet_step bal" wallet_ok for bal
proof unfold_locales
  show "s = initial_wallet \<Longrightarrow> wallet_ok s" for s by (simp add: wallet_ok_def initial_wallet_def)
qed (rule wallet_step_ok)

text \<open>
  In every state the application can reach, a wallet name is recorded exactly when an address is,
  the address is never empty, and a balance is only ever requested for a non-empty address, in
  whatever order the user acts and the answers arrive.
\<close>

theorem wallet_consistent:
  assumes "reachable (\<lambda>s. s = initial_wallet) (wallet_step bal) s"
  shows "(walletAddress (ws_store s) = None \<longleftrightarrow> walletName (ws_store s) = None)
    \<and> walletAddress (ws_store s) \<noteq> Some [] \<and> [] \<notin> set (ws_pending s)"
  using wallet.reachable_inv [OF assms] by (simp add: wallet_ok_def)

definition sample_ext :: wallet_ext where
  "sample_ext = \<lparr>isConnected = Inr True, requestAccess = Inr (), getAddress = Inr (None, js ''G1''),
     xBullSDK = None\<rparr>"

definition connected :: wallet_sys where
  "connected = \<lparr>ws_store = \<lparr>walletAddress = Some (js ''G1''), walletName = Some Freighter,
     tokenBalance = None, showModal = False\<rparr>, ws_pending = [js ''G1'']\<rparr>"

lemma sample_connect: "connect sample_ext Freighter initial_wallet = Inr connected"
  by (simp add: connect_def freighter_address_def sample_ext_def initial_wallet_def connected_def)

theorem wallet_consistent_witness:
  "walletName (ws_store connected) = Some Freighter
   \<and> (walletAddress (ws_store connected) = None \<longleftrightarrow> walletName (ws_store connected) = None)"
proof -
  have "reachable (\<lambda>s. s = initial_wallet) (wallet_step (\<lambda>_. Inr 7)) connected"
    by (rule reach_step, rule reach_init, rule refl, rule ws_connect, rule sample_connect)
  from wallet_consistent [OF this] show ?thesis by (simp add: connected_def)
qed

section \<open>Whose balance is shown\<close>

text \<open>
  The disciplined use: a wallet is connected only when none is, and the wallet changes only while no
  balance request is under way.
\<close>

inductive quiet_step :: "(jstring \<Rightarrow> int result) \<Rightarrow> wallet_sys \<Rightarrow> wallet_sys \<Rightarrow> bool"
  for bal :: "jstring \<Rightarrow> int result" where
  qs_open: "quiet_step bal s (openModal s)"
| qs_close: "quiet_step bal s (closeModal s)"
| qs_connect: "connect x w s = Inr s' \<Longrightarrow> walletAddress (ws_store s) = None \<Longrightarrow> ws_pending s = []
    \<Longrightarrow> quiet_step bal s s'"
| qs_disconnect: "ws_pending s = [] \<Longrightarrow> quiet_step bal s (disconnect s)"
| qs_refresh: "quiet_step bal s (refreshBalance s)"
| qs_balance: "a \<in> set (ws_pending s) \<Longrightarrow> quiet_step bal s (balance_arrives a (bal a) s)"

definition balance_inv :: "(jstring \<Rightarrow> int result) \<Rightarrow> wallet_sys \<Rightarrow> bool" where
  "balance_inv bal s \<longleftrightarrow> (\<forall>a \<in> set (ws_pending s). walletAddress (ws_store s) = Some a)
     \<and> (\<forall>b. tokenBalance (ws_store s) = Some b \<longrightarrow>
          (\<exists>a. walletAddress (ws_store s) = Some a \<and> bal a = Inr b))"

lemma quiet_step_inv: "balance_inv bal s \<Longrightarrow> quiet_step bal s t \<Longrightarrow> balance_inv bal t"
proof (erule quiet_step.cases)
  fix x w u u'
  assume i: "balance_inv bal s" and eq: "s = u" "t = u'" and c: "connect x w u = Inr u'"
    and d: "walletAddress (ws_store u) = None" "ws_pending u = []"
  from c show "balance_inv bal t"
    by (rule connect_cases) (use i eq d in \<open>auto simp add: balance_inv_def\<close>)
next
  fix a u
  assume i: "balance_inv bal s" and eq: "s = u" "t = balance_arrives a (bal a) u"
    and a: "a \<in> set (ws_pending u)"
  then have "walletAddress (ws_store u) = Some a" by (simp add: balance_inv_def)
  with i eq show "balance_inv bal t"
    by (auto simp add: balance_inv_def balance_arrives_def split: sum.splits dest: notin_set_remove1)
qed (auto simp add: balance_inv_def wallet_ops truthy_iff)

interpretation quiet: invariant_system "\<lambda>s. s = initial_wallet" "quiet_step bal" "balance_inv bal" for bal
proof unfold_locales
  show "s = initial_wallet \<Longrightarrow> balance_inv bal s" for s by (simp add: balance_inv_def initial_wallet_def)
qed (rule quiet_step_inv)

text \<open>
  Used with that discipline, the store shows a balance only while a wallet is connected, and it is
  the balance of the connected address.
\<close>

theorem balance_of_connected:
  assumes "reachable (\<lambda>s. s = initial_wallet) (quiet_step bal) s"
    and "tokenBalance (ws_store s) = Some b"
  shows "\<exists>a. walletAddress (ws_store s) = Some a \<and> bal a = Inr b"
  using quiet.reachable_inv [OF assms(1)] assms(2) by (simp add: balance_inv_def)

theorem balance_of_connected_witness:
  "\<exists>a. walletAddress (ws_store (balance_arrives (js ''G1'') (Inr 7) connected)) = Some a
     \<and> (\<lambda>_. Inr 7 :: int result) a = Inr (7 :: int)"
proof -
  have "quiet_step (\<lambda>_. Inr 7) initial_wallet connected"
    by (rule qs_connect [OF sample_connect]) (simp_all add: initial_wallet_def)
  then have "reachable (\<lambda>s. s = initial_wallet) (quiet_step (\<lambda>_. Inr 7)) connected"
    by (intro reach_step [OF reach_init]) simp_all
  moreover have "quiet_step (\<lambda>_. Inr 7) connected (balance_arrives (js ''G1'') ((\<lambda>_. Inr 7) (js ''G1'')) connected)"
    by (rule qs_balance) (simp add: connected_def)
  ultimately have "reachable (\<lambda>s. s = initial_wallet) (quiet_step (\<lambda>_. Inr 7))
      (balance_arrives (js ''G1'') (Inr 7) connected)"
    by (blast intro: reach_step)
  from balance_of_connected [OF this, of 7] show ?thesis by (simp add: balance_arrives_def)
qed

text \<open>
  Without it this fails: a balance requested on connecting and answered after the user has
  disconnected is stored, and stays, with no wallet connected.
\<close>

theorem stale_balance_after_disconnect:
  assumes "connect x w initial_wallet = Inr s" and "walletAddress (ws_store s) = Some a"
    and "bal a = Inr b"
  shows "\<exists>t. reachable (\<lambda>s. s = initial_wallet) (wallet_step bal) t
    \<and> walletAddress (ws_store t) = None \<and> tokenBalance (ws_store t) = Some b"
proof -
  have p: "a \<in> set (ws_pending (disconnect s))"
    using assms(1) by (rule connect_cases)
      (use assms(2) in \<open>auto simp add: initial_wallet_def disconnect_def\<close>)
  have "reachable (\<lambda>s. s = initial_wallet) (wallet_step bal) s"
    by (rule reach_step, rule reach_init, rule refl, rule ws_connect, rule assms(1))
  then have "reachable (\<lambda>s. s = initial_wallet) (wallet_step bal) (disconnect s)"
    by (rule reach_step) (rule ws_disconnect)
  then have "reachable (\<lambda>s. s = initial_wallet) (wallet_step bal) (balance_arrives a (bal a) (disconnect s))"
    by (rule reach_step) (rule ws_balance [OF p])
  then show ?thesis
    using assms(3)
    by (intro exI [of _ "balance_arrives a (bal a) (disconnect s)"])
       (simp add: balance_arrives_def disconnect_def)
qed

theorem stale_balance_after_disconnect_witness:
  "\<exists>t. reachable (\<lambda>s. s = initial_wallet) (wallet_step (\<lambda>_. Inr 7)) t
    \<and> walletAddress (ws_store t) = None \<and> tokenBalance (ws_store t) = Some 7"
  by (rule stale_balance_after_disconnect [OF sample_connect, of "js ''G1''"])
     (simp_all add: connected_def)

end
