(* ===== verification/Proposal_Store.thy ===== *)
theory Proposal_Store
  imports Api
begin

text \<open>
  \<^verbatim>\<open>frontend/src/store/proposalStore.ts\<close>: the list of proposals and the connected user's votes.
  \<open>loadProposals\<close> is the state change before its requests (\<open>begin_load\<close>) followed by the one after
  them (\<open>end_load\<close>); other actions may run in between.  The keys of \<open>votedMap\<close> are decimal strings.
\<close>

section \<open>Definitions\<close>

record ProposalStore =
  proposals :: "Proposal list"
  decimals :: jnum
  loading :: bool
  load_error :: "jstring option"
  progress :: "(jnum \<times> jnum) option"
  votedMap :: "jstring \<rightharpoonup> VoteRecord"

definition initial_proposals :: ProposalStore where
  "initial_proposals = \<lparr>proposals = [], decimals = Fin 0, loading = False, load_error = None,
     progress = None, votedMap = Map.empty\<rparr>"

definition begin_load :: "ProposalStore \<Rightarrow> ProposalStore" where
  "begin_load st = st\<lparr>loading := True, load_error := None, progress := None\<rparr>"

definition end_load :: "(Proposal list \<times> jnum) result \<Rightarrow> ProposalStore \<Rightarrow> ProposalStore" where
  "end_load reply st =
     (case reply of
        Inr (ps, d) \<Rightarrow> st\<lparr>proposals := ps, decimals := d, loading := False, progress := None\<rparr>
      | Inl err \<Rightarrow> st\<lparr>load_error := Some (String_of_thrown err), loading := False, progress := None\<rparr>)"

definition loadProposals :: "'v sdk \<Rightarrow> NetworkConfig \<Rightarrow> bool \<Rightarrow> ProposalStore \<Rightarrow> ProposalStore" where
  "loadProposals k cfg second_first st =
     end_load (promise_all2 second_first (fetchAllProposals k cfg) (fetchTokenDecimals k cfg))
       (begin_load st)"

definition vote_entry :: "'v sdk \<Rightarrow> NetworkConfig \<Rightarrow> jstring \<Rightarrow> Proposal \<Rightarrow> (jstring \<times> VoteRecord) option" where
  "vote_entry k cfg wallet p =
     (let n = Number_of_BigInt (prop_id p);
          voted = (case fetchHasVoted k cfg n wallet of Inr v \<Rightarrow> v | Inl _ \<Rightarrow> False)
      in if \<not> voted then None
         else case (case fetchVoteRecord k cfg n wallet of Inr r \<Rightarrow> r | Inl _ \<Rightarrow> None) of
                Some record' \<Rightarrow> Some (show_int (prop_id p), record')
              | None \<Rightarrow> None)"

definition new_Map :: "('k \<times> 'v) list \<Rightarrow> 'k \<rightharpoonup> 'v" where
  "new_Map entries = foldl (\<lambda>m (key, v). m(key \<mapsto> v)) Map.empty entries"

definition loadVotesForUser :: "'v sdk \<Rightarrow> NetworkConfig \<Rightarrow> jstring \<Rightarrow> ProposalStore \<Rightarrow> ProposalStore" where
  "loadVotesForUser k cfg wallet st =
     st\<lparr>votedMap := new_Map (List.map_filter (vote_entry k cfg wallet) (proposals st))\<rparr>"

definition clearVotes :: "ProposalStore \<Rightarrow> ProposalStore" where
  "clearVotes st = st\<lparr>votedMap := Map.empty\<rparr>"

section \<open>Loading proposals\<close>

text \<open>
  Loading always ends with the spinner off, and is all or nothing: if either request fails the
  error is shown as \<open>String(err)\<close> and the previous proposals and decimals stay; otherwise both are
  replaced together and no error is shown.  The votes are never touched.
\<close>

theorem loadProposals_all_or_nothing:
  "let st' = loadProposals k cfg sf st
   in loading st' = False \<and> progress st' = None \<and> votedMap st' = votedMap st
      \<and> (case (fetchAllProposals k cfg, fetchTokenDecimals k cfg) of
           (Inr ps, Inr d) \<Rightarrow> proposals st' = ps \<and> decimals st' = d \<and> load_error st' = None
         | (x, y) \<Rightarrow> proposals st' = proposals st \<and> decimals st' = decimals st
             \<and> (\<exists>e. (x = Inl e \<or> y = Inl e) \<and> load_error st' = Some (String_of_thrown e)))"
  unfolding loadProposals_def Let_def
  by (cases "fetchAllProposals k cfg"; cases "fetchTokenDecimals k cfg"; cases sf)
     (simp_all add: promise_all2_def end_load_def begin_load_def, blast+)

section \<open>The user's votes\<close>

lemma new_Map_eq: "new_Map es = map_of (rev es)"
proof -
  have "foldl (\<lambda>m (key, v). m(key \<mapsto> v)) m es = m ++ map_of (rev es)" for m
    by (induction es arbitrary: m) auto
  then show ?thesis by (simp add: new_Map_def)
qed

lemma show_int_inject: "0 \<le> a \<Longrightarrow> 0 \<le> b \<Longrightarrow> show_int a = show_int b \<longleftrightarrow> a = b"
  by (simp add: show_int_def eq_nat_nat_iff)

lemma vote_entry_key: "vote_entry k cfg w p = Some e \<Longrightarrow> fst e = show_int (prop_id p)"
  by (auto simp add: vote_entry_def Let_def split: if_splits option.splits)

lemma map_filter_keys:
  assumes "\<And>x e. x \<in> set xs \<Longrightarrow> f x = Some e \<Longrightarrow> fst e = g x" and "distinct (map g xs)"
  shows "distinct (map fst (List.map_filter f xs))
    \<and> fst ` set (List.map_filter f xs) \<subseteq> g ` set xs"
  using assms
proof (induction xs)
  case Nil
  then show ?case by (simp add: map_filter_simps)
next
  case (Cons x xs)
  then have ih: "distinct (map fst (List.map_filter f xs))"
    "fst ` set (List.map_filter f xs) \<subseteq> g ` set xs" by auto
  show ?case
  proof (cases "f x")
    case None
    with ih show ?thesis by (auto simp add: map_filter_simps)
  next
    case (Some e)
    with Cons.prems have "fst e = g x" and "g x \<notin> g ` set xs" by auto
    with ih Some show ?thesis by (auto simp add: map_filter_simps)
  qed
qed

lemma set_map_filter: "set (List.map_filter f xs) = {e. \<exists>x \<in> set xs. f x = Some e}"
  by (induction xs) (auto simp add: map_filter_simps split: option.splits)

lemma vote_entry_exact:
  assumes "0 \<le> prop_id p" and "prop_id p \<le> 2 ^ 53"
  shows "vote_entry k cfg w p = Some (show_int (prop_id p), r) \<longleftrightarrow>
    (\<exists>v v'. callContract k cfg (governanceContractId cfg) ''has_voted''
          [Inr (Sc_u64 (prop_id p)), Inr (Sc_address w)] = Inr v \<and> as_Boolean k v
      \<and> callContract k cfg (governanceContractId cfg) ''get_vote''
          [Inr (Sc_u64 (prop_id p)), Inr (Sc_address w)] = Inr v' \<and> r = as_VoteRecord k v')"
  using assms
  by (auto simp add: vote_entry_def fetchHasVoted_def fetchVoteRecord_def Number_of_BigInt_exact Let_def
      split: sum.splits)

text \<open>
  C16. The vote map is exact: for proposals with distinct ids up to \<open>2 ^ 53\<close>, it holds a record for a
  proposal precisely when the contract says that the wallet has voted on it and returns that record;
  a failing request counts as not voted.  The keys are the decimal ids, and nothing else is a key.
\<close>

theorem votedMap_correct:
  assumes "distinct (map prop_id (proposals st))"
    and "\<forall>p \<in> set (proposals st). 0 \<le> prop_id p \<and> prop_id p \<le> 2 ^ 53"
    and "p \<in> set (proposals st)"
  shows "(votedMap (loadVotesForUser k cfg w st) (show_int (prop_id p)) = Some r \<longleftrightarrow>
      (\<exists>v v'. callContract k cfg (governanceContractId cfg) ''has_voted''
            [Inr (Sc_u64 (prop_id p)), Inr (Sc_address w)] = Inr v \<and> as_Boolean k v
        \<and> callContract k cfg (governanceContractId cfg) ''get_vote''
            [Inr (Sc_u64 (prop_id p)), Inr (Sc_address w)] = Inr v' \<and> r = as_VoteRecord k v'))
    \<and> dom (votedMap (loadVotesForUser k cfg w st)) \<subseteq> (\<lambda>p. show_int (prop_id p)) ` set (proposals st)"
proof -
  let ?f = "vote_entry k cfg w" and ?g = "\<lambda>p. show_int (prop_id p)" and ?ps = "proposals st"
  let ?es = "List.map_filter ?f ?ps"
  have inj: "inj_on ?g (set ?ps)"
  proof (rule inj_onI)
    fix p q
    assume "p \<in> set ?ps" "q \<in> set ?ps" "?g p = ?g q"
    then have "prop_id p = prop_id q" using assms(2) show_int_inject by metis
    with \<open>p \<in> _\<close> \<open>q \<in> _\<close> assms(1) show "p = q" by (simp add: distinct_map inj_on_def)
  qed
  then have "distinct (map ?g ?ps)" using assms(1) by (simp add: distinct_map)
  then have keys: "distinct (map fst ?es)" "fst ` set ?es \<subseteq> ?g ` set ?ps"
    using map_filter_keys [of ?ps ?f ?g] vote_entry_key by blast+
  have vm: "votedMap (loadVotesForUser k cfg w st) = map_of (rev ?es)"
    by (simp add: loadVotesForUser_def new_Map_eq)
  have "map_of (rev ?es) (?g p) = Some r \<longleftrightarrow> (?g p, r) \<in> set ?es"
    using map_of_eq_Some_iff [of "rev ?es" "?g p" r] keys(1) by (simp add: rev_map [symmetric])
  also have "\<dots> \<longleftrightarrow> ?f p = Some (?g p, r)"
  proof
    assume "(?g p, r) \<in> set ?es"
    then obtain q where q: "q \<in> set ?ps" "?f q = Some (?g p, r)" by (auto simp add: set_map_filter)
    then have "?g q = ?g p" using vote_entry_key by force
    with q(1) assms(3) inj have "q = p" by (auto dest: inj_onD)
    with q show "?f p = Some (?g p, r)" by simp
  qed (use assms(3) in \<open>auto simp add: set_map_filter\<close>)
  finally show ?thesis
    using keys(2) assms(2,3) vote_entry_exact [of p k cfg w r] vm by (auto simp add: dom_map_of_conv_image_fst)
qed

theorem votedMap_correct_witness:
  "votedMap (loadVotesForUser sample_sdk sample_net (js ''G1'') (initial_proposals\<lparr>proposals := [sample_proposal]\<rparr>))
     (show_int 0) = Some \<lparr>vr_vote = Yes, vr_weight = 7\<rparr>"
proof -
  let ?st = "initial_proposals\<lparr>proposals := [sample_proposal]\<rparr>"
  have "distinct (map prop_id (proposals ?st))"
    and "\<forall>p \<in> set (proposals ?st). 0 \<le> prop_id p \<and> prop_id p \<le> 2 ^ 53"
    and "sample_proposal \<in> set (proposals ?st)"
    by (simp_all add: sample_proposal_def)
  from votedMap_correct [OF this, of sample_sdk sample_net "js ''G1''" "\<lparr>vr_vote = Yes, vr_weight = 7\<rparr>"]
  show ?thesis
    by (simp add: sample_proposal_def callContract_def simulateCall_def buildTx_def sample_sdk_def Let_def)
qed

end
