(* ===== verification/Polling.thy ===== *)
theory Polling
  imports JS_Prelude
begin

text \<open>
  \<^verbatim>\<open>frontend/src/hooks/usePolling.ts\<close>: the polling hook with exponential back-off.  The state has the
  back-off factor, the timer reference, the armed timers with their delays, and the calls of
  \<open>fn\<close> under way, each marked by whether it is the immediate call of an effect or that of a timer.
\<close>

section \<open>Definitions\<close>

datatype call_kind = Immediate | Timed

record poller =
  backoffRef :: nat
  timerRef :: "nat option"
  pl_timers :: "(nat \<times> nat) list"
  pl_calls :: "call_kind list"
  pl_next :: nat
  pl_mounted :: bool

definition initial_poller :: poller where
  "initial_poller = \<lparr>backoffRef = 1, timerRef = None, pl_timers = [], pl_calls = [], pl_next = 0,
     pl_mounted = False\<rparr>"

definition schedule :: "nat \<Rightarrow> poller \<Rightarrow> poller" where
  "schedule delay p = p\<lparr>timerRef := Some (pl_next p), pl_timers := pl_timers p @ [(pl_next p, delay)],
     pl_next := pl_next p + 1\<rparr>"

definition effect_runs :: "poller \<Rightarrow> poller" where
  "effect_runs p = p\<lparr>backoffRef := 1, pl_calls := pl_calls p @ [Immediate], pl_mounted := True\<rparr>"

definition effect_cleanup :: "poller \<Rightarrow> poller" where
  "effect_cleanup p =
     (let p' = p\<lparr>pl_mounted := False\<rparr>
      in case timerRef p of
           None \<Rightarrow> p'
         | Some h \<Rightarrow> p'\<lparr>pl_timers := filter (\<lambda>(i, d). i \<noteq> h) (pl_timers p')\<rparr>)"

fun settle_backoff :: "call_kind \<Rightarrow> bool \<Rightarrow> nat \<Rightarrow> nat" where
  "settle_backoff Immediate True b = b"
| "settle_backoff Immediate False b = 2"
| "settle_backoff Timed True b = 1"
| "settle_backoff Timed False b = min (b * 2) 4"

definition call_settles :: "nat \<Rightarrow> call_kind \<Rightarrow> bool \<Rightarrow> poller \<Rightarrow> poller" where
  "call_settles interval c ok p =
     (let b = settle_backoff c ok (backoffRef p)
      in schedule (interval * b) (p\<lparr>backoffRef := b, pl_calls := remove1 c (pl_calls p)\<rparr>))"

definition timer_fires :: "nat \<Rightarrow> poller \<Rightarrow> poller" where
  "timer_fires h p = p\<lparr>pl_timers := filter (\<lambda>(i, d). i \<noteq> h) (pl_timers p), pl_calls := pl_calls p @ [Timed]\<rparr>"

datatype poll_action = Mount | Cleanup | Settle call_kind bool | Fire nat

fun poll_act :: "nat \<Rightarrow> poll_action \<Rightarrow> poller \<Rightarrow> poller option" where
  "poll_act interval Mount p = (if pl_mounted p then None else Some (effect_runs p))"
| "poll_act interval Cleanup p = (if pl_mounted p then Some (effect_cleanup p) else None)"
| "poll_act interval (Settle c ok) p =
     (if c \<in> set (pl_calls p) then Some (call_settles interval c ok p) else None)"
| "poll_act interval (Fire h) p =
     (if h \<in> fst ` set (pl_timers p) then Some (timer_fires h p) else None)"

fun poll_acts :: "nat \<Rightarrow> poll_action list \<Rightarrow> poller \<Rightarrow> poller option" where
  "poll_acts interval [] p = Some p"
| "poll_acts interval (a # as) p =
     (case poll_act interval a p of None \<Rightarrow> None | Some p' \<Rightarrow> poll_acts interval as p')"

section \<open>Back-off\<close>

definition poller_ok :: "nat \<Rightarrow> poller \<Rightarrow> bool" where
  "poller_ok interval p \<longleftrightarrow> backoffRef p \<in> {1, 2, 4}
     \<and> (\<forall>(i, d) \<in> set (pl_timers p). d \<in> {interval, interval * 2, interval * 4})"

lemma settle_backoff_range: "b \<in> {1, 2, 4} \<Longrightarrow> settle_backoff c ok b \<in> {1, 2, 4}"
  by (cases c; cases ok) auto

lemma poll_act_ok: "poller_ok interval p \<Longrightarrow> poll_act interval a p = Some p' \<Longrightarrow> poller_ok interval p'"
proof (cases a)
  case (Settle c ok)
  assume ok': "poller_ok interval p" and s: "poll_act interval a p = Some p'"
  let ?b = "settle_backoff c ok (backoffRef p)"
  from ok' have "?b \<in> {1, 2, 4}" by (intro settle_backoff_range) (simp add: poller_ok_def)
  moreover from s Settle have "p' = call_settles interval c ok p" by (auto split: if_splits)
  ultimately show ?thesis
    using ok' by (auto simp add: poller_ok_def call_settles_def schedule_def Let_def)
qed (auto simp add: poller_ok_def effect_runs_def effect_cleanup_def timer_fires_def Let_def
      split: if_splits option.splits)

lemma poll_acts_ok: "poll_acts interval as p = Some p' \<Longrightarrow> poller_ok interval p \<Longrightarrow> poller_ok interval p'"
  by (induction as arbitrary: p) (auto split: option.splits dest: poll_act_ok)

text \<open>
  The back-off is bounded: in every run of the hook the factor is 1, 2 or 4, and every armed
  timer waits one, two or four intervals, never more.
\<close>

theorem backoff_bounded:
  assumes "poll_acts interval as initial_poller = Some p"
  shows "backoffRef p \<in> {1, 2, 4} \<and> snd ` set (pl_timers p) \<subseteq> {interval, interval * 2, interval * 4}"
  using poll_acts_ok [OF assms] by (auto simp add: poller_ok_def initial_poller_def)

theorem backoff_bounded_witness:
  "\<exists>p. poll_acts 15000 [Mount, Settle Immediate False, Fire 0, Settle Timed False, Fire 1, Settle Timed False]
     initial_poller = Some p \<and> backoffRef p = 4 \<and> backoffRef p \<in> {1, 2, 4}"
proof -
  let ?r = "poll_acts 15000 [Mount, Settle Immediate False, Fire 0, Settle Timed False, Fire 1, Settle Timed False]
     initial_poller"
  have "map_option backoffRef ?r = Some 4"
    by (simp add: initial_poller_def effect_runs_def call_settles_def schedule_def timer_fires_def)
  then obtain p where p: "?r = Some p" "backoffRef p = 4" by auto
  from backoff_bounded [OF p(1)] p show ?thesis by blast
qed

lemma settle_backoff_failures: "(settle_backoff Timed False ^^ n) 1 = min (2 ^ n) 4"
  by (induction n) auto

section \<open>Cleaning up\<close>

text \<open>One more poll by a timer that outlived the clean-up.\<close>

definition leaked_round :: "nat \<Rightarrow> poll_action list" where
  "leaked_round h = [Fire h, Settle Timed True]"

lemma poll_acts_append:
  "poll_acts interval (as @ bs) p =
     (case poll_acts interval as p of None \<Rightarrow> None | Some r \<Rightarrow> poll_acts interval bs r)"
  by (induction as arbitrary: p) (auto split: option.splits)

lemma leaked_rounds:
  assumes "pl_calls p = []" and "pl_timers p = [(pl_next p - 1, d)]" and "0 < pl_next p"
    and "\<not> pl_mounted p"
  shows "\<exists>p'. poll_acts interval (concat (map leaked_round [pl_next p - 1..<pl_next p - 1 + n])) p = Some p'
    \<and> \<not> pl_mounted p'"
  using assms
proof (induction n arbitrary: p d)
  case 0
  then show ?case by simp
next
  case (Suc n)
  let ?h = "pl_next p - 1"
  let ?q = "call_settles interval Timed True (timer_fires ?h p)"
  have q: "pl_calls ?q = []" "pl_timers ?q = [(pl_next ?q - 1, interval)]" "0 < pl_next ?q"
    "\<not> pl_mounted ?q" "pl_next ?q - 1 = Suc ?h"
    using Suc.prems by (simp_all add: call_settles_def timer_fires_def schedule_def)
  have "[?h..<?h + Suc n] = ?h # [Suc ?h..<Suc ?h + n]" by (simp add: upt_conv_Cons)
  moreover have "poll_acts interval (leaked_round ?h) p = Some ?q"
    using Suc.prems by (simp add: leaked_round_def timer_fires_def)
  ultimately show ?case using Suc.IH [OF q(1-4)] q(5) by (simp add: poll_acts_append)
qed

text \<open>
  The clean-up does not stop a poll that is under way: if the effect is cleaned up while \<open>fn\<close> runs,
  the call arms a new timer when it ends, and from then on the hook keeps calling \<open>fn\<close>, as often
  as one likes, although it is no longer mounted.
\<close>

theorem cleanup_leaks_polling:
  "\<exists>p. poll_acts interval ([Mount, Cleanup, Settle Immediate True] @ concat (map leaked_round [0..<n]))
       initial_poller = Some p \<and> \<not> pl_mounted p"
proof -
  let ?p = "call_settles interval Immediate True (effect_cleanup (effect_runs initial_poller))"
  have r: "poll_acts interval [Mount, Cleanup, Settle Immediate True] initial_poller = Some ?p"
    by (simp add: initial_poller_def effect_runs_def effect_cleanup_def)
  have "pl_calls ?p = []" "pl_timers ?p = [(pl_next ?p - 1, interval)]" "0 < pl_next ?p"
    "\<not> pl_mounted ?p" "pl_next ?p = 1"
    by (simp_all add: initial_poller_def effect_runs_def effect_cleanup_def call_settles_def schedule_def)
  with leaked_rounds [of ?p interval interval n] show ?thesis
    unfolding poll_acts_append r by simp
qed

end
