(* ===== verification/Analytics.thy ===== *)
theory Analytics
  imports JS_Prelude JS_Number
begin

text \<open>
  \<^verbatim>\<open>frontend/src/analytics.ts\<close>: the queue of anonymous usage events.  A batch that is being posted is
  an entry of \<open>an_in_flight\<close>; its answer is a step of its own.  The copy of the queue in the storage
  is kept as a value, or as the error that reading it raises (JSON is left out).
\<close>

section \<open>Definitions\<close>

datatype prop_value = PropString jstring | PropNumber jnum

type_synonym event_props = "(jstring \<times> prop_value) list"

record AnalyticsEvent =
  ae_name :: jstring
  ae_props :: "event_props option"
  ae_sessionId :: jstring
  ae_ts :: jnum

record analytics_env =
  ENABLED :: bool
  ENDPOINT :: "jstring option"
  IS_DEV :: bool
  SESSION_ID :: jstring
  storage_works :: bool

definition BATCH_SIZE :: nat where
  "BATCH_SIZE = 10"

record analytics =
  an_queue :: "AnalyticsEvent list"
  an_stored :: "AnalyticsEvent list result"
  an_in_flight :: "AnalyticsEvent list list"
  an_sent :: "AnalyticsEvent list list"
  an_debug :: "AnalyticsEvent list list"
  an_dropped :: "AnalyticsEvent list list"

definition initial_queue :: "AnalyticsEvent list result \<Rightarrow> AnalyticsEvent list" where
  "initial_queue parsed = (case parsed of Inr q \<Rightarrow> q | Inl _ \<Rightarrow> [])"

definition initial_analytics :: "AnalyticsEvent list result \<Rightarrow> analytics" where
  "initial_analytics parsed = \<lparr>an_queue = initial_queue parsed, an_stored = parsed,
     an_in_flight = [], an_sent = [], an_debug = [], an_dropped = []\<rparr>"

definition persist :: "analytics_env \<Rightarrow> analytics \<Rightarrow> analytics" where
  "persist env a = (if storage_works env then a\<lparr>an_stored := Inr (an_queue a)\<rparr> else a)"

definition flush :: "analytics_env \<Rightarrow> analytics \<Rightarrow> analytics" where
  "flush env a =
     (if an_queue a = [] then a
      else let batch = an_queue a; a' = persist env (a\<lparr>an_queue := []\<rparr>)
           in if truthy (ENDPOINT env) then a'\<lparr>an_in_flight := an_in_flight a' @ [batch]\<rparr>
              else if IS_DEV env then a'\<lparr>an_debug := an_debug a' @ [batch]\<rparr>
              else a'\<lparr>an_dropped := an_dropped a' @ [batch]\<rparr>)"

definition flush_answered :: "AnalyticsEvent list \<Rightarrow> analytics \<Rightarrow> analytics" where
  "flush_answered batch a =
     a\<lparr>an_in_flight := remove1 batch (an_in_flight a), an_sent := an_sent a @ [batch]\<rparr>"

definition flush_failed :: "analytics_env \<Rightarrow> AnalyticsEvent list \<Rightarrow> analytics \<Rightarrow> analytics" where
  "flush_failed env batch a =
     persist env (a\<lparr>an_in_flight := remove1 batch (an_in_flight a), an_queue := batch @ an_queue a\<rparr>)"

definition trackEvent :: "analytics_env \<Rightarrow> jstring \<Rightarrow> event_props option \<Rightarrow> jnum
    \<Rightarrow> analytics \<Rightarrow> analytics" where
  "trackEvent env name props now a =
     (if \<not> ENABLED env then a
      else let a' = persist env (a\<lparr>an_queue := an_queue a @
              [\<lparr>ae_name = name, ae_props = props, ae_sessionId = SESSION_ID env, ae_ts = now\<rparr>]\<rparr>)
           in if BATCH_SIZE \<le> length (an_queue a') then flush env a' else a')"

text \<open>
  A run of the module: calls of \<open>trackEvent\<close>, flushes by the interval or on hiding the page (only
  installed when enabled), and the answers to the posts.
\<close>

datatype analytics_step =
    Track jstring "event_props option" jnum
  | Flush
  | Answered "AnalyticsEvent list"
  | Failed "AnalyticsEvent list"

fun analytics_run :: "analytics_env \<Rightarrow> analytics_step list \<Rightarrow> analytics \<Rightarrow> analytics option" where
  "analytics_run env [] a = Some a"
| "analytics_run env (Track n p ts # ss) a = analytics_run env ss (trackEvent env n p ts a)"
| "analytics_run env (Flush # ss) a =
     (if ENABLED env then analytics_run env ss (flush env a) else None)"
| "analytics_run env (Answered b # ss) a =
     (if b \<in> set (an_in_flight a) then analytics_run env ss (flush_answered b a) else None)"
| "analytics_run env (Failed b # ss) a =
     (if b \<in> set (an_in_flight a) then analytics_run env ss (flush_failed env b a) else None)"

section \<open>No event is lost or duplicated\<close>

definition held :: "analytics \<Rightarrow> AnalyticsEvent multiset" where
  "held a = mset (an_queue a) + mset (concat (an_in_flight a)) + mset (concat (an_sent a))
     + mset (concat (an_debug a)) + mset (concat (an_dropped a))"

fun tracked :: "analytics_env \<Rightarrow> analytics_step list \<Rightarrow> AnalyticsEvent multiset" where
  "tracked env [] = {#}"
| "tracked env (Track n p ts # ss) =
     (if ENABLED env
      then {#\<lparr>ae_name = n, ae_props = p, ae_sessionId = SESSION_ID env, ae_ts = ts\<rparr>#} else {#})
     + tracked env ss"
| "tracked env (s # ss) = tracked env ss"

lemma persist_simps [simp]:
  "an_queue (persist env a) = an_queue a" "an_in_flight (persist env a) = an_in_flight a"
  "an_sent (persist env a) = an_sent a" "an_debug (persist env a) = an_debug a"
  "an_dropped (persist env a) = an_dropped a"
  by (simp_all add: persist_def)

lemma held_persist [simp]: "held (persist env a) = held a"
  by (simp add: held_def)

lemma held_flush [simp]: "held (flush env a) = held a"
  by (simp add: flush_def held_def Let_def)

lemma mset_concat_remove1:
  "b \<in> set xs \<Longrightarrow> mset (concat xs) = mset b + mset (concat (remove1 b xs))"
  by (induction xs) auto

lemma held_answered: "b \<in> set (an_in_flight a) \<Longrightarrow> held (flush_answered b a) = held a"
  using mset_concat_remove1 [of b "an_in_flight a"] by (simp add: flush_answered_def held_def)

lemma held_failed: "b \<in> set (an_in_flight a) \<Longrightarrow> held (flush_failed env b a) = held a"
  using mset_concat_remove1 [of b "an_in_flight a"] by (simp add: flush_failed_def held_def)

lemma held_track:
  "held (trackEvent env n p ts a) = held a +
     (if ENABLED env
      then {#\<lparr>ae_name = n, ae_props = p, ae_sessionId = SESSION_ID env, ae_ts = ts\<rparr>#} else {#})"
  by (simp add: trackEvent_def Let_def) (simp add: held_def)

lemma held_run:
  "analytics_run env ss a = Some a' \<Longrightarrow> held a' = held a + tracked env ss"
proof (induction env ss a rule: analytics_run.induct)
  case (2 env n p ts ss a)
  then show ?case by (simp add: held_track)
qed (auto simp add: held_answered held_failed split: if_splits)

lemma discarded_run:
  assumes "analytics_run env ss a = Some a'" and "truthy (ENDPOINT env)"
  shows "an_debug a' = an_debug a \<and> an_dropped a' = an_dropped a"
  using assms
  by (induction env ss a rule: analytics_run.induct)
     (auto simp add: trackEvent_def flush_def flush_answered_def flush_failed_def Let_def split: if_splits)

text \<open>
  C19. With an endpoint configured no usage event is lost or sent twice: after any interleaving of
  tracking, flushing, successful and failed posts, the events still queued, being posted and posted
  are together exactly the initially stored ones and those tracked, each with its multiplicity.
\<close>

theorem analytics_conserves_events:
  assumes "analytics_run env ss (initial_analytics parsed) = Some a" and "truthy (ENDPOINT env)"
  shows "mset (an_queue a) + mset (concat (an_in_flight a)) + mset (concat (an_sent a)) =
    mset (initial_queue parsed) + tracked env ss"
  using held_run [OF assms(1)] discarded_run [OF assms]
  by (simp add: held_def initial_analytics_def)

definition sample_analytics_env :: analytics_env where
  "sample_analytics_env = \<lparr>ENABLED = True, ENDPOINT = Some (js ''/e''), IS_DEV = False,
     SESSION_ID = js ''s'', storage_works = True\<rparr>"

theorem analytics_conserves_events_witness:
  "\<exists>a e. analytics_run sample_analytics_env [Track (js ''vote'') None (Fin 1), Flush, Failed [e]]
      (initial_analytics (Inr [])) = Some a \<and> an_queue a = [e]
    \<and> mset (an_queue a) + mset (concat (an_in_flight a)) + mset (concat (an_sent a)) = {#e#}"
proof -
  let ?e = "\<lparr>ae_name = js ''vote'', ae_props = None, ae_sessionId = js ''s'', ae_ts = Fin 1\<rparr>"
  let ?ss = "[Track (js ''vote'') None (Fin 1), Flush, Failed [?e]]"
  have "analytics_run sample_analytics_env ?ss (initial_analytics (Inr [])) \<noteq> None"
    and q: "map_option an_queue (analytics_run sample_analytics_env ?ss (initial_analytics (Inr []))) = Some [?e]"
    by (simp_all add: trackEvent_def flush_def flush_failed_def persist_def sample_analytics_env_def
        initial_analytics_def initial_queue_def BATCH_SIZE_def Let_def)
  then obtain a where a: "analytics_run sample_analytics_env ?ss (initial_analytics (Inr [])) = Some a"
    by blast
  from analytics_conserves_events [OF a] q a show ?thesis
    by (intro exI [of _ a] exI [of _ ?e])
       (simp add: sample_analytics_env_def initial_queue_def)
qed

text \<open>
  Analytics is off unless enabled: then no call of \<open>trackEvent\<close> changes anything, so nothing
  is stored, queued or sent.
\<close>

theorem analytics_disabled_is_inert:
  assumes "\<not> ENABLED env" and "analytics_run env ss (initial_analytics parsed) = Some a"
  shows "a = initial_analytics parsed"
proof -
  have "analytics_run env ss b = Some a \<Longrightarrow> an_in_flight b = [] \<Longrightarrow> a = b" for b
    using assms(1)
    by (induction env ss b rule: analytics_run.induct) (auto simp add: trackEvent_def)
  from this [OF assms(2)] show ?thesis by (simp add: initial_analytics_def)
qed

theorem analytics_disabled_is_inert_witness:
  "analytics_run (sample_analytics_env\<lparr>ENABLED := False\<rparr>) [Track (js ''vote'') None (Fin 1)]
     (initial_analytics (Inr [])) = Some (initial_analytics (Inr []))"
proof -
  let ?env = "sample_analytics_env\<lparr>ENABLED := False\<rparr>"
  obtain a where "analytics_run ?env [Track (js ''vote'') None (Fin 1)] (initial_analytics (Inr [])) = Some a"
    by simp
  with analytics_disabled_is_inert [OF _ this] show ?thesis by simp
qed

end
