(* ===== verification/Browser_Storage.thy ===== *)
theory Browser_Storage
  imports JS_Prelude
begin

text \<open>
  The \<open>localStorage\<close> of the browser, as the theme and the language settings use it: reads and
  writes may throw (private browsing, security policy, quota), and all parts of the application share
  one store.  The locale is the contract the settings rely on.
\<close>

section \<open>The store\<close>

record local_storage =
  ls_items :: "jstring \<rightharpoonup> jstring"
  ls_readable :: bool
  ls_writable :: bool

definition getItem :: "local_storage \<Rightarrow> jstring \<Rightarrow> jstring option result" where
  "getItem ls key =
     (if ls_readable ls then Inr (ls_items ls key)
      else Inl (ErrorObj (js ''SecurityError'') (js ''The operation is insecure.'')))"

definition setItem :: "jstring \<Rightarrow> jstring \<Rightarrow> local_storage \<Rightarrow> local_storage result" where
  "setItem key v ls =
     (if ls_readable ls \<and> ls_writable ls then Inr (ls\<lparr>ls_items := (ls_items ls)(key \<mapsto> v)\<rparr>)
      else Inl (ErrorObj (js ''QuotaExceededError'') (js ''The quota has been exceeded.'')))"

text \<open>\<open>try { localStorage.setItem(key, v) } catch {}\<close>\<close>

definition try_setItem :: "jstring \<Rightarrow> jstring \<Rightarrow> local_storage \<Rightarrow> local_storage" where
  "try_setItem key v ls = (case setItem key v ls of Inl _ \<Rightarrow> ls | Inr ls' \<Rightarrow> ls')"

section \<open>The contract\<close>

locale key_value_store =
  fixes get :: "'s \<Rightarrow> 'k \<Rightarrow> 'v option result"
    and put :: "'k \<Rightarrow> 'v \<Rightarrow> 's \<Rightarrow> 's result"
  assumes get_put: "put k v s = Inr s' \<Longrightarrow> get s' k = Inr (Some v)"
    and get_put_other: "put k v s = Inr s' \<Longrightarrow> k' \<noteq> k \<Longrightarrow> get s' k' = get s k'"
    and put_again: "put k v s = Inr s' \<Longrightarrow> \<exists>s''. put k' v' s' = Inr s''"
begin

definition attempt :: "'k \<Rightarrow> 'v \<Rightarrow> 's \<Rightarrow> 's" where
  "attempt k v s = (case put k v s of Inl _ \<Rightarrow> s | Inr s' \<Rightarrow> s')"

definition can_write :: "'s \<Rightarrow> bool" where
  "can_write s \<longleftrightarrow> (\<forall>k v. \<not> isl (put k v s))"

lemma attempt_read: "can_write s \<Longrightarrow> get (attempt k v s) k = Inr (Some v)"
  unfolding can_write_def attempt_def by (metis get_put isl_def old.sum.simps(6) sum.exhaust_sel)

lemma attempt_other: "k' \<noteq> k \<Longrightarrow> get (attempt k v s) k' = get s k'"
  by (auto simp add: attempt_def get_put_other split: sum.splits)

lemma attempt_can_write: "can_write s \<Longrightarrow> can_write (attempt k v s)"
  unfolding can_write_def attempt_def
  by (metis (no_types, lifting) isl_def old.sum.simps(6) put_again sum.disc(2) sum.exhaust_sel)

end

interpretation ls: key_value_store getItem setItem
  by unfold_locales (auto simp add: getItem_def setItem_def split: if_splits)

lemma ls_attempt [simp]: "ls.attempt = try_setItem"
  by (simp add: ls.attempt_def try_setItem_def fun_eq_iff)

lemma ls_can_write [simp]: "ls.can_write s \<longleftrightarrow> ls_readable s \<and> ls_writable s"
  by (auto simp add: ls.can_write_def setItem_def)

lemmas try_setItem_read = ls.attempt_read [unfolded ls_attempt ls_can_write]
lemmas try_setItem_other = ls.attempt_other [unfolded ls_attempt]

lemma try_setItem_flags [simp]:
  "ls_readable (try_setItem k v s) = ls_readable s" "ls_writable (try_setItem k v s) = ls_writable s"
  by (auto simp add: try_setItem_def setItem_def)

end
