(* ===== verification/Theme.thy ===== *)
theory Theme
  imports Browser_Storage
begin

text \<open>
  \<^verbatim>\<open>frontend/src/useTheme.ts\<close>: the light/dark setting.  The state of the hook is the theme, the
  \<open>data-theme\<close> attribute of the document and the storage.  The effect that applies and saves the theme
  runs on mounting and after every change of it.
\<close>

section \<open>Definitions\<close>

datatype Theme = Light | Dark

fun theme_name :: "Theme \<Rightarrow> jstring" where
  "theme_name Light = js ''light''"
| "theme_name Dark = js ''dark''"

definition THEME_KEY :: jstring where
  "THEME_KEY = js ''cosmosvote-theme''"

definition theme_of :: "jstring option \<Rightarrow> Theme option" where
  "theme_of s = (if s = Some (js ''light'') then Some Light
     else if s = Some (js ''dark'') then Some Dark else None)"

definition resolveInitialTheme :: "local_storage \<Rightarrow> bool \<Rightarrow> Theme" where
  "resolveInitialTheme ls prefers_dark =
     (case (case getItem ls THEME_KEY of Inl _ \<Rightarrow> None | Inr stored \<Rightarrow> theme_of stored) of
        Some t \<Rightarrow> t
      | None \<Rightarrow> if prefers_dark then Dark else Light)"

record theme_ui =
  th_theme :: Theme
  th_attr :: "jstring option"
  th_storage :: local_storage

definition applyTheme :: "Theme \<Rightarrow> theme_ui \<Rightarrow> theme_ui" where
  "applyTheme t u = u\<lparr>th_attr := Some (theme_name t)\<rparr>"

definition persistTheme :: "Theme \<Rightarrow> theme_ui \<Rightarrow> theme_ui" where
  "persistTheme t u = u\<lparr>th_storage := try_setItem THEME_KEY (theme_name t) (th_storage u)\<rparr>"

definition theme_effect :: "theme_ui \<Rightarrow> theme_ui" where
  "theme_effect u = persistTheme (th_theme u) (applyTheme (th_theme u) u)"

definition mount_theme :: "local_storage \<Rightarrow> bool \<Rightarrow> theme_ui" where
  "mount_theme ls prefers_dark =
     theme_effect \<lparr>th_theme = resolveInitialTheme ls prefers_dark, th_attr = None, th_storage = ls\<rparr>"

text \<open>\<open>setThemeState\<close>: React runs the effect again only when the theme has changed.\<close>

definition setThemeState :: "(Theme \<Rightarrow> Theme) \<Rightarrow> theme_ui \<Rightarrow> theme_ui" where
  "setThemeState f u =
     (let next' = f (th_theme u)
      in if next' = th_theme u then u else theme_effect (u\<lparr>th_theme := next'\<rparr>))"

definition setTheme :: "(Theme \<Rightarrow> Theme) \<Rightarrow> theme_ui \<Rightarrow> theme_ui" where
  "setTheme f u = setThemeState f u"

definition toggleTheme :: "theme_ui \<Rightarrow> theme_ui" where
  "toggleTheme u = setThemeState (\<lambda>prev. if prev = Dark then Light else Dark) u"

definition storage_handler :: "jstring \<Rightarrow> jstring option \<Rightarrow> theme_ui \<Rightarrow> theme_ui" where
  "storage_handler key newValue u =
     (if key = THEME_KEY then case theme_of newValue of
        Some t \<Rightarrow> setThemeState (\<lambda>_. t) u | None \<Rightarrow> u
      else u)"

text \<open>
  What can happen to a mounted page: the user acts, or another tab writes the theme (its write to the
  shared storage and the event it causes).
\<close>

inductive theme_step :: "theme_ui \<Rightarrow> theme_ui \<Rightarrow> bool" where
  th_toggle: "theme_step u (toggleTheme u)"
| th_set: "theme_step u (setTheme f u)"
| th_other_tab: "theme_step u (storage_handler THEME_KEY (Some (theme_name t))
    (u\<lparr>th_storage := try_setItem THEME_KEY (theme_name t) (th_storage u)\<rparr>))"
| th_other_key: "key \<noteq> THEME_KEY \<Longrightarrow> theme_step u (storage_handler key v
    (u\<lparr>th_storage := try_setItem key w (th_storage u)\<rparr>))"

section \<open>The page shows and remembers the theme\<close>

lemma theme_of_name [simp]: "theme_of (Some (theme_name t)) = Some t"
  by (cases t) (simp_all add: theme_of_def)

definition theme_ok :: "theme_ui \<Rightarrow> bool" where
  "theme_ok u \<longleftrightarrow> th_attr u = Some (theme_name (th_theme u))
     \<and> (ls_readable (th_storage u) \<and> ls_writable (th_storage u) \<longrightarrow>
          getItem (th_storage u) THEME_KEY = Inr (Some (theme_name (th_theme u))))"

lemma theme_effect_ok: "theme_ok (theme_effect u)"
  by (simp add: theme_ok_def theme_effect_def persistTheme_def applyTheme_def try_setItem_read)

lemma setThemeState_ok: "theme_ok u \<Longrightarrow> theme_ok (setThemeState f u)"
  by (simp add: setThemeState_def Let_def theme_effect_ok)

lemma other_tab_ok:
  assumes "theme_ok u"
  shows "theme_ok (storage_handler THEME_KEY (Some (theme_name t))
    (u\<lparr>th_storage := try_setItem THEME_KEY (theme_name t) (th_storage u)\<rparr>))"
proof (cases "t = th_theme u")
  case True
  with assms show ?thesis
    by (simp add: storage_handler_def setThemeState_def theme_ok_def try_setItem_read)
next
  case False
  then show ?thesis
    by (simp add: storage_handler_def setThemeState_def theme_effect_ok)
qed

lemma theme_step_ok: "theme_ok u \<Longrightarrow> theme_step u v \<Longrightarrow> theme_ok v"
proof (erule theme_step.cases)
  fix key w v' u'
  assume "theme_ok u" "u = u'" "key \<noteq> THEME_KEY" "v = storage_handler key v'
    (u'\<lparr>th_storage := try_setItem key w (th_storage u')\<rparr>)"
  then show "theme_ok v" by (simp add: storage_handler_def theme_ok_def try_setItem_other)
qed (simp_all add: toggleTheme_def setTheme_def setThemeState_ok other_tab_ok)

interpretation theme: invariant_system "\<lambda>u. \<exists>ls d. u = mount_theme ls d" theme_step theme_ok
proof unfold_locales
  show "\<exists>ls d. u = mount_theme ls d \<Longrightarrow> theme_ok u" for u
    by (auto simp add: mount_theme_def theme_effect_ok)
qed (rule theme_step_ok)

text \<open>
  Whatever the user and other tabs do, the document always carries the current theme, and
  while the storage works a reload comes up with exactly that theme, whatever the system prefers.
\<close>

theorem theme_survives_reload:
  assumes "reachable (\<lambda>u. \<exists>ls d. u = mount_theme ls d) theme_step u"
  shows "th_attr u = Some (theme_name (th_theme u))
    \<and> (ls_readable (th_storage u) \<and> ls_writable (th_storage u) \<longrightarrow>
        th_theme (mount_theme (th_storage u) prefers_dark) = th_theme u)"
  using theme.reachable_inv [OF assms]
  by (auto simp add: theme_ok_def mount_theme_def theme_effect_def persistTheme_def applyTheme_def
      resolveInitialTheme_def)

definition fresh_storage :: local_storage where
  "fresh_storage = \<lparr>ls_items = Map.empty, ls_readable = True, ls_writable = True\<rparr>"

theorem theme_survives_reload_witness:
  "th_theme (mount_theme (th_storage (toggleTheme (mount_theme fresh_storage True))) True) = Light"
proof -
  let ?u = "toggleTheme (mount_theme fresh_storage True)"
  have "reachable (\<lambda>u. \<exists>ls d. u = mount_theme ls d) theme_step (mount_theme fresh_storage True)"
    by (rule reach_init) blast
  then have r: "reachable (\<lambda>u. \<exists>ls d. u = mount_theme ls d) theme_step ?u"
    by (rule reach_step) (rule th_toggle)
  have "th_theme ?u = Light" "ls_readable (th_storage ?u) \<and> ls_writable (th_storage ?u)"
    by (simp_all add: toggleTheme_def setThemeState_def mount_theme_def theme_effect_def
        persistTheme_def applyTheme_def resolveInitialTheme_def getItem_def theme_of_def fresh_storage_def)
  with theme_survives_reload [OF r, of True] show ?thesis by simp
qed

end
