(* ===== verification/I18n.thy ===== *)
theory I18n
  imports Browser_Storage
begin

text \<open>
  \<^verbatim>\<open>frontend/src/i18n.ts\<close> with the tables of \<^verbatim>\<open>frontend/src/locales\<close>, and
  \<^verbatim>\<open>components/LanguageSwitcher.tsx\<close>: the language setting and the lookup of texts.  A locale is any
  string, since the code reads it from storage; the check \<open>stored in LOCALES\<close> also succeeds for the
  names every object inherits, and looking up a text in what is found there gives \<open>undefined\<close>.
\<close>

section \<open>Definitions\<close>

definition SUPPORTED_LOCALES :: "(jstring \<times> jstring \<times> jstring) list" where
  "SUPPORTED_LOCALES =
     [(js ''en'', js ''English'', js ''English''),
      (js ''es'', js ''Spanish'', js ''Espa'' @ [241] @ js ''ol''),
      (js ''fr'', js ''French'', js ''Fran'' @ [231] @ js ''ais'')]"

definition en :: "(string \<times> jstring) list" where
  "en =
     [(''app_title'', [55356, 57100] @ js '' CosmosVote''),
      (''app_subtitle'', js ''On-chain governance''),
      (''connect_wallet'', js ''Connect Wallet''),
      (''connect_wallet_prompt'', js ''Enter your Stellar address (G...):''),
      (''disconnect_wallet'', js ''Disconnect''),
      (''search_placeholder'', js ''Search proposals...''),
      (''search_aria_label'', js ''Search proposals''),
      (''filter_aria_label'', js ''Filter by state''),
      (''filter_all_states'', js ''All States''),
      (''stat_total'', js ''Total''),
      (''stat_active'', js ''Active''),
      (''stat_passed'', js ''Passed''),
      (''stat_executed'', js ''Executed''),
      (''loading_proposals'', js ''Loading proposals...''),
      (''no_proposals'', js ''No proposals found.''),
      (''card_ends'', js ''Ends''),
      (''card_quorum'', js ''Quorum''),
      (''card_quorum_progress'', js ''% of quorum''),
      (''vote_yes'', [9989]),
      (''vote_no'', [10060]),
      (''vote_abstain'', [11036]),
      (''detail_heading'', js ''Proposal #''),
      (''detail_close_aria'', js ''Close''),
      (''detail_state'', js ''State''),
      (''detail_proposer'', js ''Proposer''),
      (''detail_start'', js ''Start''),
      (''detail_end'', js ''End''),
      (''detail_quorum'', js ''Quorum''),
      (''detail_total_votes'', js ''Total Votes''),
      (''vote_yes_label'', [9989] @ js '' Yes''),
      (''vote_no_label'', [10060] @ js '' No''),
      (''vote_abstain_label'', [11036] @ js '' Abstain''),
      (''vote_status_checking'', js ''Checking vote status...''),
      (''vote_status_cast'', js ''You voted''),
      (''vote_status_cast_weight'', js ''with weight''),
      (''vote_status_not_cast'', js ''You have not voted on this proposal''),
      (''nav_proposals'', js ''Proposals''),
      (''nav_dashboard'', js ''Dashboard''),
      (''nav_docs'', js ''Docs''),
      (''rpc_warning_prefix'', js ''RPC warning:''),
      (''error_prefix'', js ''Error:''),
      (''theme_switch_to_dark'', js ''Switch to dark mode''),
      (''theme_switch_to_light'', js ''Switch to light mode''),
      (''address_show'', js ''Click to reveal full address''),
      (''address_hide'', js ''Click to hide full address''),
      (''new_proposal'', js ''New Proposal''),
      (''cancel'', js ''Cancel'')]"

definition es :: "(string \<times> jstring) list" where
  "es =
     [(''app_title'', [55356, 57100] @ js '' CosmosVote''),
      (''app_subtitle'', js ''Gobernanza en cadena''),
      (''connect_wallet'', js ''Conectar billetera''),
      (''connect_wallet_prompt'', js ''Introduce tu direcci'' @ [243] @ js ''n Stellar (G...):''),
      (''disconnect_wallet'', js ''Desconectar''),
      (''search_placeholder'', js ''Buscar propuestas...''),
      (''search_aria_label'', js ''Buscar propuestas''),
      (''filter_aria_label'', js ''Filtrar por estado''),
      (''filter_all_states'', js ''Todos los estados''),
      (''stat_total'', js ''Total''),
      (''stat_active'', js ''Activas''),
      (''stat_passed'', js ''Aprobadas''),
      (''stat_executed'', js ''Ejecutadas''),
      (''loading_proposals'', js ''Cargando propuestas...''),
      (''no_proposals'', js ''No se encontraron propuestas.''),
      (''card_ends'', js ''Termina''),
      (''card_quorum'', js ''Qu'' @ [243] @ js ''rum''),
      (''card_quorum_progress'', js ''% del qu'' @ [243] @ js ''rum''),
      (''vote_yes'', [9989]),
      (''vote_no'', [10060]),
      (''vote_abstain'', [11036]),
      (''detail_heading'', js ''Propuesta #''),
      (''detail_close_aria'', js ''Cerrar''),
      (''detail_state'', js ''Estado''),
      (''detail_proposer'', js ''Proponente''),
      (''detail_start'', js ''Inicio''),
      (''detail_end'', js ''Fin''),
      (''detail_quorum'', js ''Qu'' @ [243] @ js ''rum''),
      (''detail_total_votes'', js ''Votos totales''),
      (''vote_yes_label'', [9989] @ js '' S'' @ [237]),
      (''vote_no_label'', [10060] @ js '' No''),
      (''vote_abstain_label'', [11036] @ js '' Abstenci'' @ [243] @ js ''n''),
      (''vote_status_checking'', js ''Verificando estado del voto...''),
      (''vote_status_cast'', js ''Votaste''),
      (''vote_status_cast_weight'', js ''con peso''),
      (''vote_status_not_cast'', js ''No has votado en esta propuesta''),
      (''nav_proposals'', js ''Propuestas''),
      (''nav_dashboard'', js ''Panel''),
      (''nav_docs'', js ''Documentaci'' @ [243] @ js ''n''),
      (''rpc_warning_prefix'', js ''Advertencia RPC:''),
      (''error_prefix'', js ''Error:''),
      (''theme_switch_to_dark'', js ''Cambiar a modo oscuro''),
      (''theme_switch_to_light'', js ''Cambiar a modo claro''),
      (''address_show'', js ''Clic para mostrar direcci'' @ [243] @ js ''n completa''),
      (''address_hide'', js ''Clic para ocultar direcci'' @ [243] @ js ''n completa''),
      (''new_proposal'', js ''Nueva propuesta''),
      (''cancel'', js ''Cancelar'')]"

definition fr :: "(string \<times> jstring) list" where
  "fr =
     [(''app_title'', [55356, 57100] @ js '' CosmosVote''),
      (''app_subtitle'', js ''Gouvernance on-chain''),
      (''connect_wallet'', js ''Connecter le portefeuille''),
      (''connect_wallet_prompt'', js ''Entrez votre adresse Stellar (G...) :''),
      (''disconnect_wallet'', js ''D'' @ [233] @ js ''connecter''),
      (''search_placeholder'', js ''Rechercher des propositions...''),
      (''search_aria_label'', js ''Rechercher des propositions''),
      (''filter_aria_label'', js ''Filtrer par '' @ [233] @ js ''tat''),
      (''filter_all_states'', js ''Tous les '' @ [233] @ js ''tats''),
      (''stat_total'', js ''Total''),
      (''stat_active'', js ''Actives''),
      (''stat_passed'', js ''Approuv'' @ [233] @ js ''es''),
      (''stat_executed'', js ''Ex'' @ [233] @ js ''cut'' @ [233] @ js ''es''),
      (''loading_proposals'', js ''Chargement des propositions...''),
      (''no_proposals'', js ''Aucune proposition trouv'' @ [233] @ js ''e.''),
      (''card_ends'', js ''Se termine''),
      (''card_quorum'', js ''Quorum''),
      (''card_quorum_progress'', js ''% du quorum''),
      (''vote_yes'', [9989]),
      (''vote_no'', [10060]),
      (''vote_abstain'', [11036]),
      (''detail_heading'', js ''Proposition #''),
      (''detail_close_aria'', js ''Fermer''),
      (''detail_state'', [201] @ js ''tat''),
      (''detail_proposer'', js ''Proposant''),
      (''detail_start'', js ''D'' @ [233] @ js ''but''),
      (''detail_end'', js ''Fin''),
      (''detail_quorum'', js ''Quorum''),
      (''detail_total_votes'', js ''Total des votes''),
      (''vote_yes_label'', [9989] @ js '' Oui''),
      (''vote_no_label'', [10060] @ js '' Non''),
      (''vote_abstain_label'', [11036] @ js '' Abstention''),
      (''vote_status_checking'', js ''V'' @ [233] @ js ''rification du statut de vote...''),
      (''vote_status_cast'', js ''Vous avez vot'' @ [233]),
      (''vote_status_cast_weight'', js ''avec un poids''),
      (''vote_status_not_cast'', js ''Vous n'avez pas vot'' @ [233] @ js '' sur cette proposition''),
      (''nav_proposals'', js ''Propositions''),
      (''nav_dashboard'', js ''Tableau de bord''),
      (''nav_docs'', js ''Documentation''),
      (''rpc_warning_prefix'', js ''Avertissement RPC :''),
      (''error_prefix'', js ''Erreur :''),
      (''theme_switch_to_dark'', js ''Passer en mode sombre''),
      (''theme_switch_to_light'', js ''Passer en mode clair''),
      (''address_show'', js ''Cliquez pour afficher l'adresse compl'' @ [232] @ js ''te''),
      (''address_hide'', js ''Cliquez pour masquer l'adresse compl'' @ [232] @ js ''te''),
      (''new_proposal'', js ''Nouvelle proposition''),
      (''cancel'', js ''Annuler'')]"

definition LOCALES :: "(jstring \<times> (string \<times> jstring) list) list" where
  "LOCALES = [(js ''en'', en), (js ''es'', es), (js ''fr'', fr)]"

text \<open>The property names every object inherits from \<open>Object.prototype\<close>.\<close>

definition inherited_names :: "string list" where
  "inherited_names =
     [''constructor'', ''__defineGetter__'', ''__defineSetter__'', ''hasOwnProperty'',
      ''__lookupGetter__'', ''__lookupSetter__'', ''isPrototypeOf'', ''propertyIsEnumerable'',
      ''toString'', ''valueOf'', ''__proto__'', ''toLocaleString'']"

definition in_LOCALES :: "jstring \<Rightarrow> bool" where
  "in_LOCALES s \<longleftrightarrow> s \<in> fst ` set LOCALES \<or> s \<in> js ` set inherited_names"

definition LOCALE_KEY :: jstring where
  "LOCALE_KEY = js ''cv_locale''"

definition readStoredLocale :: "local_storage \<Rightarrow> jstring \<Rightarrow> jstring" where
  "readStoredLocale ls navigator_language =
     (case (case getItem ls LOCALE_KEY of
              Inl _ \<Rightarrow> None
            | Inr stored \<Rightarrow> if truthy stored \<and> in_LOCALES (the stored) then stored else None) of
        Some l \<Rightarrow> l
      | None \<Rightarrow>
          let browserLang = hd (split_on 45 navigator_language)
          in if in_LOCALES browserLang then browserLang else js ''en'')"

record i18n_ui =
  in_locale :: jstring
  in_lang :: jstring
  in_storage :: local_storage

definition mount_i18n :: "local_storage \<Rightarrow> jstring \<Rightarrow> i18n_ui" where
  "mount_i18n ls navigator_language =
     (let l = readStoredLocale ls navigator_language
      in \<lparr>in_locale = l, in_lang = l, in_storage = ls\<rparr>)"

definition setLocale :: "jstring \<Rightarrow> i18n_ui \<Rightarrow> i18n_ui" where
  "setLocale next' u =
     u\<lparr>in_locale := next', in_storage := try_setItem LOCALE_KEY next' (in_storage u), in_lang := next'\<rparr>"

definition t :: "jstring \<Rightarrow> string \<Rightarrow> jstring" where
  "t locale' key =
     (let messages = (case map_of LOCALES locale' of Some m \<Rightarrow> map_of m | None \<Rightarrow> Map.empty)
      in case messages key of
           Some v \<Rightarrow> v
         | None \<Rightarrow> (case map_of en key of Some v \<Rightarrow> v | None \<Rightarrow> js key))"

definition language_options :: "(jstring \<times> jstring) list" where
  "language_options = map (\<lambda>(code, label, nativeLabel). (code, nativeLabel)) SUPPORTED_LOCALES"

definition LanguageSwitcher_onChange :: "nat \<Rightarrow> i18n_ui \<Rightarrow> i18n_ui" where
  "LanguageSwitcher_onChange i u = setLocale (fst (language_options ! i)) u"

section \<open>Texts\<close>

definition all_keys :: "string list" where
  "all_keys = map fst en"

lemma same_keys: "map fst es = map fst en" "map fst fr = map fst en"
  by (simp_all add: en_def es_def fr_def)

lemma texts_nonempty:
  "list_all (\<lambda>(k, v). v \<noteq> []) en" "list_all (\<lambda>(k, v). v \<noteq> []) es" "list_all (\<lambda>(k, v). v \<noteq> []) fr"
  by (simp_all add: en_def es_def fr_def)

lemma table_lookup:
  assumes "map fst m = map fst en" and "list_all (\<lambda>(k, v). v \<noteq> []) m" and "key \<in> set all_keys"
  shows "\<exists>v. map_of m key = Some v \<and> v \<noteq> []"
proof -
  have "key \<in> fst ` set m" using assms(1,3) by (metis all_keys_def set_map)
  then obtain v where v: "map_of m key = Some v" by (metis domD dom_map_of_conv_image_fst)
  then have "(key, v) \<in> set m" by (rule map_of_SomeD)
  with assms(2) v show ?thesis by (auto simp add: list_all_iff)
qed

text \<open>
  Every text is there: for each key of the English table, each supported locale has a non-empty
  text of its own, and \<open>t\<close> returns it; for any other locale, such as a corrupted stored
  value, \<open>t\<close> returns the English text.
\<close>

theorem translation_total:
  assumes "key \<in> set all_keys"
  shows "t l key \<noteq> []
    \<and> (case map_of LOCALES l of
         Some m \<Rightarrow> map_of m key = Some (t l key)
       | None \<Rightarrow> map_of en key = Some (t l key))"
proof -
  have own: "map_of LOCALES l = Some m \<Longrightarrow> m = en \<or> m = es \<or> m = fr" for m
    by (auto simp add: LOCALES_def split: if_splits)
  have tab: "m = en \<or> m = es \<or> m = fr \<Longrightarrow> \<exists>v. map_of m key = Some v \<and> v \<noteq> []" for m
    using table_lookup [OF _ _ assms] same_keys texts_nonempty by metis
  show ?thesis
  proof (cases "map_of LOCALES l")
    case None
    with tab [of en] show ?thesis by (auto simp add: t_def)
  next
    case (Some m)
    with tab [OF own [OF Some]] show ?thesis by (auto simp add: t_def)
  qed
qed

theorem translation_total_witness:
  "t (js ''toString'') ''cancel'' = js ''Cancel'' \<and> t (js ''toString'') ''cancel'' \<noteq> []"
proof -
  have "''cancel'' \<in> set all_keys" by (simp add: all_keys_def en_def)
  from translation_total [OF this, of "js ''toString''"] show ?thesis
    by (simp add: LOCALES_def) (simp add: en_def)
qed

section \<open>The setting\<close>

text \<open>
  Choosing a language in the switcher is remembered: the page's \<open>lang\<close> attribute follows at once,
  and while the storage works a reload selects the same language, whatever the browser prefers.
\<close>

theorem locale_survives_reload:
  assumes "i < length language_options"
    and "ls_readable (in_storage u)" and "ls_writable (in_storage u)"
  shows "in_lang (LanguageSwitcher_onChange i u) = fst (language_options ! i)
    \<and> in_locale (mount_i18n (in_storage (LanguageSwitcher_onChange i u)) nav) = fst (language_options ! i)"
proof -
  let ?l = "fst (language_options ! i)"
  have "?l \<in> fst ` set language_options" using assms(1) by simp
  then have s: "?l \<in> fst ` set LOCALES" "?l \<noteq> []"
    by (auto simp add: language_options_def SUPPORTED_LOCALES_def LOCALES_def)
  then have "readStoredLocale (try_setItem LOCALE_KEY ?l (in_storage u)) nav = ?l"
    using assms(2,3) by (simp add: readStoredLocale_def try_setItem_read in_LOCALES_def)
  then show ?thesis by (simp add: LanguageSwitcher_onChange_def setLocale_def mount_i18n_def Let_def)
qed

theorem locale_survives_reload_witness:
  "in_locale (mount_i18n (in_storage (LanguageSwitcher_onChange 1
     \<lparr>in_locale = js ''en'', in_lang = js ''en'',
      in_storage = \<lparr>ls_items = Map.empty, ls_readable = True, ls_writable = True\<rparr>\<rparr>)) (js ''fr-CA'')) = js ''es''"
  using locale_survives_reload [of 1 "\<lparr>in_locale = js ''en'', in_lang = js ''en'',
      in_storage = \<lparr>ls_items = Map.empty, ls_readable = True, ls_writable = True\<rparr>\<rparr>" "js ''fr-CA''"]
  by (simp add: language_options_def SUPPORTED_LOCALES_def)

text \<open>
  The check of a stored locale is too weak: an inherited property name is accepted as the locale
  and written to the page's \<open>lang\<close> attribute, although there is no such language.
\<close>

theorem inherited_name_accepted:
  "in_lang (mount_i18n \<lparr>ls_items = [LOCALE_KEY \<mapsto> js ''toString''], ls_readable = True,
      ls_writable = True\<rparr> nav) = js ''toString''
   \<and> map_of LOCALES (js ''toString'') = None"
  by (simp add: Let_def mount_i18n_def readStoredLocale_def getItem_def in_LOCALES_def inherited_names_def LOCALES_def)

end
