(* ===== verification/Proposal_Form_Rules.thy ===== *)
theory Proposal_Form_Rules
  imports JS_Prelude JS_Number
begin

text \<open>
  What the two proposal forms of the front end share: the fields, and the input checks of the
  contract's \<open>create_proposal\<close> (\<^verbatim>\<open>contracts/governance/src/lib.rs\<close>) the forms are meant to mirror.
  The contract measures texts in bytes.  The locale states what a form promises about the
  values it accepts; both forms are interpreted in it.
\<close>

section \<open>Fields\<close>

record FormState =
  f_title :: jstring
  f_description :: jstring
  f_quorum :: jstring
  f_duration :: jstring

datatype FieldName = FTitle | FDescription | FQuorum | FDuration

definition FIELDS :: "FieldName list" where
  "FIELDS = [FTitle, FDescription, FQuorum, FDuration]"

fun field_value :: "FormState \<Rightarrow> FieldName \<Rightarrow> jstring" where
  "field_value f FTitle = f_title f"
| "field_value f FDescription = f_description f"
| "field_value f FQuorum = f_quorum f"
| "field_value f FDuration = f_duration f"

fun set_field :: "FieldName \<Rightarrow> jstring \<Rightarrow> FormState \<Rightarrow> FormState" where
  "set_field FTitle v f = f\<lparr>f_title := v\<rparr>"
| "set_field FDescription v f = f\<lparr>f_description := v\<rparr>"
| "set_field FQuorum v f = f\<lparr>f_quorum := v\<rparr>"
| "set_field FDuration v f = f\<lparr>f_duration := v\<rparr>"

lemma field_value_set_field [simp]:
  "field_value (set_field n v f) k = (if k = n then v else field_value f k)"
  by (cases n; cases k) simp_all

section \<open>The contract's input checks\<close>

definition contract_input_check :: "nat \<Rightarrow> nat \<Rightarrow> nat option \<Rightarrow> int \<Rightarrow> int \<Rightarrow> string option" where
  "contract_input_check title_len description_len link_len quorum duration =
     (if title_len = 0 \<or> title_len > 128 then Some ''InvalidTitle''
      else if description_len = 0 \<or> description_len > 1024 then Some ''InvalidDescription''
      else if (case link_len of Some l \<Rightarrow> l = 0 \<or> l > 256 | None \<Rightarrow> False) then Some ''InvalidLink''
      else if quorum \<le> 0 then Some ''InvalidQuorum''
      else if duration < 60 \<or> duration > 2592000 then Some ''InvalidDurationRange''
      else None)"

section \<open>What a form promises\<close>

locale proposal_validator =
  fixes accepts :: "FormState \<Rightarrow> bool"
  assumes title_ok: "accepts f \<Longrightarrow> trim (f_title f) \<noteq> [] \<and> length (f_title f) \<le> 128"
    and description_ok: "accepts f \<Longrightarrow> trim (f_description f) \<noteq> [] \<and> length (f_description f) \<le> 1024"
    and quorum_ok: "accepts f \<Longrightarrow> num_lt (Fin 0) (js_Number (f_quorum f))"
    and duration_ok: "accepts f \<Longrightarrow> num_le (Fin 60) (js_Number (f_duration f))
      \<and> num_le (js_Number (f_duration f)) (Fin 2592000)"
begin

lemma duration_finite:
  assumes "accepts f"
  obtains d where "js_Number (f_duration f) = Fin d" "60 \<le> d" "d \<le> 2592000"
  using duration_ok [OF assms] by (cases "js_Number (f_duration f)") auto

lemma duration_rounds:
  assumes "accepts f"
  shows "\<exists>n. BigInt_of_Number (Math_round (js_Number (f_duration f))) = Inr n \<and> 60 \<le> n \<and> n \<le> 2592000"
proof -
  obtain d where d: "js_Number (f_duration f) = Fin d" "60 \<le> d" "d \<le> 2592000"
    using duration_finite [OF assms] .
  have "60 \<le> \<lfloor>d + 1 / 2\<rfloor>" "\<lfloor>d + 1 / 2\<rfloor> \<le> 2592000"
    using d by (simp_all add: le_floor_iff floor_le_iff)
  with d show ?thesis by simp
qed

lemma texts_in_range:
  assumes "accepts f" and "ascii (f_title f)" and "ascii (f_description f)"
  shows "0 < utf8_len (trim (f_title f)) \<and> utf8_len (trim (f_title f)) \<le> 128
    \<and> 0 < utf8_len (trim (f_description f)) \<and> utf8_len (trim (f_description f)) \<le> 1024"
  using title_ok [OF assms(1)] description_ok [OF assms(1)]
    length_trim_le [of "f_title f"] length_trim_le [of "f_description f"]
    utf8_len_ascii [OF ascii_trim [OF assms(2)]] utf8_len_ascii [OF ascii_trim [OF assms(3)]]
  by auto

lemma contract_accepts:
  assumes "accepts f" and "ascii (f_title f)" and "ascii (f_description f)" and "0 < q"
    and "BigInt_of_Number (Math_round (js_Number (f_duration f))) = Inr d"
  shows "contract_input_check (utf8_len (trim (f_title f))) (utf8_len (trim (f_description f))) None q d = None"
  using texts_in_range [OF assms(1-3)] duration_rounds [OF assms(1)] assms(4,5)
  by (auto simp add: contract_input_check_def)

end

end
