(* ===== verification/New_Proposal_Form.thy ===== *)
theory New_Proposal_Form
  imports Proposal_Form_Rules
begin

text \<open>
  \<^verbatim>\<open>frontend/src/components/NewProposalForm.tsx\<close>: validation rules and the state of the form (values,
  errors shown, touched fields, submission).  Number formatting by \<open>toLocaleString\<close> is the parameter
  \<open>loc\<close>; submitting is a placeholder in the code (a timer and a made-up id), whose outcome is an
  argument here.  Of the view, the parts that depend on the state are modelled.
\<close>

section \<open>Validation\<close>

definition TITLE_MAX :: nat where "TITLE_MAX = 128"
definition DESC_MAX :: nat where "DESC_MAX = 1024"
definition DURATION_MIN :: nat where "DURATION_MIN = 60"
definition DURATION_MAX :: nat where "DURATION_MAX = 2592000"

fun validateField :: "(nat \<Rightarrow> jstring) \<Rightarrow> FieldName \<Rightarrow> jstring \<Rightarrow> jstring option" where
  "validateField loc FTitle v =
     (if trim v = [] then Some (js ''Title is required.'')
      else if length v > TITLE_MAX
      then Some (js ''Title must be '' @ [8804] @ js '' '' @ show_nat TITLE_MAX @ js '' characters.'')
      else None)"
| "validateField loc FDescription v =
     (if trim v = [] then Some (js ''Description is required.'')
      else if length v > DESC_MAX
      then Some (js ''Description must be '' @ [8804] @ js '' '' @ show_nat DESC_MAX @ js '' characters.'')
      else None)"
| "validateField loc FQuorum v =
     (if trim v = [] then Some (js ''Quorum is required.'')
      else let q = js_Number v
           in if isNaN q \<or> \<not> isInteger q \<or> num_le q (Fin 0)
              then Some (js ''Quorum must be a positive whole number.'') else None)"
| "validateField loc FDuration v =
     (if trim v = [] then Some (js ''Duration is required.'')
      else let d = js_Number v
           in if isNaN d \<or> \<not> isInteger d \<or> num_lt d (Fin (of_nat DURATION_MIN))
                 \<or> num_lt (Fin (of_nat DURATION_MAX)) d
              then Some (js ''Duration must be '' @ loc DURATION_MIN @ [8211] @ loc DURATION_MAX @ js '' seconds.'')
              else None)"

type_synonym FormErrors = "FieldName \<rightharpoonup> jstring"

definition validateAll :: "(nat \<Rightarrow> jstring) \<Rightarrow> FormState \<Rightarrow> FormErrors" where
  "validateAll loc f = (\<lambda>k. validateField loc k (field_value f k))"

definition isFormValid :: "FormErrors \<Rightarrow> bool" where
  "isFormValid errs \<longleftrightarrow> filter (\<lambda>k. errs k \<noteq> None) FIELDS = []"

section \<open>The form\<close>

record new_form =
  nf_form :: FormState
  nf_errors :: FormErrors
  nf_touched :: "FieldName \<Rightarrow> bool"
  nf_submitAttempted :: bool
  nf_submitting :: bool
  nf_focused :: "jstring option"
  nf_announced :: "jstring list"

definition INITIAL :: FormState where
  "INITIAL = \<lparr>f_title = [], f_description = [], f_quorum = [], f_duration = []\<rparr>"

definition initial_new_form :: new_form where
  "initial_new_form = \<lparr>nf_form = INITIAL, nf_errors = Map.empty, nf_touched = (\<lambda>_. False),
     nf_submitAttempted = False, nf_submitting = False, nf_focused = None, nf_announced = []\<rparr>"

definition revalidateField :: "(nat \<Rightarrow> jstring) \<Rightarrow> FieldName \<Rightarrow> jstring \<Rightarrow> new_form \<Rightarrow> new_form" where
  "revalidateField loc nm v s = s\<lparr>nf_errors := (nf_errors s)(nm := validateField loc nm v)\<rparr>"

definition handleChange :: "(nat \<Rightarrow> jstring) \<Rightarrow> FieldName \<Rightarrow> jstring \<Rightarrow> new_form \<Rightarrow> new_form" where
  "handleChange loc nm v s =
     (let s' = s\<lparr>nf_form := set_field nm v (nf_form s)\<rparr>
      in if nf_touched s nm \<or> nf_submitAttempted s then revalidateField loc nm v s' else s')"

definition handleBlur :: "(nat \<Rightarrow> jstring) \<Rightarrow> FieldName \<Rightarrow> new_form \<Rightarrow> new_form" where
  "handleBlur loc nm s =
     revalidateField loc nm (field_value (nf_form s) nm) (s\<lparr>nf_touched := (nf_touched s)(nm := True)\<rparr>)"

fun key_name :: "FieldName \<Rightarrow> jstring" where
  "key_name FTitle = js ''title''"
| "key_name FDescription = js ''description''"
| "key_name FQuorum = js ''quorum''"
| "key_name FDuration = js ''duration''"

text \<open>The \<open>id\<close> attributes of the inputs in the rendered form.\<close>

definition rendered_ids :: "jstring list" where
  "rendered_ids = [js ''np-title'', js ''np-desc'', js ''np-quorum'', js ''np-duration'']"

definition focus :: "jstring \<Rightarrow> new_form \<Rightarrow> new_form" where
  "focus i s = (if i \<in> set rendered_ids then s\<lparr>nf_focused := Some i\<rparr> else s)"

definition handleSubmit :: "(nat \<Rightarrow> jstring) \<Rightarrow> new_form \<Rightarrow> new_form" where
  "handleSubmit loc s =
     (let allErrors = validateAll loc (nf_form s);
          s' = s\<lparr>nf_submitAttempted := True, nf_errors := allErrors\<rparr>
      in if \<not> isFormValid allErrors
         then focus (js ''np-'' @ key_name (hd (filter (\<lambda>k. allErrors k \<noteq> None) FIELDS))) s'
         else s'\<lparr>nf_submitting := True,
                 nf_announced := nf_announced s' @ [js ''Submitting proposal'' @ [8230]]\<rparr>)"

text \<open>The end of a submission: the made-up id, or the error of the (replaceable) request.\<close>

definition submit_done :: "nat result \<Rightarrow> new_form \<Rightarrow> new_form \<times> nat option \<times> jstring option" where
  "submit_done reply s =
     (case reply of
        Inr mockId \<Rightarrow>
          (s\<lparr>nf_announced := nf_announced s @ [js ''Proposal submitted successfully. Redirecting to proposal #''
              @ show_nat mockId @ js ''.'']\<rparr>, Some mockId, None)
      | Inl err \<Rightarrow> (s\<lparr>nf_submitting := False\<rparr>, None, Some (message_of err)))"

definition showError :: "new_form \<Rightarrow> FieldName \<Rightarrow> bool" where
  "showError s nm \<longleftrightarrow> (nf_touched s nm \<or> nf_submitAttempted s) \<and> truthy (nf_errors s nm)"

definition submit_disabled :: "(nat \<Rightarrow> jstring) \<Rightarrow> new_form \<Rightarrow> bool" where
  "submit_disabled loc s \<longleftrightarrow> nf_submitting s
     \<or> nf_submitAttempted s \<and> \<not> isFormValid (validateAll loc (nf_form s))"

definition length_hint :: "new_form \<Rightarrow> FieldName \<Rightarrow> jstring option" where
  "length_hint s nm = (case nm of
     FTitle \<Rightarrow> Some (show_nat (length (f_title (nf_form s))) @ js ''/'' @ show_nat TITLE_MAX @ js '' characters'')
   | FDescription \<Rightarrow> Some (show_nat (length (f_description (nf_form s))) @ js ''/'' @ show_nat DESC_MAX @ js '' characters'')
   | _ \<Rightarrow> None)"

inductive form_step :: "(nat \<Rightarrow> jstring) \<Rightarrow> new_form \<Rightarrow> new_form \<Rightarrow> bool" for loc :: "nat \<Rightarrow> jstring" where
  fs_change: "form_step loc s (handleChange loc nm v s)"
| fs_blur: "form_step loc s (handleBlur loc nm s)"
| fs_submit: "\<not> submit_disabled loc s \<Longrightarrow> form_step loc s (handleSubmit loc s)"
| fs_done: "nf_submitting s \<Longrightarrow> form_step loc s (fst (submit_done r s))"

section \<open>Accepted forms satisfy the contract\<close>

lemma isFormValid_iff: "isFormValid errs \<longleftrightarrow> (\<forall>k. errs k = None)"
proof -
  have "set FIELDS = UNIV" using FieldName.exhaust by (auto simp add: FIELDS_def)
  then show ?thesis by (auto simp add: isFormValid_def filter_empty_conv)
qed

lemma valid_fields: "isFormValid (validateAll loc f) \<longleftrightarrow> (\<forall>k. validateField loc k (field_value f k) = None)"
  by (simp add: isFormValid_iff validateAll_def)

interpretation new_form: proposal_validator "\<lambda>f. isFormValid (validateAll loc f)" for loc
proof unfold_locales
  fix f assume a: "isFormValid (validateAll loc f)"
  from a have v: "validateField loc k (field_value f k) = None" for k by (simp add: valid_fields)
  show "trim (f_title f) \<noteq> [] \<and> length (f_title f) \<le> 128"
    using v [of FTitle] by (auto simp add: TITLE_MAX_def split: if_splits)
  show "trim (f_description f) \<noteq> [] \<and> length (f_description f) \<le> 1024"
    using v [of FDescription] by (auto simp add: DESC_MAX_def split: if_splits)
  show "num_lt (Fin 0) (js_Number (f_quorum f))"
    using v [of FQuorum] by (auto simp add: Let_def intro: num_not_le split: if_splits)
  show "num_le (Fin 60) (js_Number (f_duration f)) \<and> num_le (js_Number (f_duration f)) (Fin 2592000)"
    using v [of FDuration]
    by (auto simp add: Let_def DURATION_MIN_def DURATION_MAX_def intro: num_not_lt num_not_gt split: if_splits)
qed

lemma valid_quorum_integer:
  assumes "isFormValid (validateAll loc f)"
  obtains q :: int where "js_Number (f_quorum f) = Fin (of_int q)" "0 < q"
proof -
  have "isInteger (js_Number (f_quorum f))" "num_lt (Fin 0) (js_Number (f_quorum f))"
    using assms new_form.quorum_ok [OF assms] valid_fields [of loc f] by (auto simp add: Let_def dest!: spec [of _ FQuorum] split: if_splits)
  then obtain r where "js_Number (f_quorum f) = Fin r" "of_int \<lfloor>r\<rfloor> = r" "0 < r"
    by (cases "js_Number (f_quorum f)") auto
  then show ?thesis using that [of "\<lfloor>r\<rfloor>"] by (metis of_int_0_less_iff)
qed

text \<open>
  The form mirrors the contract: if it accepts its values, quorum and duration are integers the
  front end can convert exactly, and for texts in ASCII the contract's own input checks accept all four values.
\<close>

theorem new_form_mirrors_contract:
  assumes "isFormValid (validateAll loc f)" and "ascii (f_title f)" and "ascii (f_description f)"
  shows "\<exists>q d. js_Number (f_quorum f) = Fin (of_int q)
    \<and> BigInt_of_Number (Math_round (js_Number (f_duration f))) = Inr d
    \<and> contract_input_check (utf8_len (trim (f_title f))) (utf8_len (trim (f_description f))) None q d = None"
proof -
  obtain q :: int where q: "js_Number (f_quorum f) = Fin (of_int q)" "0 < q"
    using valid_quorum_integer [OF assms(1)] .
  obtain d where d: "BigInt_of_Number (Math_round (js_Number (f_duration f))) = Inr d"
    using new_form.duration_rounds [OF assms(1)] by blast
  from new_form.contract_accepts [OF assms q(2) d] q(1) d show ?thesis by blast
qed

definition sample_form :: FormState where
  "sample_form = \<lparr>f_title = show_nat 7, f_description = show_nat 8, f_quorum = show_nat 1000,
     f_duration = show_nat 86400\<rparr>"

lemma ascii_show_nat [simp]: "ascii (show_nat n)"
  by (auto simp add: ascii_def is_digit_def dest!: show_nat_digits)

lemma trim_show_nat [simp]: "trim (show_nat n) = show_nat n"
  by (rule trim_digits) (simp add: show_nat_digits)

lemma sample_form_valid: "isFormValid (validateAll loc sample_form)"
proof -
  have n: "js_Number (show_nat 1000) = Fin (of_nat 1000)" "js_Number (show_nat 86400) = Fin (of_nat 86400)"
    using round64_of_nat [of 1000] round64_of_nat [of 86400] by (simp_all add: js_Number_show_nat)
  have l: "length (show_nat 7) \<le> 3" "length (show_nat 8) \<le> 3" by (rule length_show_nat_le; simp)+
  have "validateField loc k (field_value sample_form k) = None" for k
    using n l by (cases k) (simp_all add: sample_form_def Let_def isNaN_def TITLE_MAX_def DESC_MAX_def
        DURATION_MIN_def DURATION_MAX_def)
  then show ?thesis by (simp add: valid_fields)
qed

theorem new_form_mirrors_contract_witness:
  "\<exists>q d. js_Number (f_quorum sample_form) = Fin (of_int q)
    \<and> BigInt_of_Number (Math_round (js_Number (f_duration sample_form))) = Inr d
    \<and> contract_input_check (utf8_len (trim (f_title sample_form)))
        (utf8_len (trim (f_description sample_form))) None q d = None"
  by (rule new_form_mirrors_contract [OF sample_form_valid]) (simp_all add: sample_form_def)

section \<open>The errors shown are current\<close>

definition form_ok :: "(nat \<Rightarrow> jstring) \<Rightarrow> new_form \<Rightarrow> bool" where
  "form_ok loc s \<longleftrightarrow> (\<forall>nm. nf_touched s nm \<or> nf_submitAttempted s \<longrightarrow>
     nf_errors s nm = validateField loc nm (field_value (nf_form s) nm))"

lemma focus_keeps [simp]:
  "nf_form (focus i s) = nf_form s" "nf_errors (focus i s) = nf_errors s"
  "nf_touched (focus i s) = nf_touched s" "nf_submitAttempted (focus i s) = nf_submitAttempted s"
  "nf_submitting (focus i s) = nf_submitting s"
  by (simp_all add: focus_def)

lemma form_step_ok: "form_ok loc s \<Longrightarrow> form_step loc s t \<Longrightarrow> form_ok loc t"
proof (erule form_step.cases)
  fix s' nm v
  assume "form_ok loc s" "s = s'" "t = handleChange loc nm v s'"
  then show "form_ok loc t"
    by (auto simp add: form_ok_def handleChange_def revalidateField_def Let_def)
next
  fix s' nm
  assume "form_ok loc s" "s = s'" "t = handleBlur loc nm s'"
  then show "form_ok loc t" by (auto simp add: form_ok_def handleBlur_def revalidateField_def)
next
  fix s'
  assume "t = handleSubmit loc s'"
  then show "form_ok loc t" by (simp add: form_ok_def handleSubmit_def Let_def validateAll_def)
next
  fix s' r
  assume "form_ok loc s" "s = s'" "t = fst (submit_done r s')"
  then show "form_ok loc t" by (simp add: form_ok_def submit_done_def split: sum.splits)
qed

interpretation form: invariant_system "\<lambda>s. s = initial_new_form" "form_step loc" "form_ok loc" for loc
proof unfold_locales
  show "s = initial_new_form \<Longrightarrow> form_ok loc s" for s by (simp add: form_ok_def initial_new_form_def)
qed (rule form_step_ok)

lemma error_truthy: "truthy (validateField loc nm v) \<longleftrightarrow> validateField loc nm v \<noteq> None"
  by (cases nm) (simp_all add: Let_def)

text \<open>
  The errors shown are current: in every reachable state, a field that was left once or follows a
  submit attempt displays an error exactly when its present value is invalid, with the message for
  that value; an untouched field displays none before the first attempt.
\<close>

theorem shown_errors_current:
  assumes "reachable (\<lambda>s. s = initial_new_form) (form_step loc) s"
  shows "showError s nm \<longleftrightarrow> (nf_touched s nm \<or> nf_submitAttempted s)
      \<and> validateField loc nm (field_value (nf_form s) nm) \<noteq> None
    \<and> nf_errors s nm = validateField loc nm (field_value (nf_form s) nm)"
  using form.reachable_inv [OF assms] error_truthy [of loc nm "field_value (nf_form s) nm"]
  by (auto simp add: form_ok_def showError_def)

theorem shown_errors_current_witness:
  "showError (handleBlur (\<lambda>_. []) FTitle initial_new_form) FTitle"
proof -
  have "reachable (\<lambda>s. s = initial_new_form) (form_step (\<lambda>_. [])) (handleBlur (\<lambda>_. []) FTitle initial_new_form)"
    by (rule reach_step, rule reach_init, rule refl, rule fs_blur)
  from shown_errors_current [OF this, of FTitle] show ?thesis
    by (simp add: handleBlur_def revalidateField_def initial_new_form_def INITIAL_def trim_def)
qed

text \<open>
  Submission starts only for valid values; but the button is not disabled whenever the form
  is invalid: on the fresh, empty form it is enabled.
\<close>

theorem submit_button_vs_validity:
  "(nf_submitting (handleSubmit loc s) \<longleftrightarrow> nf_submitting s \<or> isFormValid (validateAll loc (nf_form s)))
   \<and> \<not> submit_disabled loc initial_new_form \<and> \<not> isFormValid (validateAll loc (nf_form initial_new_form))"
proof -
  have "validateField loc FTitle [] \<noteq> None" by (simp add: trim_def)
  then have "\<not> isFormValid (validateAll loc INITIAL)"
    by (auto simp add: valid_fields INITIAL_def intro!: exI [of _ FTitle])
  then show ?thesis
    by (simp add: handleSubmit_def Let_def submit_disabled_def initial_new_form_def)
qed

text \<open>
  When the description is the first invalid field, a submit attempt focuses nothing: the code
  looks for the element \<^verbatim>\<open>np-description\<close>, but the text area has the id \<^verbatim>\<open>np-desc\<close>.
\<close>

theorem description_not_focused:
  assumes "validateField loc FTitle (f_title (nf_form s)) = None"
    and "validateField loc FDescription (f_description (nf_form s)) \<noteq> None"
  shows "nf_focused (handleSubmit loc s) = nf_focused s"
proof -
  let ?e = "validateAll loc (nf_form s)"
  have "hd (filter (\<lambda>k. ?e k \<noteq> None) FIELDS) = FDescription"
    using assms by (simp add: FIELDS_def validateAll_def)
  moreover have "\<not> isFormValid ?e" using assms(2) by (auto simp add: isFormValid_iff validateAll_def intro!: exI [of _ FDescription])
  moreover have "js ''np-'' @ key_name FDescription \<notin> set rendered_ids"
    by (simp add: rendered_ids_def js_append [symmetric])
  ultimately show ?thesis by (simp add: handleSubmit_def Let_def focus_def)
qed

theorem description_not_focused_witness:
  "nf_focused (handleSubmit (\<lambda>_. []) (initial_new_form\<lparr>nf_form := sample_form\<lparr>f_description := []\<rparr>\<rparr>)) = None"
proof -
  let ?s = "initial_new_form\<lparr>nf_form := sample_form\<lparr>f_description := []\<rparr>\<rparr>"
  have "validateField (\<lambda>_. []) FTitle (field_value sample_form FTitle) = None"
    using sample_form_valid [of "\<lambda>_. []"] by (simp only: valid_fields)
  then have t: "validateField (\<lambda>_. []) FTitle (f_title (nf_form ?s)) = None" by simp
  have d: "validateField (\<lambda>_. []) FDescription (f_description (nf_form ?s)) \<noteq> None" by (simp add: trim_def)
  from description_not_focused [OF t d] show ?thesis by (simp add: initial_new_form_def)
qed

end
