(* ===== verification/Create_Proposal_Form.thy ===== *)
theory Create_Proposal_Form
  imports Proposal_Form_Rules Api
begin

text \<open>
  \<^verbatim>\<open>frontend/src/components/CreateProposalForm.tsx\<close>: the form that builds, signs and submits a
  \<open>create_proposal\<close> transaction and waits for its confirmation.  The SDK, the node and the prompt for
  the secret key are the record \<open>chain_env\<close>; \<open>ce_getTransaction h n\<close> is the node's answer to the
  \<open>n\<close>-th status request.  The waiting loop makes at most 20 requests, as in the code.
\<close>

section \<open>Validation\<close>

definition INITIAL_FORM :: FormState where
  "INITIAL_FORM = \<lparr>f_title = [], f_description = [], f_quorum = js ''1000'', f_duration = js ''86400''\<rparr>"

definition DURATION_PRESETS :: "(jstring \<times> jstring) list" where
  "DURATION_PRESETS =
     [(js ''1 day'', js ''86400''), (js ''3 days'', js ''259200''), (js ''7 days'', js ''604800''),
      (js ''14 days'', js ''1209600''), (js ''30 days'', js ''2592000'')]"

fun fieldError :: "FormState \<Rightarrow> FieldName \<Rightarrow> jstring option" where
  "fieldError form FTitle =
     (if trim (f_title form) = [] then Some (js ''Title is required.'')
      else if length (f_title form) > 128 then Some (js ''Title must be '' @ [8804] @ js '' 128 characters.'')
      else None)"
| "fieldError form FDescription =
     (if trim (f_description form) = [] then Some (js ''Description is required.'')
      else if length (f_description form) > 1024 then Some (js ''Description must be '' @ [8804] @ js '' 1024 characters.'')
      else None)"
| "fieldError form FQuorum =
     (let q = js_Number (f_quorum form)
      in if f_quorum form = [] \<or> isNaN q \<or> num_le q (Fin 0)
         then Some (js ''Quorum must be a positive number.'') else None)"
| "fieldError form FDuration =
     (let d = js_Number (f_duration form)
      in if f_duration form = [] \<or> isNaN d \<or> num_lt d (Fin 60) \<or> num_lt (Fin 2592000) d
         then Some (js ''Duration must be between 60 seconds and 30 days.'') else None)"

definition hasErrors :: "FormState \<Rightarrow> bool" where
  "hasErrors form \<longleftrightarrow> list_ex (\<lambda>k. fieldError form k \<noteq> None) FIELDS"

section \<open>Submission\<close>

text \<open>A successful transaction may carry a return value, whose \<open>u64()\<close> is an integer or throws.\<close>

datatype tx_status = SUCCESS "int result option" | FAILED | NOT_FOUND

record chain_env =
  ce_getAccount :: "jstring \<Rightarrow> jstring result"
  ce_newAccount :: "jstring \<Rightarrow> jstring \<Rightarrow> unit result"
  ce_nativeToScVal :: "ScVal \<Rightarrow> unit result"
  ce_build :: "transaction \<Rightarrow> unit result"
  ce_PUBLIC :: jstring
  ce_TESTNET :: jstring
  ce_simulate :: "transaction \<Rightarrow> jstring option result"
  ce_assemble :: "transaction \<Rightarrow> transaction result"
  ce_prompt :: "jstring option"
  ce_sign :: "jstring \<Rightarrow> transaction \<Rightarrow> transaction result"
  ce_send :: "transaction \<Rightarrow> (jstring option \<times> jstring) result"
  ce_getTransaction :: "jstring \<Rightarrow> nat \<Rightarrow> tx_status result"

definition proposal_args :: "(ScVal \<Rightarrow> unit result) \<Rightarrow> jstring \<Rightarrow> FormState \<Rightarrow> ScVal list result" where
  "proposal_args conv wallet form =
     scargs conv
       [Inr (Sc_address wallet),
        Inr (Sc_string (trim (f_title form))),
        Inr (Sc_string (trim (f_description form))),
        map_sum id Sc_i128 (BigInt_of_Number (Math_round (js_Number (f_quorum form)))),
        map_sum id Sc_u64 (BigInt_of_Number (Math_round (js_Number (f_duration form))))]"

definition proposal_tx :: "chain_env \<Rightarrow> vite_env \<Rightarrow> jstring \<Rightarrow> FormState \<Rightarrow> transaction result" where
  "proposal_tx ce env wallet form =
     (case ce_getAccount ce wallet of
        Inl e \<Rightarrow> Inl e
      | Inr sequence \<Rightarrow>
          (case ce_newAccount ce wallet sequence of
             Inl e \<Rightarrow> Inl e
           | Inr _ \<Rightarrow>
               (case proposal_args (ce_nativeToScVal ce) wallet form of
                  Inl e \<Rightarrow> Inl e
                | Inr args \<Rightarrow>
                    let tx = \<lparr>tx_source = wallet, tx_sequence = sequence, tx_fee = js ''1000000'',
                       tx_passphrase = (if ACTIVE_NETWORK env = js ''mainnet'' then ce_PUBLIC ce else ce_TESTNET ce),
                       tx_contract = governanceContractId (config env), tx_function = ''create_proposal'',
                       tx_args = args, tx_timeout = 30\<rparr>
                    in case ce_build ce tx of Inl e \<Rightarrow> Inl e | Inr _ \<Rightarrow> Inr tx)))"

definition returned_id :: "int result option \<Rightarrow> jnum result" where
  "returned_id v =
     (case v of
        None \<Rightarrow> Inr (Fin 0)
      | Some (Inl e) \<Rightarrow> Inl e
      | Some (Inr n) \<Rightarrow> Inr (js_Number (show_int n)))"

fun await_confirmation :: "(nat \<Rightarrow> tx_status result) \<Rightarrow> nat \<Rightarrow> nat \<Rightarrow> jnum result" where
  "await_confirmation status attempts 0 =
     Inl (new_Error (js ''Transaction timed out waiting for confirmation.''))"
| "await_confirmation status attempts (Suc left) =
     (case status attempts of
        Inl e \<Rightarrow> Inl e
      | Inr (SUCCESS v) \<Rightarrow> returned_id v
      | Inr FAILED \<Rightarrow> Inl (new_Error (js ''Transaction failed on-chain.''))
      | Inr NOT_FOUND \<Rightarrow> await_confirmation status (attempts + 1) left)"

text \<open>How the body of the \<open>try\<close> ends: \<open>onSuccess\<close> was called, an error was shown and the code returned, or it threw.\<close>

datatype submit_end = Created jnum | Stopped jstring | Threw thrown

definition sign_and_send :: "chain_env \<Rightarrow> transaction \<Rightarrow> submit_end" where
  "sign_and_send ce assembled =
     (case ce_prompt ce of
        None \<Rightarrow> Stopped (js ''Transaction signing cancelled.'')
      | Some secretKey \<Rightarrow>
          if secretKey = [] then Stopped (js ''Transaction signing cancelled.'')
          else if \<not> starts_with secretKey (js ''S'')
          then Stopped (js ''Invalid secret key. It must start with '' @ [34] @ js ''S'' @ [34] @ js ''.'')
          else (case ce_sign ce secretKey assembled of
                  Inl e \<Rightarrow> Threw e
                | Inr signed \<Rightarrow>
                    (case ce_send ce signed of
                       Inl e \<Rightarrow> Threw e
                     | Inr (Some errorResult, _) \<Rightarrow> Threw (new_Error (js ''Submission error: '' @ errorResult))
                     | Inr (None, hash) \<Rightarrow>
                         (case await_confirmation (ce_getTransaction ce hash) 0 20 of
                            Inl e \<Rightarrow> Threw e
                          | Inr i \<Rightarrow> Created i))))"

definition submit_body :: "chain_env \<Rightarrow> vite_env \<Rightarrow> jstring \<Rightarrow> FormState \<Rightarrow> submit_end" where
  "submit_body ce env wallet form =
     (case proposal_tx ce env wallet form of
        Inl e \<Rightarrow> Threw e
      | Inr tx \<Rightarrow>
          (case ce_simulate ce tx of
             Inl e \<Rightarrow> Threw e
           | Inr (Some err) \<Rightarrow> Threw (new_Error (js ''Simulation error: '' @ err))
           | Inr None \<Rightarrow>
               (case ce_assemble ce tx of
                  Inl e \<Rightarrow> Threw e
                | Inr assembled \<Rightarrow> sign_and_send ce assembled)))"

record create_form =
  cf_form :: FormState
  cf_touched :: "FieldName \<Rightarrow> bool"
  cf_submitting :: bool
  cf_submitError :: "jstring option"
  cf_created :: "jnum list"

definition initial_create_form :: create_form where
  "initial_create_form = \<lparr>cf_form = INITIAL_FORM, cf_touched = (\<lambda>_. False), cf_submitting = False,
     cf_submitError = None, cf_created = []\<rparr>"

definition cf_handleChange :: "FieldName \<Rightarrow> jstring \<Rightarrow> create_form \<Rightarrow> create_form" where
  "cf_handleChange field v s = s\<lparr>cf_form := set_field field v (cf_form s)\<rparr>"

definition cf_handleBlur :: "FieldName \<Rightarrow> create_form \<Rightarrow> create_form" where
  "cf_handleBlur field s = s\<lparr>cf_touched := (cf_touched s)(field := True)\<rparr>"

definition cf_handleSubmit :: "chain_env \<Rightarrow> vite_env \<Rightarrow> jstring \<Rightarrow> create_form \<Rightarrow> create_form" where
  "cf_handleSubmit ce env wallet s =
     (let s1 = s\<lparr>cf_touched := (\<lambda>_. True)\<rparr>
      in if hasErrors (cf_form s) then s1
         else let s2 = s1\<lparr>cf_submitting := True, cf_submitError := None\<rparr>;
                  s3 = (case submit_body ce env wallet (cf_form s) of
                          Created i \<Rightarrow> s2\<lparr>cf_created := cf_created s2 @ [i]\<rparr>
                        | Stopped m \<Rightarrow> s2\<lparr>cf_submitError := Some m\<rparr>
                        | Threw e \<Rightarrow> s2\<lparr>cf_submitError := Some (message_of e)\<rparr>)
              in s3\<lparr>cf_submitting := False\<rparr>)"

definition cf_showError :: "create_form \<Rightarrow> FieldName \<Rightarrow> jstring option" where
  "cf_showError s field = (if cf_touched s field then fieldError (cf_form s) field else None)"

section \<open>Validation against the contract\<close>

lemma hasErrors_iff: "\<not> hasErrors form \<longleftrightarrow> (\<forall>k. fieldError form k = None)"
proof -
  have "set FIELDS = UNIV" using FieldName.exhaust by (auto simp add: FIELDS_def)
  then show ?thesis by (simp add: hasErrors_def list_ex_iff)
qed

interpretation create_form: proposal_validator "\<lambda>f. \<not> hasErrors f"
proof unfold_locales
  fix f assume a: "\<not> hasErrors f"
  then have v: "fieldError f k = None" for k by (simp add: hasErrors_iff)
  show "trim (f_title f) \<noteq> [] \<and> length (f_title f) \<le> 128"
    using v [of FTitle] by (auto split: if_splits)
  show "trim (f_description f) \<noteq> [] \<and> length (f_description f) \<le> 1024"
    using v [of FDescription] by (auto split: if_splits)
  show "num_lt (Fin 0) (js_Number (f_quorum f))"
    using v [of FQuorum] by (auto simp add: Let_def intro: num_not_le split: if_splits)
  show "num_le (Fin 60) (js_Number (f_duration f)) \<and> num_le (js_Number (f_duration f)) (Fin 2592000)"
    using v [of FDuration] by (auto simp add: Let_def intro: num_not_lt num_not_gt split: if_splits)
qed

text \<open>
  The integers and strings that \<open>nativeToScVal\<close> converts: those that fit the requested type.
\<close>

fun scval_in_range :: "ScVal \<Rightarrow> bool" where
  "scval_in_range (Sc_u64 n) \<longleftrightarrow> 0 \<le> n \<and> n < 2 ^ 64"
| "scval_in_range (Sc_u32 n) \<longleftrightarrow> n < 2 ^ 32"
| "scval_in_range (Sc_i128 n) \<longleftrightarrow> - (2 ^ 127) \<le> n \<and> n < 2 ^ 127"
| "scval_in_range (Sc_string s) \<longleftrightarrow> True"
| "scval_in_range _ \<longleftrightarrow> False"

lemma proposal_args_quorum:
  assumes "\<not> hasErrors f" and "js_Number (f_quorum f) = Fin r" and "r + 1 / 2 < 2 ^ 127"
    and "\<And>v. scval_in_range v \<Longrightarrow> conv v = Inr ()" and "conv (Sc_address wallet) = Inr ()"
  obtains d where "proposal_args conv wallet f = Inr [Sc_address wallet, Sc_string (trim (f_title f)),
      Sc_string (trim (f_description f)), Sc_i128 \<lfloor>r + 1 / 2\<rfloor>, Sc_u64 d]"
    and "BigInt_of_Number (Math_round (js_Number (f_duration f))) = Inr d"
proof -
  obtain d where d: "BigInt_of_Number (Math_round (js_Number (f_duration f))) = Inr d"
    "60 \<le> d" "d \<le> 2592000"
    using create_form.duration_rounds [OF assms(1)] by blast
  have "0 < r" using create_form.quorum_ok [OF assms(1)] assms(2) by simp
  then have "0 \<le> \<lfloor>r + 1 / 2\<rfloor>" by simp
  moreover have "\<lfloor>r + 1 / 2\<rfloor> < 2 ^ 127" using assms(3) by (simp add: floor_less_iff)
  ultimately have "conv (Sc_i128 \<lfloor>r + 1 / 2\<rfloor>) = Inr ()" "conv (Sc_u64 d) = Inr ()"
    using d by (intro assms(4); simp)+
  with assms(2,4,5) d(1) show ?thesis by (intro that [of d]) (simp_all add: proposal_args_def)
qed

text \<open>
  A form that is accepted, with texts in ASCII and a quorum that neither rounds to zero nor
  exceeds the contract's 128-bit integers, yields the arguments of \<open>create_proposal\<close> with trimmed
  texts and rounded numbers, and the contract's input checks accept them; the SDK is assumed to
  convert the wallet's address and values that fit their type.
\<close>

theorem create_form_mirrors_contract:
  assumes "\<not> hasErrors f" and "ascii (f_title f)" and "ascii (f_description f)"
    and "js_Number (f_quorum f) = Fin r" and "1 / 2 \<le> r" and "r + 1 / 2 < 2 ^ 127"
    and "\<And>v. scval_in_range v \<Longrightarrow> conv v = Inr ()" and "conv (Sc_address wallet) = Inr ()"
  shows "\<exists>q d. proposal_args conv wallet f = Inr [Sc_address wallet, Sc_string (trim (f_title f)),
      Sc_string (trim (f_description f)), Sc_i128 q, Sc_u64 d]
    \<and> contract_input_check (utf8_len (trim (f_title f))) (utf8_len (trim (f_description f))) None q d = None"
proof -
  obtain d where a: "proposal_args conv wallet f = Inr [Sc_address wallet, Sc_string (trim (f_title f)),
      Sc_string (trim (f_description f)), Sc_i128 \<lfloor>r + 1 / 2\<rfloor>, Sc_u64 d]"
    and d: "BigInt_of_Number (Math_round (js_Number (f_duration f))) = Inr d"
    using proposal_args_quorum [where conv = conv, OF assms(1,4,6-8)] .
  have "0 < \<lfloor>r + 1 / 2\<rfloor>" using assms(5) by (simp add: zero_less_floor)
  from create_form.contract_accepts [OF assms(1-3) this d] a show ?thesis by blast
qed

definition ok_form :: FormState where
  "ok_form = \<lparr>f_title = show_nat 7, f_description = show_nat 8, f_quorum = show_nat 1000,
     f_duration = show_nat 86400\<rparr>"

lemma numeral_fields:
  shows "js_Number (show_nat 1000) = Fin 1000" "js_Number (show_nat 86400) = Fin 86400"
    and "trim (show_nat n) = show_nat n" and "ascii (show_nat n)"
proof -
  show "js_Number (show_nat 1000) = Fin 1000" "js_Number (show_nat 86400) = Fin 86400"
    using round64_of_nat [of 1000] round64_of_nat [of 86400] by (simp_all add: js_Number_show_nat)
  show "trim (show_nat n) = show_nat n" by (rule trim_digits) (simp add: show_nat_digits)
  show "ascii (show_nat n)" by (auto simp add: ascii_def is_digit_def dest!: show_nat_digits)
qed

lemma ok_form_accepted: "\<not> hasErrors ok_form"
proof -
  have "length (show_nat 7) \<le> 3" "length (show_nat 8) \<le> 3" by (rule length_show_nat_le; simp)+
  then have "fieldError ok_form k = None" for k
    by (cases k) (simp_all add: ok_form_def Let_def isNaN_def numeral_fields)
  then show ?thesis by (simp add: hasErrors_iff)
qed

theorem create_form_mirrors_contract_witness:
  "\<exists>q d. proposal_args (\<lambda>_. Inr ()) (js ''G1'') ok_form =
      Inr [Sc_address (js ''G1''), Sc_string (trim (f_title ok_form)),
        Sc_string (trim (f_description ok_form)), Sc_i128 q, Sc_u64 d]
    \<and> contract_input_check (utf8_len (trim (f_title ok_form))) (utf8_len (trim (f_description ok_form))) None q d = None"
  by (rule create_form_mirrors_contract [OF ok_form_accepted, of 1000])
     (simp_all add: ok_form_def numeral_fields)

text \<open>
  The form's rules are weaker than the contract's: every accepted quorum below one half is sent
  as zero, which the contract refuses.
\<close>

theorem small_quorum_refused:
  assumes "\<not> hasErrors f" and "js_Number (f_quorum f) = Fin r" and "r < 1 / 2"
    and "ascii (f_title f)" and "ascii (f_description f)"
    and "\<And>v. scval_in_range v \<Longrightarrow> conv v = Inr ()" and "conv (Sc_address wallet) = Inr ()"
  shows "\<exists>d. proposal_args conv wallet f = Inr [Sc_address wallet, Sc_string (trim (f_title f)),
      Sc_string (trim (f_description f)), Sc_i128 0, Sc_u64 d]
    \<and> contract_input_check (utf8_len (trim (f_title f))) (utf8_len (trim (f_description f))) None 0 d
        = Some ''InvalidQuorum''"
proof -
  have "0 < r" using create_form.quorum_ok [OF assms(1)] assms(2) by simp
  with assms(3) have q: "\<lfloor>r + 1 / 2\<rfloor> = 0" by (simp add: floor_eq_iff)
  have "r + 1 / 2 < 2 ^ 127" using assms(3) by simp
  then obtain d where "proposal_args conv wallet f = Inr [Sc_address wallet, Sc_string (trim (f_title f)),
      Sc_string (trim (f_description f)), Sc_i128 \<lfloor>r + 1 / 2\<rfloor>, Sc_u64 d]"
    using proposal_args_quorum [where conv = conv, OF assms(1,2) _ assms(6,7)] by blast
  with create_form.texts_in_range [OF assms(1,4,5)] q show ?thesis
    by (simp add: contract_input_check_def)
qed

lemma round64_quarter: "round64 (1 / 4) = Fin (1 / 4)"
proof -
  have "bin_exp (1 / 4) = -2"
    using bin_exp_less [of "1 / 4" "-2"] bin_exp_ge [of "-2" "1 / 4"] by (simp add: pow2_def)
  then have u: "ulp_exp (1 / 4) = -54" by (simp add: ulp_exp_def)
  have "round_mag (1 / 4) = 1 / 4"
    by (rule round_mag_exact [of _ "2 ^ 52"]) (simp add: u pow2_def)
  moreover have "(1 / 4 :: rat) < pow2 0" by (simp add: pow2_def)
  then have "\<not> pow2 1024 \<le> 1 / 4" using pow2_mono [of 0 1024] by linarith
  ultimately show ?thesis by (simp add: round64_def)
qed

lemma quarter: "js_Number [48, 46, 50, 53] = Fin (1 / 4)"
proof -
  have "unsigned_decimal [48, 46, 50, 53] = Some (1 / 4)"
    by (simp add: unsigned_decimal_def is_digit_def starts_with_def digits_val_def)
  moreover have "trim [48, 46, 50, 53] = [48, 46, 50, 53]"
    by (simp add: trim_def is_space_def)
  ultimately show ?thesis
    using round64_quarter by (simp add: js_Number_def radix_of_def starts_with_def js_def)
qed

lemma edited_form_accepted:
  assumes "\<And>k. k \<noteq> n \<Longrightarrow> fieldError f k = fieldError ok_form k" and "fieldError f n = None"
  shows "\<not> hasErrors f"
  using assms ok_form_accepted unfolding hasErrors_iff by metis

theorem small_quorum_refused_witness:
  "\<exists>d. proposal_args (\<lambda>_. Inr ()) (js ''G1'') (ok_form\<lparr>f_quorum := [48, 46, 50, 53]\<rparr>) =
      Inr [Sc_address (js ''G1''), Sc_string (trim (f_title ok_form)),
        Sc_string (trim (f_description ok_form)), Sc_i128 0, Sc_u64 d]
    \<and> contract_input_check (utf8_len (trim (f_title ok_form))) (utf8_len (trim (f_description ok_form))) None 0 d
        = Some ''InvalidQuorum''"
proof -
  let ?f = "ok_form\<lparr>f_quorum := [48, 46, 50, 53]\<rparr>"
  have "fieldError ?f k = fieldError ok_form k" if "k \<noteq> FQuorum" for k using that by (cases k) simp_all
  moreover have "fieldError ?f FQuorum = None" by (simp add: quarter isNaN_def)
  ultimately have "\<not> hasErrors ?f" by (rule edited_form_accepted)
  from small_quorum_refused [OF this, of "1 / 4" "\<lambda>_. Inr ()" "js ''G1''"] show ?thesis
    by (simp add: quarter ok_form_def numeral_fields)
qed

definition accented_form :: FormState where
  "accented_form = ok_form\<lparr>f_title := replicate 128 233\<rparr>"

lemma utf8_len_replicate: "128 \<le> c \<Longrightarrow> c < 2048 \<Longrightarrow> utf8_len (replicate n c) = 2 * n"
proof (induction n)
  case (Suc n)
  then show ?case by (cases n) simp_all
qed simp

text \<open>
  Nor does the length limit agree outside ASCII: a title of 128 letters with an accent is accepted,
  and is 256 bytes for the contract, which refuses it.
\<close>

theorem accented_title_refused:
  "\<not> hasErrors accented_form
   \<and> contract_input_check (utf8_len (trim (f_title accented_form)))
       (utf8_len (trim (f_description accented_form))) None q d = Some ''InvalidTitle''"
proof -
  have t: "trim (replicate 128 233) = replicate 128 233"
    by (rule trim_no_space) (simp add: is_space_def)
  have "fieldError accented_form k = fieldError ok_form k" if "k \<noteq> FTitle" for k
    using that by (cases k) (simp_all add: accented_form_def)
  moreover have "fieldError accented_form FTitle = None" by (simp add: accented_form_def t)
  ultimately have "\<not> hasErrors accented_form" by (rule edited_form_accepted)
  moreover have "utf8_len (trim (f_title accented_form)) = 256"
    using utf8_len_replicate [of 233 128] by (simp add: accented_form_def t)
  ultimately show ?thesis by (simp add: contract_input_check_def)
qed

section \<open>Submitting\<close>

lemma await_confirmation_iff:
  "await_confirmation status a n = Inr i \<longleftrightarrow>
     (\<exists>m < n. (\<exists>v. status (a + m) = Inr (SUCCESS v) \<and> returned_id v = Inr i)
        \<and> (\<forall>l < m. status (a + l) = Inr NOT_FOUND))"
proof (induction n arbitrary: a)
  case 0
  then show ?case by simp
next
  case (Suc n)
  show ?case
  proof (cases "status a")
    case (Inl e)
    then show ?thesis unfolding Ex_less_Suc2 All_less_Suc2 by simp
  next
    case (Inr st)
    then show ?thesis unfolding Ex_less_Suc2 All_less_Suc2 using Suc [of "a + 1"] by (cases st) auto
  qed
qed

text \<open>
  The whole path of a successful submission: built, simulated, assembled, signed with the key
  entered, sent, and confirmed within 20 status requests, the earlier ones having found nothing.
\<close>

definition confirmed :: "chain_env \<Rightarrow> vite_env \<Rightarrow> jstring \<Rightarrow> FormState \<Rightarrow> jnum \<Rightarrow> bool" where
  "confirmed ce env wallet form i \<longleftrightarrow>
     (\<exists>tx assembled signed key hash m v. proposal_tx ce env wallet form = Inr tx
        \<and> ce_simulate ce tx = Inr None \<and> ce_assemble ce tx = Inr assembled
        \<and> ce_prompt ce = Some key \<and> starts_with key (js ''S'') \<and> ce_sign ce key assembled = Inr signed
        \<and> ce_send ce signed = Inr (None, hash) \<and> m < 20
        \<and> ce_getTransaction ce hash m = Inr (SUCCESS v) \<and> returned_id v = Inr i
        \<and> (\<forall>l < m. ce_getTransaction ce hash l = Inr NOT_FOUND))"

lemma sign_and_send_created:
  "sign_and_send ce assembled = Created i \<longleftrightarrow>
     (\<exists>key signed hash. ce_prompt ce = Some key \<and> starts_with key (js ''S'')
        \<and> ce_sign ce key assembled = Inr signed \<and> ce_send ce signed = Inr (None, hash)
        \<and> await_confirmation (ce_getTransaction ce hash) 0 20 = Inr i)"
  by (auto simp add: sign_and_send_def starts_with_def split: sum.splits option.splits if_splits)

lemma submit_body_created: "submit_body ce env wallet form = Created i \<longleftrightarrow> confirmed ce env wallet form i"
proof -
  have "submit_body ce env wallet form = Created i \<longleftrightarrow>
    (\<exists>tx assembled. proposal_tx ce env wallet form = Inr tx \<and> ce_simulate ce tx = Inr None
       \<and> ce_assemble ce tx = Inr assembled \<and> sign_and_send ce assembled = Created i)"
    by (auto simp add: submit_body_def split: sum.splits option.splits)
  then show ?thesis unfolding sign_and_send_created await_confirmation_iff confirmed_def
    by (simp, blast)
qed

text \<open>
  C13. Submitting ends in exactly one visible outcome and never stays pending.  With field errors
  nothing is sent and only the fields are marked.  Otherwise success is reported, once and with the
  id the node returned, exactly when the transaction was built, simulated without error, signed and sent and
  the node reported it as successful within 20 status requests, all earlier ones having found
  nothing; in every other case an error message is shown and no success is reported.
\<close>

theorem create_submit_outcome:
  assumes "\<not> cf_submitting s"
  shows "\<not> cf_submitting (cf_handleSubmit ce env wallet s)
    \<and> (if hasErrors (cf_form s)
       then cf_handleSubmit ce env wallet s = s\<lparr>cf_touched := (\<lambda>_. True)\<rparr>
       else if \<exists>i. confirmed ce env wallet (cf_form s) i
       then cf_submitError (cf_handleSubmit ce env wallet s) = None
         \<and> (\<exists>i. confirmed ce env wallet (cf_form s) i
              \<and> cf_created (cf_handleSubmit ce env wallet s) = cf_created s @ [i])
       else cf_submitError (cf_handleSubmit ce env wallet s) \<noteq> None
         \<and> cf_created (cf_handleSubmit ce env wallet s) = cf_created s)"
proof (cases "hasErrors (cf_form s)")
  case True
  with assms show ?thesis by (simp add: cf_handleSubmit_def)
next
  case False
  then show ?thesis
    by (cases "submit_body ce env wallet (cf_form s)")
       (simp_all add: cf_handleSubmit_def submit_body_created [symmetric])
qed

definition sample_chain :: chain_env where
  "sample_chain = \<lparr>ce_getAccount = (\<lambda>_. Inr (js ''12'')), ce_newAccount = (\<lambda>_ _. Inr ()),
     ce_nativeToScVal = (\<lambda>_. Inr ()), ce_build = (\<lambda>_. Inr ()),
     ce_PUBLIC = js ''P'', ce_TESTNET = js ''T'', ce_simulate = (\<lambda>_. Inr None), ce_assemble = Inr,
     ce_prompt = Some (js ''SKEY''), ce_sign = (\<lambda>_. Inr), ce_send = (\<lambda>_. Inr (None, js ''h'')),
     ce_getTransaction = (\<lambda>_ n. if n < 2 then Inr NOT_FOUND else Inr (SUCCESS (Some (Inr 5))))\<rparr>"

lemma sample_chain_confirms: "\<exists>i. confirmed sample_chain env (js ''G1'') ok_form i"
proof -
  obtain tx where "proposal_tx sample_chain env (js ''G1'') ok_form = Inr tx"
    by (simp add: proposal_tx_def proposal_args_def sample_chain_def ok_form_def numeral_fields Let_def)
  moreover have "\<forall>l < 2. ce_getTransaction sample_chain (js ''h'') l = Inr NOT_FOUND"
    by (simp add: sample_chain_def)
  moreover have "ce_getTransaction sample_chain (js ''h'') 2 = Inr (SUCCESS (Some (Inr 5)))"
    "returned_id (Some (Inr 5)) = Inr (js_Number (show_int 5))"
    by (simp_all add: sample_chain_def returned_id_def)
  moreover have "starts_with (js ''SKEY'') (js ''S'')" by (simp add: starts_with_def js_def)
  moreover have "(2 :: nat) < 20" by simp
  ultimately have "confirmed sample_chain env (js ''G1'') ok_form (js_Number (show_int 5))"
    unfolding confirmed_def
    by (intro exI [of _ tx] exI [of _ "js ''SKEY''"] exI [of _ "js ''h''"] exI [of _ "2 :: nat"]
        exI [of _ "Some (Inr 5)"] conjI) (simp_all add: sample_chain_def)
  then show ?thesis ..
qed

theorem create_submit_outcome_witness:
  "let s = initial_create_form\<lparr>cf_form := ok_form\<rparr>;
       s' = cf_handleSubmit sample_chain \<lparr>VITE_GOVERNANCE_CONTRACT_ID = None, VITE_TOKEN_CONTRACT_ID = None,
         VITE_TREASURY_CONTRACT_ID = None, VITE_NETWORK = None\<rparr> (js ''G1'') s
   in \<not> cf_submitting s' \<and> cf_submitError s' = None \<and> length (cf_created s') = 1"
proof -
  let ?s = "initial_create_form\<lparr>cf_form := ok_form\<rparr>"
  let ?env = "\<lparr>VITE_GOVERNANCE_CONTRACT_ID = None, VITE_TOKEN_CONTRACT_ID = None,
         VITE_TREASURY_CONTRACT_ID = None, VITE_NETWORK = None\<rparr>"
  have "\<not> cf_submitting ?s" by (simp add: initial_create_form_def)
  from create_submit_outcome [OF this, of sample_chain ?env "js ''G1''"] sample_chain_confirms [of ?env]
  show ?thesis by (auto simp add: ok_form_accepted initial_create_form_def Let_def)
qed

end
