(* ===== verification/Format_Utils.thy ===== *)
theory Format_Utils
  imports JS_Prelude
begin

text \<open>
  \<^verbatim>\<open>frontend/src/utils.ts\<close>: masking of Stellar addresses and rendering of token amounts.
  The thousands separators come from the regular expression
  \<^verbatim>\<open>/\B(?=(\d{3})+(?!\d))/g\<close>; \<open>insert_commas\<close> follows its matching rule position by position,
  and is shown equal to a reference that groups the number arithmetically.
\<close>

section \<open>Definitions\<close>

definition maskAddress :: "jstring \<Rightarrow> jstring" where
  "maskAddress addr = slice addr 0 6 @ js ''...'' @ slice_from addr (-4)"

definition is_word :: "nat \<Rightarrow> bool" where
  "is_word c \<longleftrightarrow> is_digit c \<or> 65 \<le> c \<and> c \<le> 90 \<or> 97 \<le> c \<and> c \<le> 122 \<or> c = 95"

text \<open>
  The lookahead \<^verbatim>\<open>(\d{3})+(?!\d)\<close> succeeds at a position exactly when the maximal run of digits
  there is not empty and its length is a multiple of three.
\<close>

definition triple_ahead :: "jstring \<Rightarrow> bool" where
  "triple_ahead s \<longleftrightarrow> (let m = length (takeWhile is_digit s) in 0 < m \<and> m mod 3 = 0)"

text \<open>
  \<open>insert_commas pw s\<close> is the replacement on the rest \<open>s\<close> of the subject, where \<open>pw\<close> tells
  whether the unit before \<open>s\<close> is a word character (\<^verbatim>\<open>\B\<close> holds where both sides agree).
\<close>

fun insert_commas :: "bool \<Rightarrow> jstring \<Rightarrow> jstring" where
  "insert_commas pw [] = []"
| "insert_commas pw (c # s) =
     (if pw = is_word c \<and> triple_ahead (c # s) then [44] else [])
       @ c # insert_commas (is_word c) s"

definition formatTokenAmount :: "int \<Rightarrow> nat \<Rightarrow> jstring" where
  "formatTokenAmount amount decimals =
     (let str = show_int amount
      in if decimals = 0 then insert_commas False str
         else let padded = padStart (decimals + 1) 48 str;
                  intPart = insert_commas False (slice padded 0 (- int decimals));
                  fracPart = slice_from padded (- int decimals);
                  fracPart2 = padEnd 2 48 (slice fracPart 0 2)
              in intPart @ [46] @ fracPart2 @ js '' CVT'')"

section \<open>Digit strings\<close>

lemma last_digit_unique:
  "10 * x + a = 10 * y + b \<Longrightarrow> a \<le> 9 \<Longrightarrow> b \<le> 9 \<Longrightarrow> a = b \<and> x = y" for a b x y :: nat
  by presburger

text \<open>Digit strings of one length are determined by their value.\<close>

lemma digits_val_inj:
  assumes "length s = length t" and "\<forall>c \<in> set s. is_digit c" and "\<forall>c \<in> set t. is_digit c"
    and "digits_val s = digits_val t"
  shows "s = t"
  using assms
proof (induction s arbitrary: t rule: rev_induct)
  case Nil
  then show ?case by simp
next
  case (snoc c s)
  then obtain d t' where t: "t = t' @ [d]"
    by (cases t rule: rev_cases) auto
  from snoc.prems t have d: "is_digit c" "is_digit d" by auto
  from snoc.prems(4) t have v: "10 * digits_val s + (c - 48) = 10 * digits_val t' + (d - 48)"
    by simp
  have "c - 48 \<le> 9" "d - 48 \<le> 9" using d by (auto simp add: is_digit_def)
  with v have cd: "c - 48 = d - 48" and vs: "digits_val s = digits_val t'"
    using last_digit_unique by blast+
  have "s = t'" using snoc.prems t vs by (intro snoc.IH) auto
  moreover from cd d have "c = d" unfolding is_digit_def by arith
  ultimately show ?case using t by simp
qed

definition width :: "nat \<Rightarrow> nat \<Rightarrow> jstring" where
  "width d n = padStart d 48 (show_nat n)"

lemma width_digits: "c \<in> set (width d n) \<Longrightarrow> is_digit c"
  by (auto simp add: width_def padStart_def is_digit_def dest: show_nat_digits [unfolded is_digit_def])

lemma length_width: "n < 10 ^ d \<Longrightarrow> 0 < d \<Longrightarrow> length (width d n) = d"
  by (simp add: width_def max_def length_show_nat_le antisym)

lemma digits_val_width [simp]: "digits_val (width d n) = n"
  by (simp add: width_def)

lemma width_eqI:
  assumes "length s = d" and "\<forall>c \<in> set s. is_digit c" and "digits_val s < 10 ^ d" and "0 < d"
  shows "width d (digits_val s) = s"
  using assms by (intro digits_val_inj) (auto simp add: length_width dest: width_digits)

text \<open>Splitting a numeral \<open>d\<close> digits from its end is division by \<open>10^d\<close>.\<close>

lemma show_nat_split:
  assumes "10 ^ d \<le> n" and "0 < d"
  shows "show_nat n = show_nat (n div 10 ^ d) @ width d (n mod 10 ^ d)"
  using assms
proof (induction d arbitrary: n)
  case 0
  then show ?case by simp
next
  case (Suc d)
  from Suc.prems have n10: "\<not> n < 10"
    by (metis dual_order.trans linorder_not_less one_le_numeral power_increasing power_one_right
        Suc_leI zero_less_Suc One_nat_def)
  let ?l = "48 + n mod 10"
  have w: "width (Suc d) (n mod 10 ^ Suc d) = t"
    if "t \<noteq> []" "length t = Suc d" "\<forall>c \<in> set t. is_digit c" "digits_val t = n mod 10 ^ Suc d" for t
    using that by (metis mod_less_divisor width_eqI zero_less_Suc zero_less_numeral zero_less_power)
  have last: "is_digit ?l" unfolding is_digit_def by simp
  show ?case
  proof (cases "d = 0")
    case True
    with n10 w [of "[?l]"] last show ?thesis
      by (simp add: show_nat.simps [of n] digits_val_def)
  next
    case False
    with Suc.prems have "10 ^ d \<le> n div 10" by (simp add: less_eq_div_iff_mult_less_eq mult.commute)
    with False Suc.IH have ih: "show_nat (n div 10) =
        show_nat (n div 10 div 10 ^ d) @ width d (n div 10 mod 10 ^ d)"
      by simp
    have "width (Suc d) (n mod 10 ^ Suc d) = width d (n div 10 mod 10 ^ d) @ [?l]"
    proof (rule w)
      show "length (width d (n div 10 mod 10 ^ d) @ [?l]) = Suc d"
        using False by (simp add: length_width)
      show "\<forall>c \<in> set (width d (n div 10 mod 10 ^ d) @ [?l]). is_digit c"
        using last by (auto dest: width_digits)
      show "digits_val (width d (n div 10 mod 10 ^ d) @ [?l]) = n mod 10 ^ Suc d"
        by (simp add: mod_mult2_eq)
    qed simp
    with n10 ih show ?thesis
      by (simp add: show_nat.simps [of n] div_mult2_eq)
  qed
qed

lemma padStart_show_nat_split:
  assumes "0 < d"
  shows "padStart (d + 1) 48 (show_nat n) = show_nat (n div 10 ^ d) @ width d (n mod 10 ^ d)"
proof (cases "10 ^ d \<le> n")
  case True
  then have "0 < n div 10 ^ d" by (simp add: div_greater_zero_iff)
  then have "1 \<le> length (show_nat (n div 10 ^ d))" by (simp add: Suc_leI)
  moreover have "length (width d (n mod 10 ^ d)) = d" using assms by (simp add: length_width)
  moreover note show_nat_split [OF True assms]
  ultimately show ?thesis by (simp add: padStart_def)
next
  case False
  then have "length (show_nat n) \<le> d" using assms by (simp add: length_show_nat_le)
  with False show ?thesis
    by (simp add: padStart_def width_def Suc_diff_le show_nat.simps [of 0])
qed

section \<open>Thousands separators\<close>

lemma triple_ahead_digits:
  "\<forall>c \<in> set s. is_digit c \<Longrightarrow> triple_ahead s \<longleftrightarrow> s \<noteq> [] \<and> length s mod 3 = 0"
  by (simp add: triple_ahead_def takeWhile_eq_all_conv [THEN iffD2])

lemma insert_commas_append:
  assumes "\<forall>c \<in> set (s @ t). is_digit c" and "length t mod 3 = 0" and "s \<noteq> []"
  shows "insert_commas pw (s @ t) = insert_commas pw s @ insert_commas True t"
  using assms(1,3)
proof (induction s arbitrary: pw)
  case Nil
  then show ?case by simp
next
  case (Cons c s)
  have l: "length (c # s @ t) mod 3 = length (c # s) mod 3"
    using assms(2) by (metis add.right_neutral append_Cons length_append mod_add_right_eq)
  have "triple_ahead (c # s @ t) = triple_ahead (c # s)"
    using Cons.prems l by (simp add: triple_ahead_digits)
  moreover have "is_word c" using Cons.prems by (simp add: is_word_def)
  moreover have "insert_commas True (s @ t) = insert_commas True s @ insert_commas True t"
    using Cons by (cases "s = []") auto
  ultimately show ?case by simp
qed

lemma insert_commas_three:
  assumes "length t = 3" and "\<forall>c \<in> set t. is_digit c"
  shows "insert_commas True t = 44 # t"
proof -
  obtain a b c where "t = [a, b, c]"
    using assms(1) by (auto simp add: numeral_3_eq_3 length_Suc_conv)
  with assms show ?thesis by (simp add: triple_ahead_digits is_word_def)
qed

lemma insert_commas_short:
  assumes "\<forall>c \<in> set s. is_digit c" and "length s \<le> 3"
  shows "insert_commas False s = s"
proof (cases s)
  case Nil
  then show ?thesis by simp
next
  case (Cons a s')
  with assms obtain n where "s' = [] \<or> (\<exists>b. s' = [b]) \<or> (\<exists>b c. s' = [b, c])"
    by (cases s'; cases "tl s'"; cases "tl (tl s')") auto
  with Cons assms show ?thesis by (auto simp add: triple_ahead_digits is_word_def)
qed

text \<open>The reference: groups of three digits, most significant first.\<close>

fun group3 :: "nat \<Rightarrow> jstring" where
  "group3 n = (if n < 1000 then show_nat n else group3 (n div 1000) @ [44] @ width 3 (n mod 1000))"

declare group3.simps [simp del]

lemma insert_commas_eq_group3: "insert_commas False (show_nat n) = group3 n"
proof (induction n rule: group3.induct)
  case (1 n)
  show ?case
  proof (cases "n < 1000")
    case True
    then have "length (show_nat n) \<le> 3" by (intro length_show_nat_le) simp_all
    with True show ?thesis
      by (simp add: group3.simps [of n] insert_commas_short show_nat_digits)
  next
    case False
    let ?w = "width 3 (n mod 1000)"
    have w: "length ?w = 3" "\<forall>c \<in> set ?w. is_digit c"
      by (simp_all add: length_width width_digits)
    have "show_nat n = show_nat (n div 10 ^ 3) @ width 3 (n mod 10 ^ 3)"
      using False by (intro show_nat_split) simp_all
    then have n: "show_nat n = show_nat (n div 1000) @ ?w" by simp
    have "insert_commas False (show_nat n) =
        insert_commas False (show_nat (n div 1000)) @ insert_commas True ?w"
      unfolding n using w by (intro insert_commas_append) (auto dest: show_nat_digits)
    with 1 False w show ?thesis by (simp add: group3.simps [of n] insert_commas_three)
  qed
qed

lemma filter_insert_commas: "44 \<notin> set s \<Longrightarrow> filter (\<lambda>c. c \<noteq> 44) (insert_commas pw s) = s"
  by (induction pw s rule: insert_commas.induct) auto

lemma fraction_two_digits:
  assumes "0 < d" and "m < 10 ^ d"
  shows "padEnd 2 48 (take 2 (width d m)) = width 2 (m * 100 div 10 ^ d)"
proof (cases "d = 1")
  case True
  with assms have m: "m < 10" by simp
  have l: "length (width 1 m) = 1" using assms True by (simp add: length_width)
  then have t: "padEnd 2 48 (take 2 (width 1 m)) = width 1 m @ [48]"
    by (simp add: padEnd_def numeral_2_eq_2)
  have "width 2 (digits_val (width 1 m @ [48])) = width 1 m @ [48]"
    using m l by (intro width_eqI) (auto simp add: is_digit_def dest: width_digits)
  with t True m show ?thesis by simp
next
  case False
  with assms have d: "2 \<le> d" by simp
  let ?w = "width d m"
  have l: "length ?w = d" using assms by (simp add: length_width)
  let ?v = "digits_val (take 2 ?w)"
  have dd: "\<forall>c \<in> set ?w. is_digit c" by (simp add: width_digits)
  have split: "m = ?v * 10 ^ (d - 2) + digits_val (drop 2 ?w)"
    using digits_val_append [of "take 2 ?w" "drop 2 ?w"] l d by simp
  have low: "digits_val (drop 2 ?w) < 10 ^ (d - 2)"
    using digits_val_bound [of "drop 2 ?w"] dd l by (auto dest: in_set_dropD)
  have p: "(10 :: nat) ^ d = 100 * 10 ^ (d - 2)"
  proof -
    obtain k where "d = 2 + k" using d le_Suc_ex by blast
    then show ?thesis by (simp add: power_add)
  qed
  have "m * 100 div 10 ^ d = m div 10 ^ (d - 2)"
    unfolding p by (simp add: mult.commute)
  also have "\<dots> = ?v" by (subst split) (use low in simp)
  finally have v: "m * 100 div 10 ^ d = ?v" .
  have "?v < 10 ^ length (take 2 ?w)"
    using dd by (intro digits_val_bound) (auto dest: in_set_takeD)
  then have "width 2 ?v = take 2 ?w"
    using l d dd by (intro width_eqI) (auto dest: in_set_takeD)
  with v l d show ?thesis by (simp add: padEnd_def)
qed

lemma formatTokenAmount_eq:
  "formatTokenAmount (int n) d =
     (if d = 0 then group3 n
      else group3 (n div 10 ^ d) @ [46] @ width 2 (n mod 10 ^ d * 100 div 10 ^ d) @ js '' CVT'')"
proof (cases "d = 0")
  case True
  then show ?thesis by (simp add: formatTokenAmount_def show_int_def insert_commas_eq_group3)
next
  case False
  then have d: "0 < d" by simp
  let ?p = "padStart (d + 1) 48 (show_nat n)"
  let ?w = "width d (n mod 10 ^ d)"
  have p: "?p = show_nat (n div 10 ^ d) @ ?w" by (rule padStart_show_nat_split [OF d])
  have lw: "length ?w = d" using d by (simp add: length_width)
  have ip: "slice ?p 0 (- int d) = show_nat (n div 10 ^ d)"
    and fp: "slice_from ?p (- int d) = ?w"
    unfolding slice_0_neg [OF d] slice_from_neg [OF d] p by (simp_all add: lw)
  have s2: "slice ?w 0 2 = take 2 ?w" using slice_0_nonneg [of ?w 2] by simp
  show ?thesis
    using False ip fp s2 fraction_two_digits [OF d, of "n mod 10 ^ d"]
    by (simp add: formatTokenAmount_def show_int_def insert_commas_eq_group3)
qed

section \<open>What the user sees\<close>

lemma group3_digits: "filter (\<lambda>c. c \<noteq> 44) (group3 n) = show_nat n"
proof -
  have "44 \<notin> set (show_nat n)" by (auto simp add: is_digit_def dest: show_nat_digits)
  then show ?thesis by (simp add: insert_commas_eq_group3 [symmetric] filter_insert_commas)
qed

lemma floor_split:
  fixes n p :: nat
  assumes "0 < p"
  shows "n * 100 div p = n div p * 100 + n mod p * 100 div p"
proof -
  have "n * 100 = (n div p * p + n mod p) * 100" by simp
  also have "\<dots> = n mod p * 100 + (n div p * 100) * p" by (simp only: algebra_simps)
  finally have "n * 100 div p = (n mod p * 100 + (n div p * 100) * p) div p" by (rule arg_cong)
  with assms show ?thesis by simp
qed

text \<open>
  C31. A non-negative amount with \<open>d > 0\<close> decimals is rendered as an integer part, a point, exactly
  two digits and the currency; read back as a number of hundredths, with the separators removed,
  it is the amount scaled by \<open>10 ^ d\<close> and rounded down, so the display never shows more
  tokens than there are and loses less than one hundredth.
\<close>

theorem formatTokenAmount_rounds_down:
  assumes "0 < d"
  shows "\<exists>ip fp. formatTokenAmount (int n) d = ip @ [46] @ fp @ js '' CVT''
    \<and> length fp = 2 \<and> 46 \<notin> set ip
    \<and> digits_val (filter (\<lambda>c. c \<noteq> 44) ip) * 100 + digits_val fp = n * 100 div 10 ^ d"
proof -
  let ?f = "n mod 10 ^ d * 100 div 10 ^ d"
  have "?f < 10 ^ 2" by (simp add: div_less_iff_less_mult)
  then have "length (width 2 ?f) = 2" by (rule length_width) simp
  moreover have "46 \<notin> set (group3 (n div 10 ^ d))"
  proof
    assume "46 \<in> set (group3 (n div 10 ^ d))"
    then have "46 \<in> set (filter (\<lambda>c. c \<noteq> 44) (group3 (n div 10 ^ d)))" by simp
    then show False by (auto simp add: group3_digits is_digit_def dest: show_nat_digits)
  qed
  moreover have "digits_val (filter (\<lambda>c. c \<noteq> 44) (group3 (n div 10 ^ d))) * 100
      + digits_val (width 2 ?f) = n * 100 div 10 ^ d"
    using floor_split [of "10 ^ d" n, OF zero_less_power]
    by (simp only: group3_digits digits_val_show_nat digits_val_width zero_less_numeral simp_thms)
  moreover have "formatTokenAmount (int n) d =
      group3 (n div 10 ^ d) @ [46] @ width 2 ?f @ js '' CVT''"
    using assms by (simp only: formatTokenAmount_eq) simp
  ultimately show ?thesis by blast
qed

theorem formatTokenAmount_rounds_down_witness:
  "(\<exists>ip fp. formatTokenAmount (int 12345678999) 7 = ip @ [46] @ fp @ js '' CVT''
    \<and> length fp = 2 \<and> 46 \<notin> set ip
    \<and> digits_val (filter (\<lambda>c. c \<noteq> 44) ip) * 100 + digits_val fp = 12345678999 * 100 div 10 ^ 7)"
  by (rule formatTokenAmount_rounds_down) (rule zero_less_numeral)

text \<open>
  Masking shows the first six and the last four units of an address and nothing in between: two
  addresses that agree there are masked to the same thirteen units, whatever the rest.
\<close>

theorem maskAddress_hides_middle:
  assumes "length a = 6" and "length z = 4"
  shows "maskAddress (a @ m @ z) = a @ js ''...'' @ z \<and> length (maskAddress (a @ m @ z)) = 13"
proof -
  have "slice_from (a @ m @ z) (- 4) = z"
    using slice_from_neg [of 4 "a @ m @ z"] assms by simp
  then show ?thesis
    using assms slice_0_nonneg [of "a @ m @ z" 6] by (simp add: maskAddress_def)
qed

theorem maskAddress_hides_middle_witness:
  "maskAddress (js ''GABCDE'' @ js ''SECRET'' @ js ''WXYZ'') = js ''GABCDE...WXYZ''"
  using maskAddress_hides_middle [of "js ''GABCDE''" "js ''WXYZ''" "js ''SECRET''"]
  by (simp add: js_append [symmetric])

end
