(* ===== verification/Proposal_List.thy ===== *)
theory Proposal_List
  imports Contract_Types Format_Utils
begin

text \<open>
  The proposal list of \<^verbatim>\<open>frontend/src/App.tsx\<close> (search, filter, paging, statistics), the controls of
  \<^verbatim>\<open>components/Pagination.tsx\<close> and the numbers of \<^verbatim>\<open>components/ProposalCard.tsx\<close>.  Case folding is the
  parameter \<open>lower\<close> (\<open>String.prototype.toLowerCase\<close>); every theorem holds for any such function.
\<close>

section \<open>Filtering and paging\<close>

definition ALL_STATES :: "ProposalState list" where
  "ALL_STATES = [Active, Passed, Rejected, Executed, Cancelled]"

definition PAGE_SIZE :: nat where
  "PAGE_SIZE = 20"

text \<open>The state filter is \<open>None\<close> for \<^verbatim>\<open>All\<close>.\<close>

definition matches :: "(jstring \<Rightarrow> jstring) \<Rightarrow> jstring \<Rightarrow> ProposalState option \<Rightarrow> Proposal \<Rightarrow> bool" where
  "matches lower search stateFilter p =
     (let matchState = (stateFilter = None \<or> Some (state p) = stateFilter);
          q = lower search;
          matchSearch = (q = [] \<or> js_includes (lower (title p)) q \<or> js_includes (lower (description p)) q)
      in matchState \<and> matchSearch)"

definition filtered :: "(jstring \<Rightarrow> jstring) \<Rightarrow> jstring \<Rightarrow> ProposalState option \<Rightarrow> Proposal list \<Rightarrow> Proposal list" where
  "filtered lower search stateFilter ps = filter (matches lower search stateFilter) ps"

definition totalPages :: "'a list \<Rightarrow> nat" where
  "totalPages xs = max 1 ((length xs + (PAGE_SIZE - 1)) div PAGE_SIZE)"

definition safePage :: "nat \<Rightarrow> 'a list \<Rightarrow> nat" where
  "safePage page xs = min page (totalPages xs)"

definition pagedProposals :: "nat \<Rightarrow> 'a list \<Rightarrow> 'a list" where
  "pagedProposals page xs =
     (let start = (int (safePage page xs) - 1) * int PAGE_SIZE
      in slice xs start (start + int PAGE_SIZE))"

record list_ui =
  lu_search :: jstring
  lu_stateFilter :: "ProposalState option"
  lu_page :: nat

definition initial_list :: list_ui where
  "initial_list = \<lparr>lu_search = [], lu_stateFilter = None, lu_page = 1\<rparr>"

text \<open>The effect on a change of search or filter resets the page.\<close>

definition setSearch :: "jstring \<Rightarrow> list_ui \<Rightarrow> list_ui" where
  "setSearch q u = (if q = lu_search u then u else u\<lparr>lu_search := q, lu_page := 1\<rparr>)"

definition setStateFilter :: "ProposalState option \<Rightarrow> list_ui \<Rightarrow> list_ui" where
  "setStateFilter f u = (if f = lu_stateFilter u then u else u\<lparr>lu_stateFilter := f, lu_page := 1\<rparr>)"

definition onPrev :: "list_ui \<Rightarrow> list_ui" where
  "onPrev u = u\<lparr>lu_page := max 1 (lu_page u - 1)\<rparr>"

definition onNext :: "'a list \<Rightarrow> list_ui \<Rightarrow> list_ui" where
  "onNext xs u = u\<lparr>lu_page := min (totalPages xs) (lu_page u + 1)\<rparr>"

definition stats :: "Proposal list \<Rightarrow> (jstring \<times> nat) list" where
  "stats ps =
     [(js ''Total'', length ps),
      (js ''Active'', length (filter (\<lambda>p. state p = Active) ps)),
      (js ''Passed'', length (filter (\<lambda>p. state p = Passed) ps)),
      (js ''Executed'', length (filter (\<lambda>p. state p = Executed) ps))]"

section \<open>Pagination controls\<close>

fun with_gaps :: "int list \<Rightarrow> int option list" where
  "with_gaps [] = []"
| "with_gaps [x] = [Some x]"
| "with_gaps (x # y # zs) = Some x # (if y - x > 1 then [None] else []) @ with_gaps (y # zs)"

definition page_window :: "int \<Rightarrow> int \<Rightarrow> int list" where
  "page_window current tot =
     remdups ([1, tot] @ [max 1 (current - 1)..min tot (current + 1)])"

definition buildPageNumbers :: "int \<Rightarrow> int \<Rightarrow> int option list" where
  "buildPageNumbers current tot =
     (if tot \<le> 1 then [] else with_gaps (sort (page_window current tot)))"

definition range_start :: "nat \<Rightarrow> nat \<Rightarrow> nat \<Rightarrow> int" where
  "range_start page totalCount pageSize =
     (if totalCount = 0 then 0 else (int page - 1) * int pageSize + 1)"

definition range_end :: "nat \<Rightarrow> nat \<Rightarrow> nat \<Rightarrow> nat" where
  "range_end page totalCount pageSize = min (page * pageSize) totalCount"

definition summaryText :: "nat \<Rightarrow> nat \<Rightarrow> nat \<Rightarrow> jstring" where
  "summaryText page totalCount pageSize =
     (if totalCount = 0 then js ''0 proposals''
      else show_int (range_start page totalCount pageSize) @ [8211]
        @ show_nat (range_end page totalCount pageSize) @ js '' of '' @ show_nat totalCount
        @ js '' proposal'' @ (if totalCount \<noteq> 1 then js ''s'' else []))"

definition prev_disabled :: "nat \<Rightarrow> bool" where
  "prev_disabled page \<longleftrightarrow> page \<le> 1"

definition next_disabled :: "nat \<Rightarrow> nat \<Rightarrow> bool" where
  "next_disabled page tot \<longleftrightarrow> page \<ge> tot"

section \<open>Cards\<close>

definition totalVotes :: "Proposal \<Rightarrow> int" where
  "totalVotes p = votes_yes p + votes_no p + votes_abstain p"

text \<open>Division of \<open>bigint\<close>s truncates towards zero.\<close>

definition bigint_div :: "int \<Rightarrow> int \<Rightarrow> int" where
  "bigint_div a b = sgn a * sgn b * (\<bar>a\<bar> div \<bar>b\<bar>)"

definition quorumPct :: "Proposal \<Rightarrow> jnum" where
  "quorumPct p =
     (if quorum p = 0 then Fin 0
      else Math_min (Fin 100) (Number_of_BigInt (bigint_div (totalVotes p * 100) (quorum p))))"

definition card_title :: "Proposal \<Rightarrow> jstring" where
  "card_title p = js ''#'' @ show_int (prop_id p) @ js '' '' @ [8212] @ js '' '' @ title p"

definition card_label :: "Proposal \<Rightarrow> jstring" where
  "card_label p = js ''Proposal #'' @ show_int (prop_id p) @ js '': '' @ title p"

fun STATE_COLORS :: "ProposalState \<Rightarrow> jstring" where
  "STATE_COLORS Active = js ''var(--color-state-active)''"
| "STATE_COLORS Passed = js ''var(--color-state-passed)''"
| "STATE_COLORS Rejected = js ''var(--color-state-rejected)''"
| "STATE_COLORS Executed = js ''var(--color-state-executed)''"
| "STATE_COLORS Cancelled = js ''var(--color-state-cancelled)''"

definition card_key_opens :: "jstring \<Rightarrow> bool" where
  "card_key_opens key \<longleftrightarrow> key = js ''Enter'' \<or> key = js '' ''"

section \<open>Every match is on exactly one page\<close>

lemma totalPages_pos: "1 \<le> totalPages xs"
  by (simp add: totalPages_def)

lemma totalPages_enough: "length xs \<le> totalPages xs * PAGE_SIZE"
proof -
  have "length xs \<le> (length xs + 19) div 20 * 20" by presburger
  then show ?thesis by (auto simp add: totalPages_def PAGE_SIZE_def max_def)
qed

lemma paged_eq:
  assumes "1 \<le> k" and "k \<le> totalPages xs"
  shows "pagedProposals k xs = take PAGE_SIZE (drop ((k - 1) * PAGE_SIZE) xs)"
proof -
  obtain i where i: "k = Suc i" using assms(1) by (cases k) auto
  have "safePage k xs = k" using assms by (simp add: safePage_def)
  with i show ?thesis
    using slice_nonneg [of xs "i * PAGE_SIZE" "i * PAGE_SIZE + PAGE_SIZE"]
    by (simp add: pagedProposals_def Let_def)
qed

lemma concat_pages:
  "n \<le> totalPages xs \<Longrightarrow>
     concat (map (\<lambda>k. pagedProposals k xs) [1..<n + 1]) = take (n * PAGE_SIZE) xs"
proof (induction n)
  case 0
  then show ?case by simp
next
  case (Suc n)
  then have "concat (map (\<lambda>k. pagedProposals k xs) [1..<n + 1]) = take (n * PAGE_SIZE) xs" by simp
  moreover have "pagedProposals (n + 1) xs = take PAGE_SIZE (drop (n * PAGE_SIZE) xs)"
    using paged_eq [of "n + 1" xs] Suc.prems by simp
  ultimately show ?case by (simp add: take_add [symmetric] add.commute)
qed

text \<open>
  C20. Paging loses nothing: the pages 1 to \<open>totalPages\<close>, one after the other, are exactly the
  proposals that match the search and the state filter, in their order; so every match is on one
  page and on no other.  Any requested page beyond the last shows the last one.
\<close>

theorem pages_partition_matches:
  "concat (map (\<lambda>k. pagedProposals k (filtered lower q f ps)) [1..<totalPages (filtered lower q f ps) + 1]) =
     [p \<leftarrow> ps. (f = None \<or> f = Some (state p))
        \<and> (lower q = [] \<or> (\<exists>a b. lower (title p) = a @ lower q @ b)
            \<or> (\<exists>a b. lower (description p) = a @ lower q @ b))]
   \<and> pagedProposals (totalPages (filtered lower q f ps) + j) (filtered lower q f ps) =
       pagedProposals (totalPages (filtered lower q f ps)) (filtered lower q f ps)"
proof
  let ?xs = "filtered lower q f ps"
  have "concat (map (\<lambda>k. pagedProposals k ?xs) [1..<totalPages ?xs + 1]) = ?xs"
    using concat_pages [of "totalPages ?xs" ?xs] totalPages_enough [of ?xs] by simp
  also have "?xs = [p \<leftarrow> ps. (f = None \<or> f = Some (state p))
        \<and> (lower q = [] \<or> (\<exists>a b. lower (title p) = a @ lower q @ b)
            \<or> (\<exists>a b. lower (description p) = a @ lower q @ b))]"
    unfolding filtered_def matches_def Let_def includes_iff by (intro filter_cong refl) auto
  finally show "concat (map (\<lambda>k. pagedProposals k ?xs) [1..<totalPages ?xs + 1]) =
      [p \<leftarrow> ps. (f = None \<or> f = Some (state p))
        \<and> (lower q = [] \<or> (\<exists>a b. lower (title p) = a @ lower q @ b)
            \<or> (\<exists>a b. lower (description p) = a @ lower q @ b))]" .
  show "pagedProposals (totalPages ?xs + j) ?xs = pagedProposals (totalPages ?xs) ?xs"
    by (simp add: pagedProposals_def safePage_def)
qed

text \<open>
  The summary is right: for the page on display, the range it announces is the range of positions
  of the proposals shown, and has as many elements as are shown.
\<close>

theorem summary_range_correct:
  assumes "xs \<noteq> []" and "1 \<le> page"
  shows "range_end (safePage page xs) (length xs) PAGE_SIZE =
      nat (range_start (safePage page xs) (length xs) PAGE_SIZE) + length (pagedProposals page xs) - 1
    \<and> 1 \<le> range_start (safePage page xs) (length xs) PAGE_SIZE
    \<and> pagedProposals page xs \<noteq> []
    \<and> hd (pagedProposals page xs) = xs ! nat (range_start (safePage page xs) (length xs) PAGE_SIZE - 1)"
proof -
  let ?k = "safePage page xs"
  have k: "1 \<le> ?k" "?k \<le> totalPages xs"
    using assms(2) totalPages_pos [of xs] by (simp_all add: safePage_def)
  obtain i where i: "?k = Suc i" using k(1) by (cases ?k) auto
  have "?k \<le> (length xs + 19) div 20"
  proof -
    have "1 \<le> (length xs + 19) div 20" using assms(1) by (cases xs) auto
    with k(2) show ?thesis by (simp add: totalPages_def PAGE_SIZE_def)
  qed
  then have lt: "i * 20 < length xs" using i by (simp add: less_eq_div_iff_mult_less_eq)
  have same: "pagedProposals page xs = pagedProposals ?k xs"
    by (simp add: pagedProposals_def safePage_def)
  have p: "pagedProposals page xs = take 20 (drop (i * 20) xs)"
    using paged_eq [OF k] i same by (simp add: PAGE_SIZE_def)
  have s: "range_start ?k (length xs) PAGE_SIZE = int (i * 20 + 1)"
    using assms(1) i by (simp add: range_start_def PAGE_SIZE_def)
  have e: "range_end ?k (length xs) PAGE_SIZE = min (i * 20 + 20) (length xs)"
    using i by (simp add: range_end_def PAGE_SIZE_def add.commute)
  have l: "length (pagedProposals page xs) = min (length xs - i * 20) 20" using p by simp
  have "range_end ?k (length xs) PAGE_SIZE =
      nat (range_start ?k (length xs) PAGE_SIZE) + length (pagedProposals page xs) - 1"
  proof -
    from lt obtain n where n: "length xs = i * 20 + n" "0 < n" using less_imp_add_positive by metis
    then have "min (i * 20 + 20) (length xs) = i * 20 + 1 + min (length xs - i * 20) 20 - 1"
      by (simp add: min_def)
    then show ?thesis unfolding s e l nat_int .
  qed
  moreover have "hd (pagedProposals page xs) = xs ! (i * 20)"
    using lt by (simp add: p hd_drop_conv_nth)
  moreover have "pagedProposals page xs \<noteq> []" using l lt by auto
  ultimately show ?thesis unfolding s by (simp add: nat_mult_distrib)
qed

theorem summary_range_correct_witness:
  "range_end (safePage 9 [0..<45 :: nat]) 45 PAGE_SIZE = 45
   \<and> hd (pagedProposals 9 [0..<45 :: nat]) = 40"
proof -
  have xs: "[0..<45 :: nat] \<noteq> []" and p: "(1 :: nat) \<le> 9" by simp_all
  have s: "safePage 9 [0..<45 :: nat] = 3" by (simp add: safePage_def totalPages_def PAGE_SIZE_def)
  show ?thesis using summary_range_correct [OF xs p] unfolding s
    by (simp add: range_start_def range_end_def PAGE_SIZE_def)
qed

section \<open>Page numbers\<close>

lemma with_gaps_somes: "List.map_filter (\<lambda>x. x) (with_gaps xs) = xs"
  by (induction xs rule: with_gaps.induct) (auto simp add: map_filter_simps)

lemma hd_with_gaps: "xs \<noteq> [] \<Longrightarrow> with_gaps xs \<noteq> [] \<and> with_gaps xs ! 0 = Some (hd xs)"
  by (cases xs rule: with_gaps.cases) auto

text \<open>
  What a list of numbers and gaps must look like: a gap stands between two numbers that are not
  consecutive, and two neighbouring numbers are consecutive.
\<close>

fun well_gapped :: "int option list \<Rightarrow> bool" where
  "well_gapped [] = True"
| "well_gapped [x] = (x \<noteq> None)"
| "well_gapped (Some x # Some y # zs) = (y = x + 1 \<and> well_gapped (Some y # zs))"
| "well_gapped (Some x # None # Some y # zs) = (y > x + 1 \<and> well_gapped (Some y # zs))"
| "well_gapped _ = False"

lemma with_gaps_Cons: "\<exists>r. with_gaps (y # zs) = Some y # r"
  by (cases zs) auto

lemma with_gaps_well_gapped: "sorted_wrt (<) xs \<Longrightarrow> well_gapped (with_gaps xs)"
proof (induction xs rule: with_gaps.induct)
  case (3 x y zs)
  obtain r where r: "with_gaps (y # zs) = Some y # r" using with_gaps_Cons by blast
  from 3 r show ?case by (cases "y - x > 1") auto
qed auto

lemma set_page_window:
  "set (page_window current tot) =
     insert 1 (insert tot {i. current - 1 \<le> i \<and> i \<le> current + 1 \<and> 1 \<le> i \<and> i \<le> tot})"
  unfolding page_window_def set_remdups by auto

lemma page_window_sorted: "sorted_wrt (<) (sort (page_window current tot))"
  by (simp add: page_window_def strict_sorted_iff)

text \<open>
  The page buttons: with at least two pages, the buttons are, in increasing order and without
  repetition, exactly the first page, the last page and the current one with its neighbours as far
  as they exist; an ellipsis stands exactly where the numbers jump, never at an end and never twice
  in a row.
\<close>

theorem page_numbers_correct:
  assumes "2 \<le> tot"
  shows "set (List.map_filter (\<lambda>x. x) (buildPageNumbers current tot)) =
      {1, tot} \<union> {i. current - 1 \<le> i \<and> i \<le> current + 1 \<and> 1 \<le> i \<and> i \<le> tot}
    \<and> sorted_wrt (<) (List.map_filter (\<lambda>x. x) (buildPageNumbers current tot))
    \<and> well_gapped (buildPageNumbers current tot)"
  using assms page_window_sorted [of current tot] with_gaps_well_gapped [OF page_window_sorted, of current tot]
  by (simp add: buildPageNumbers_def with_gaps_somes set_page_window)

theorem page_numbers_correct_witness:
  "buildPageNumbers 5 9 = [Some 1, None, Some 4, Some 5, Some 6, None, Some 9]
   \<and> well_gapped (buildPageNumbers 5 9)"
proof
  show "buildPageNumbers 5 9 = [Some 1, None, Some 4, Some 5, Some 6, None, Some 9]" by code_simp
  have "(2 :: int) \<le> 9" by simp
  from page_numbers_correct [OF this, of 5] show "well_gapped (buildPageNumbers 5 9)" by blast
qed

section \<open>Previous and next\<close>

text \<open>
  The Prev button can be dead: it steps the stored page, not the clamped one, so when the list has
  shrunk by more than a page under a stored page far beyond the end, pressing it shows the same page
  again.
\<close>

theorem prev_stuck:
  assumes "totalPages xs + 1 < lu_page u"
  shows "pagedProposals (lu_page (onPrev u)) xs = pagedProposals (lu_page u) xs
    \<and> safePage (lu_page (onPrev u)) xs = safePage (lu_page u) xs"
  using assms by (simp add: onPrev_def pagedProposals_def safePage_def)

theorem prev_stuck_witness:
  "safePage (lu_page (onPrev (initial_list\<lparr>lu_page := 5\<rparr>))) [0..<45 :: nat] = 3"
  using prev_stuck [of "[0..<45 :: nat]" "initial_list\<lparr>lu_page := 5\<rparr>"]
  by (simp add: totalPages_def PAGE_SIZE_def safePage_def)

section \<open>Quorum\<close>

lemma bigint_div_nonneg: "0 \<le> a \<Longrightarrow> 0 < b \<Longrightarrow> bigint_div a b = a div b"
  by (cases "a = 0") (simp_all add: bigint_div_def)

text \<open>
  The quorum bar: for non-negative tallies and a positive quorum the percentage is an integer from
  0 to 100, the share rounded down while it is below 100, and it reaches 100 exactly when the votes
  cast, abstentions included, reach the quorum.
\<close>

theorem quorumPct_correct:
  assumes "0 \<le> totalVotes p" and "0 < quorum p"
  shows "quorumPct p = Fin (of_int (min 100 (totalVotes p * 100 div quorum p)))
    \<and> (quorumPct p = Fin 100 \<longleftrightarrow> quorum p \<le> totalVotes p)"
proof -
  let ?q = "totalVotes p * 100 div quorum p"
  have q: "0 \<le> ?q" using assms by (simp add: pos_imp_zdiv_nonneg_iff)
  have "quorumPct p = Math_min (Fin 100) (Number_of_BigInt ?q)"
    using assms by (simp add: quorumPct_def bigint_div_nonneg)
  also have "\<dots> = Fin (of_int (min 100 ?q))"
  proof (cases "?q \<le> 2 ^ 53")
    case True
    with q Number_of_BigInt_exact [of ?q] show ?thesis by (auto simp add: min_def)
  next
    case False
    with Number_of_BigInt_large [of ?q] show ?thesis by (auto simp add: min_def)
  qed
  finally have pct: "quorumPct p = Fin (of_int (min 100 ?q))" .
  have "100 \<le> ?q \<longleftrightarrow> 100 * quorum p \<le> totalVotes p * 100"
  proof
    assume "100 \<le> ?q"
    then have "100 * quorum p \<le> ?q * quorum p" using assms(2) by (intro mult_right_mono) simp_all
    also have "\<dots> \<le> totalVotes p * 100"
      using assms(2) by (metis Euclidean_Rings.pos_mod_sign add_increasing2 div_mult_mod_eq order_refl)
    finally show "100 * quorum p \<le> totalVotes p * 100" .
  next
    assume "100 * quorum p \<le> totalVotes p * 100"
    then have "100 * quorum p div quorum p \<le> ?q" using assms(2) by (intro zdiv_mono1)
    with assms(2) show "100 \<le> ?q" by simp
  qed
  then have "min 100 ?q = 100 \<longleftrightarrow> quorum p \<le> totalVotes p" by (auto simp add: min_def)
  then have "(of_int (min 100 ?q) :: rat) = of_int 100 \<longleftrightarrow> quorum p \<le> totalVotes p"
    by (simp only: of_int_eq_iff)
  with pct show ?thesis by simp
qed

theorem quorumPct_correct_witness:
  "quorumPct \<lparr>prop_id = 0, proposer = [], title = [], description = [], cancellation_reason = None,
     votes_yes = 30, votes_no = 10, votes_abstain = 5, quorum = 60, start_time = 0, end_time = 1,
     state = Active\<rparr> = Fin 75"
  using quorumPct_correct [of "\<lparr>prop_id = 0, proposer = [], title = [], description = [],
     cancellation_reason = None, votes_yes = 30, votes_no = 10, votes_abstain = 5, quorum = 60,
     start_time = 0, end_time = 1, state = Active\<rparr>"]
  by (simp add: totalVotes_def)

end
