(* ===== verification/Toasts.thy ===== *)
theory Toasts
  imports JS_Prelude
begin

text \<open>
  The two notification mechanisms of the front end: the context with a reducer
  (\<^verbatim>\<open>components/ToastContext.tsx\<close>) and the hook (\<^verbatim>\<open>components/Toast.tsx\<close>).  In the context, the callback
  \<open>notify\<close> closes over the \<open>nextId\<close> of the last render, which is kept as \<open>tc_seen\<close>; a render
  brings it up to date.
\<close>

section \<open>The context\<close>

datatype ToastType = pending | success | error

record Toast =
  t_id :: nat
  t_type :: ToastType
  t_message :: jstring
  t_txHash :: "jstring option"

record ToastState =
  toasts :: "Toast list"
  nextId :: nat

datatype toast_action = ADD ToastType jstring "jstring option" | REMOVE nat

fun reducer :: "ToastState \<Rightarrow> toast_action \<Rightarrow> ToastState" where
  "reducer s (ADD ty m h) =
     \<lparr>toasts = toasts s @ [\<lparr>t_id = nextId s, t_type = ty, t_message = m, t_txHash = h\<rparr>], nextId = nextId s + 1\<rparr>"
| "reducer s (REMOVE i) = s\<lparr>toasts := filter (\<lambda>t. t_id t \<noteq> i) (toasts s)\<rparr>"

record toast_ctx =
  tc_state :: ToastState
  tc_seen :: nat
  tc_timers :: "nat list"

definition initial_ctx :: toast_ctx where
  "initial_ctx = \<lparr>tc_state = \<lparr>toasts = [], nextId = 0\<rparr>, tc_seen = 0, tc_timers = []\<rparr>"

definition toast_notify :: "ToastType \<Rightarrow> jstring \<Rightarrow> jstring option \<Rightarrow> toast_ctx \<Rightarrow> toast_ctx \<times> nat" where
  "toast_notify ty m h c =
     (let i = tc_seen c;
          c' = c\<lparr>tc_state := reducer (tc_state c) (ADD ty m h)\<rparr>
      in ((if ty \<noteq> pending then c'\<lparr>tc_timers := tc_timers c' @ [i]\<rparr> else c'), i))"

definition toast_dismiss :: "nat \<Rightarrow> toast_ctx \<Rightarrow> toast_ctx" where
  "toast_dismiss i c = c\<lparr>tc_state := reducer (tc_state c) (REMOVE i)\<rparr>"

definition toast_rerender :: "toast_ctx \<Rightarrow> toast_ctx" where
  "toast_rerender c = c\<lparr>tc_seen := nextId (tc_state c)\<rparr>"

definition toast_timer :: "nat \<Rightarrow> toast_ctx \<Rightarrow> toast_ctx" where
  "toast_timer i c = (toast_dismiss i c)\<lparr>tc_timers := remove1 i (tc_timers c)\<rparr>"

section \<open>The hook\<close>

fun AUTO_DISMISS_MS :: "ToastType \<Rightarrow> nat" where
  "AUTO_DISMISS_MS pending = 0"
| "AUTO_DISMISS_MS success = 4000"
| "AUTO_DISMISS_MS error = 6000"

record toast_hook =
  th_toasts :: "(nat \<times> ToastType \<times> jstring) list"
  th_timers :: "nat set"
  th_nextId :: nat

definition initial_hook :: "nat \<Rightarrow> toast_hook" where
  "initial_hook n = \<lparr>th_toasts = [], th_timers = {}, th_nextId = n\<rparr>"

definition hook_dismiss :: "nat \<Rightarrow> toast_hook \<Rightarrow> toast_hook" where
  "hook_dismiss i s = s\<lparr>th_toasts := filter (\<lambda>(j, ty, m). j \<noteq> i) (th_toasts s), th_timers := th_timers s - {i}\<rparr>"

definition hook_show :: "ToastType \<Rightarrow> jstring \<Rightarrow> toast_hook \<Rightarrow> toast_hook \<times> nat" where
  "hook_show ty m s =
     (let i = th_nextId s;
          s' = s\<lparr>th_nextId := i + 1, th_toasts := th_toasts s @ [(i, ty, m)]\<rparr>
      in ((if AUTO_DISMISS_MS ty > 0 then s'\<lparr>th_timers := insert i (th_timers s')\<rparr> else s'), i))"

text \<open>The unmount effect clears the timers; a timer that fires dismisses its toast.\<close>

definition hook_unmount :: "toast_hook \<Rightarrow> toast_hook" where
  "hook_unmount s = s\<lparr>th_timers := {}\<rparr>"

inductive hook_step :: "toast_hook \<Rightarrow> toast_hook \<Rightarrow> bool" where
  hk_show: "hook_step s (fst (hook_show ty m s))"
| hk_dismiss: "hook_step s (hook_dismiss i s)"
| hk_timer: "i \<in> th_timers s \<Longrightarrow> hook_step s (hook_dismiss i s)"

inductive ctx_step :: "toast_ctx \<Rightarrow> toast_ctx \<Rightarrow> bool" where
  cs_notify: "ctx_step c (fst (toast_notify ty m h c))"
| cs_dismiss: "ctx_step c (toast_dismiss i c)"
| cs_rerender: "ctx_step c (toast_rerender c)"
| cs_timer: "i \<in> set (tc_timers c) \<Longrightarrow> ctx_step c (toast_timer i c)"

section \<open>The hook dismisses what it should\<close>

definition hook_ok :: "toast_hook \<Rightarrow> bool" where
  "hook_ok s \<longleftrightarrow> distinct (map fst (th_toasts s)) \<and> (\<forall>(i, ty, m) \<in> set (th_toasts s). i < th_nextId s)
     \<and> th_timers s = {i. \<exists>ty m. (i, ty, m) \<in> set (th_toasts s) \<and> ty \<noteq> pending}"

lemma hook_dismiss_ok: "hook_ok s \<Longrightarrow> hook_ok (hook_dismiss i s)"
  by (auto simp add: hook_ok_def hook_dismiss_def distinct_map_filter)

lemma hook_show_ok: "hook_ok s \<Longrightarrow> hook_ok (fst (hook_show ty m s))"
  by (cases ty) (fastforce simp add: hook_ok_def hook_show_def Let_def)+

interpretation hook: invariant_system "\<lambda>s. \<exists>n. s = initial_hook n" hook_step hook_ok
proof unfold_locales
  show "\<exists>n. s = initial_hook n \<Longrightarrow> hook_ok s" for s by (auto simp add: hook_ok_def initial_hook_def)
  show "hook_ok s \<Longrightarrow> hook_step s t \<Longrightarrow> hook_ok t" for s t
    by (erule hook_step.cases) (auto intro: hook_dismiss_ok hook_show_ok)
qed

text \<open>
  The hook's timers are exactly right: in every reachable state the displayed toasts have distinct
  identifiers, and an automatic dismissal is pending for precisely those of them that are not of type
  pending; no timer is left for a toast that is gone.
\<close>

theorem toast_timers_exact:
  assumes "reachable (\<lambda>s. \<exists>n. s = initial_hook n) hook_step s"
  shows "distinct (map fst (th_toasts s))
    \<and> th_timers s = {i. \<exists>ty m. (i, ty, m) \<in> set (th_toasts s) \<and> ty \<noteq> pending}"
  using hook.reachable_inv [OF assms] by (simp add: hook_ok_def)

theorem toast_timers_exact_witness:
  "th_timers (fst (hook_show success (js ''ok'') (initial_hook 1))) = {1}"
proof -
  let ?s = "fst (hook_show success (js ''ok'') (initial_hook 1))"
  have "reachable (\<lambda>s. \<exists>n. s = initial_hook n) hook_step ?s"
    by (rule reach_step, rule reach_init, blast, rule hk_show)
  from toast_timers_exact [OF this] show ?thesis
    by (auto simp add: hook_show_def initial_hook_def)
qed

section \<open>The context dismisses the wrong toast\<close>

text \<open>
  In the context the identifier is that of the last render: a toast shown right after a render is
  removed by its own timer, but of two shown without a render in between the second is not; the timers
  of both remove the first, and the second stays.
\<close>

theorem toast_context_stale_id:
  assumes "tc_seen c = nextId (tc_state c)" and "ty \<noteq> pending" and "ty' \<noteq> pending"
    and "\<forall>x \<in> set (toasts (tc_state c)). t_id x < nextId (tc_state c)"
  shows "toasts (tc_state (toast_timer (snd (toast_notify ty m h c)) (fst (toast_notify ty m h c)))) =
      toasts (tc_state c)
    \<and> (let c1 = fst (toast_notify ty m h c); c2 = fst (toast_notify ty' m' h' c1)
       in toasts (tc_state (toast_timer (tc_seen c) (toast_timer (tc_seen c) c2))) =
            toasts (tc_state c) @
              [\<lparr>t_id = nextId (tc_state c) + 1, t_type = ty', t_message = m', t_txHash = h'\<rparr>]
          \<and> tc_timers c2 = tc_timers c @ [tc_seen c, tc_seen c])"
proof -
  have "filter (\<lambda>t. t_id t \<noteq> nextId (tc_state c)) (toasts (tc_state c)) = toasts (tc_state c)"
    using assms(4) by (intro filter_True) fastforce
  with assms show ?thesis
    by (simp add: toast_notify_def toast_timer_def toast_dismiss_def Let_def)
qed

theorem toast_context_stale_id_witness:
  "let c1 = fst (toast_notify success (js ''a'') None initial_ctx);
       c2 = fst (toast_notify error (js ''b'') None c1)
   in map t_message (toasts (tc_state (toast_timer 0 (toast_timer 0 c2)))) = [js ''b'']"
  using toast_context_stale_id [of initial_ctx success error "js ''a''" None "js ''b''" None]
  by (simp add: initial_ctx_def Let_def)

end
