(* ===== verification/Dom.thy ===== *)
theory Dom
  imports JS_Prelude
begin

text \<open>
  What a React component renders, as a tree of elements and texts, and how the browser delivers
  events to it.  An element has its attributes, its event handlers and its children.  A handler
  gets one text, the new value of the field or the key pressed, and returns the calls it makes, in
  order; a handler may instead only stop the propagation, as the dialogs do.  Attributes that are
  \<^verbatim>\<open>undefined\<close> are absent, as in React.  Styles, class names, keys and refs, which the user cannot act
  on, are left out.
\<close>

section \<open>Trees\<close>

datatype attr = AStr jstring | ABool bool | ANum int

datatype 'a handler = Do "jstring \<Rightarrow> 'a list" | StopPropagation

datatype 'a node =
    Txt jstring
  | El string "(string \<times> attr) list" "(string \<times> 'a handler) list" "'a node list"

fun tag_of :: "'a node \<Rightarrow> string" where
  "tag_of (Txt s) = ''''"
| "tag_of (El t as hs cs) = t"

fun attrs_of :: "'a node \<Rightarrow> (string \<times> attr) list" where
  "attrs_of (Txt s) = []"
| "attrs_of (El t as hs cs) = as"

fun handlers_of :: "'a node \<Rightarrow> (string \<times> 'a handler) list" where
  "handlers_of (Txt s) = []"
| "handlers_of (El t as hs cs) = hs"

fun children_of :: "'a node \<Rightarrow> 'a node list" where
  "children_of (Txt s) = []"
| "children_of (El t as hs cs) = cs"

definition get_attr :: "string \<Rightarrow> 'a node \<Rightarrow> attr option" where
  "get_attr k n = map_of (attrs_of n) k"

text \<open>JSX: \<open>{c && x}\<close> renders \<open>x\<close> or nothing; an attribute with an optional value.\<close>

definition jsx_if :: "bool \<Rightarrow> 'b list \<Rightarrow> 'b list" where
  "jsx_if c xs = (if c then xs else [])"

definition opt_attr :: "string \<Rightarrow> jstring option \<Rightarrow> (string \<times> attr) list" where
  "opt_attr k v = (case v of None \<Rightarrow> [] | Some s \<Rightarrow> [(k, AStr s)])"

lemma jsx_if_simps [simp]: "jsx_if True xs = xs" "jsx_if False xs = []"
  by (simp_all add: jsx_if_def)

lemma opt_attr_simps [simp]: "opt_attr k None = []" "opt_attr k (Some s) = [(k, AStr s)]"
  by (simp_all add: opt_attr_def)

text \<open>A node and all nodes below it in document order; the text the user reads.\<close>

fun subs :: "'a node \<Rightarrow> 'a node list" where
  "subs (Txt s) = [Txt s]"
| "subs (El t as hs cs) = El t as hs cs # concat (map subs cs)"

fun text_content :: "'a node \<Rightarrow> jstring" where
  "text_content (Txt s) = s"
| "text_content (El t as hs cs) = concat (map text_content cs)"

section \<open>Identifiers\<close>

definition id_of :: "'a node \<Rightarrow> jstring list" where
  "id_of n = (case get_attr ''id'' n of Some (AStr i) \<Rightarrow> [i] | _ \<Rightarrow> [])"

definition ids :: "'a node \<Rightarrow> jstring list" where
  "ids n = concat (map id_of (subs n))"

definition words_of_attr :: "string \<Rightarrow> 'a node \<Rightarrow> jstring list" where
  "words_of_attr k n = (case get_attr k n of Some (AStr s) \<Rightarrow> split_on 32 s | _ \<Rightarrow> [])"

text \<open>The identifiers an element refers to, and those that no element of the document has.\<close>

definition refs_of :: "'a node \<Rightarrow> jstring list" where
  "refs_of n = concat (map (\<lambda>k. words_of_attr k n)
     [''for'', ''aria-labelledby'', ''aria-describedby'', ''aria-controls''])"

definition id_refs :: "'a node \<Rightarrow> jstring list" where
  "id_refs n = concat (map refs_of (subs n))"

definition dangling :: "'a node \<Rightarrow> jstring list" where
  "dangling n = filter (\<lambda>r. r \<notin> set (ids n)) (id_refs n)"

definition by_id :: "string \<Rightarrow> 'a node \<Rightarrow> 'a node option" where
  "by_id i n = find (\<lambda>x. id_of x = [js i]) (subs n)"

lemma id_of_El: "id_of (El t as hs cs) = (case map_of as ''id'' of Some (AStr i) \<Rightarrow> [i] | _ \<Rightarrow> [])"
  by (simp add: id_of_def get_attr_def)

lemma ids_Txt [simp]: "ids (Txt s) = []"
  by (simp add: ids_def id_of_def get_attr_def)

lemma ids_El [simp]:
  "ids (El t as hs cs) = (case map_of as ''id'' of Some (AStr i) \<Rightarrow> [i] | _ \<Rightarrow> []) @ concat (map ids cs)"
  by (induction cs) (simp_all add: ids_def id_of_El)

lemma id_refs_Txt [simp]: "id_refs (Txt s) = []"
  by (simp add: id_refs_def refs_of_def words_of_attr_def get_attr_def)

lemma id_refs_El [simp]: "id_refs (El t as hs cs) = refs_of (El t as hs []) @ concat (map id_refs cs)"
  by (induction cs) (simp_all add: id_refs_def refs_of_def words_of_attr_def get_attr_def)

text \<open>The labels of a document: the text of each and the identifier it names.\<close>

fun label_of :: "'a node \<Rightarrow> (jstring \<times> jstring option) list" where
  "label_of (El t as hs cs) =
     (if t = ''label''
      then [(concat (map text_content cs), case map_of as ''for'' of Some (AStr i) \<Rightarrow> Some i | _ \<Rightarrow> None)]
      else [])"
| "label_of (Txt s) = []"

definition labels :: "'a node \<Rightarrow> (jstring \<times> jstring option) list" where
  "labels n = concat (map label_of (subs n))"

lemma labels_Txt [simp]: "labels (Txt s) = []"
  by (simp add: labels_def)

lemma labels_El [simp]: "labels (El t as hs cs) = label_of (El t as hs cs) @ concat (map labels cs)"
  by (induction cs) (simp_all add: labels_def)

lemma concat_map_if: "concat (map (\<lambda>x. if P x then [f x] else []) xs) = map f (filter P xs)"
  by (induction xs) simp_all

text \<open>Lists of identifiers written as literals are split by computation.\<close>

fun split_sp :: "string \<Rightarrow> string list" where
  "split_sp [] = [[]]"
| "split_sp (c # s) =
     (if c = CHR '' '' then [] # split_sp s
      else (case split_sp s of w # ws \<Rightarrow> (c # w) # ws | [] \<Rightarrow> [[c]]))"

lemma split_on_js [simp]: "split_on 32 (js s) = map js (split_sp s)"
proof (induction s)
  case (Cons c s)
  have "split_sp s \<noteq> []" by (induction s) (simp_all split: list.split)
  moreover have "of_char c = (32 :: nat) \<longleftrightarrow> c = CHR '' ''"
    using of_char_eq_iff [where 'a = nat, of c "CHR '' ''"] by simp
  ultimately show ?case using Cons by (auto simp add: js_def neq_Nil_conv)
qed (simp add: js_def)

lemma refs_of_El:
  "refs_of (El t as hs cs) = concat (map (\<lambda>k. case map_of as k of Some (AStr s) \<Rightarrow> split_on 32 s | _ \<Rightarrow> [])
     [''for'', ''aria-labelledby'', ''aria-describedby'', ''aria-controls''])"
  by (simp add: refs_of_def words_of_attr_def get_attr_def)

lemma find_append: "find P (xs @ ys) = orelse (find P xs) (find P ys)"
  by (induction xs) simp_all

lemma by_id_Txt [simp]: "by_id i (Txt s) = None"
  by (simp add: by_id_def id_of_def get_attr_def)

fun first_some :: "'b option list \<Rightarrow> 'b option" where
  "first_some [] = None"
| "first_some (x # xs) = orelse x (first_some xs)"

lemma first_some_append: "first_some (xs @ ys) = orelse (first_some xs) (first_some ys)"
proof (induction xs)
  case (Cons x xs)
  then show ?case by (cases x) simp_all
qed simp

lemma orelse_None_right [simp]: "orelse x None = x"
  by (cases x) simp_all

lemma by_id_El [simp]:
  "by_id i (El t as hs cs) =
     (if id_of (El t as hs []) = [js i] then Some (El t as hs cs) else first_some (map (by_id i) cs))"
proof -
  have "find P (concat (map subs cs)) = first_some (map (\<lambda>c. find P (subs c)) cs)" for P
    by (induction cs) (simp_all add: find_append)
  then show ?thesis by (simp add: by_id_def [abs_def] id_of_El)
qed

section \<open>Events\<close>

text \<open>
  A position in the document is the list of child indices that leads to it.  An event is delivered
  to the element at the position and then to every element around it, until one of them stops it;
  disabled controls do not receive clicks.
\<close>

type_synonym path = "nat list"

fun node_at :: "path \<Rightarrow> 'a node \<Rightarrow> 'a node option" where
  "node_at [] n = Some n"
| "node_at (i # p) n = (if i < length (children_of n) then node_at p (children_of n ! i) else None)"

definition disabled :: "'a node \<Rightarrow> bool" where
  "disabled n \<longleftrightarrow> tag_of n \<in> {''button'', ''input'', ''select'', ''textarea''}
     \<and> get_attr ''disabled'' n = Some (ABool True)"

definition receive :: "string \<Rightarrow> jstring \<Rightarrow> 'a node \<Rightarrow> 'a list \<times> bool \<Rightarrow> 'a list \<times> bool" where
  "receive ev v n r =
     (if \<not> snd r \<or> ev = ''click'' \<and> disabled n then r
      else case map_of (handlers_of n) ev of
             None \<Rightarrow> r
           | Some (Do h) \<Rightarrow> (fst r @ h v, True)
           | Some StopPropagation \<Rightarrow> (fst r, False))"

fun bubble :: "string \<Rightarrow> jstring \<Rightarrow> path \<Rightarrow> 'a node \<Rightarrow> 'a list \<times> bool" where
  "bubble ev v [] n = receive ev v n ([], True)"
| "bubble ev v (i # p) n =
     receive ev v n (if i < length (children_of n) then bubble ev v p (children_of n ! i) else ([], True))"

definition fire :: "string \<Rightarrow> jstring \<Rightarrow> path \<Rightarrow> 'a node \<Rightarrow> 'a list" where
  "fire ev v p n =
     (case node_at p n of
        None \<Rightarrow> []
      | Some t \<Rightarrow> if ev = ''click'' \<and> disabled t then [] else fst (bubble ev v p n))"

text \<open>
  Submitting a form: a button of type \<^verbatim>\<open>submit\<close> (the default type) submits the form around it, and so
  does the Enter key in a field, unless the form's first submit button is disabled.
\<close>

definition is_submit :: "'a node \<Rightarrow> bool" where
  "is_submit n \<longleftrightarrow> tag_of n = ''button'' \<and> get_attr ''type'' n \<in> {None, Some (AStr (js ''submit''))}"

fun form_around :: "path \<Rightarrow> 'a node \<Rightarrow> 'a node option" where
  "form_around [] n = (if tag_of n = ''form'' then Some n else None)"
| "form_around (i # p) n =
     orelse (if i < length (children_of n) then form_around p (children_of n ! i) else None)
       (if tag_of n = ''form'' then Some n else None)"

definition submit_calls :: "'a node \<Rightarrow> 'a list" where
  "submit_calls f = (case map_of (handlers_of f) ''submit'' of Some (Do h) \<Rightarrow> h [] | _ \<Rightarrow> [])"

definition user_click :: "path \<Rightarrow> 'a node \<Rightarrow> 'a list" where
  "user_click p n = fire ''click'' [] p n @
     (case (node_at p n, form_around p n) of
        (Some t, Some f) \<Rightarrow> if is_submit t \<and> \<not> disabled t then submit_calls f else []
      | _ \<Rightarrow> [])"

definition user_enter :: "path \<Rightarrow> 'a node \<Rightarrow> 'a list" where
  "user_enter p n =
     (case (node_at p n, form_around p n) of
        (Some t, Some f) \<Rightarrow>
          if tag_of t = ''input'' \<and> (case find is_submit (subs f) of None \<Rightarrow> True | Some b \<Rightarrow> \<not> disabled b)
          then submit_calls f else []
      | _ \<Rightarrow> [])"

text \<open>Where the elements with an identifier are.\<close>

fun path_to :: "string \<Rightarrow> 'a node \<Rightarrow> path option"
  and path_among :: "string \<Rightarrow> nat \<Rightarrow> 'a node list \<Rightarrow> path option" where
  "path_to i (Txt s) = None"
| "path_to i (El t as hs cs) =
     (if id_of (El t as hs []) = [js i] then Some [] else path_among i 0 cs)"
| "path_among i k [] = None"
| "path_among i k (c # cs) =
     (case path_to i c of Some p \<Rightarrow> Some (k # p) | None \<Rightarrow> path_among i (k + 1) cs)"

lemma id_of_iff: "js i \<in> set (id_of x) \<longleftrightarrow> id_of x = [js i]"
  by (auto simp add: id_of_def split: option.splits attr.splits)

lemma path_to_None_iff:
  fixes n :: "'a node" and cs :: "'a node list"
  shows "path_to i n = None \<longleftrightarrow> js i \<notin> set (ids n)"
    and "path_among i k cs = None \<longleftrightarrow> js i \<notin> (\<Union>c \<in> set cs. set (ids c))"
proof (induction i n and i k cs rule: path_to_path_among.induct)
  case (2 i t as hs cs)
  have "set (ids (El t as hs cs)) = set (id_of (El t as hs [])) \<union> (\<Union>c \<in> set cs. set (ids c))"
    by (simp add: id_of_El)
  with 2 show ?case using id_of_iff [of i "El t as hs []"] by auto
next
  case (4 i k c cs)
  then show ?case by (cases "path_to i c") auto
qed simp_all

lemmas path_to_None = path_to_None_iff [THEN iffD2]

lemma by_id_None_iff: "by_id i n = None \<longleftrightarrow> js i \<notin> set (ids n)"
  by (auto simp add: by_id_def ids_def find_None_iff id_of_iff)

lemmas by_id_None = by_id_None_iff [THEN iffD2]

lemma path_among_append:
  "path_among i k (as @ bs) =
     (case path_among i k as of Some p \<Rightarrow> Some p | None \<Rightarrow> path_among i (k + length as) bs)"
  by (induction as arbitrary: k) (simp_all split: option.split)

lemma node_at_path_to:
  fixes n :: "'a node" and cs :: "'a node list"
  shows "path_to i n = Some p \<Longrightarrow> node_at p n = by_id i n"
    and "path_among i k cs = Some p \<Longrightarrow>
      \<exists>j q. p = (k + j) # q \<and> j < length cs \<and> node_at q (cs ! j) = first_some (map (by_id i) cs)"
proof (induction i n and i k cs arbitrary: p and p rule: path_to_path_among.induct)
  case (2 i t as hs cs)
  then show ?case by (auto split: if_splits)
next
  case (4 i k c cs)
  show ?case
  proof (cases "path_to i c")
    case (Some q)
    with 4 have "node_at q c = by_id i c" "p = k # q" by auto
    moreover have "by_id i c \<noteq> None"
      using Some by (simp add: by_id_None_iff flip: path_to_None_iff(1))
    ultimately show ?thesis by (intro exI [of _ 0]) auto
  next
    case None
    with 4 obtain j q where "p = (k + 1 + j) # q" "j < length cs" "node_at q (cs ! j) = first_some (map (by_id i) cs)"
      by fastforce
    moreover have "by_id i c = None"
      using None by (simp add: by_id_None_iff path_to_None_iff(1))
    ultimately show ?thesis by (intro exI [of _ "Suc j"]) auto
  qed
qed simp_all

definition shown_value :: "string \<Rightarrow> 'a node \<Rightarrow> jstring option" where
  "shown_value i n = (case by_id i n of
     Some x \<Rightarrow> (case get_attr ''value'' x of Some (AStr v) \<Rightarrow> Some v | _ \<Rightarrow> None)
   | None \<Rightarrow> None)"

definition fire_at :: "string \<Rightarrow> jstring \<Rightarrow> string \<Rightarrow> 'a node \<Rightarrow> 'a list" where
  "fire_at ev v i n = (case path_to i n of None \<Rightarrow> [] | Some p \<Rightarrow> fire ev v p n)"

section \<open>All outcomes of an event\<close>

text \<open>The possible results of an event anywhere in the document, for proofs about every position.\<close>

fun outcomes :: "string \<Rightarrow> jstring \<Rightarrow> 'a node \<Rightarrow> ('a list \<times> bool) list" where
  "outcomes ev v (Txt s) = [([], True)]"
| "outcomes ev v (El t as hs cs) =
     map (receive ev v (El t as hs [])) (([], True) # concat (map (outcomes ev v) cs))"

lemma receive_children: "receive ev v (El t as hs cs) r = receive ev v (El t as hs []) r"
  by (simp only: receive_def disabled_def get_attr_def tag_of.simps attrs_of.simps handlers_of.simps)

lemma receive_Txt [simp]: "receive ev v (Txt s) r = r"
  by (simp add: receive_def)

lemma bubble_outcomes: "bubble ev v p n \<in> set (outcomes ev v n)"
proof (induction p arbitrary: n)
  case Nil
  show ?case
  proof (cases n)
    case (El t as hs cs)
    then show ?thesis by (simp add: receive_children [of ev v t as hs cs])
  qed simp
next
  case (Cons i p)
  show ?case
  proof (cases n)
    case (El t as hs cs)
    have "(if i < length cs then bubble ev v p (cs ! i) else ([], True))
      \<in> set (([], True) # concat (map (outcomes ev v) cs))"
      by (auto intro: bexI [OF Cons.IH nth_mem])
    from imageI [OF this, of "receive ev v (El t as hs [])"] show ?thesis
      unfolding El by (simp only: bubble.simps children_of.simps outcomes.simps set_map
        receive_children [of ev v t as hs cs])
  qed simp
qed

lemma fire_cases: "fire ev v p n = [] \<or> fire ev v p n \<in> fst ` set (outcomes ev v n)"
  using bubble_outcomes [of ev v p n] by (auto simp add: fire_def split: option.splits)

text \<open>The calls an event can make, collected over the document; enough for most statements.\<close>

fun acts_of :: "string \<Rightarrow> jstring \<Rightarrow> 'a node \<Rightarrow> 'a set" where
  "acts_of ev v (Txt s) = {}"
| "acts_of ev v (El t as hs cs) =
     (if ev = ''click'' \<and> disabled (El t as hs []) then {}
      else case map_of hs ev of Some (Do h) \<Rightarrow> set (h v) | _ \<Rightarrow> {}) \<union> (\<Union>c \<in> set cs. acts_of ev v c)"

lemma receive_acts:
  "set (fst (receive ev v (El t as hs []) r)) \<subseteq> set (fst r) \<union>
     (if ev = ''click'' \<and> disabled (El t as hs []) then {}
      else case map_of hs ev of Some (Do h) \<Rightarrow> set (h v) | _ \<Rightarrow> {})"
  by (auto simp add: receive_def split: if_splits option.splits handler.splits)

lemma outcomes_acts: "r \<in> set (outcomes ev v n) \<Longrightarrow> set (fst r) \<subseteq> acts_of ev v n"
proof (induction n arbitrary: r)
  case (El t as hs cs)
  then obtain q where r: "r = receive ev v (El t as hs []) q"
    and q: "q = ([], True) \<or> (\<exists>c \<in> set cs. q \<in> set (outcomes ev v c))" by auto
  have "set (fst q) \<subseteq> (\<Union>c \<in> set cs. acts_of ev v c)"
    using q
  proof
    assume "\<exists>c \<in> set cs. q \<in> set (outcomes ev v c)"
    then obtain c where c: "c \<in> set cs" "q \<in> set (outcomes ev v c)" ..
    from El.IH [OF this] c(1) show ?thesis by blast
  qed simp
  with receive_acts [of ev v t as hs q] show ?case unfolding r acts_of.simps by blast
qed simp

lemma fire_acts: "set (fire ev v p n) \<subseteq> acts_of ev v n"
proof (cases "fire ev v p n = []")
  case False
  then obtain r where "r \<in> set (outcomes ev v n)" "fire ev v p n = fst r"
    using fire_cases [of ev v p n] by blast
  then show ?thesis using outcomes_acts by metis
qed simp

text \<open>Conversely every collected call is made by an event at some position.\<close>

lemma receive_keeps: "x \<in> set (fst r) \<Longrightarrow> x \<in> set (fst (receive ev v n r))"
  by (auto simp add: receive_def split: option.split handler.split)

lemma disabled_children: "disabled (El t as hs cs) = disabled (El t as hs [])"
  by (simp only: disabled_def get_attr_def tag_of.simps attrs_of.simps)

lemma acts_fire: "x \<in> acts_of ev v n \<Longrightarrow> \<exists>p. x \<in> set (fire ev v p n)"
proof (induction n)
  case (El t as hs cs)
  let ?n = "El t as hs cs" and ?off = "ev = ''click'' \<and> disabled (El t as hs [])"
  show ?case
  proof (cases "x \<in> (\<Union>c \<in> set cs. acts_of ev v c)")
    case True
    then obtain i where i: "i < length cs" "x \<in> acts_of ev v (cs ! i)" by (auto simp add: in_set_conv_nth)
    with El.IH [of "cs ! i"] obtain p where "x \<in> set (fire ev v p (cs ! i))" by auto
    with i(1) have "x \<in> set (fire ev v (i # p) ?n)"
      by (auto simp add: fire_def receive_keeps split: option.splits if_splits)
    then show ?thesis ..
  next
    case False
    with El.prems have "\<not> ?off" and "x \<in> (case map_of hs ev of Some (Do h) \<Rightarrow> set (h v) | _ \<Rightarrow> {})"
      by (auto simp only: acts_of.simps split: if_splits)
    then have "x \<in> set (fst (receive ev v (El t as hs []) ([], True)))"
      by (auto simp add: receive_def split: option.splits handler.splits)
    with \<open>\<not> ?off\<close> have "x \<in> set (fire ev v [] ?n)"
      by (simp only: fire_def node_at.simps option.case disabled_children [of t as hs cs] if_False bubble.simps
          receive_children [of ev v t as hs cs])
    then show ?thesis ..
  qed
qed simp

text \<open>The results of submitting from anywhere in the document.\<close>

fun submits :: "'a node \<Rightarrow> 'a list list" where
  "submits (Txt s) = []"
| "submits (El t as hs cs) = jsx_if (t = ''form'') [submit_calls (El t as hs [])] @ concat (map submits cs)"

lemma submit_calls_children: "submit_calls (El t as hs cs) = submit_calls (El t as hs [])"
  by (simp add: submit_calls_def)

lemma form_around_submits: "form_around p n = Some f \<Longrightarrow> submit_calls f \<in> set (submits n)"
proof (induction p arbitrary: n)
  case Nil
  then show ?case
  proof (cases n)
    case (El t as hs cs)
    with Nil show ?thesis
      by (auto simp add: submit_calls_children [of "''form''" as hs cs] split: if_splits)
  qed simp
next
  case (Cons i p)
  show ?case
  proof (cases n)
    case (El t as hs cs)
    show ?thesis
    proof (cases "if i < length cs then form_around p (cs ! i) else None")
      case None
      with Cons.prems El show ?thesis by (auto simp add: submit_calls_children [of "''form''" as hs cs] split: if_splits)
    next
      case (Some g)
      with Cons.prems El have "g = f" by (simp split: if_splits)
      with Some Cons.IH have "submit_calls f \<in> set (submits (cs ! i))" "i < length cs"
        by (auto split: if_splits)
      with El show ?thesis by (auto intro: bexI [OF _ nth_mem])
    qed
  qed (use Cons.prems in simp)
qed

text \<open>The forms of a document and the submit buttons of a form.\<close>

fun forms :: "'a node \<Rightarrow> 'a node list" where
  "forms (Txt s) = []"
| "forms (El t as hs cs) = jsx_if (t = ''form'') [El t as hs cs] @ concat (map forms cs)"

fun submit_buttons :: "'a node \<Rightarrow> 'a node list" where
  "submit_buttons (Txt s) = []"
| "submit_buttons (El t as hs cs) =
     jsx_if (is_submit (El t as hs [])) [El t as hs cs] @ concat (map submit_buttons cs)"

lemma is_submit_children: "is_submit (El t as hs cs) = is_submit (El t as hs [])"
  by (simp add: is_submit_def get_attr_def)

lemma is_submit_Txt [simp]: "\<not> is_submit (Txt s)"
  by (simp add: is_submit_def)

lemma submit_buttons_filter: "submit_buttons n = filter is_submit (subs n)"
proof (induction n)
  case (El t as hs cs)
  then have "concat (map submit_buttons cs) = filter is_submit (concat (map subs cs))"
    by (induction cs) simp_all
  then show ?case by (simp add: jsx_if_def is_submit_children [of t as hs cs])
qed simp

lemma find_filter: "find P xs = (case filter P xs of [] \<Rightarrow> None | y # _ \<Rightarrow> Some y)"
  by (induction xs) simp_all

lemma subs_self [simp]: "n \<in> set (subs n)"
  by (cases n) simp_all

lemma node_at_subs: "node_at p n = Some t \<Longrightarrow> t \<in> set (subs n)"
proof (induction p arbitrary: n)
  case (Cons i p)
  then show ?case by (cases n) (auto intro: bexI [OF _ nth_mem] split: if_splits)
qed simp

lemma form_around_forms:
  "node_at p n = Some t \<Longrightarrow> form_around p n = Some f \<Longrightarrow> f \<in> set (forms n) \<and> t \<in> set (subs f)"
proof (induction p arbitrary: n)
  case Nil
  then show ?case by (cases n) (auto split: if_splits)
next
  case (Cons i p)
  obtain tg as hs cs where n: "n = El tg as hs cs" and i: "i < length cs" and t: "node_at p (cs ! i) = Some t"
    using Cons.prems(1) by (cases n) (auto split: if_splits)
  have ci: "cs ! i \<in> set cs" using i by simp
  show ?case
  proof (cases "form_around p (cs ! i)")
    case None
    with node_at_subs [OF t] n i ci Cons.prems(2) show ?thesis by (auto split: if_splits)
  next
    case (Some g)
    with Cons.prems(2) n i have "g = f" by simp
    with Cons.IH [OF t] Some ci n show ?thesis by auto
  qed
qed

lemma user_click_cases:
  assumes "x \<in> set (user_click p n)"
  shows "x \<in> acts_of ''click'' [] n \<or> (\<exists>f \<in> set (forms n). x \<in> set (submit_calls f) \<and> (\<exists>b \<in> set (submit_buttons f). \<not> disabled b))"
proof (cases "x \<in> set (fire ''click'' [] p n)")
  case True
  then show ?thesis using fire_acts [of "''click''" "[]" p n] by blast
next
  case False
  with assms obtain t f where "node_at p n = Some t" "form_around p n = Some f" "is_submit t"
    "\<not> disabled t" "x \<in> set (submit_calls f)"
    by (cases "node_at p n"; cases "form_around p n") (auto simp add: user_click_def split: if_splits)
  then show ?thesis using form_around_forms [of p n t f] by (auto simp add: submit_buttons_filter)
qed

lemma user_click_no_forms: "forms n = [] \<Longrightarrow> user_click p n = fire ''click'' [] p n"
  using form_around_forms [of p n] by (auto simp add: user_click_def split: option.split)

lemma user_enter_cases:
  assumes "x \<in> set (user_enter p n)"
  shows "\<exists>f \<in> set (forms n). x \<in> set (submit_calls f)
    \<and> (case submit_buttons f of [] \<Rightarrow> True | b # _ \<Rightarrow> \<not> disabled b)"
proof -
  obtain t f where tf: "node_at p n = Some t" "form_around p n = Some f"
    and x: "x \<in> set (submit_calls f)" "case find is_submit (subs f) of None \<Rightarrow> True | Some b \<Rightarrow> \<not> disabled b"
    using assms
    by (cases "node_at p n"; cases "form_around p n") (auto simp add: user_enter_def split: if_splits)
  have "f \<in> set (forms n)" using form_around_forms [OF tf] ..
  then show ?thesis
    using x by (auto simp add: submit_buttons_filter find_filter split: list.splits intro!: bexI [of _ f])
qed

text \<open>A link that opens a new window must not hand its window over to the page it opens.\<close>

fun safe_links :: "'a node \<Rightarrow> bool" where
  "safe_links (Txt s) \<longleftrightarrow> True"
| "safe_links (El t as hs cs) \<longleftrightarrow>
     (t = ''a'' \<and> map_of as ''target'' = Some (AStr (js ''_blank''))
        \<longrightarrow> (\<exists>s. map_of as ''rel'' = Some (AStr s) \<and> js ''noopener'' \<in> set (split_on 32 s)))
     \<and> list_all safe_links cs"

text \<open>The calls a user can cause: by clicking, pressing Enter, changing a field or leaving it.\<close>

definition user_can :: "'a node \<Rightarrow> 'a \<Rightarrow> bool" where
  "user_can n x \<longleftrightarrow> (\<exists>p v. x \<in> set (user_click p n) \<or> x \<in> set (user_enter p n)
     \<or> x \<in> set (fire ''change'' v p n) \<or> x \<in> set (fire ''blur'' v p n))"

lemma user_can_click: "x \<in> acts_of ''click'' [] n \<Longrightarrow> user_can n x"
  using acts_fire [of x "''click''" "[]" n] by (auto simp add: user_can_def user_click_def)

lemma user_can_change: "x \<in> acts_of ''change'' v n \<Longrightarrow> user_can n x"
  using acts_fire [of x "''change''" v n] by (auto simp add: user_can_def)

lemma user_can_cases:
  assumes "user_can n x"
  obtains (event) ev v where "ev \<in> {''click'', ''change'', ''blur''}" "x \<in> acts_of ev v n"
    | (submit) f b where "f \<in> set (forms n)" "x \<in> set (submit_calls f)"
        "submit_buttons f = [] \<or> b \<in> set (submit_buttons f) \<and> \<not> disabled b"
proof -
  from assms obtain p v where "x \<in> set (user_click p n) \<or> x \<in> set (user_enter p n)
     \<or> x \<in> set (fire ''change'' v p n) \<or> x \<in> set (fire ''blur'' v p n)"
    by (auto simp add: user_can_def)
  then consider "x \<in> set (user_click p n)" | "x \<in> set (user_enter p n)"
    | "x \<in> set (fire ''change'' v p n)" | "x \<in> set (fire ''blur'' v p n)" by blast
  then show thesis
  proof cases
    case 1
    from user_click_cases [OF this] show ?thesis using event [of "''click''" "[]"] submit by blast
  next
    case 2
    from user_enter_cases [OF this] obtain f where f: "f \<in> set (forms n)" "x \<in> set (submit_calls f)"
      and b: "case submit_buttons f of [] \<Rightarrow> True | b # _ \<Rightarrow> \<not> disabled b" by blast
    show ?thesis
    proof (cases "submit_buttons f")
      case Nil
      with f show ?thesis by (rule submit [OF _ _ disjI1])
    next
      case (Cons a as)
      with b have "a \<in> set (submit_buttons f) \<and> \<not> disabled a" by simp
      with f show ?thesis by (rule submit [OF _ _ disjI2])
    qed
  next
    case 3
    then have "x \<in> acts_of ''change'' v n" by (rule subsetD [OF fire_acts])
    then show ?thesis by (intro event) simp_all
  next
    case 4
    then have "x \<in> acts_of ''blur'' v n" by (rule subsetD [OF fire_acts])
    then show ?thesis by (intro event) simp_all
  qed
qed

text \<open>A component inside another one: its calls are translated, and nothing else changes.\<close>

lemma map_of_map_handler: "map_of (map (map_prod id (map_handler f)) hs) ev = map_option (map_handler f) (map_of hs ev)"
  by (induction hs) auto

lemma acts_of_map_node [simp]: "acts_of ev v (map_node f n) = f ` acts_of ev v n"
proof (induction n)
  case (El t as hs cs)
  have off: "disabled (El t as (map (map_prod id (map_handler f)) hs) []) = disabled (El t as hs [])"
    by (simp add: disabled_def get_attr_def)
  have "(case map_of (map (map_prod id (map_handler f)) hs) ev of Some (Do h) \<Rightarrow> set (h v) | _ \<Rightarrow> {})
      = f ` (case map_of hs ev of Some (Do h) \<Rightarrow> set (h v) | _ \<Rightarrow> {})"
    unfolding map_of_map_handler by (auto split: option.split handler.split)
  then show ?case using El off by (auto simp add: image_Un image_UN)
qed simp

lemma forms_map_node [simp]: "forms (map_node f n) = map (map_node f) (forms n)"
proof (induction n)
  case (El t as hs cs)
  then have "concat (map (forms \<circ> map_node f) cs) = concat (map (map (map_node f) \<circ> forms) cs)"
    by (intro arg_cong [of _ _ concat] map_cong) simp_all
  then show ?case by (simp add: jsx_if_def map_concat)
qed simp

text \<open>Without forms, the user's means are the events alone; so components compose.\<close>

lemma user_can_no_forms:
  assumes "forms n = []"
  shows "user_can n x \<longleftrightarrow> x \<in> acts_of ''click'' [] n \<or> (\<exists>v. x \<in> acts_of ''change'' v n \<or> x \<in> acts_of ''blur'' v n)"
proof
  assume "user_can n x"
  then obtain p v where c: "x \<in> set (user_click p n) \<or> x \<in> set (user_enter p n)
     \<or> x \<in> set (fire ''change'' v p n) \<or> x \<in> set (fire ''blur'' v p n)" unfolding user_can_def by blast
  have "x \<notin> set (user_enter p n)" using user_enter_cases [of x p n] assms by auto
  with c have "x \<in> set (fire ''click'' [] p n) \<or> x \<in> set (fire ''change'' v p n) \<or> x \<in> set (fire ''blur'' v p n)"
    unfolding user_click_no_forms [OF assms] by blast
  then show "x \<in> acts_of ''click'' [] n \<or> (\<exists>v. x \<in> acts_of ''change'' v n \<or> x \<in> acts_of ''blur'' v n)"
    using fire_acts [of "''click''" "[]" p n] fire_acts [of "''change''" v p n] fire_acts [of "''blur''" v p n] by blast
next
  assume "x \<in> acts_of ''click'' [] n \<or> (\<exists>v. x \<in> acts_of ''change'' v n \<or> x \<in> acts_of ''blur'' v n)"
  then show "user_can n x"
  proof (elim disjE exE)
    fix v
    show "x \<in> acts_of ''change'' v n \<Longrightarrow> user_can n x" "x \<in> acts_of ''blur'' v n \<Longrightarrow> user_can n x"
      using acts_fire [of x _ v n] unfolding user_can_def by metis+
  qed (rule user_can_click)
qed

lemma user_can_iff_acts:
  assumes "forms n = []" and "\<And>ev v. ev \<in> {''change'', ''blur''} \<Longrightarrow> acts_of ev v n = {}" and "\<And>v. acts_of ''click'' v n = S"
  shows "user_can n x \<longleftrightarrow> x \<in> S"
proof
  assume "user_can n x"
  then show "x \<in> S" by (cases rule: user_can_cases) (use assms in auto)
qed (auto intro!: user_can_click simp add: assms)

lemma user_can_El:
  assumes "t \<noteq> ''form''" and "\<And>c. c \<in> set cs \<Longrightarrow> forms c = []"
  shows "user_can (El t as [] cs) x \<longleftrightarrow> (\<exists>c \<in> set cs. user_can c x)"
proof -
  have "forms (El t as [] cs) = []" using assms by simp
  from user_can_no_forms [OF this] show ?thesis using assms(2) by (auto simp add: user_can_no_forms)
qed

lemma user_can_map_node:
  assumes "forms n = []"
  shows "user_can (map_node f n) y \<longleftrightarrow> (\<exists>x. y = f x \<and> user_can n x)"
proof -
  have "forms (map_node f n) = []" using assms by simp
  from user_can_no_forms [OF this] user_can_no_forms [OF assms] show ?thesis by auto
qed

section \<open>Dialogs\<close>

text \<open>
  The dialogs share one construction: a backdrop whose click handler closes the dialog, around a box
  that stops the propagation of clicks.  A click on the backdrop closes the dialog; a click inside
  the box does only what the content of the box does.
\<close>

definition dialog_of :: "(string \<times> attr) list \<Rightarrow> 'a \<Rightarrow> (string \<times> attr) list \<Rightarrow> 'a node list \<Rightarrow> 'a node" where
  "dialog_of as close bs content =
     El ''div'' as [(''click'', Do (\<lambda>_. [close]))] [El ''div'' bs [(''click'', StopPropagation)] content]"

lemma dialog_backdrop [simp]: "user_click [] (dialog_of as close bs content) = [close]"
  by (simp add: user_click_def fire_def disabled_def receive_def dialog_of_def is_submit_def)

text \<open>Whatever happens inside the box ends there.\<close>

lemma bubble_box: "\<not> snd (bubble ''click'' v p (El ''div'' bs [(''click'', StopPropagation)] content))"
  by (cases p) (simp_all add: receive_def disabled_def)

locale modal_dialog =
  fixes view :: "'s \<Rightarrow> 'a node" and close :: 'a and outer box :: "'s \<Rightarrow> (string \<times> attr) list"
    and content :: "'s \<Rightarrow> 'a node list"
  assumes view_dialog: "view s = dialog_of (outer s) close (box s) (content s)"
begin

lemma backdrop_closes: "user_click [] (view s) = [close]"
  by (simp add: view_dialog)

lemma inside_only_content:
  "set (fire ''click'' v (0 # p) (view s)) \<subseteq> (\<Union>c \<in> set (content s). acts_of ''click'' v c)"
proof -
  let ?b = "El ''div'' (box s) [(''click'', StopPropagation)] (content s)"
  have "set (fst (bubble ''click'' v p ?b)) \<subseteq> acts_of ''click'' v ?b"
    by (rule outcomes_acts [OF bubble_outcomes])
  then have "set (fst (bubble ''click'' v p ?b)) \<subseteq> (\<Union>c \<in> set (content s). acts_of ''click'' v c)"
    by (simp split: if_splits)
  with bubble_box [of v p "box s" "content s"] show ?thesis
    by (auto simp add: view_dialog dialog_of_def fire_def receive_def split: option.splits)
qed

end

end
