(* ===== verification/Form_Views.thy ===== *)
theory Form_Views
  imports Dom New_Proposal_Form Create_Proposal_Form
begin

text \<open>
  What the two proposal forms render (\<^verbatim>\<open>components/CreateProposalForm.tsx\<close> and
  \<^verbatim>\<open>components/NewProposalForm.tsx\<close>), as functions of the states of \<open>Create_Proposal_Form\<close> and
  \<open>New_Proposal_Form\<close>, and what the user's clicks and keys on them do.
\<close>

datatype form_act = ActChange FieldName jstring | ActBlur FieldName | ActSubmit | ActClose

section \<open>CreateProposalForm\<close>

definition cf_invalid :: "create_form \<Rightarrow> FieldName \<Rightarrow> (string \<times> attr) list" where
  "cf_invalid s f = jsx_if (cf_touched s f) [(''aria-invalid'', ABool (fieldError (cf_form s) f \<noteq> None))]"

definition cf_describedby :: "create_form \<Rightarrow> FieldName \<Rightarrow> string \<Rightarrow> (string \<times> attr) list" where
  "cf_describedby s f i =
     opt_attr ''aria-describedby'' (if fieldError (cf_form s) f \<noteq> None then Some (js i) else None)"

definition cf_error_span :: "create_form \<Rightarrow> FieldName \<Rightarrow> string \<Rightarrow> form_act node list" where
  "cf_error_span s f i =
     (case cf_showError s f of
        None \<Rightarrow> []
      | Some m \<Rightarrow> [El ''span'' [(''id'', AStr (js i))] [] [Txt m]])"

definition edit :: "FieldName \<Rightarrow> (string \<times> form_act handler) list" where
  "edit f = [(''change'', Do (\<lambda>v. [ActChange f v])), (''blur'', Do (\<lambda>_. [ActBlur f]))]"

definition required_mark :: "form_act node" where
  "required_mark = El ''span'' [] [] [Txt (js ''*'')]"

definition cf_header :: "form_act node" where
  "cf_header = El ''div'' [] []
     [El ''h2'' [] [] [Txt (js ''Create Proposal'')],
      El ''button'' [(''aria-label'', AStr (js ''Close''))] [(''click'', Do (\<lambda>_. [ActClose]))] [Txt [215]]]"

definition cf_title :: "create_form \<Rightarrow> form_act node" where
  "cf_title s = El ''div'' [] []
     [El ''label'' [(''for'', AStr (js ''cp-title''))] [] [Txt (js ''Title ''), required_mark],
      El ''input'' ([(''id'', AStr (js ''cp-title'')), (''type'', AStr (js ''text'')),
          (''value'', AStr (f_title (cf_form s))),
          (''placeholder'', AStr (js ''e.g. Increase validator rewards by 5%'')), (''maxlength'', ANum 128)]
          @ cf_describedby s FTitle ''cp-title-error'' @ cf_invalid s FTitle)
        (edit FTitle) [],
      El ''div'' [] []
        ((case cf_error_span s FTitle ''cp-title-error'' of [] \<Rightarrow> [El ''span'' [] [] []] | e \<Rightarrow> e)
         @ [El ''span'' [] [] [Txt (show_nat (length (f_title (cf_form s)))), Txt (js ''/128'')]])]"

definition cf_description :: "create_form \<Rightarrow> form_act node" where
  "cf_description s = El ''div'' [] []
     [El ''label'' [(''for'', AStr (js ''cp-description''))] [] [Txt (js ''Description ''), required_mark],
      El ''textarea'' ([(''id'', AStr (js ''cp-description'')), (''value'', AStr (f_description (cf_form s))),
          (''placeholder'', AStr (js ''Describe the proposal in detail'' @ [8230])),
          (''maxlength'', ANum 1024), (''rows'', ANum 5)]
          @ cf_describedby s FDescription ''cp-desc-error'' @ cf_invalid s FDescription)
        (edit FDescription) [],
      El ''div'' [] []
        ((case cf_error_span s FDescription ''cp-desc-error'' of [] \<Rightarrow> [El ''span'' [] [] []] | e \<Rightarrow> e)
         @ [El ''span'' [] [] [Txt (show_nat (length (f_description (cf_form s)))), Txt (js ''/1024'')]])]"

definition cf_quorum :: "create_form \<Rightarrow> form_act node" where
  "cf_quorum s = El ''div'' [] []
     ([El ''label'' [(''for'', AStr (js ''cp-quorum''))] [] [Txt (js ''Quorum (CVT) ''), required_mark],
       El ''input'' ([(''id'', AStr (js ''cp-quorum'')), (''type'', AStr (js ''number'')), (''min'', ANum 1),
           (''value'', AStr (f_quorum (cf_form s))), (''placeholder'', AStr (js ''e.g. 1000''))]
           @ cf_describedby s FQuorum ''cp-quorum-error'' @ cf_invalid s FQuorum)
         (edit FQuorum) []]
      @ cf_error_span s FQuorum ''cp-quorum-error''
      @ [El ''div'' [] [] [Txt (js ''Minimum total votes (Yes + No + Abstain) required for this proposal to be valid.'')]])"

definition cf_preset :: "jstring \<times> jstring \<Rightarrow> form_act node" where
  "cf_preset p = El ''button'' [(''type'', AStr (js ''button''))]
     [(''click'', Do (\<lambda>_. [ActChange FDuration (snd p)]))] [Txt (fst p)]"

definition cf_duration :: "(rat \<Rightarrow> jstring) \<Rightarrow> create_form \<Rightarrow> form_act node" where
  "cf_duration big s = El ''div'' [] []
     ([El ''label'' [(''for'', AStr (js ''cp-duration''))] [] [Txt (js ''Duration ''), required_mark],
       El ''div'' [] [] (map cf_preset DURATION_PRESETS),
       El ''input'' ([(''id'', AStr (js ''cp-duration'')), (''type'', AStr (js ''number'')), (''min'', ANum 60),
           (''max'', ANum 2592000), (''value'', AStr (f_duration (cf_form s))),
           (''placeholder'', AStr (js ''seconds (60 '' @ [8211] @ js '' 2592000)''))]
           @ cf_describedby s FDuration ''cp-duration-error'' @ cf_invalid s FDuration)
         (edit FDuration) []]
      @ cf_error_span s FDuration ''cp-duration-error''
      @ jsx_if (fieldError (cf_form s) FDuration = None \<and> f_duration (cf_form s) \<noteq> [])
          [El ''div'' [] [] [Txt ([8776] @ js '' ''),
             Txt (toFixed big 1 (num_div_pos (js_Number (f_duration (cf_form s))) 86400)), Txt (js '' days'')]])"

definition cf_submit_error :: "create_form \<Rightarrow> form_act node list" where
  "cf_submit_error s =
     jsx_if (truthy (cf_submitError s))
       [El ''div'' [(''role'', AStr (js ''alert''))] []
          [El ''strong'' [] [] [Txt (js ''Error:'')], Txt (js '' ''), Txt (the (cf_submitError s))]]"

definition cf_actions :: "create_form \<Rightarrow> form_act node" where
  "cf_actions s = El ''div'' [] []
     [El ''button'' [(''type'', AStr (js ''button'')), (''disabled'', ABool (cf_submitting s))]
        [(''click'', Do (\<lambda>_. [ActClose]))] [Txt (js ''Cancel'')],
      El ''button'' [(''type'', AStr (js ''submit'')), (''disabled'', ABool (cf_submitting s))] []
        [Txt (if cf_submitting s then [9203] @ js '' Submitting'' @ [8230] else js ''Create Proposal'')]]"

definition cf_form_element :: "(rat \<Rightarrow> jstring) \<Rightarrow> create_form \<Rightarrow> form_act node" where
  "cf_form_element big s =
     El ''form'' [(''novalidate'', ABool True)] [(''submit'', Do (\<lambda>_. [ActSubmit]))]
       ([El ''div'' [] [] [cf_title s, cf_description s, cf_quorum s, cf_duration big s]]
        @ cf_submit_error s @ [cf_actions s])"

definition cf_view :: "(rat \<Rightarrow> jstring) \<Rightarrow> create_form \<Rightarrow> form_act node" where
  "cf_view big s = dialog_of [] ActClose [] [cf_header, cf_form_element big s]"

section \<open>NewProposalForm\<close>

definition nf_mark :: "form_act node" where
  "nf_mark = El ''span'' [(''aria-hidden'', AStr (js ''true''))] [] [Txt (js ''*'')]"

definition nf_err :: "new_form \<Rightarrow> FieldName \<Rightarrow> string \<Rightarrow> form_act node list" where
  "nf_err s f i =
     jsx_if (showError s f)
       [El ''span'' [(''id'', AStr (js i)), (''role'', AStr (js ''alert''))] [] [Txt (the (nf_errors s f))]]"

definition nf_header :: "form_act node" where
  "nf_header = El ''div'' [] []
     [El ''h2'' [(''id'', AStr (js ''new-proposal-title''))] [] [Txt (js ''New Proposal'')],
      El ''button'' [(''aria-label'', AStr (js ''Close''))] [(''click'', Do (\<lambda>_. [ActClose]))] [Txt [215]]]"

definition nf_title :: "new_form \<Rightarrow> form_act node" where
  "nf_title s = El ''div'' [] []
     ([El ''label'' [(''for'', AStr (js ''np-title''))] [] [Txt (js ''Title ''), nf_mark],
       El ''input'' [(''id'', AStr (js ''np-title'')), (''type'', AStr (js ''text'')),
           (''value'', AStr (f_title (nf_form s))), (''maxlength'', ANum (int TITLE_MAX)),
           (''aria-describedby'', AStr (js ''np-title-hint np-title-err'')),
           (''aria-invalid'', ABool (showError s FTitle)), (''aria-required'', AStr (js ''true'')),
           (''autocomplete'', AStr (js ''off''))]
         (edit FTitle) [],
       El ''span'' [(''id'', AStr (js ''np-title-hint''))] []
         [Txt (show_nat (length (f_title (nf_form s)))), Txt (js ''/''), Txt (show_nat TITLE_MAX), Txt (js '' characters'')]]
      @ nf_err s FTitle ''np-title-err'')"

definition nf_description :: "new_form \<Rightarrow> form_act node" where
  "nf_description s = El ''div'' [] []
     ([El ''label'' [(''for'', AStr (js ''np-desc''))] [] [Txt (js ''Description ''), nf_mark],
       El ''textarea'' [(''id'', AStr (js ''np-desc'')), (''value'', AStr (f_description (nf_form s))),
           (''maxlength'', ANum (int DESC_MAX)), (''rows'', ANum 4),
           (''aria-describedby'', AStr (js ''np-desc-hint np-desc-err'')),
           (''aria-invalid'', ABool (showError s FDescription)), (''aria-required'', AStr (js ''true''))]
         (edit FDescription) [],
       El ''span'' [(''id'', AStr (js ''np-desc-hint''))] []
         [Txt (show_nat (length (f_description (nf_form s)))), Txt (js ''/''), Txt (show_nat DESC_MAX), Txt (js '' characters'')]]
      @ nf_err s FDescription ''np-desc-err'')"

definition nf_quorum :: "new_form \<Rightarrow> form_act node" where
  "nf_quorum s = El ''div'' [] []
     ([El ''label'' [(''for'', AStr (js ''np-quorum''))] [] [Txt (js ''Quorum (token units)''), Txt (js '' ''), nf_mark],
       El ''input'' [(''id'', AStr (js ''np-quorum'')), (''type'', AStr (js ''number'')), (''min'', ANum 1), (''step'', ANum 1),
           (''value'', AStr (f_quorum (nf_form s))),
           (''aria-describedby'', AStr (js ''np-quorum-hint np-quorum-err'')),
           (''aria-invalid'', ABool (showError s FQuorum)), (''aria-required'', AStr (js ''true''))]
         (edit FQuorum) [],
       El ''span'' [(''id'', AStr (js ''np-quorum-hint''))] []
         [Txt (js ''Minimum token votes required for the proposal to pass.'')]]
      @ nf_err s FQuorum ''np-quorum-err'')"

definition nf_duration :: "(nat \<Rightarrow> jstring) \<Rightarrow> new_form \<Rightarrow> form_act node" where
  "nf_duration loc s = El ''div'' [] []
     ([El ''label'' [(''for'', AStr (js ''np-duration''))] [] [Txt (js ''Duration (seconds)''), Txt (js '' ''), nf_mark],
       El ''input'' [(''id'', AStr (js ''np-duration'')), (''type'', AStr (js ''number'')),
           (''min'', ANum (int DURATION_MIN)), (''max'', ANum (int DURATION_MAX)), (''step'', ANum 1),
           (''value'', AStr (f_duration (nf_form s))),
           (''aria-describedby'', AStr (js ''np-duration-hint np-duration-err'')),
           (''aria-invalid'', ABool (showError s FDuration)), (''aria-required'', AStr (js ''true''))]
         (edit FDuration) [],
       El ''span'' [(''id'', AStr (js ''np-duration-hint''))] []
         [Txt (loc DURATION_MIN), Txt [8211], Txt (loc DURATION_MAX),
          Txt (js '' s'' @ [160] @ js '' (1 min '' @ [8211] @ js '' 30 days)'')]]
      @ nf_err s FDuration ''np-duration-err'')"

definition nf_actions :: "(nat \<Rightarrow> jstring) \<Rightarrow> new_form \<Rightarrow> form_act node" where
  "nf_actions loc s = El ''div'' [] []
     [El ''button'' [(''type'', AStr (js ''button''))] [(''click'', Do (\<lambda>_. [ActClose]))] [Txt (js ''Cancel'')],
      El ''button'' [(''type'', AStr (js ''submit'')), (''disabled'', ABool (submit_disabled loc s)),
          (''aria-disabled'', ABool (submit_disabled loc s))] []
        [Txt (if nf_submitting s then js ''Submitting'' @ [8230] else js ''Submit Proposal'')]]"

definition nf_form_element :: "(nat \<Rightarrow> jstring) \<Rightarrow> new_form \<Rightarrow> form_act node" where
  "nf_form_element loc s =
     El ''form'' [(''novalidate'', ABool True), (''aria-label'', AStr (js ''New proposal form''))]
       [(''submit'', Do (\<lambda>_. [ActSubmit]))]
       [nf_title s, nf_description s, nf_quorum s, nf_duration loc s, nf_actions loc s]"

definition nf_view :: "(nat \<Rightarrow> jstring) \<Rightarrow> new_form \<Rightarrow> form_act node" where
  "nf_view loc s =
     dialog_of [(''role'', AStr (js ''presentation''))] ActClose
       [(''role'', AStr (js ''dialog'')), (''aria-modal'', AStr (js ''true'')),
        (''aria-labelledby'', AStr (js ''new-proposal-title''))]
       [nf_header, nf_form_element loc s]"

interpretation create_dialog: modal_dialog "cf_view big" ActClose "\<lambda>_. []" "\<lambda>_. []"
  "\<lambda>s. [cf_header, cf_form_element big s]" for big
  by unfold_locales (simp add: cf_view_def)

interpretation new_dialog: modal_dialog "nf_view loc" ActClose "\<lambda>_. [(''role'', AStr (js ''presentation''))]"
  "\<lambda>_. [(''role'', AStr (js ''dialog'')), (''aria-modal'', AStr (js ''true'')),
        (''aria-labelledby'', AStr (js ''new-proposal-title''))]"
  "\<lambda>s. [nf_header, nf_form_element loc s]" for loc
  by unfold_locales (simp add: nf_view_def)

lemmas cf_parts = cf_view_def dialog_of_def cf_header_def cf_form_element_def cf_title_def cf_description_def
  cf_quorum_def cf_duration_def cf_submit_error_def cf_actions_def edit_def required_mark_def

lemmas nf_parts = nf_view_def dialog_of_def nf_header_def nf_form_element_def nf_title_def nf_description_def
  nf_quorum_def nf_duration_def nf_actions_def edit_def nf_mark_def

section \<open>References between elements\<close>

fun cf_error_id :: "FieldName \<Rightarrow> string" where
  "cf_error_id FTitle = ''cp-title-error''"
| "cf_error_id FDescription = ''cp-desc-error''"
| "cf_error_id FQuorum = ''cp-quorum-error''"
| "cf_error_id FDuration = ''cp-duration-error''"

fun cf_input_id :: "FieldName \<Rightarrow> string" where
  "cf_input_id FTitle = ''cp-title''"
| "cf_input_id FDescription = ''cp-description''"
| "cf_input_id FQuorum = ''cp-quorum''"
| "cf_input_id FDuration = ''cp-duration''"

lemma ids_error_span [simp]:
  "concat (map ids (cf_error_span s f i)) = (if cf_showError s f = None then [] else [js i])"
  "concat (map id_refs (cf_error_span s f i)) = []"
  by (cases "cf_showError s f"; simp add: cf_error_span_def refs_of_El)+

lemma ids_preset [simp]: "ids (cf_preset p) = []" "id_refs (cf_preset p) = []"
  by (simp_all add: cf_preset_def refs_of_El)

lemma ids_or_empty [simp]:
  "concat (map ids (case cf_error_span s f i of [] \<Rightarrow> [El ''span'' [] [] []] | e \<Rightarrow> e))
     = (if cf_showError s f = None then [] else [js i])"
  "concat (map id_refs (case cf_error_span s f i of [] \<Rightarrow> [El ''span'' [] [] []] | e \<Rightarrow> e)) = []"
  by (cases "cf_showError s f"; simp add: cf_error_span_def refs_of_El)+

lemma map_of_describedby [simp]:
  "(map_of (cf_invalid s f) ++ map_of (cf_describedby s f i)) k =
     (if k = ''aria-describedby'' \<and> fieldError (cf_form s) f \<noteq> None then Some (AStr (js i))
      else if k = ''aria-invalid'' \<and> cf_touched s f then Some (ABool (fieldError (cf_form s) f \<noteq> None)) else None)"
  by (simp add: cf_describedby_def cf_invalid_def jsx_if_def map_add_def)

lemma cf_block_ids:
  "ids (cf_title s) = js ''cp-title'' # (if cf_showError s FTitle = None then [] else [js ''cp-title-error''])"
  "ids (cf_description s) = js ''cp-description'' # (if cf_showError s FDescription = None then [] else [js ''cp-desc-error''])"
  "ids (cf_quorum s) = js ''cp-quorum'' # (if cf_showError s FQuorum = None then [] else [js ''cp-quorum-error''])"
  "ids (cf_duration big s) = js ''cp-duration'' # (if cf_showError s FDuration = None then [] else [js ''cp-duration-error''])"
  by (simp_all add: cf_title_def cf_description_def cf_quorum_def cf_duration_def required_mark_def jsx_if_def
    DURATION_PRESETS_def del: fieldError.simps)

lemma cf_block_refs:
  "id_refs (cf_title s) = js ''cp-title'' # (if fieldError (cf_form s) FTitle = None then [] else [js ''cp-title-error''])"
  "id_refs (cf_description s) = js ''cp-description'' # (if fieldError (cf_form s) FDescription = None then [] else [js ''cp-desc-error''])"
  "id_refs (cf_quorum s) = js ''cp-quorum'' # (if fieldError (cf_form s) FQuorum = None then [] else [js ''cp-quorum-error''])"
  "id_refs (cf_duration big s) = js ''cp-duration'' # (if fieldError (cf_form s) FDuration = None then [] else [js ''cp-duration-error''])"
  by (simp_all add: cf_title_def cf_description_def cf_quorum_def cf_duration_def required_mark_def jsx_if_def
    DURATION_PRESETS_def refs_of_El del: fieldError.simps)

lemma cf_rest_ids:
  "ids cf_header = []" "ids (cf_actions s) = []" "concat (map ids (cf_submit_error s)) = []"
  "id_refs cf_header = []" "id_refs (cf_actions s) = []" "concat (map id_refs (cf_submit_error s)) = []"
  by (simp_all add: cf_header_def cf_actions_def cf_submit_error_def jsx_if_def refs_of_El)

lemma cf_ids:
  "ids (cf_view big s) = concat (map (\<lambda>f. js (cf_input_id f) #
     (if cf_showError s f = None then [] else [js (cf_error_id f)])) FIELDS)"
  by (simp add: cf_view_def dialog_of_def cf_form_element_def cf_block_ids cf_rest_ids FIELDS_def)

lemma cf_refs:
  "id_refs (cf_view big s) = concat (map (\<lambda>f. js (cf_input_id f) #
     (if fieldError (cf_form s) f = None then [] else [js (cf_error_id f)])) FIELDS)"
  by (simp add: cf_view_def dialog_of_def cf_form_element_def cf_block_refs cf_rest_ids FIELDS_def refs_of_El
      del: fieldError.simps)

section \<open>Editing\<close>

fun cf_run :: "chain_env \<Rightarrow> vite_env \<Rightarrow> jstring \<Rightarrow> form_act \<Rightarrow> create_form \<Rightarrow> create_form" where
  "cf_run ce env wallet (ActChange f v) s = cf_handleChange f v s"
| "cf_run ce env wallet (ActBlur f) s = cf_handleBlur f s"
| "cf_run ce env wallet ActSubmit s = cf_handleSubmit ce env wallet s"
| "cf_run ce env wallet ActClose s = s"

lemma path_to_input:
  "path_to ''cp-title'' (cf_title s) = Some [1]"
  "path_to ''cp-description'' (cf_description s) = Some [1]"
  "path_to ''cp-quorum'' (cf_quorum s) = Some [1]"
  "path_to ''cp-duration'' (cf_duration big s) = Some [2]"
  by (simp_all add: cf_title_def cf_description_def cf_quorum_def cf_duration_def required_mark_def
      id_of_El DURATION_PRESETS_def cf_preset_def del: fieldError.simps)

lemma path_to_view:
  "path_to (cf_input_id f) (cf_view big s) =
     Some (case f of FTitle \<Rightarrow> [0, 1, 0, 0, 1] | FDescription \<Rightarrow> [0, 1, 0, 1, 1]
       | FQuorum \<Rightarrow> [0, 1, 0, 2, 1] | FDuration \<Rightarrow> [0, 1, 0, 3, 2])"
  by (cases f) (simp_all add: cf_view_def dialog_of_def cf_form_element_def path_to_input id_of_El
      path_to_None cf_rest_ids cf_block_ids del: fieldError.simps)

lemma cf_node_at:
  "node_at (case f of FTitle \<Rightarrow> [0, 1, 0, 0, 1] | FDescription \<Rightarrow> [0, 1, 0, 1, 1]
       | FQuorum \<Rightarrow> [0, 1, 0, 2, 1] | FDuration \<Rightarrow> [0, 1, 0, 3, 2]) (cf_view big s)
   = Some x \<Longrightarrow> get_attr ''value'' x = Some (AStr (field_value (cf_form s) f))"
  by (cases f) (auto simp add: cf_parts get_attr_def simp del: fieldError.simps)

lemma cf_shown_value: "shown_value (cf_input_id f) (cf_view big s) = Some (field_value (cf_form s) f)"
proof -
  have "by_id (cf_input_id f) (cf_view big s) \<noteq> None"
    by (cases f) (simp_all add: by_id_None_iff cf_ids FIELDS_def)
  then obtain x where x: "by_id (cf_input_id f) (cf_view big s) = Some x" by auto
  from cf_node_at [OF trans [OF node_at_path_to(1) [OF path_to_view] x]] x show ?thesis
    by (simp add: shown_value_def)
qed

lemma cf_fire:
  "fire_at ''change'' v (cf_input_id f) (cf_view big s) = [ActChange f v]"
  "fire_at ''blur'' v (cf_input_id f) (cf_view big s) = [ActBlur f]"
  unfolding fire_at_def path_to_view
  by (cases f; simp add: fire_def receive_def cf_parts del: fieldError.simps)+

text \<open>
  The fields are controlled: typing \<open>v\<close> into one of them and rendering again shows \<open>v\<close> in that field
  and leaves what the other fields show unchanged.
\<close>

theorem create_form_controlled:
  "shown_value (cf_input_id g)
     (cf_view big (fold (cf_run ce env wallet) (fire_at ''change'' v (cf_input_id f) (cf_view big s)) s))
   = (if g = f then Some v else shown_value (cf_input_id g) (cf_view big s))"
  unfolding cf_fire cf_shown_value
  by (cases f; cases g) (simp_all add: cf_handleChange_def)

section \<open>Labels, fields and errors\<close>

fun cf_label :: "FieldName \<Rightarrow> string" where
  "cf_label FTitle = ''Title *''"
| "cf_label FDescription = ''Description *''"
| "cf_label FQuorum = ''Quorum (CVT) *''"
| "cf_label FDuration = ''Duration *''"

lemma labels_error_span [simp]:
  "concat (map labels (cf_error_span s f i)) = []"
  "concat (map labels (case cf_error_span s f i of [] \<Rightarrow> [El ''span'' [] [] []] | e \<Rightarrow> e)) = []"
  by (cases "cf_showError s f"; simp add: cf_error_span_def)+

lemma cf_block_labels:
  "labels (cf_title s) = [(js ''Title *'', Some (js ''cp-title''))]"
  "labels (cf_description s) = [(js ''Description *'', Some (js ''cp-description''))]"
  "labels (cf_quorum s) = [(js ''Quorum (CVT) *'', Some (js ''cp-quorum''))]"
  "labels (cf_duration big s) = [(js ''Duration *'', Some (js ''cp-duration''))]"
  by (simp_all add: cf_title_def cf_description_def cf_quorum_def cf_duration_def required_mark_def jsx_if_def
    DURATION_PRESETS_def cf_preset_def del: fieldError.simps) (simp_all add: js_def)

lemma cf_labels: "labels (cf_view big s) = map (\<lambda>f. (js (cf_label f), Some (js (cf_input_id f)))) FIELDS"
  by (simp add: cf_view_def dialog_of_def cf_form_element_def cf_block_labels cf_header_def cf_actions_def
      cf_submit_error_def jsx_if_def FIELDS_def)

lemma cf_node_describedby:
  "node_at (case f of FTitle \<Rightarrow> [0, 1, 0, 0, 1] | FDescription \<Rightarrow> [0, 1, 0, 1, 1]
       | FQuorum \<Rightarrow> [0, 1, 0, 2, 1] | FDuration \<Rightarrow> [0, 1, 0, 3, 2]) (cf_view big s)
   = Some x \<Longrightarrow> get_attr ''aria-describedby'' x =
     (if fieldError (cf_form s) f = None then None else Some (AStr (js (cf_error_id f))))"
  by (cases f) (auto simp add: cf_parts get_attr_def simp del: fieldError.simps)

lemma cf_describes:
  "map_option (get_attr ''aria-describedby'') (by_id (cf_input_id f) (cf_view big s)) =
     Some (if fieldError (cf_form s) f = None then None else Some (AStr (js (cf_error_id f))))"
proof -
  have "by_id (cf_input_id f) (cf_view big s) \<noteq> None"
    by (cases f) (simp_all add: by_id_None_iff cf_ids FIELDS_def)
  then obtain x where x: "by_id (cf_input_id f) (cf_view big s) = Some x" by auto
  from cf_node_describedby [OF trans [OF node_at_path_to(1) [OF path_to_view] x]] x show ?thesis by simp
qed

lemma by_id_error_span:
  "first_some (map (by_id i) (cf_error_span s f j)) =
     (if i = j then map_option (\<lambda>m. El ''span'' [(''id'', AStr (js i))] [] [Txt m]) (cf_showError s f) else None)"
  "first_some (map (by_id i) (case cf_error_span s f j of [] \<Rightarrow> [El ''span'' [] [] []] | e \<Rightarrow> e)) =
     (if i = j then map_option (\<lambda>m. El ''span'' [(''id'', AStr (js i))] [] [Txt m]) (cf_showError s f) else None)"
  by (cases "cf_showError s f"; simp add: cf_error_span_def id_of_El)+

lemma by_id_submit_error: "first_some (map (by_id i) (cf_submit_error s)) = None"
  by (simp add: cf_submit_error_def jsx_if_def id_of_El)

lemma cf_dangling:
  "dangling (cf_view big s) = map (\<lambda>f. js (cf_error_id f))
     (filter (\<lambda>f. fieldError (cf_form s) f \<noteq> None \<and> \<not> cf_touched s f) FIELDS)"
proof -
  have i: "js (cf_input_id f) \<in> set (ids (cf_view big s))" for f
    by (cases f) (simp_all add: cf_ids FIELDS_def)
  have e: "js (cf_error_id f) \<in> set (ids (cf_view big s)) \<longleftrightarrow> cf_showError s f \<noteq> None" for f
    by (cases f) (simp_all add: cf_ids FIELDS_def)
  have "filter (\<lambda>r. r \<notin> set (ids (cf_view big s)))
      (js (cf_input_id f) # (if fieldError (cf_form s) f = None then [] else [js (cf_error_id f)]))
    = (if fieldError (cf_form s) f \<noteq> None \<and> \<not> cf_touched s f then [js (cf_error_id f)] else [])" for f
    using i [of f] e [of f] by (simp add: cf_showError_def)
  then show ?thesis
    unfolding dangling_def cf_refs filter_concat map_map o_def by (simp only: concat_map_if)
qed

lemma by_id_block_error:
  "by_id ''cp-title-error'' (cf_title s) = map_option (\<lambda>m. El ''span'' [(''id'', AStr (js ''cp-title-error''))] [] [Txt m]) (cf_showError s FTitle)"
  "by_id ''cp-desc-error'' (cf_description s) = map_option (\<lambda>m. El ''span'' [(''id'', AStr (js ''cp-desc-error''))] [] [Txt m]) (cf_showError s FDescription)"
  "by_id ''cp-quorum-error'' (cf_quorum s) = map_option (\<lambda>m. El ''span'' [(''id'', AStr (js ''cp-quorum-error''))] [] [Txt m]) (cf_showError s FQuorum)"
  "by_id ''cp-duration-error'' (cf_duration big s) = map_option (\<lambda>m. El ''span'' [(''id'', AStr (js ''cp-duration-error''))] [] [Txt m]) (cf_showError s FDuration)"
  by (simp_all add: cf_title_def cf_description_def cf_quorum_def cf_duration_def required_mark_def id_of_El jsx_if_def
      DURATION_PRESETS_def cf_preset_def by_id_error_span first_some_append split: option.split
      del: fieldError.simps)

lemma cf_error_text:
  "map_option text_content (by_id (cf_error_id f) (cf_view big s)) = cf_showError s f"
proof -
  have "by_id (cf_error_id f) (cf_view big s) =
      map_option (\<lambda>m. El ''span'' [(''id'', AStr (js (cf_error_id f)))] [] [Txt m]) (cf_showError s f)"
    by (cases f) (simp_all add: cf_view_def dialog_of_def cf_form_element_def by_id_block_error id_of_El
      first_some_append by_id_None cf_rest_ids cf_block_ids by_id_submit_error)
  then show ?thesis by (cases "cf_showError s f") simp_all
qed

text \<open>
  C35. Labels, fields and error texts of the rendered form belong together.  Its labels are, in this order,
  those of title, description, quorum and duration, and each names the identifier of its own field: the
  element with that identifier displays the value of the field and changing it changes that field.  A field
  whose value has an error refers to its own error text; that text is displayed, as the message of the error,
  once the field was left.  All identifiers are distinct, and the only references without a target
  are those of fields that have an error and were not left yet.
\<close>

theorem create_form_references:
  "labels (cf_view big s) = map (\<lambda>f. (js (cf_label f), Some (js (cf_input_id f)))) FIELDS
   \<and> (\<forall>f v. fire_at ''change'' v (cf_input_id f) (cf_view big s) = [ActChange f v]
       \<and> shown_value (cf_input_id f) (cf_view big s) = Some (field_value (cf_form s) f))
   \<and> (\<forall>f. map_option (get_attr ''aria-describedby'') (by_id (cf_input_id f) (cf_view big s)) =
         Some (if fieldError (cf_form s) f = None then None else Some (AStr (js (cf_error_id f)))))
   \<and> (\<forall>f. map_option text_content (by_id (cf_error_id f) (cf_view big s)) = cf_showError s f)
   \<and> distinct (ids (cf_view big s))
   \<and> dangling (cf_view big s) = map (\<lambda>f. js (cf_error_id f))
       (filter (\<lambda>f. fieldError (cf_form s) f \<noteq> None \<and> \<not> cf_touched s f) FIELDS)"
proof (intro conjI allI)
  show "distinct (ids (cf_view big s))" by (simp add: cf_ids FIELDS_def)
qed (simp_all only: cf_labels cf_fire cf_shown_value cf_describes cf_error_text cf_dangling)

section \<open>Submitting\<close>

lemma cf_error_span_inert [simp]:
  "(\<Union>c \<in> set (cf_error_span s f i). acts_of ev v c) = {}"
  "concat (map forms (cf_error_span s f i)) = []" "concat (map submit_buttons (cf_error_span s f i)) = []"
  "(\<Union>c \<in> set (case cf_error_span s f i of [] \<Rightarrow> [El ''span'' [] [] []] | e \<Rightarrow> e). acts_of ev v c) = {}"
  "concat (map forms (case cf_error_span s f i of [] \<Rightarrow> [El ''span'' [] [] []] | e \<Rightarrow> e)) = []"
  "concat (map submit_buttons (case cf_error_span s f i of [] \<Rightarrow> [El ''span'' [] [] []] | e \<Rightarrow> e)) = []"
  by (cases "cf_showError s f"; simp add: cf_error_span_def is_submit_def)+

lemma cf_block_clicks:
  "acts_of ''click'' v (cf_title s) = {}" "acts_of ''click'' v (cf_description s) = {}"
  "acts_of ''click'' v (cf_quorum s) = {}"
  "acts_of ''click'' v (cf_duration big s) = ActChange FDuration ` snd ` set DURATION_PRESETS"
  by (simp_all add: cf_title_def cf_description_def cf_quorum_def cf_duration_def required_mark_def edit_def
      cf_preset_def DURATION_PRESETS_def jsx_if_def disabled_def get_attr_def del: fieldError.simps) auto

lemma cf_block_edits:
  "acts_of ''change'' v (cf_title s) = {ActChange FTitle v}" "acts_of ''blur'' v (cf_title s) = {ActBlur FTitle}"
  "acts_of ''change'' v (cf_description s) = {ActChange FDescription v}"
  "acts_of ''blur'' v (cf_description s) = {ActBlur FDescription}"
  "acts_of ''change'' v (cf_quorum s) = {ActChange FQuorum v}" "acts_of ''blur'' v (cf_quorum s) = {ActBlur FQuorum}"
  "acts_of ''change'' v (cf_duration big s) = {ActChange FDuration v}"
  "acts_of ''blur'' v (cf_duration big s) = {ActBlur FDuration}"
  by (simp_all add: cf_title_def cf_description_def cf_quorum_def cf_duration_def required_mark_def edit_def
      cf_preset_def DURATION_PRESETS_def jsx_if_def del: fieldError.simps)

lemma cf_block_forms:
  "forms (cf_title s) = []" "forms (cf_description s) = []" "forms (cf_quorum s) = []" "forms (cf_duration big s) = []"
  "submit_buttons (cf_title s) = []" "submit_buttons (cf_description s) = []"
  "submit_buttons (cf_quorum s) = []" "submit_buttons (cf_duration big s) = []"
  by (simp_all add: cf_title_def cf_description_def cf_quorum_def cf_duration_def required_mark_def
      cf_preset_def DURATION_PRESETS_def jsx_if_def is_submit_def get_attr_def del: fieldError.simps)

lemma cf_clicks:
  "acts_of ''click'' v (cf_view big s) = insert ActClose (ActChange FDuration ` snd ` set DURATION_PRESETS)"
  by (auto simp add: cf_view_def dialog_of_def cf_form_element_def cf_block_clicks cf_header_def cf_actions_def
      cf_submit_error_def jsx_if_def disabled_def get_attr_def)

lemma cf_forms: "forms (cf_view big s) = [cf_form_element big s]"
  by (simp add: cf_view_def dialog_of_def cf_form_element_def cf_block_forms cf_header_def cf_actions_def
      cf_submit_error_def jsx_if_def)

lemma cf_submit_buttons:
  "\<exists>b. submit_buttons (cf_form_element big s) = [b] \<and> disabled b = cf_submitting s"
  by (simp add: cf_form_element_def cf_block_forms cf_actions_def cf_submit_error_def jsx_if_def is_submit_def
      get_attr_def disabled_def)

text \<open>
  No double submission: while a submission is under way, neither a click anywhere in the dialog nor the
  Enter key in any field submits again; when none is under way, the form can be submitted by a click.
  The backdrop closes the dialog in both cases.
\<close>

lemma create_form_single_submit:
  "(if cf_submitting s
    then \<forall>p. ActSubmit \<notin> set (user_click p (cf_view big s)) \<and> ActSubmit \<notin> set (user_enter p (cf_view big s))
    else \<exists>p. user_click p (cf_view big s) = [ActSubmit])
   \<and> user_click [] (cf_view big s) = [ActClose]"
proof (cases "cf_submitting s")
  case True
  then obtain b where "submit_buttons (cf_form_element big s) = [b]" "disabled b"
    using cf_submit_buttons by blast
  then have "ActSubmit \<notin> set (user_click p (cf_view big s))" "ActSubmit \<notin> set (user_enter p (cf_view big s))" for p
    using user_click_cases [of ActSubmit p "cf_view big s"] user_enter_cases [of ActSubmit p "cf_view big s"]
    by (auto simp add: cf_forms cf_clicks)
  with True create_dialog.backdrop_closes show ?thesis by simp
next
  case False
  have "user_click [0, 1, length (cf_submit_error s) + 1, 1] (cf_view big s) = [ActSubmit]"
    using False by (simp add: user_click_def fire_def cf_view_def dialog_of_def cf_form_element_def cf_actions_def
      nth_append receive_def disabled_def get_attr_def is_submit_def submit_calls_def)
  with False create_dialog.backdrop_closes show ?thesis by auto
qed

section \<open>One submission at a time\<close>

text \<open>
  A submission takes many turns of the event loop, during which the user may go on editing.  Its
  beginning and its end are steps of their own; \<open>cs_pending\<close> holds the values of the submissions
  under way.  Closing the form (\<open>onCancel\<close>, from the backdrop, the cross or Cancel) unmounts it: the user can do
  nothing on it any more, while a submission under way goes on to its end; the updates it then makes
  to the state of the form are not seen.  This is the life of one mounted form; a form opened later has a state of its own.
\<close>

definition cf_begin :: "create_form \<Rightarrow> create_form" where
  "cf_begin s = s\<lparr>cf_touched := (\<lambda>_. True), cf_submitting := True, cf_submitError := None\<rparr>"

definition cf_end :: "submit_end \<Rightarrow> create_form \<Rightarrow> create_form" where
  "cf_end r s =
     (case r of
        Created i \<Rightarrow> s\<lparr>cf_created := cf_created s @ [i]\<rparr>
      | Stopped m \<Rightarrow> s\<lparr>cf_submitError := Some m\<rparr>
      | Threw e \<Rightarrow> s\<lparr>cf_submitError := Some (message_of e)\<rparr>)\<lparr>cf_submitting := False\<rparr>"

lemma cf_handleSubmit_split:
  "cf_handleSubmit ce env wallet s =
     (if hasErrors (cf_form s) then s\<lparr>cf_touched := (\<lambda>_. True)\<rparr>
      else cf_end (submit_body ce env wallet (cf_form s)) (cf_begin s))"
  by (simp add: cf_handleSubmit_def cf_begin_def cf_end_def Let_def split: submit_end.split)

record create_sys =
  cs_form :: create_form
  cs_pending :: "FormState list"
  cs_open :: bool

definition initial_create_sys :: create_sys where
  "initial_create_sys = \<lparr>cs_form = initial_create_form, cs_pending = [], cs_open = True\<rparr>"

fun cs_act :: "form_act \<Rightarrow> create_sys \<Rightarrow> create_sys" where
  "cs_act (ActChange f v) y = y\<lparr>cs_form := cf_handleChange f v (cs_form y)\<rparr>"
| "cs_act (ActBlur f) y = y\<lparr>cs_form := cf_handleBlur f (cs_form y)\<rparr>"
| "cs_act ActSubmit y =
     (if hasErrors (cf_form (cs_form y)) then y\<lparr>cs_form := (cs_form y)\<lparr>cf_touched := (\<lambda>_. True)\<rparr>\<rparr>
      else y\<lparr>cs_form := cf_begin (cs_form y), cs_pending := cs_pending y @ [cf_form (cs_form y)]\<rparr>)"
| "cs_act ActClose y = y\<lparr>cs_open := False\<rparr>"

inductive create_step ::
  "(rat \<Rightarrow> jstring) \<Rightarrow> (FormState \<Rightarrow> submit_end) \<Rightarrow> create_sys \<Rightarrow> create_sys \<Rightarrow> bool" for big body where
  cr_user: "cs_open y \<Longrightarrow> user_can (cf_view big (cs_form y)) x \<Longrightarrow> create_step big body y (cs_act x y)"
| cr_ends: "f \<in> set (cs_pending y) \<Longrightarrow>
    create_step big body y (y\<lparr>cs_form := cf_end (body f) (cs_form y), cs_pending := remove1 f (cs_pending y)\<rparr>)"

definition one_pending :: "create_sys \<Rightarrow> bool" where
  "one_pending y \<longleftrightarrow> length (cs_pending y) = (if cf_submitting (cs_form y) then 1 else 0)"

lemma cf_can_submit:
  assumes "user_can (cf_view big s) ActSubmit"
  shows "\<not> cf_submitting s"
  using assms
proof (cases rule: user_can_cases)
  case (event ev v)
  have "ActSubmit \<notin> acts_of ''change'' v (cf_view big s)" "ActSubmit \<notin> acts_of ''blur'' v (cf_view big s)"
    by (simp_all add: cf_view_def dialog_of_def cf_form_element_def cf_block_edits cf_header_def cf_actions_def
        cf_submit_error_def jsx_if_def)
  with event show ?thesis by (auto simp add: cf_clicks)
next
  case (submit f b)
  with cf_submit_buttons [of big s] show ?thesis by (auto simp add: cf_forms)
qed

lemma create_step_ok: "one_pending y \<Longrightarrow> create_step big body y z \<Longrightarrow> one_pending z"
proof (erule create_step.cases)
  fix y' x
  assume a: "one_pending y" "y = y'" "z = cs_act x y'" "user_can (cf_view big (cs_form y')) x"
  then show "one_pending z"
    using cf_can_submit [of big "cs_form y'"]
    by (cases x) (auto simp add: one_pending_def cf_handleChange_def cf_handleBlur_def cf_begin_def)
next
  fix f y'
  assume a: "one_pending y" "y = y'" "f \<in> set (cs_pending y')"
    "z = y'\<lparr>cs_form := cf_end (body f) (cs_form y'), cs_pending := remove1 f (cs_pending y')\<rparr>"
  then have "cs_pending y' = [f]" by (cases "cs_pending y'") (auto simp add: one_pending_def split: if_splits)
  with a show "one_pending z" by (simp add: one_pending_def cf_end_def split: submit_end.split)
qed

interpretation create_sys: invariant_system "\<lambda>y. y = initial_create_sys" "create_step big body" one_pending for big body
proof unfold_locales
  show "y = initial_create_sys \<Longrightarrow> one_pending y" for y
    by (simp add: one_pending_def initial_create_sys_def initial_create_form_def)
qed (rule create_step_ok)



section \<open>NewProposalForm: the user interface implements the state machine\<close>

fun nf_run :: "(nat \<Rightarrow> jstring) \<Rightarrow> form_act \<Rightarrow> new_form \<Rightarrow> new_form" where
  "nf_run loc (ActChange f v) s = handleChange loc f v s"
| "nf_run loc (ActBlur f) s = handleBlur loc f s"
| "nf_run loc ActSubmit s = handleSubmit loc s"
| "nf_run loc ActClose s = s"

inductive ui_step :: "(nat \<Rightarrow> jstring) \<Rightarrow> new_form \<Rightarrow> new_form \<Rightarrow> bool" for loc :: "nat \<Rightarrow> jstring" where
  us_user: "user_can (nf_view loc s) x \<Longrightarrow> ui_step loc s (nf_run loc x s)"
| us_done: "nf_submitting s \<Longrightarrow> ui_step loc s (fst (submit_done r s))"

lemma nf_err_inert [simp]:
  "(\<Union>c \<in> set (nf_err s f i). acts_of ev v c) = {}"
  "concat (map forms (nf_err s f i)) = []" "concat (map submit_buttons (nf_err s f i)) = []"
  by (simp_all add: nf_err_def jsx_if_def is_submit_def)

lemma nf_submit_source:
  "ActSubmit \<notin> acts_of ''click'' v (nf_view loc s)" "ActSubmit \<notin> acts_of ''change'' v (nf_view loc s)"
  "ActSubmit \<notin> acts_of ''blur'' v (nf_view loc s)"
  by (simp_all add: nf_parts disabled_def get_attr_def)

lemma nf_forms: "forms (nf_view loc s) = [nf_form_element loc s]"
  by (simp add: nf_parts)

lemma nf_submit_buttons:
  "\<exists>b. submit_buttons (nf_form_element loc s) = [b] \<and> disabled b = submit_disabled loc s"
  by (simp add: nf_parts is_submit_def get_attr_def disabled_def)

lemma ui_submit_enabled:
  assumes "user_can (nf_view loc s) ActSubmit"
  shows "\<not> submit_disabled loc s"
  using assms
proof (cases rule: user_can_cases)
  case (event ev v)
  with nf_submit_source [of v loc s] show ?thesis by auto
next
  case (submit f b)
  with nf_submit_buttons [of loc s] show ?thesis by (auto simp add: nf_forms)
qed

lemma ui_step_form_step: "ui_step loc s t \<Longrightarrow> t = s \<or> form_step loc s t"
proof (induction rule: ui_step.induct)
  case (us_user s x)
  then show ?case
    using fs_submit [OF ui_submit_enabled, of loc s] by (cases x) (auto intro: form_step.intros)
qed (blast intro: form_step.intros)

fun nf_error_id :: "FieldName \<Rightarrow> string" where
  "nf_error_id FTitle = ''np-title-err''"
| "nf_error_id FDescription = ''np-desc-err''"
| "nf_error_id FQuorum = ''np-quorum-err''"
| "nf_error_id FDuration = ''np-duration-err''"

fun nf_input_id :: "FieldName \<Rightarrow> string" where
  "nf_input_id FTitle = ''np-title''"
| "nf_input_id FDescription = ''np-desc''"
| "nf_input_id FQuorum = ''np-quorum''"
| "nf_input_id FDuration = ''np-duration''"

lemma nf_err_ids [simp]:
  "concat (map ids (nf_err s f i)) = (if showError s f then [js i] else [])"
  "concat (map id_refs (nf_err s f i)) = []"
  by (simp_all add: nf_err_def jsx_if_def refs_of_El)

lemma nf_ids:
  "ids (nf_view loc s) = js ''new-proposal-title'' # concat (map (\<lambda>f.
     [js (nf_input_id f), js (nf_input_id f @ ''-hint'')] @ (if showError s f then [js (nf_error_id f)] else [])) FIELDS)"
  by (simp add: nf_parts FIELDS_def)

lemma nf_refs:
  "id_refs (nf_view loc s) = js ''new-proposal-title'' # concat (map (\<lambda>f.
     [js (nf_input_id f), js (nf_input_id f @ ''-hint''), js (nf_error_id f)]) FIELDS)"
  by (simp add: nf_parts FIELDS_def refs_of_El)

lemma nf_error_shown:
  "by_id (nf_error_id f) (nf_view loc s) =
     (if showError s f
      then Some (El ''span'' [(''id'', AStr (js (nf_error_id f))), (''role'', AStr (js ''alert''))] [] [Txt (the (nf_errors s f))])
      else None)"
proof (cases "showError s f")
  case True
  then show ?thesis
    by (cases f) (simp_all add: nf_parts id_of_El nf_err_def jsx_if_def)
next
  case False
  then have "js (nf_error_id f) \<notin> set (ids (nf_view loc s))" by (cases f) (simp_all add: nf_ids FIELDS_def)
  with False show ?thesis by (simp add: by_id_None)
qed

text \<open>
  C15. What the user sees is current: in every state the user can bring the rendered form into, by clicks, the
  Enter key, typing and leaving fields in any order, the error text of a field is in the document
  exactly when the field was left or a submission was attempted and its present value is invalid,
  and it is the message for that value.
\<close>

theorem rendered_errors_current:
  assumes "reachable (\<lambda>s. s = initial_new_form) (ui_step loc) s"
  shows "map_option text_content (by_id (nf_error_id f) (nf_view loc s)) =
    (if nf_touched s f \<or> nf_submitAttempted s then validateField loc f (field_value (nf_form s) f) else None)"
proof -
  have "form_ok loc s"
    by (rule form.reachable_inv [OF reachable_mono [OF assms]]) (rule ui_step_form_step)
  then show ?thesis
    unfolding nf_error_shown using error_truthy [of loc f "field_value (nf_form s) f"]
    by (auto simp add: form_ok_def showError_def)
qed

theorem rendered_errors_current_witness:
  "map_option text_content (by_id ''np-title-err'' (nf_view (\<lambda>_. []) (handleBlur (\<lambda>_. []) FTitle initial_new_form)))
   = Some (js ''Title is required.'')"
proof -
  let ?s = "handleBlur (\<lambda>_. []) FTitle initial_new_form"
  have "ActBlur FTitle \<in> set (fire ''blur'' [] [0, 1, 0, 1] (nf_view (\<lambda>_. []) initial_new_form))"
    by (simp add: fire_def nf_parts receive_def)
  then have "user_can (nf_view (\<lambda>_. []) initial_new_form) (ActBlur FTitle)"
    unfolding user_can_def by blast
  from us_user [OF this] have "ui_step (\<lambda>_. []) initial_new_form ?s" by simp
  then have "reachable (\<lambda>s. s = initial_new_form) (ui_step (\<lambda>_. [])) ?s"
    by (rule reach_step [rotated]) (rule reach_init, rule refl)
  from rendered_errors_current [OF this, of FTitle] show ?thesis
    by (simp add: handleBlur_def revalidateField_def initial_new_form_def INITIAL_def trim_def)
qed

text \<open>
  The identifiers of this form are distinct, but the fields always refer to their error texts,
  whether they are displayed or not.
\<close>

theorem new_form_references:
  "distinct (ids (nf_view loc s))
   \<and> dangling (nf_view loc s) = map (\<lambda>f. js (nf_error_id f)) (filter (\<lambda>f. \<not> showError s f) FIELDS)"
proof
  show "distinct (ids (nf_view loc s))" by (simp add: nf_ids FIELDS_def)
  have "filter (\<lambda>r. r \<notin> set (ids (nf_view loc s)))
      [js (nf_input_id f), js (nf_input_id f @ ''-hint''), js (nf_error_id f)]
    = (if \<not> showError s f then [js (nf_error_id f)] else [])" for f
    by (cases f) (simp_all add: nf_ids FIELDS_def)
  moreover have "js ''new-proposal-title'' \<in> set (ids (nf_view loc s))" by (simp add: nf_ids)
  ultimately show "dangling (nf_view loc s) = map (\<lambda>f. js (nf_error_id f)) (filter (\<lambda>f. \<not> showError s f) FIELDS)"
    unfolding dangling_def nf_refs by (simp only: filter.simps not_True_eq_False if_False filter_concat map_map o_def
      concat_map_if simp_thms)
qed

end
