(* ===== verification/Ui_Shell.thy ===== *)
theory Ui_Shell
  imports Wallet_Store Format_Utils
begin

text \<open>
  The smaller parts of the user interface, each as its state and the functions that change it:
  the header menu (\<^verbatim>\<open>components/Header.tsx\<close>), the wallet dialog (\<^verbatim>\<open>components/ConnectWalletModal.tsx\<close>),
  the error boundary, the document's title and description (\<^verbatim>\<open>useMeta.ts\<close>), the install prompt
  (\<^verbatim>\<open>usePWAInstall.ts\<close>), the texts of wallet errors (\<^verbatim>\<open>WalletContext.tsx\<close>), the vote status and focus
  trap of \<^verbatim>\<open>components/ProposalDetail.tsx\<close>, and the start-up of \<^verbatim>\<open>main.tsx\<close>.
\<close>

section \<open>Header\<close>

datatype hd_focus = OnHamburger | Elsewhere

record header_ui =
  hd_menuOpen :: bool
  hd_showFullAddress :: bool
  hd_focused :: hd_focus

definition initial_header :: header_ui where
  "initial_header = \<lparr>hd_menuOpen = False, hd_showFullAddress = False, hd_focused = Elsewhere\<rparr>"

definition header_keydown :: "jstring \<Rightarrow> header_ui \<Rightarrow> header_ui" where
  "header_keydown key h =
     (if key = js ''Escape'' \<and> hd_menuOpen h
      then h\<lparr>hd_menuOpen := False, hd_focused := OnHamburger\<rparr> else h)"

definition header_mousedown :: "bool \<Rightarrow> bool \<Rightarrow> header_ui \<Rightarrow> header_ui" where
  "header_mousedown in_menu in_hamburger h =
     (if hd_menuOpen h \<and> \<not> in_menu \<and> \<not> in_hamburger then h\<lparr>hd_menuOpen := False\<rparr> else h)"

definition header_media :: "bool \<Rightarrow> header_ui \<Rightarrow> header_ui" where
  "header_media wide h = (if wide then h\<lparr>hd_menuOpen := False\<rparr> else h)"

definition header_hamburger :: "header_ui \<Rightarrow> header_ui" where
  "header_hamburger h = h\<lparr>hd_menuOpen := \<not> hd_menuOpen h\<rparr>"

definition header_nav_click :: "header_ui \<Rightarrow> header_ui" where
  "header_nav_click h = h\<lparr>hd_menuOpen := False\<rparr>"

definition header_toggle_address :: "header_ui \<Rightarrow> header_ui" where
  "header_toggle_address h = h\<lparr>hd_showFullAddress := \<not> hd_showFullAddress h\<rparr>"

definition header_address :: "header_ui \<Rightarrow> jstring \<Rightarrow> jstring" where
  "header_address h wallet = (if hd_showFullAddress h then wallet else maskAddress wallet)"

definition hamburger_label :: "header_ui \<Rightarrow> jstring" where
  "hamburger_label h = (if hd_menuOpen h then js ''Close menu'' else js ''Open menu'')"

text \<open>The acceptance criteria of the header: Escape and a click outside close the menu; a click inside does not.\<close>

lemma header_menu_closes:
  "\<not> hd_menuOpen (header_keydown (js ''Escape'') h)"
  "\<not> hd_menuOpen (header_mousedown False False h)"
  "hd_menuOpen (header_mousedown True ih h) = hd_menuOpen h"
  "hd_menuOpen h \<Longrightarrow> hd_focused (header_keydown (js ''Escape'') h) = OnHamburger"
  by (simp_all add: header_keydown_def header_mousedown_def)

section \<open>Wallet dialog\<close>

record modal_ui =
  md_error :: "jstring option"
  md_loading :: "WalletName option"

definition handleConnect :: "wallet_ext \<Rightarrow> WalletName \<Rightarrow> modal_ui \<times> wallet_sys \<Rightarrow> modal_ui \<times> wallet_sys" where
  "handleConnect x wallet ms =
     (let (m, s) = ms; m1 = m\<lparr>md_error := None, md_loading := Some wallet\<rparr>
      in case connect x wallet s of
           Inr s' \<Rightarrow> (m1\<lparr>md_loading := None\<rparr>, s')
         | Inl e \<Rightarrow> (m1\<lparr>md_error := Some (message_of e), md_loading := None\<rparr>, s))"

text \<open>
  A failed connection leaves the store alone, shows its reason and ends the waiting state; after a
  successful one the dialog is closed and no error is shown.
\<close>

lemma handleConnect_outcome:
  assumes "handleConnect x w (m, s) = (m', s')"
  shows "md_loading m' = None
    \<and> (case connect x w s of
         Inl e \<Rightarrow> md_error m' = Some (message_of e) \<and> s' = s
       | Inr t \<Rightarrow> md_error m' = None \<and> s' = t
           \<and> (walletAddress (ws_store t) = walletAddress (ws_store s) \<or> \<not> showModal (ws_store t)))"
proof (cases "connect x w s")
  case (Inl e)
  with assms show ?thesis by (auto simp add: handleConnect_def Let_def)
next
  case (Inr t)
  then have "walletAddress (ws_store t) = walletAddress (ws_store s) \<or> \<not> showModal (ws_store t)"
    by (rule connect_cases) auto
  with assms Inr show ?thesis by (auto simp add: handleConnect_def Let_def)
qed

definition detectFreighterError :: "(jstring \<Rightarrow> jstring) \<Rightarrow> bool \<Rightarrow> thrown \<Rightarrow> jstring" where
  "detectFreighterError lower freighter_in_window err =
     (let msg = message_of err
      in if \<not> freighter_in_window
         then js ''Freighter wallet extension not found. Please install it and refresh.''
         else if js_includes (lower msg) (js ''user rejected'') \<or> js_includes (lower msg) (js ''denied'')
         then js ''Connection rejected. Click '' @ [34] @ js ''Retry'' @ [34] @ js '' to try again.''
         else if js_includes (lower msg) (js ''network'') \<or> js_includes (lower msg) (js ''timeout'')
         then js ''Network error connecting to wallet. Check your connection and retry.''
         else js ''Wallet connection failed: '' @ msg)"

section \<open>Error boundary\<close>

definition getDerivedStateFromError :: "thrown \<Rightarrow> thrown option" where
  "getDerivedStateFromError e = Some e"

definition boundary_retry :: "thrown option \<Rightarrow> thrown option" where
  "boundary_retry st = None"

section \<open>Document title and description\<close>

definition DEFAULT_TITLE :: jstring where
  "DEFAULT_TITLE = js ''CosmosVote '' @ [8212] @ js '' Governance''"

definition DEFAULT_DESCRIPTION :: jstring where
  "DEFAULT_DESCRIPTION = js ''On-chain governance and voting on Stellar Soroban''"

record document_head =
  doc_title :: jstring
  doc_description :: "jstring option"

definition useMeta_effect :: "jstring option \<Rightarrow> jstring option \<Rightarrow> document_head \<Rightarrow> document_head" where
  "useMeta_effect ti de d =
     d\<lparr>doc_title := (if truthy ti then the ti @ js '' | CosmosVote'' else DEFAULT_TITLE),
       doc_description := Some (case de of Some x \<Rightarrow> x | None \<Rightarrow> DEFAULT_DESCRIPTION)\<rparr>"

definition useMeta_cleanup :: "document_head \<Rightarrow> document_head" where
  "useMeta_cleanup d = d\<lparr>doc_title := DEFAULT_TITLE, doc_description := Some DEFAULT_DESCRIPTION\<rparr>"

text \<open>Effects of successive pages leave no trace: what counts is the last one.\<close>

lemma useMeta_last: "useMeta_effect a b (useMeta_cleanup (useMeta_effect c d x)) = useMeta_effect a b x"
  by (simp add: useMeta_effect_def useMeta_cleanup_def)

section \<open>Install prompt\<close>

record pwa_ui =
  pwa_canInstall :: bool
  pwa_prompt :: "nat option"
  pwa_prompted :: "nat list"

definition pwa_beforeinstall :: "nat \<Rightarrow> pwa_ui \<Rightarrow> pwa_ui" where
  "pwa_beforeinstall e u = u\<lparr>pwa_prompt := Some e, pwa_canInstall := True\<rparr>"

definition pwa_install :: "pwa_ui \<Rightarrow> pwa_ui" where
  "pwa_install u = (case pwa_prompt u of None \<Rightarrow> u | Some e \<Rightarrow> u\<lparr>pwa_prompted := pwa_prompted u @ [e]\<rparr>)"

definition pwa_choice :: "pwa_ui \<Rightarrow> pwa_ui" where
  "pwa_choice u = u\<lparr>pwa_prompt := None, pwa_canInstall := False\<rparr>"

section \<open>Proposal details\<close>

record detail_ui =
  pd_hasVoted :: "bool option"
  pd_voteRecord :: "VoteRecord option"

definition vote_status_effect :: "'v sdk \<Rightarrow> NetworkConfig \<Rightarrow> jstring option \<Rightarrow> Proposal \<Rightarrow> detail_ui \<Rightarrow> detail_ui" where
  "vote_status_effect k cfg wallet p u =
     (if \<not> truthy wallet then u
      else case (fetchHasVoted k cfg (Number_of_BigInt (prop_id p)) (the wallet),
                 fetchVoteRecord k cfg (Number_of_BigInt (prop_id p)) (the wallet)) of
             (Inr voted, Inr record') \<Rightarrow> u\<lparr>pd_hasVoted := Some voted, pd_voteRecord := record'\<rparr>
           | _ \<Rightarrow> u)"

text \<open>
  The focus trap: the focusable elements of the dialog are numbered \<open>0, \<dots>, n - 1\<close>; for a key the
  handler either closes the dialog, moves the focus itself, or leaves the key to the browser.
\<close>

datatype trap_result = CloseDialog | FocusOn nat | BrowserDefault

definition trap_keydown :: "nat \<Rightarrow> nat option \<Rightarrow> bool \<Rightarrow> jstring \<Rightarrow> trap_result" where
  "trap_keydown n active shift key =
     (if key = js ''Escape'' then CloseDialog
      else if key \<noteq> js ''Tab'' then BrowserDefault
      else if n = 0 then BrowserDefault
      else if shift then (if active = Some 0 then FocusOn (n - 1) else BrowserDefault)
      else (if active = Some (n - 1) then FocusOn 0 else BrowserDefault))"

text \<open>The element with the focus after Tab, when the browser's default is the next element in order.\<close>

definition after_tab :: "nat \<Rightarrow> nat \<Rightarrow> bool \<Rightarrow> nat" where
  "after_tab n i shift =
     (case trap_keydown n (Some i) shift (js ''Tab'') of
        FocusOn j \<Rightarrow> j
      | _ \<Rightarrow> if shift then i - 1 else i + 1)"

lemma focus_stays_in_dialog:
  "i < n \<Longrightarrow> after_tab n i shift < n \<and> after_tab n (after_tab n i shift) (\<not> shift) = i"
  by (auto simp add: after_tab_def trap_keydown_def)

section \<open>Start-up\<close>

datatype page = AppPage | ConfigErrorPage jstring

text \<open>\<open>message.replace(/\n/g, '<br/>')\<close>\<close>

definition br_newlines :: "jstring \<Rightarrow> jstring" where
  "br_newlines s = concat (map (\<lambda>c. if c = 10 then js ''<br/>'' else [c]) s)"

definition boot :: "bool \<Rightarrow> vite_env \<Rightarrow> page result" where
  "boot has_root env =
     (if \<not> has_root then Inl (new_Error (js ''Root element not found''))
      else case validateConfig (config env) of
             Inr _ \<Rightarrow> Inr AppPage
           | Inl e \<Rightarrow> Inr (ConfigErrorPage (br_newlines (message_of e))))"

lemma boot_app_iff:
  "boot True env = Inr AppPage \<longleftrightarrow>
     \<not> bad_id (governanceContractId (config env)) \<and> \<not> bad_id (tokenContractId (config env))"
  by (simp add: boot_def validateConfig_def Let_def)

end
