(* ===== verification/Shell_Views.thy ===== *)
theory Shell_Views
  imports Dom Ui_Shell Toasts I18n Theme
begin

text \<open>
  What the parts of the page around the proposals render: the header, the confirmation and wallet
  dialogs, the notifications, the error boundary, the language choice, the live regions and the
  placeholders shown while loading.  States and handlers are those of \<open>Ui_Shell\<close>, \<open>Toasts\<close> and
  \<open>I18n\<close>.
\<close>

section \<open>Header\<close>

datatype header_act = HdToggleTheme | HdToggleAddress | HdDisconnect | HdConnect | HdHamburger | HdCloseMenu

definition NAV_LINKS :: "(jstring \<times> jstring \<times> jstring option) list" where
  "NAV_LINKS =
     [(js ''Proposals'', js ''#proposals'', None),
      (js ''Dashboard'', js ''#dashboard'', None),
      (js ''Docs'', js ''https://github.com/sophiawilliamz/cosmosvote'', Some (js ''_blank''))]"

definition nav_link :: "(string \<times> 'a handler) list \<Rightarrow> jstring \<times> jstring \<times> jstring option \<Rightarrow> 'a node" where
  "nav_link hs link = (case link of (label, href, target) \<Rightarrow>
     El ''li'' [] []
       [El ''a'' ([(''href'', AStr href)] @ opt_attr ''target'' target
            @ opt_attr ''rel'' (map_option (\<lambda>_. js ''noopener noreferrer'') target)) hs [Txt label]])"

record header_props =
  hp_walletAddress :: "jstring option"
  hp_tokenBalance :: "int option"
  hp_decimals :: nat
  hp_theme :: Theme
  hp_connectLabel :: jstring

definition hd_balance :: "header_props \<Rightarrow> header_act node list" where
  "hd_balance q = (case hp_tokenBalance q of
     None \<Rightarrow> [] | Some b \<Rightarrow> [El ''span'' [] [] [Txt (formatTokenAmount b (hp_decimals q))]])"

definition hd_brand :: "vite_env \<Rightarrow> header_act node" where
  "hd_brand env = El ''div'' [] []
     [El ''h1'' [] [] [Txt ([55356, 57100] @ js '' CosmosVote'')],
      El ''span'' [] [] [Txt (js ''On-chain governance '' @ [183] @ js '' ''), Txt (ACTIVE_NETWORK env)]]"

definition hd_desktop_nav :: "header_act node" where
  "hd_desktop_nav = El ''nav'' [(''aria-label'', AStr (js ''Main navigation''))] []
     [El ''ul'' [] [] (map (nav_link []) NAV_LINKS)]"

definition hd_theme_button :: "header_props \<Rightarrow> header_act node" where
  "hd_theme_button q =
     El ''button'' [(''aria-label'', AStr (js ''Switch to '' @ (if hp_theme q = Dark then js ''light'' else js ''dark'') @ js '' mode''))]
       [(''click'', Do (\<lambda>_. [HdToggleTheme]))]
       [Txt (if hp_theme q = Dark then [9728, 65039] else [55356, 57113])]"

definition hd_wallet :: "header_props \<Rightarrow> header_ui \<Rightarrow> header_act node" where
  "hd_wallet q h =
     (if truthy (hp_walletAddress q)
      then El ''div'' [] []
        ([El ''button''
            [(''title'', AStr (if hd_showFullAddress h then js ''Click to hide'' else the (hp_walletAddress q))),
             (''aria-label'', AStr (if hd_showFullAddress h then js ''Hide full address'' else js ''Show full address''))]
            [(''click'', Do (\<lambda>_. [HdToggleAddress]))]
            [Txt (header_address h (the (hp_walletAddress q)))]]
         @ hd_balance q
         @ [El ''button'' [(''aria-label'', AStr (js ''Disconnect wallet''))]
              [(''click'', Do (\<lambda>_. [HdDisconnect]))] [Txt (js ''Disconnect'')]])
      else El ''button'' [] [(''click'', Do (\<lambda>_. [HdConnect]))] [Txt (hp_connectLabel q)])"

definition hd_hamburger_button :: "header_ui \<Rightarrow> header_act node" where
  "hd_hamburger_button h =
     El ''button''
       [(''aria-label'', AStr (hamburger_label h)), (''aria-expanded'', ABool (hd_menuOpen h)),
        (''aria-controls'', AStr (js ''mobile-menu''))]
       [(''click'', Do (\<lambda>_. [HdHamburger]))]
       [El ''span'' [] [] [], El ''span'' [] [] [], El ''span'' [] [] []]"

definition hd_mobile_wallet :: "header_props \<Rightarrow> header_act node" where
  "hd_mobile_wallet q = El ''div'' [] []
     (if truthy (hp_walletAddress q)
      then [El ''span'' [] [] [Txt (maskAddress (the (hp_walletAddress q)))]]
        @ hd_balance q
        @ [El ''button'' [] [(''click'', Do (\<lambda>_. [HdDisconnect, HdCloseMenu]))] [Txt (js ''Disconnect'')]]
      else [El ''button'' [] [(''click'', Do (\<lambda>_. [HdConnect, HdCloseMenu]))] [Txt (hp_connectLabel q)]])"

definition hd_mobile_menu :: "header_props \<Rightarrow> header_ui \<Rightarrow> header_act node" where
  "hd_mobile_menu q h =
     El ''div'' [(''id'', AStr (js ''mobile-menu'')), (''aria-hidden'', ABool (\<not> hd_menuOpen h))] []
       [El ''nav'' [(''aria-label'', AStr (js ''Mobile navigation''))] []
          [El ''ul'' [] [] (map (nav_link [(''click'', Do (\<lambda>_. [HdCloseMenu]))]) NAV_LINKS)],
        hd_mobile_wallet q]"

definition header_view :: "vite_env \<Rightarrow> header_props \<Rightarrow> header_ui \<Rightarrow> header_act node" where
  "header_view env q h =
     El ''header'' [(''role'', AStr (js ''banner''))] []
       [hd_brand env, hd_desktop_nav,
        El ''div'' [] [] [hd_theme_button q, hd_wallet q h, hd_hamburger_button h],
        hd_mobile_menu q h]"

fun header_run :: "header_act \<Rightarrow> header_ui \<Rightarrow> header_ui" where
  "header_run HdToggleAddress h = header_toggle_address h"
| "header_run HdHamburger h = header_hamburger h"
| "header_run HdCloseMenu h = header_nav_click h"
| "header_run _ h = h"

lemmas header_parts = header_view_def hd_brand_def hd_desktop_nav_def hd_theme_button_def hd_wallet_def
  hd_hamburger_button_def hd_mobile_menu_def hd_mobile_wallet_def nav_link_def NAV_LINKS_def

section \<open>Dialogs\<close>

datatype confirm_act = CmConfirm | CmCancel

definition ConfirmModal :: "jstring \<Rightarrow> jstring \<Rightarrow> jstring \<Rightarrow> confirm_act node" where
  "ConfirmModal ti message confirmLabel =
     dialog_of [] CmCancel
       [(''role'', AStr (js ''alertdialog'')), (''aria-modal'', AStr (js ''true'')),
        (''aria-labelledby'', AStr (js ''confirm-title'')), (''aria-describedby'', AStr (js ''confirm-msg''))]
       [El ''h3'' [(''id'', AStr (js ''confirm-title''))] [] [Txt ti],
        El ''p'' [(''id'', AStr (js ''confirm-msg''))] [] [Txt message],
        El ''div'' [] []
          [El ''button'' [] [(''click'', Do (\<lambda>_. [CmCancel]))] [Txt (js ''Cancel'')],
           El ''button'' [] [(''click'', Do (\<lambda>_. [CmConfirm]))] [Txt confirmLabel]]]"

datatype wallet_act = WmConnect WalletName | WmClose

fun wallet_name :: "WalletName \<Rightarrow> jstring" where
  "wallet_name Freighter = js ''Freighter''"
| "wallet_name xBull = js ''xBull''"

definition wm_button :: "modal_ui \<Rightarrow> WalletName \<Rightarrow> wallet_act node" where
  "wm_button m w =
     El ''button'' [(''disabled'', ABool (md_loading m \<noteq> None)), (''aria-busy'', ABool (md_loading m = Some w))]
       [(''click'', Do (\<lambda>_. [WmConnect w]))]
       [Txt (if md_loading m = Some w then [9203] else [55357, 56599]), Txt (js '' ''), Txt (wallet_name w)]"

definition wm_content :: "modal_ui \<Rightarrow> wallet_act node list" where
  "wm_content m =
     [El ''h2'' [(''id'', AStr (js ''wallet-modal-title''))] [] [Txt (js ''Connect Wallet'')],
      El ''div'' [] [] (map (wm_button m) [Freighter, xBull])]
     @ jsx_if (truthy (md_error m)) [El ''p'' [(''role'', AStr (js ''alert''))] [] [Txt (the (md_error m))]]
     @ [El ''button'' [(''aria-label'', AStr (js ''Close wallet modal''))]
          [(''click'', Do (\<lambda>_. [WmClose]))] [Txt (js ''Cancel'')]]"

definition ConnectWalletModal :: "modal_ui \<Rightarrow> wallet_act node" where
  "ConnectWalletModal m =
     dialog_of [(''role'', AStr (js ''dialog'')), (''aria-modal'', AStr (js ''true'')),
         (''aria-labelledby'', AStr (js ''wallet-modal-title''))] WmClose [] (wm_content m)"

section \<open>Notifications\<close>

fun COLORS_icon :: "ToastType \<Rightarrow> jstring" where
  "COLORS_icon pending = [9203]"
| "COLORS_icon success = [9989]"
| "COLORS_icon error = [10060]"

datatype toast_act = Dismiss nat

definition toast_item :: "nat \<times> ToastType \<times> jstring \<Rightarrow> toast_act node" where
  "toast_item x = (case x of (i, ty, message) \<Rightarrow>
     El ''div'' [(''role'', AStr (js ''status''))] []
       [El ''span'' [(''aria-hidden'', AStr (js ''true''))] [] [Txt (COLORS_icon ty)],
        El ''span'' [] [] [Txt message],
        El ''button'' [(''aria-label'', AStr (js ''Dismiss notification''))]
          [(''click'', Do (\<lambda>_. [Dismiss i]))] [Txt [215]]])"

definition ToastContainer :: "(nat \<times> ToastType \<times> jstring) list \<Rightarrow> toast_act node option" where
  "ToastContainer ts =
     (if length ts = 0 then None
      else Some (El ''div'' [(''role'', AStr (js ''region'')), (''aria-live'', AStr (js ''polite'')),
          (''aria-label'', AStr (js ''Notifications''))] [] (map toast_item ts)))"

text \<open>The container of \<^verbatim>\<open>ToastContext.tsx\<close>, which is always there and may link to a transaction.\<close>

definition context_toast :: "vite_env \<Rightarrow> Toast \<Rightarrow> toast_act node" where
  "context_toast env x =
     El ''div'' [(''role'', AStr (js ''alert''))] []
       ([El ''span'' [] [] [Txt (COLORS_icon (t_type x))],
         El ''span'' [] [] [Txt (t_message x)]]
        @ jsx_if (truthy (t_txHash x))
            [El ''a'' [(''href'', AStr (explorerTxUrl env (the (t_txHash x)))), (''target'', AStr (js ''_blank'')),
               (''rel'', AStr (js ''noopener noreferrer''))] [] [Txt (js ''View tx '' @ [8599])]]
        @ [El ''button'' [(''aria-label'', AStr (js ''Dismiss notification''))]
             [(''click'', Do (\<lambda>_. [Dismiss (t_id x)]))] [Txt [215]]])"

definition context_toasts :: "vite_env \<Rightarrow> ToastState \<Rightarrow> toast_act node" where
  "context_toasts env s =
     El ''div'' [(''role'', AStr (js ''region'')), (''aria-label'', AStr (js ''Notifications'')),
         (''aria-live'', AStr (js ''polite''))] [] (map (context_toast env) (toasts s))"

section \<open>Smaller parts\<close>

text \<open>The message of a thrown value that is not an \<open>Error\<close> is \<^verbatim>\<open>undefined\<close> and renders nothing.\<close>

definition boundary_render :: "'a \<Rightarrow> 'a node list option \<Rightarrow> 'a node list \<Rightarrow> thrown option \<Rightarrow> 'a node list" where
  "boundary_render retry fallback children st =
     (case st of
        None \<Rightarrow> children
      | Some e \<Rightarrow>
          (case fallback of
             Some f \<Rightarrow> f
           | None \<Rightarrow>
               [El ''div'' [] []
                  [El ''h2'' [] [] [Txt (js ''Something went wrong'')],
                   El ''p'' [] [] (case e of ErrorObj n m \<Rightarrow> [Txt m] | OtherThrown s \<Rightarrow> []),
                   El ''button'' [] [(''click'', Do (\<lambda>_. [retry]))] [Txt (js ''Retry'')]]]))"

datatype language_act = SetLocale jstring

definition LanguageSwitcher :: "jstring \<Rightarrow> language_act node" where
  "LanguageSwitcher locale' =
     El ''select'' [(''value'', AStr locale'), (''aria-label'', AStr (js ''Select language''))]
       [(''change'', Do (\<lambda>v. [SetLocale v]))]
       (map (\<lambda>(code, nativeLabel). El ''option'' [(''value'', AStr code)] [] [Txt nativeLabel]) language_options)"

definition AriaLive :: "jstring option \<Rightarrow> jstring option \<Rightarrow> 'a node list" where
  "AriaLive polite assertive =
     [El ''div'' [(''role'', AStr (js ''status'')), (''aria-live'', AStr (js ''polite'')), (''aria-atomic'', AStr (js ''true''))] []
        (case polite of None \<Rightarrow> [] | Some m \<Rightarrow> [Txt m]),
      El ''div'' [(''role'', AStr (js ''alert'')), (''aria-live'', AStr (js ''assertive'')), (''aria-atomic'', AStr (js ''true''))] []
        (case assertive of None \<Rightarrow> [] | Some m \<Rightarrow> [Txt m])]"

definition Spinner :: "'a node list" where
  "Spinner =
     [El ''style'' [] [] [Txt (js ''@keyframes spin { to { transform: rotate(360deg); } }'')],
      El ''span'' [(''role'', AStr (js ''status'')), (''aria-label'', AStr (js ''Loading''))] [] []]"

definition ProposalSkeleton :: "'a node" where
  "ProposalSkeleton =
     El ''article'' [(''aria-hidden'', AStr (js ''true''))] []
       [El ''div'' [] [] [El ''div'' [] [] [], El ''div'' [] [] []],
        El ''div'' [] [] [], El ''div'' [] [] [],
        El ''div'' [] [] [El ''div'' [] [] []],
        El ''div'' [] [] []]"

interpretation confirm_dialog: modal_dialog "\<lambda>(ti, message, label). ConfirmModal ti message label" CmCancel
  "\<lambda>_. []"
  "\<lambda>_. [(''role'', AStr (js ''alertdialog'')), (''aria-modal'', AStr (js ''true'')),
        (''aria-labelledby'', AStr (js ''confirm-title'')), (''aria-describedby'', AStr (js ''confirm-msg''))]"
  "\<lambda>(ti, message, label). [El ''h3'' [(''id'', AStr (js ''confirm-title''))] [] [Txt ti],
        El ''p'' [(''id'', AStr (js ''confirm-msg''))] [] [Txt message],
        El ''div'' [] []
          [El ''button'' [] [(''click'', Do (\<lambda>_. [CmCancel]))] [Txt (js ''Cancel'')],
           El ''button'' [] [(''click'', Do (\<lambda>_. [CmConfirm]))] [Txt label]]]"
  by unfold_locales (simp add: ConfirmModal_def split: prod.split)

interpretation wallet_dialog: modal_dialog ConnectWalletModal WmClose
  "\<lambda>_. [(''role'', AStr (js ''dialog'')), (''aria-modal'', AStr (js ''true'')),
         (''aria-labelledby'', AStr (js ''wallet-modal-title''))]" "\<lambda>_. []" wm_content
  by unfold_locales (simp add: ConnectWalletModal_def)

section \<open>What the header offers\<close>

lemma hd_balance_inert [simp]:
  "(\<Union>c \<in> set (hd_balance q). acts_of ev v c) = {}" "concat (map forms (hd_balance q)) = []"
  "concat (map ids (hd_balance q)) = []" "concat (map id_refs (hd_balance q)) = []" "list_all safe_links (hd_balance q)"
  by (cases "hp_tokenBalance q"; simp add: hd_balance_def refs_of_El)+

lemma hd_balance_update [simp]: "hd_balance (q\<lparr>hp_walletAddress := w\<rparr>) = hd_balance q"
  by (cases "hp_tokenBalance q") (simp_all add: hd_balance_def)

lemma header_forms: "forms (header_view env q h) = []"
  by (cases "hp_tokenBalance q") (simp_all add: header_parts hd_balance_def)

lemma header_clicks:
  "acts_of ''click'' v (header_view env q h) = {HdToggleTheme, HdHamburger, HdCloseMenu} \<union>
     (if truthy (hp_walletAddress q) then {HdToggleAddress, HdDisconnect} else {HdConnect})"
  by (auto simp add: header_parts disabled_def get_attr_def)

lemma header_quiet:
  "acts_of ''change'' v (header_view env q h) = {}" "acts_of ''blur'' v (header_view env q h) = {}"
  by (cases "hp_tokenBalance q"; simp add: header_parts hd_balance_def)+

lemma header_can:
  "user_can (header_view env q h) x \<Longrightarrow> x \<in> {HdToggleTheme, HdHamburger, HdCloseMenu} \<union>
     (if truthy (hp_walletAddress q) then {HdToggleAddress, HdDisconnect} else {HdConnect})"
  by (erule user_can_cases) (auto simp add: header_forms header_clicks header_quiet)

text \<open>
  The header offers connecting exactly to a visitor without a wallet and disconnecting exactly to one
  with a wallet; its only reference has a target and every link that opens a new window is
  protected with \<^verbatim>\<open>noopener\<close>.
\<close>

theorem header_offers:
  "(user_can (header_view env q h) HdConnect \<longleftrightarrow> \<not> truthy (hp_walletAddress q))
   \<and> (user_can (header_view env q h) HdDisconnect \<longleftrightarrow> truthy (hp_walletAddress q))
   \<and> dangling (header_view env q h) = [] \<and> safe_links (header_view env q h)"
proof (intro conjI)
  have c: "user_can (header_view env q h) x" if "x \<in> acts_of ''click'' [] (header_view env q h)" for x
    using that by (rule user_can_click)
  show "user_can (header_view env q h) HdConnect \<longleftrightarrow> \<not> truthy (hp_walletAddress q)"
    by (auto intro!: c dest!: header_can simp add: header_clicks split: if_splits)
  show "user_can (header_view env q h) HdDisconnect \<longleftrightarrow> truthy (hp_walletAddress q)"
    by (auto intro!: c dest!: header_can simp add: header_clicks split: if_splits)
  show "dangling (header_view env q h) = []"
    by (simp add: dangling_def header_parts refs_of_El)
  show "safe_links (header_view env q h)"
    by (simp add: header_parts)
qed

text \<open>
  The text of the header reveals no more of the address than its masked form, until the user asks
  for it.
\<close>

theorem header_hides_address:
  assumes "\<not> hd_showFullAddress h" and "maskAddress w = maskAddress w'" and "w \<noteq> []" and "w' \<noteq> []"
  shows "text_content (header_view env (q\<lparr>hp_walletAddress := Some w\<rparr>) h)
    = text_content (header_view env (q\<lparr>hp_walletAddress := Some w'\<rparr>) h)"
  using assms by (simp add: header_parts header_address_def)

section \<open>The dialogs\<close>

text \<open>
  The confirmation dialog confirms for a click on its confirm button and for no other click, and
  cancels for its Cancel button and its backdrop only; a click elsewhere in the box does nothing.
\<close>

theorem confirm_dialog_clicks:
  "user_click p (ConfirmModal ti message confirmLabel) =
     (if p \<in> {[0, 2, 1], [0, 2, 1, 0]} then [CmConfirm]
      else if p \<in> {[], [0, 2, 0], [0, 2, 0, 0]} then [CmCancel] else [])"
proof -
  have "forms (ConfirmModal ti message confirmLabel) = []" by (simp add: ConfirmModal_def dialog_of_def)
  note click = user_click_no_forms [OF this]
  consider "p = []" | i where "p = [i]" | i j where "p = [i, j]" | i j k where "p = [i, j, k]"
    | i j k l where "p = [i, j, k, l]" | i j k l m r where "p = i # j # k # l # m # r"
    by (metis neq_Nil_conv)
  then show ?thesis
    unfolding click
    by cases (auto simp add: fire_def ConfirmModal_def dialog_of_def receive_def disabled_def get_attr_def
        less_Suc_eq nth_Cons' numeral_2_eq_2)
qed

text \<open>
  The wallet dialog starts a connection only while none is being made: a wallet button works exactly
  when nothing is loading; closing is always possible, and identifiers and references agree.
\<close>

theorem wallet_dialog_clicks:
  "(user_can (ConnectWalletModal m) (WmConnect w) \<longleftrightarrow> md_loading m = None)
   \<and> user_click [] (ConnectWalletModal m) = [WmClose] \<and> dangling (ConnectWalletModal m) = []"
proof (intro conjI)
  have f: "forms (ConnectWalletModal m) = []"
    by (simp add: ConnectWalletModal_def dialog_of_def wm_content_def wm_button_def jsx_if_def)
  have a: "acts_of ''click'' v (ConnectWalletModal m) = insert WmClose (if md_loading m = None then range WmConnect else {})"
    "acts_of ''change'' v (ConnectWalletModal m) = {}" "acts_of ''blur'' v (ConnectWalletModal m) = {}" for v
    using WalletName.exhaust
    by (auto simp add: ConnectWalletModal_def dialog_of_def wm_content_def wm_button_def jsx_if_def disabled_def get_attr_def)
  show "user_can (ConnectWalletModal m) (WmConnect w) \<longleftrightarrow> md_loading m = None"
  proof
    assume "user_can (ConnectWalletModal m) (WmConnect w)"
    then show "md_loading m = None"
      by (cases rule: user_can_cases) (auto simp add: f a split: if_splits)
  next
    assume "md_loading m = None"
    then show "user_can (ConnectWalletModal m) (WmConnect w)" by (intro user_can_click) (simp add: a)
  qed
  show "user_click [] (ConnectWalletModal m) = [WmClose]" by (rule wallet_dialog.backdrop_closes)
  show "dangling (ConnectWalletModal m) = []"
    by (simp add: dangling_def ConnectWalletModal_def dialog_of_def wm_content_def wm_button_def jsx_if_def refs_of_El)
qed

section \<open>Notifications\<close>

lemma filter_nth_distinct:
  "distinct (map f xs) \<Longrightarrow> i < length xs \<Longrightarrow> filter (\<lambda>y. f y \<noteq> f (xs ! i)) xs = take i xs @ drop (Suc i) xs"
proof (induction xs arbitrary: i)
  case (Cons x xs)
  then show ?case
  proof (cases i)
    case 0
    with Cons.prems show ?thesis by (auto simp add: filter_id_conv image_iff)
  next
    case (Suc j)
    with Cons have "f x \<noteq> f (xs ! j)" by auto
    with Suc Cons show ?thesis by simp
  qed
qed simp

text \<open>
  Dismissing: in every reachable state of the notifications, the cross of the \<open>i\<close>-th displayed message
  removes that message and no other.
\<close>

theorem toast_cross_removes:
  assumes "reachable (\<lambda>s. \<exists>n. s = initial_hook n) hook_step s" and "i < length (th_toasts s)"
  shows "\<exists>v j. ToastContainer (th_toasts s) = Some v \<and> user_click [i, 2] v = [Dismiss j]
    \<and> th_toasts (hook_dismiss j s) = take i (th_toasts s) @ drop (Suc i) (th_toasts s)"
proof -
  obtain j ty m where x: "th_toasts s ! i = (j, ty, m)" by (cases "th_toasts s ! i") auto
  have "distinct (map fst (th_toasts s))" using hook.reachable_inv [OF assms(1)] by (simp add: hook_ok_def)
  from filter_nth_distinct [OF this assms(2)] x
  have "th_toasts (hook_dismiss j s) = take i (th_toasts s) @ drop (Suc i) (th_toasts s)"
    by (simp add: hook_dismiss_def case_prod_unfold)
  moreover have "user_click [i, 2] (El ''div'' as [] (map toast_item (th_toasts s))) = [Dismiss j]" for as
    using assms(2) x by (simp add: user_click_def fire_def toast_item_def receive_def disabled_def get_attr_def numeral_2_eq_2)
  ultimately show ?thesis using assms(2) by (auto simp add: ToastContainer_def)
qed

theorem toast_cross_removes_witness:
  "\<exists>v j. ToastContainer (th_toasts (fst (hook_show error (js ''No'') (initial_hook 1)))) = Some v
    \<and> user_click [0, 2] v = [Dismiss j]
    \<and> th_toasts (hook_dismiss j (fst (hook_show error (js ''No'') (initial_hook 1)))) = []"
proof -
  let ?s = "fst (hook_show error (js ''No'') (initial_hook 1))"
  have l: "0 < length (th_toasts ?s)" "length (th_toasts ?s) = 1" by (simp_all add: hook_show_def initial_hook_def Let_def)
  have "reachable (\<lambda>s. \<exists>n. s = initial_hook n) hook_step ?s"
    by (rule reach_step, rule reach_init, rule exI, rule refl, rule hk_show)
  from toast_cross_removes [OF this l(1)] l(2) show ?thesis by simp
qed

end
