(* ===== verification/List_Views.thy ===== *)
theory List_Views
  imports Dom Proposal_List Shell_Views
begin

text \<open>
  What the proposal list renders: \<^verbatim>\<open>components/Pagination.tsx\<close>, \<^verbatim>\<open>components/ProposalCard.tsx\<close> and the
  main part of \<^verbatim>\<open>App.tsx\<close> (search and filter, warning, figures, cards, paging).  Components take their
  callbacks as arguments, as in the code.  Date and number formatting (\<open>toLocaleDateString\<close>, non-integer
  numbers) and the translated texts are parameters.  The element of the figures lacks its closing
  tag in the source; it is closed here after the last figure.
\<close>

section \<open>Pagination\<close>

definition page_button :: "(int \<Rightarrow> 'a list) \<Rightarrow> int \<Rightarrow> int option \<Rightarrow> 'a node" where
  "page_button onPage current num =
     (case num of
        None \<Rightarrow> El ''span'' [(''aria-hidden'', AStr (js ''true''))] [] [Txt [8230]]
      | Some n \<Rightarrow>
          El ''button''
            ([(''disabled'', ABool (n = current)), (''aria-label'', AStr (js ''Go to page '' @ show_int n))]
              @ opt_attr ''aria-current'' (if n = current then Some (js ''page'') else None))
            [(''click'', Do (\<lambda>_. onPage n))] [Txt (show_int n)])"

definition Pagination ::
  "nat \<Rightarrow> nat \<Rightarrow> nat \<Rightarrow> nat \<Rightarrow> 'a list \<Rightarrow> 'a list \<Rightarrow> (int \<Rightarrow> 'a list) option \<Rightarrow> 'a node" where
  "Pagination pg tot totalCount pageSize onPrev' onNext' onPage =
     (let pageNumbers = (if onPage \<noteq> None then buildPageNumbers (int pg) (int tot) else [])
      in El ''nav'' [(''aria-label'', AStr (js ''Proposal list pagination''))] []
        [El ''div'' [] []
          [El ''span'' [(''aria-live'', AStr (js ''polite'')), (''aria-atomic'', AStr (js ''true''))] []
             [Txt (summaryText pg totalCount pageSize)],
           El ''div'' [] []
             ([El ''button'' [(''disabled'', ABool (prev_disabled pg)), (''aria-label'', AStr (js ''Go to previous page''))]
                 [(''click'', Do (\<lambda>_. onPrev'))] [Txt ([8592] @ js '' Prev'')]]
              @ map (page_button (the onPage) (int pg)) pageNumbers
              @ jsx_if (onPage = None)
                  [El ''span'' [(''aria-current'', AStr (js ''page''))] []
                     [Txt (show_nat pg), Txt (js '' / ''), Txt (show_nat (if tot = 0 then 1 else tot))]]
              @ [El ''button'' [(''disabled'', ABool (next_disabled pg tot)), (''aria-label'', AStr (js ''Go to next page''))]
                   [(''click'', Do (\<lambda>_. onNext'))] [Txt (js ''Next '' @ [8594])]])]])"

section \<open>Cards\<close>

fun state_name :: "ProposalState \<Rightarrow> jstring" where
  "state_name Active = js ''Active''"
| "state_name Passed = js ''Passed''"
| "state_name Rejected = js ''Rejected''"
| "state_name Executed = js ''Executed''"
| "state_name Cancelled = js ''Cancelled''"

record formats =
  fm_date :: "int \<Rightarrow> jstring"
  fm_number :: "rat \<Rightarrow> jstring"
  fm_text :: "string \<Rightarrow> jstring"

definition ProposalCard :: "formats \<Rightarrow> Proposal \<Rightarrow> nat \<Rightarrow> 'a list \<Rightarrow> 'a node" where
  "ProposalCard fm p decs onClick =
     (let pct = num_to_string (fm_number fm) (quorumPct p)
      in El ''article''
        [(''tabindex'', ANum 0), (''role'', AStr (js ''button'')), (''aria-label'', AStr (card_label p))]
        [(''click'', Do (\<lambda>_. onClick)),
         (''keydown'', Do (\<lambda>key. if card_key_opens key then onClick else []))]
        [El ''div'' [] []
           [El ''h3'' [] [] [Txt (js ''#''), Txt (show_int (prop_id p)), Txt (js '' '' @ [8212] @ js '' ''), Txt (title p)],
            El ''span'' [] [] [Txt (state_name (state p))]],
         El ''p'' [] [] [Txt (description p)],
         El ''div'' [] []
           [Txt (js ''Ends ''), Txt (fm_date fm (end_time p)), Txt (js '' '' @ [183] @ js '' Quorum ''),
            Txt (formatTokenAmount (quorum p) decs)],
         El ''div'' [] [] [El ''div'' [(''style'', AStr (js ''width: '' @ pct @ js ''%''))] [] []],
         El ''div'' [] []
           [Txt pct, Txt (js ''% of quorum '' @ [183, 32, 9989, 32]), Txt (formatTokenAmount (votes_yes p) decs),
            Txt [32, 183, 32, 10060, 32], Txt (formatTokenAmount (votes_no p) decs),
            Txt [32, 183, 32, 11036, 32], Txt (formatTokenAmount (votes_abstain p) decs)]])"

section \<open>The list\<close>

datatype list_act = LSearch jstring | LFilter jstring | LOpen Proposal | LPrev | LNext

record list_page =
  lp_proposals :: "Proposal list"
  lp_decimals :: jnum
  lp_loading :: bool
  lp_progress :: "(nat \<times> nat) option"
  lp_error :: "jstring option"
  lp_rpcWarning :: "jstring option"
  lp_announcement :: jstring

text \<open>The decimals are a whole number, the contract's \<open>u32\<close>.\<close>

fun whole :: "jnum \<Rightarrow> nat" where
  "whole (Fin r) = nat \<lfloor>r\<rfloor>"
| "whole _ = 0"

definition app_filters :: "formats \<Rightarrow> list_ui \<Rightarrow> list_act node" where
  "app_filters fm u = El ''div'' [] []
     [El ''input'' [(''type'', AStr (js ''search'')), (''placeholder'', AStr (fm_text fm ''search_placeholder'')),
        (''value'', AStr (lu_search u)), (''aria-label'', AStr (js ''Search proposals''))]
        [(''change'', Do (\<lambda>v. [LSearch v]))] [],
      El ''select'' [(''value'', AStr (case lu_stateFilter u of None \<Rightarrow> js ''All'' | Some s \<Rightarrow> state_name s)),
          (''aria-label'', AStr (js ''Filter by state''))]
        [(''change'', Do (\<lambda>v. [LFilter v]))]
        (El ''option'' [(''value'', AStr (js ''All''))] [] [Txt (fm_text fm ''filter_all_states'')]
         # map (\<lambda>s. El ''option'' [(''value'', AStr (state_name s))] [] [Txt (state_name s)]) ALL_STATES)]"

definition app_warning :: "list_page \<Rightarrow> list_act node list" where
  "app_warning g = jsx_if (truthy (lp_rpcWarning g))
     [El ''div'' [] [] [El ''strong'' [] [] [Txt (js ''RPC warning:'')], Txt (js '' ''), Txt (the (lp_rpcWarning g))]]"

definition app_stats :: "list_page \<Rightarrow> list_act node" where
  "app_stats g = El ''div'' [] []
     (map (\<lambda>(label, n). El ''div'' [] [] [El ''div'' [] [] [Txt (show_nat n)], El ''div'' [] [] [Txt label]])
        (stats (lp_proposals g)))"

definition app_error :: "list_page \<Rightarrow> list_act node list" where
  "app_error g = jsx_if (truthy (lp_error g)) [El ''p'' [] [] [Txt (js ''Error: ''), Txt (the (lp_error g))]]"

definition app_progress :: "list_page \<Rightarrow> list_act node list" where
  "app_progress g = (case lp_progress g of
     None \<Rightarrow> []
   | Some (loaded, tot) \<Rightarrow>
       [El ''p'' [] [] [Txt (js ''Loading proposals'' @ [8230, 32]), Txt (show_nat loaded), Txt (js ''/''), Txt (show_nat tot)]])"

definition visible :: "(jstring \<Rightarrow> jstring) \<Rightarrow> list_page \<Rightarrow> list_ui \<Rightarrow> Proposal list" where
  "visible lower g u = filtered lower (lu_search u) (lu_stateFilter u) (lp_proposals g)"

definition app_grid :: "(jstring \<Rightarrow> jstring) \<Rightarrow> formats \<Rightarrow> list_page \<Rightarrow> list_ui \<Rightarrow> list_act node" where
  "app_grid lower fm g u = El ''div'' [] []
     (jsx_if (lp_loading g) (app_progress g @ [ProposalSkeleton, ProposalSkeleton, ProposalSkeleton])
      @ jsx_if (\<not> lp_loading g \<and> \<not> truthy (lp_error g) \<and> visible lower g u = [])
          [El ''p'' [] [] [Txt (js ''No proposals found.'')]]
      @ jsx_if (\<not> lp_loading g)
          (map (\<lambda>p. ProposalCard fm p (whole (lp_decimals g)) [LOpen p]) (pagedProposals (lu_page u) (visible lower g u))))"

definition app_pagination :: "(jstring \<Rightarrow> jstring) \<Rightarrow> list_page \<Rightarrow> list_ui \<Rightarrow> list_act node list" where
  "app_pagination lower g u =
     (let xs = visible lower g u
      in jsx_if (\<not> lp_loading g \<and> xs \<noteq> [])
        [Pagination (safePage (lu_page u) xs) (totalPages xs) (length xs) PAGE_SIZE [LPrev] [LNext] None])"

definition app_main :: "(jstring \<Rightarrow> jstring) \<Rightarrow> formats \<Rightarrow> list_page \<Rightarrow> list_ui \<Rightarrow> list_act node" where
  "app_main lower fm g u = El ''main'' [] []
     ([app_filters fm u] @ app_warning g @ [app_stats g] @ app_error g @ [app_grid lower fm g u]
      @ app_pagination lower g u)"

definition filter_of_value :: "jstring \<Rightarrow> ProposalState option" where
  "filter_of_value v = find (\<lambda>s. state_name s = v) ALL_STATES"

fun list_run :: "Proposal list \<Rightarrow> list_act \<Rightarrow> list_ui \<Rightarrow> list_ui" where
  "list_run xs (LSearch v) u = setSearch v u"
| "list_run xs (LFilter v) u = setStateFilter (filter_of_value v) u"
| "list_run xs (LOpen p) u = u"
| "list_run xs LPrev u = onPrev u"
| "list_run xs LNext u = onNext xs u"

section \<open>Paging controls\<close>

datatype page_act = PgPrev | PgNext | PgPage int

lemma page_button_inert [simp]:
  "forms (page_button f c n) = []" "acts_of ''change'' v (page_button f c n) = {}"
  "acts_of ''blur'' v (page_button f c n) = {}"
  by (cases n; simp add: page_button_def)+

lemma page_button_clicks:
  "acts_of ''click'' v (page_button f c n) = (case n of None \<Rightarrow> {} | Some k \<Rightarrow> if k = c then {} else set (f k))"
  by (cases n) (simp_all add: page_button_def disabled_def get_attr_def)

lemma Pagination_clicks:
  "acts_of ''click'' v (Pagination pg tot cnt sz a b onPage) =
     (if 1 < pg then set a else {}) \<union> (if pg < tot then set b else {})
     \<union> (case onPage of None \<Rightarrow> {} | Some f \<Rightarrow>
          {x. \<exists>k. x \<in> set (f k) \<and> Some k \<in> set (buildPageNumbers (int pg) (int tot)) \<and> k \<noteq> int pg})"
  by (cases onPage) (auto simp add: Pagination_def Let_def disabled_def get_attr_def prev_disabled_def next_disabled_def
      page_button_clicks split: option.splits if_splits)

lemma Pagination_quiet:
  "forms (Pagination pg tot cnt sz a b onPage) = []"
  "acts_of ''change'' v (Pagination pg tot cnt sz a b onPage) = {}"
  "acts_of ''blur'' v (Pagination pg tot cnt sz a b onPage) = {}"
  by (cases onPage; simp add: Pagination_def Let_def o_def)+

text \<open>
  The paging controls offer exactly the moves that make sense: back unless on the first page, forward
  unless on the last, and to each displayed page number other than the current one.
\<close>

theorem pagination_offers:
  "user_can (Pagination pg tot cnt sz [PgPrev] [PgNext] (Some (\<lambda>n. [PgPage n]))) x \<longleftrightarrow>
     x = PgPrev \<and> 1 < pg \<or> x = PgNext \<and> pg < tot
     \<or> (\<exists>n. x = PgPage n \<and> n \<noteq> int pg \<and> Some n \<in> set (buildPageNumbers (int pg) (int tot)))"
proof -
  let ?v = "Pagination pg tot cnt sz [PgPrev] [PgNext] (Some (\<lambda>n. [PgPage n]))"
  have "user_can ?v x \<longleftrightarrow> x \<in> acts_of ''click'' [] ?v"
  proof
    assume "user_can ?v x"
    then show "x \<in> acts_of ''click'' [] ?v"
      by (cases rule: user_can_cases) (auto simp add: Pagination_quiet Pagination_clicks)
  qed (rule user_can_click)
  then show ?thesis by (auto simp add: Pagination_clicks split: if_splits)
qed

section \<open>What the list offers\<close>

lemma ProposalCard_clicks [simp]:
  "acts_of ''click'' v (ProposalCard fm p decs onClick) = set onClick"
  "acts_of ''change'' v (ProposalCard fm p decs onClick) = {}"
  "acts_of ''blur'' v (ProposalCard fm p decs onClick) = {}"
  "forms (ProposalCard fm p decs onClick) = []"
  by (simp_all add: ProposalCard_def Let_def disabled_def)

lemma ProposalSkeleton_inert [simp]: "acts_of ev v ProposalSkeleton = {}" "forms ProposalSkeleton = []"
  by (simp_all add: ProposalSkeleton_def)

lemma app_progress_inert [simp]:
  "c \<in> set (app_progress g) \<Longrightarrow> acts_of ev v c = {}" "c \<in> set (app_progress g) \<Longrightarrow> forms c = []"
  by (auto simp add: app_progress_def split: option.splits)

lemma app_fixed_inert [simp]:
  "acts_of ''click'' v (app_filters fm u) = {}" "acts_of ''blur'' v (app_filters fm u) = {}"
  "forms (app_filters fm u) = []"
  "acts_of ''change'' v (app_filters fm u) = {LSearch v, LFilter v}"
  "acts_of ev v (app_stats g) = {}" "forms (app_stats g) = []"
  "(\<Union>c \<in> set (app_warning g). acts_of ev v c) = {}" "(\<Union>c \<in> set (app_error g). acts_of ev v c) = {}"
  "concat (map forms (app_warning g)) = []" "concat (map forms (app_error g)) = []"
  by (simp_all add: app_filters_def app_stats_def app_warning_def app_error_def stats_def ALL_STATES_def jsx_if_def)
     auto

lemma app_main_clicks:
  "acts_of ''click'' v (app_main lower fm g u) =
     (if lp_loading g then {}
      else LOpen ` set (pagedProposals (lu_page u) (visible lower g u))
        \<union> (if visible lower g u = [] then {}
           else (if 1 < safePage (lu_page u) (visible lower g u) then {LPrev} else {})
             \<union> (if safePage (lu_page u) (visible lower g u) < totalPages (visible lower g u) then {LNext} else {})))"
  by (auto simp add: app_main_def app_grid_def app_pagination_def Let_def Pagination_clicks jsx_if_def)

lemma app_main_changes:
  "acts_of ''change'' v (app_main lower fm g u) = {LSearch v, LFilter v}" "acts_of ''blur'' v (app_main lower fm g u) = {}"
  "forms (app_main lower fm g u) = []"
  by (auto simp add: app_main_def app_grid_def app_pagination_def Let_def Pagination_quiet jsx_if_def)

lemma app_can_open:
  "user_can (app_main lower fm g u) (LOpen p) \<longleftrightarrow>
     \<not> lp_loading g \<and> p \<in> set (pagedProposals (lu_page u) (visible lower g u))"
proof
  assume "user_can (app_main lower fm g u) (LOpen p)"
  then show "\<not> lp_loading g \<and> p \<in> set (pagedProposals (lu_page u) (visible lower g u))"
    by (cases rule: user_can_cases) (auto simp add: app_main_clicks app_main_changes split: if_splits)
qed (auto intro!: user_can_click simp add: app_main_clicks)

lemma app_can_next:
  "\<not> lp_loading g \<Longrightarrow> visible lower g u \<noteq> [] \<Longrightarrow>
   safePage (lu_page u) (visible lower g u) < totalPages (visible lower g u) \<Longrightarrow> user_can (app_main lower fm g u) LNext"
  by (rule user_can_click) (simp add: app_main_clicks)

lemma next_pages:
  assumes "lu_page u = 1" and "j < totalPages xs"
  shows "(list_run xs LNext ^^ j) u = u\<lparr>lu_page := 1 + j\<rparr>"
  using assms(2)
proof (induction j)
  case 0
  then show ?case using assms(1) by simp
next
  case (Suc j)
  then show ?case by (simp add: onNext_def)
qed

text \<open>
  From the first page, where every new search or filter puts the user, the Next button leads in
  finitely many clicks, each of them on an enabled button, to the page whose card opens the proposal.
\<close>

lemma every_match_reachable:
  assumes "\<not> lp_loading g" and "lu_page u = 1" and "p \<in> set (visible lower g u)"
  shows "\<exists>k. (\<forall>j < k. user_can (app_main lower fm g ((list_run (visible lower g u) LNext ^^ j) u)) LNext)
    \<and> user_can (app_main lower fm g ((list_run (visible lower g u) LNext ^^ k) u)) (LOpen p)"
proof -
  let ?xs = "visible lower g u"
  have vis: "visible lower g (u\<lparr>lu_page := n\<rparr>) = ?xs" for n by (simp add: visible_def)
  have "concat (map (\<lambda>k. pagedProposals k ?xs) [1..<totalPages ?xs + 1]) = ?xs"
    using concat_pages [of "totalPages ?xs" ?xs] totalPages_enough [of ?xs] by simp
  then have "p \<in> set (concat (map (\<lambda>k. pagedProposals k ?xs) [1..<totalPages ?xs + 1]))" using assms(3) by simp
  then obtain n where n: "1 \<le> n" "n \<le> totalPages ?xs" "p \<in> set (pagedProposals n ?xs)" by auto
  have "user_can (app_main lower fm g ((list_run ?xs LNext ^^ j) u)) LNext" if "j < n - 1" for j
    using that n(2) assms vis
    by (auto simp add: next_pages [OF assms(2)] safePage_def intro!: app_can_next)
  moreover have "user_can (app_main lower fm g ((list_run ?xs LNext ^^ (n - 1)) u)) (LOpen p)"
    using n assms(1) vis by (simp add: next_pages [OF assms(2)] app_can_open)
  ultimately show ?thesis by blast
qed

section \<open>From the contract to the screen\<close>

text \<open>The effects that load the list when the page is opened.  \<open>fetchAllProposals\<close> never calls the progress callback.\<close>

definition initial_list_page :: list_page where
  "initial_list_page = \<lparr>lp_proposals = [], lp_decimals = Fin 0, lp_loading = True, lp_progress = None,
     lp_error = None, lp_rpcWarning = None, lp_announcement = []\<rparr>"

definition app_loaded :: "(Proposal list \<times> jnum) result \<Rightarrow> list_page \<Rightarrow> list_page" where
  "app_loaded reply g =
     (let g' = (case reply of
                  Inr (ps, d) \<Rightarrow>
                    g\<lparr>lp_proposals := ps, lp_decimals := d,
                      lp_announcement := show_nat (length ps) @ js '' proposal''
                        @ (if length ps \<noteq> 1 then js ''s'' else []) @ js '' loaded.''\<rparr>
                | Inl e \<Rightarrow> g\<lparr>lp_error := Some (String_of_thrown e), lp_announcement := []\<rparr>)
      in g'\<lparr>lp_loading := False, lp_progress := None\<rparr>)"

definition app_load :: "'v sdk \<Rightarrow> NetworkConfig \<Rightarrow> bool \<Rightarrow> list_page \<Rightarrow> list_page" where
  "app_load k cfg second_first g =
     app_loaded (promise_all2 second_first (fetchAllProposals k cfg) (fetchTokenDecimals k cfg)) g"

definition app_check_rpc :: "NetworkConfig \<Rightarrow> (jstring \<Rightarrow> http_response result) \<Rightarrow> list_page \<Rightarrow> list_page" where
  "app_check_rpc cfg fetch g =
     (case checkRpcReachability cfg fetch of
        Inr _ \<Rightarrow> g
      | Inl e \<Rightarrow> g\<lparr>lp_rpcWarning := Some (String_of_thrown e)\<rparr>)"

lemma set_pagedProposals: "p \<in> set (pagedProposals n xs) \<Longrightarrow> p \<in> set xs"
  by (auto simp add: pagedProposals_def Let_def slice_def dest: in_set_takeD in_set_dropD)

lemma pagedProposals_Nil [simp]: "pagedProposals n [] = []"
  by (simp add: pagedProposals_def Let_def slice_def)



text \<open>
  With an SDK that accepts only account ids of 56 characters, as documented, the answer is always the error: the account used for
  reading has 55.
\<close>

lemma documented_sdk_shows_error:
  assumes "\<And>a s. length a \<noteq> 56 \<Longrightarrow> newAccount k a s = Inl (rej a)"
  shows "app_load k cfg sf g = app_loaded (Inl (rej dummyAccount)) g"
  using dummy_account_rejected [of k rej, OF assms, where cfg = cfg]
  by (simp add: app_load_def promise_all2_def)

end
