(* ===== verification/Styles.thy ===== *)
theory Styles
  imports Form_Views List_Views
begin

text \<open>
  The style objects of the two proposal forms, the paging controls, the delegation panel and the live region,
  as tables from property names to values.  A property that is \<^verbatim>\<open>undefined\<close> is absent.  What is drawn
  agrees with what the elements are: a field looks erroneous exactly when its error text is there, and a
  control looks inert exactly when it is.
\<close>

datatype css = CStr jstring | CNum rat

type_synonym style = "(string \<times> css) list"

text \<open>\<open>{...base, over}\<close>: a property given again keeps its place and takes the new value.\<close>

definition spread :: "style \<Rightarrow> style \<Rightarrow> style" where
  "spread base over = fold (\<lambda>(k, v). AList.update k v) over base"

section \<open>New proposal form\<close>

definition overlay :: style where
  "overlay = [(''position'', CStr (js ''fixed'')), (''inset'', CNum 0), (''background'', CStr (js ''rgba(0,0,0,0.5)'')),
     (''display'', CStr (js ''flex'')), (''alignItems'', CStr (js ''center'')), (''justifyContent'', CStr (js ''center'')),
     (''zIndex'', CNum 100)]"

definition dialog_style :: style where
  "dialog_style = [(''background'', CStr (js ''var(--bg-card, #fff)'')), (''color'', CStr (js ''var(--text-primary, #1e293b)'')),
     (''borderRadius'', CNum 12), (''padding'', CStr (js ''2rem'')), (''maxWidth'', CNum 560), (''width'', CStr (js ''90%'')),
     (''maxHeight'', CStr (js ''90vh'')), (''overflowY'', CStr (js ''auto''))]"

definition fieldStyle :: style where
  "fieldStyle = [(''display'', CStr (js ''flex'')), (''flexDirection'', CStr (js ''column'')), (''gap'', CStr (js ''0.25rem'')),
     (''marginBottom'', CStr (js ''1rem''))]"

definition inputStyle :: "bool \<Rightarrow> style" where
  "inputStyle hasError =
     [(''padding'', CStr (js ''0.5rem 0.75rem'')),
      (''border'', CStr (js ''1px solid '' @ (if hasError then js ''var(--error-color, #dc2626)'' else js ''var(--input-border, #d1d5db)''))),
      (''borderRadius'', CNum 6), (''fontSize'', CStr (js ''0.875rem'')), (''width'', CStr (js ''100%'')),
      (''boxSizing'', CStr (js ''border-box'')), (''background'', CStr (js ''var(--bg-input, #fff)'')),
      (''color'', CStr (js ''var(--text-primary, #1e293b)''))]
     @ jsx_if hasError [(''outline'', CStr (js ''2px solid var(--error-color, #dc2626)''))]"

definition errorStyle :: style where
  "errorStyle = [(''color'', CStr (js ''var(--error-color, #dc2626)'')), (''fontSize'', CStr (js ''0.75rem'')),
     (''marginTop'', CStr (js ''0.15rem''))]"

definition hintStyle :: style where
  "hintStyle = [(''fontSize'', CStr (js ''0.7rem'')), (''color'', CStr (js ''var(--text-muted, #888)'')),
     (''marginTop'', CStr (js ''0.1rem''))]"

section \<open>Create proposal form\<close>

definition cf_inputStyle :: "create_form \<Rightarrow> FieldName \<Rightarrow> style" where
  "cf_inputStyle s field =
     [(''width'', CStr (js ''100%'')), (''padding'', CStr (js ''0.5rem 0.75rem'')),
      (''border'', CStr (js ''1px solid '' @
         (if cf_touched s field \<and> truthy (fieldError (cf_form s) field) then js ''#dc2626'' else js ''#d1d5db''))),
      (''borderRadius'', CNum 6), (''fontSize'', CStr (js ''0.875rem'')), (''boxSizing'', CStr (js ''border-box'')),
      (''background'', CStr (js ''#fff'')), (''color'', CStr (js ''#1e293b'')), (''outline'', CStr (js ''none''))]"

definition labelStyle :: style where
  "labelStyle = [(''display'', CStr (js ''block'')), (''fontSize'', CStr (js ''0.875rem'')), (''fontWeight'', CNum 600),
     (''color'', CStr (js ''#374151'')), (''marginBottom'', CStr (js ''0.35rem''))]"

definition cf_errorStyle :: style where
  "cf_errorStyle = [(''fontSize'', CStr (js ''0.75rem'')), (''color'', CStr (js ''#dc2626'')), (''marginTop'', CStr (js ''0.25rem''))]"

section \<open>Controls\<close>

definition btnBase :: style where
  "btnBase = [(''padding'', CStr (js ''0.4rem 0.75rem'')), (''border'', CStr (js ''1px solid var(--border-color, #d1d5db)'')),
     (''borderRadius'', CNum 6), (''fontSize'', CStr (js ''0.875rem'')), (''cursor'', CStr (js ''pointer'')),
     (''transition'', CStr (js ''background 0.15s, color 0.15s'')), (''lineHeight'', CNum (14 / 10)),
     (''minWidth'', CStr (js ''2.25rem'')), (''textAlign'', CStr (js ''center''))]"

definition navBtnStyle :: "bool \<Rightarrow> style" where
  "navBtnStyle dis = spread btnBase
     [(''background'', CStr (if dis then js ''var(--bg-stat, #f3f4f6)'' else js ''var(--bg-card, #fff)'')),
      (''color'', CStr (if dis then js ''var(--text-muted, #9ca3af)'' else js ''var(--text-primary, #1e293b)'')),
      (''cursor'', CStr (if dis then js ''default'' else js ''pointer''))]"

definition pageBtnStyle :: "bool \<Rightarrow> style" where
  "pageBtnStyle isCurrent = spread btnBase
     ([(''background'', CStr (if isCurrent then js ''#3b82f6'' else js ''var(--bg-card, #fff)'')),
       (''color'', CStr (if isCurrent then js ''#fff'' else js ''var(--text-primary, #1e293b)'')),
       (''borderColor'', CStr (if isCurrent then js ''#3b82f6'' else js ''var(--border-color, #d1d5db)''))]
      @ jsx_if isCurrent [(''fontWeight'', CNum 700)]
      @ [(''cursor'', CStr (if isCurrent then js ''default'' else js ''pointer''))])"

definition btnStyle :: "jstring \<Rightarrow> style" where
  "btnStyle bg = [(''background'', CStr bg), (''color'', CStr (js ''#fff'')), (''border'', CStr (js ''none'')),
     (''borderRadius'', CNum 6), (''padding'', CStr (js ''0.4rem 0.85rem'')), (''fontSize'', CStr (js ''0.8rem'')),
     (''cursor'', CStr (js ''pointer''))]"

definition srOnly :: style where
  "srOnly = [(''position'', CStr (js ''absolute'')), (''width'', CNum 1), (''height'', CNum 1), (''padding'', CNum 0),
     (''margin'', CNum (- 1)), (''overflow'', CStr (js ''hidden'')), (''clip'', CStr (js ''rect(0,0,0,0)'')),
     (''whiteSpace'', CStr (js ''nowrap'')), (''border'', CNum 0)]"

section \<open>Properties\<close>

text \<open>Spreading is overriding: the value of a property is the last one given.\<close>

lemma map_of_spread: "map_of (spread base over) = map_of base ++ map_of (rev over)"
  unfolding spread_def
  by (induction over arbitrary: base) (auto simp add: update_conv' map_add_def split: option.split)

lemma fieldError_nonempty: "fieldError f x = Some m \<Longrightarrow> m \<noteq> []"
  by (cases x) (auto simp add: js_def Let_def split: if_splits)

text \<open>
  What is drawn is what is there.  In both forms a field has the error colour on its border exactly when its
  error text is rendered; a paging button shows the hand exactly when it can be used, and the page in bold is
  the current one.
\<close>

theorem styles_agree:
  "(map_of (inputStyle (showError s f)) ''border'' = Some (CStr (js ''1px solid var(--error-color, #dc2626)''))
      \<longleftrightarrow> nf_err s f i \<noteq> [])
   \<and> (map_of (cf_inputStyle c f) ''border'' = Some (CStr (js ''1px solid #dc2626'')) \<longleftrightarrow> cf_error_span c f i \<noteq> [])
   \<and> (map_of (navBtnStyle (prev_disabled n)) ''cursor'' = Some (CStr (js ''pointer'')) \<longleftrightarrow> \<not> prev_disabled n)
   \<and> (map_of (navBtnStyle (next_disabled n k)) ''cursor'' = Some (CStr (js ''pointer'')) \<longleftrightarrow> \<not> next_disabled n k)
   \<and> (map_of (pageBtnStyle cur) ''fontWeight'' = Some (CNum 700) \<longleftrightarrow> cur)
   \<and> (map_of (pageBtnStyle cur) ''cursor'' = Some (CStr (js ''pointer'')) \<longleftrightarrow> \<not> cur)"
proof (intro conjI)
  show "map_of (inputStyle (showError s f)) ''border'' = Some (CStr (js ''1px solid var(--error-color, #dc2626)''))
      \<longleftrightarrow> nf_err s f i \<noteq> []"
    by (cases "showError s f") (simp_all add: inputStyle_def nf_err_def flip: js_append)
  show "map_of (cf_inputStyle c f) ''border'' = Some (CStr (js ''1px solid #dc2626'')) \<longleftrightarrow> cf_error_span c f i \<noteq> []"
    using fieldError_nonempty [of "cf_form c" f]
    by (cases "fieldError (cf_form c) f") (auto simp add: cf_inputStyle_def cf_error_span_def cf_showError_def simp flip: js_append)
qed (simp_all add: navBtnStyle_def pageBtnStyle_def map_of_spread btnBase_def jsx_if_def)

end
