(* ===== verification/Locale_Context.thy ===== *)
theory Locale_Context
  imports I18n
begin

text \<open>
  The contexts that hand the language to the components: the provider and the hook of \<^verbatim>\<open>i18n.ts\<close>, and the
  earlier ones of \<^verbatim>\<open>I18nContext.tsx\<close>, which keep their setting under another key, do not catch what the
  storage throws, and take the list of locales and the translation from names that \<^verbatim>\<open>i18n.ts\<close> does not
  export; those two are parameters.
\<close>

section \<open>The context of \<^verbatim>\<open>i18n.ts\<close>\<close>

record I18nContextValue =
  iv_t :: "string \<Rightarrow> jstring"
  iv_locale :: jstring

definition I18nProvider :: "i18n_ui \<Rightarrow> I18nContextValue" where
  "I18nProvider u = \<lparr>iv_t = t (in_locale u), iv_locale = in_locale u\<rparr>"

definition useI18n :: "I18nContextValue option \<Rightarrow> I18nContextValue result" where
  "useI18n ctx = (case ctx of
     None \<Rightarrow> Inl (new_Error (js ''useI18n must be used within an <I18nProvider>''))
   | Some c \<Rightarrow> Inr c)"

section \<open>The earlier context\<close>

record locale_ctx =
  lx_locale :: jstring
  lx_storage :: local_storage

definition mount_locale_ctx :: "jstring list \<Rightarrow> local_storage \<Rightarrow> locale_ctx result" where
  "mount_locale_ctx locales ls =
     (case getItem ls (js ''locale'') of
        Inl e \<Rightarrow> Inl e
      | Inr stored \<Rightarrow>
          let saved = (case stored of None \<Rightarrow> js ''en'' | Some l \<Rightarrow> l)
          in Inr \<lparr>lx_locale = if saved \<in> set locales then saved else js ''en'', lx_storage = ls\<rparr>)"

definition setLocale_ctx :: "jstring \<Rightarrow> locale_ctx \<Rightarrow> locale_ctx result" where
  "setLocale_ctx l c =
     (case setItem (js ''locale'') l (lx_storage c) of
        Inl e \<Rightarrow> Inl e
      | Inr ls \<Rightarrow> Inr (c\<lparr>lx_locale := l, lx_storage := ls\<rparr>))"

definition t_ctx :: "(jstring \<Rightarrow> string \<Rightarrow> (string \<times> jstring) list \<Rightarrow> jstring) \<Rightarrow> locale_ctx \<Rightarrow> string
    \<Rightarrow> (string \<times> jstring) list \<Rightarrow> jstring" where
  "t_ctx translate c key vars = translate (lx_locale c) key vars"

definition useI18n_ctx :: "locale_ctx option \<Rightarrow> locale_ctx result" where
  "useI18n_ctx ctx = (case ctx of
     None \<Rightarrow> Inl (new_Error (js ''useI18n must be used within I18nProvider''))
   | Some c \<Rightarrow> Inr c)"

section \<open>Properties\<close>

text \<open>
  The earlier context restores its own setting after a reload, when the locale is one of the listed ones; but the
  language of \<^verbatim>\<open>i18n.ts\<close>, which the components read, does not change by it.
\<close>

theorem locale_contexts_disjoint:
  assumes "setLocale_ctx l c = Inr c'" and "l \<in> set locales"
  shows "mount_locale_ctx locales (lx_storage c') = Inr c' \<and> lx_locale c' = l
    \<and> mount_i18n (lx_storage c') nav = (mount_i18n (lx_storage c) nav)\<lparr>in_storage := lx_storage c'\<rparr>"
proof -
  have put: "setItem (js ''locale'') l (lx_storage c) = Inr (lx_storage c')" and l: "lx_locale c' = l"
    using assms(1) by (auto simp add: setLocale_ctx_def split: sum.splits)
  have "getItem (lx_storage c') (js ''locale'') = Inr (Some l)" by (rule ls.get_put [OF put])
  then have "mount_locale_ctx locales (lx_storage c') = Inr c'" using assms(2) l by (simp add: mount_locale_ctx_def)
  moreover have "getItem (lx_storage c') LOCALE_KEY = getItem (lx_storage c) LOCALE_KEY"
    by (rule ls.get_put_other [OF put]) (simp add: LOCALE_KEY_def)
  then have "readStoredLocale (lx_storage c') nav = readStoredLocale (lx_storage c) nav"
    unfolding readStoredLocale_def by presburger
  then have "mount_i18n (lx_storage c') nav = (mount_i18n (lx_storage c) nav)\<lparr>in_storage := lx_storage c'\<rparr>"
    by (simp add: mount_i18n_def Let_def)
  ultimately show ?thesis using l by blast
qed

text \<open>With a storage that cannot be read, the earlier provider throws while the page renders; the present one does not.\<close>

lemma unreadable_storage:
  "\<not> ls_readable ls \<Longrightarrow> isl (mount_locale_ctx locales ls) \<and> in_locale (mount_i18n ls (js ''en-US'')) = js ''en''"
  by (simp add: mount_locale_ctx_def mount_i18n_def readStoredLocale_def getItem_def in_LOCALES_def LOCALES_def
      Let_def js_def)

end
