(* ===== verification/Ops_Monitor.thy ===== *)
theory Ops_Monitor
  imports Notify_Watcher Contract_Types
begin

text \<open>
  \<^verbatim>\<open>scripts/monitor.js\<close>: the anomaly monitor that operators run beside the contracts.  One turn of its
  endless loop is \<open>monitor_round\<close>; the RPC node is the parameter \<open>rpc\<close> (contract id and start
  ledger to an answer).  A log line is a value of \<open>mon_entry\<close> (the time stamp is left out); an
  exception in the middle of a batch keeps the lines written before it, as in the script.
\<close>

section \<open>Configuration\<close>

record monitor_env =
  mv_STELLAR_RPC_URL :: "jstring option"
  mv_GOVERNANCE_CONTRACT_ID :: "jstring option"
  mv_TOKEN_CONTRACT_ID :: "jstring option"
  mv_POLL_INTERVAL_MS :: "jstring option"
  mv_LARGE_TRANSFER_THRESHOLD :: "jstring option"
  mv_RAPID_VOTE_BURST :: "jstring option"
  mv_ADMIN_CHANGE_COUNT :: "jstring option"

record monitor_cfg =
  mc_rpcUrl :: jstring
  mc_governanceContractId :: jstring
  mc_tokenContractId :: jstring
  mc_pollIntervalMs :: jnum
  largeTransferAmount :: int
  rapidVoteBurst :: jnum
  adminChangeCount :: jnum

text \<open>\<open>x || d\<close> for an environment variable.\<close>

definition or_default :: "jstring option \<Rightarrow> jstring \<Rightarrow> jstring" where
  "or_default x d = (case x of Some s \<Rightarrow> if s = [] then d else s | None \<Rightarrow> d)"

definition CONFIG :: "monitor_env \<Rightarrow> monitor_cfg result" where
  "CONFIG env =
     (case BigInt_of_String (or_default (mv_LARGE_TRANSFER_THRESHOLD env) (js ''1000000000000'')) of
        Inl e \<Rightarrow> Inl e
      | Inr large \<Rightarrow> Inr
          \<lparr>mc_rpcUrl = or_default (mv_STELLAR_RPC_URL env) (js ''https://soroban-testnet.stellar.org''),
           mc_governanceContractId = or_default (mv_GOVERNANCE_CONTRACT_ID env) [],
           mc_tokenContractId = or_default (mv_TOKEN_CONTRACT_ID env) [],
           mc_pollIntervalMs = js_parseInt (or_default (mv_POLL_INTERVAL_MS env) (js ''30000'')),
           largeTransferAmount = large,
           rapidVoteBurst = js_parseInt (or_default (mv_RAPID_VOTE_BURST env) (js ''50'')),
           adminChangeCount = js_parseInt (or_default (mv_ADMIN_CHANGE_COUNT env) (js ''2''))\<rparr>)"

section \<open>Events and log lines\<close>

text \<open>
  A topic as the node sends it: an object with \<open>sym\<close>, a string, or anything else; the amount of
  an event as any JSON value.
\<close>

datatype raw_topic = SymTopic jstring | StrTopic jstring | OtherTopic

datatype json_amount = AmountStr jstring | AmountNum jnum | AmountBool bool | AmountOther

record event_value =
  v_amount :: "json_amount option"
  v_from :: "jstring option"
  v_to :: "jstring option"
  v_proposal_id :: "jstring option"
  v_admin :: "jstring option"

record raw_event =
  re_type :: jstring
  re_contractId :: jstring
  re_topic :: "raw_topic list option"
  re_value :: "event_value option"

record mon_event =
  me_type :: jstring
  me_contractId :: jstring
  me_topics :: "jstring option list"
  me_value :: "event_value option"

datatype mon_entry =
    EventsFetched nat
  | AdminChangeDetected jstring "jstring option list"
  | SuspiciousAdminChanges jstring nat "jstring option list"
  | LargeTokenTransfer jstring "jstring option" "jstring option" int int
  | ProposalCancelled jstring "jstring option" "jstring option"
  | ContractPaused jstring "jstring option"
  | TokenMinted jstring "jstring option" "json_amount option"
  | RapidVoteBurst nat jnum
  | PollFailed jstring

definition has_topic :: "string \<Rightarrow> mon_event \<Rightarrow> bool" where
  "has_topic t ev \<longleftrightarrow> Some (js t) \<in> set (me_topics ev)"

section \<open>Detection\<close>

definition is_admin_change :: "mon_event \<Rightarrow> bool" where
  "is_admin_change ev \<longleftrightarrow> has_topic ''set_admin'' ev \<or> has_topic ''update_config'' ev"

text \<open>The lines for an admin change, the \<open>n\<close>-th of its batch.\<close>

definition admin_entries :: "monitor_cfg \<Rightarrow> nat \<Rightarrow> mon_event \<Rightarrow> mon_entry list" where
  "admin_entries cfg n ev =
     (if is_admin_change ev
      then AdminChangeDetected (me_contractId ev) (me_topics ev)
        # (if num_le (adminChangeCount cfg) (Fin (of_nat n))
           then [SuspiciousAdminChanges (me_contractId ev) n (me_topics ev)] else [])
      else [])"

fun BigInt_of_amount :: "json_amount \<Rightarrow> int result" where
  "BigInt_of_amount (AmountStr s) = BigInt_of_String s"
| "BigInt_of_amount (AmountNum x) = BigInt_of_Number x"
| "BigInt_of_amount (AmountBool b) = Inr (if b then 1 else 0)"
| "BigInt_of_amount AmountOther = Inl (ErrorObj (js ''TypeError'') (js ''Cannot convert value to a BigInt''))"

definition amount_of :: "mon_event \<Rightarrow> json_amount option" where
  "amount_of ev = (case me_value ev of None \<Rightarrow> None | Some v \<Rightarrow> v_amount v)"

definition value_field :: "(event_value \<Rightarrow> 'a option) \<Rightarrow> mon_event \<Rightarrow> 'a option" where
  "value_field f ev = (case me_value ev of None \<Rightarrow> None | Some v \<Rightarrow> f v)"

definition transfer_entries :: "monitor_cfg \<Rightarrow> mon_event \<Rightarrow> mon_entry list result" where
  "transfer_entries cfg ev =
     (if has_topic ''transfer'' ev
      then (case amount_of ev of
              None \<Rightarrow> Inr []
            | Some a \<Rightarrow>
                (case BigInt_of_amount a of
                   Inl e \<Rightarrow> Inl e
                 | Inr amount \<Rightarrow> Inr (if amount \<ge> largeTransferAmount cfg
                     then [LargeTokenTransfer (me_contractId ev) (value_field v_from ev)
                       (value_field v_to ev) amount (largeTransferAmount cfg)]
                     else [])))
      else Inr [])"

definition notice_entries :: "mon_event \<Rightarrow> mon_entry list" where
  "notice_entries ev =
     (if has_topic ''proposal_cancelled'' ev
      then [ProposalCancelled (me_contractId ev) (value_field v_proposal_id ev) (value_field v_admin ev)] else [])
     @ (if has_topic ''contract_paused'' ev then [ContractPaused (me_contractId ev) (value_field v_admin ev)] else [])
     @ (if has_topic ''mint'' ev
        then [TokenMinted (me_contractId ev) (value_field v_to ev) (amount_of ev)] else [])"

fun detect_loop :: "monitor_cfg \<Rightarrow> mon_event list \<Rightarrow> nat \<Rightarrow> nat \<Rightarrow> mon_entry list
    \<Rightarrow> mon_entry list \<times> nat result" where
  "detect_loop cfg [] adminChanges voteCount lg = (lg, Inr voteCount)"
| "detect_loop cfg (ev # evs) adminChanges voteCount lg =
     (let adminChanges' = (if is_admin_change ev then adminChanges + 1 else adminChanges);
          lg' = lg @ admin_entries cfg adminChanges' ev
      in case transfer_entries cfg ev of
           Inl e \<Rightarrow> (lg', Inl e)
         | Inr ts \<Rightarrow> detect_loop cfg evs adminChanges'
             (if has_topic ''vote_cast'' ev then voteCount + 1 else voteCount)
             (lg' @ ts @ notice_entries ev))"

definition detectAnomalies :: "monitor_cfg \<Rightarrow> mon_event list \<Rightarrow> mon_entry list
    \<Rightarrow> mon_entry list \<times> unit result" where
  "detectAnomalies cfg events lg =
     (case detect_loop cfg events 0 0 lg of
        (lg', Inl e) \<Rightarrow> (lg', Inl e)
      | (lg', Inr voteCount) \<Rightarrow>
          (if num_le (rapidVoteBurst cfg) (Fin (of_nat voteCount))
           then lg' @ [RapidVoteBurst voteCount (rapidVoteBurst cfg)] else lg', Inr ()))"

section \<open>Polling\<close>

fun topic_name :: "raw_topic \<Rightarrow> jstring option" where
  "topic_name (SymTopic s) = Some s"
| "topic_name (StrTopic s) = Some s"
| "topic_name OtherTopic = None"

definition normalise :: "raw_event \<Rightarrow> mon_event" where
  "normalise e = \<lparr>me_type = re_type e, me_contractId = re_contractId e,
     me_topics = (case re_topic e of Some ts \<Rightarrow> map topic_name ts | None \<Rightarrow> []), me_value = re_value e\<rparr>"

record rpc_answer =
  ra_ok :: bool
  ra_status :: nat
  ra_statusText :: jstring
  ra_json :: "(raw_event list option \<times> jstring option) option result"

type_synonym mon_rpc = "jstring \<Rightarrow> jstring option \<Rightarrow> rpc_answer result"

definition fetchEvents :: "mon_rpc \<Rightarrow> jstring \<Rightarrow> jstring option
    \<Rightarrow> (mon_event list \<times> jstring option) result" where
  "fetchEvents rpc contractId cursor' =
     (if contractId = [] then Inr ([], cursor')
      else case rpc contractId (if truthy cursor' then cursor' else None) of
             Inl e \<Rightarrow> Inl e
           | Inr res \<Rightarrow>
               if \<not> ra_ok res
               then Inl (new_Error (js ''RPC error: '' @ show_nat (ra_status res) @ js '' '' @ ra_statusText res))
               else (case ra_json res of
                       Inl e \<Rightarrow> Inl e
                     | Inr None \<Rightarrow> Inr ([], cursor')
                     | Inr (Some (rawEvents, nextCursor)) \<Rightarrow>
                         Inr (map normalise (case rawEvents of Some es \<Rightarrow> es | None \<Rightarrow> []),
                              orelse nextCursor cursor')))"

record monitor =
  govCursor :: "jstring option"
  tokenCursor :: "jstring option"
  mon_log :: "mon_entry list"

definition monitor_round :: "monitor_cfg \<Rightarrow> mon_rpc \<Rightarrow> bool \<Rightarrow> monitor \<Rightarrow> monitor" where
  "monitor_round cfg rpc second_first m =
     (case promise_all2 second_first
         (fetchEvents rpc (mc_governanceContractId cfg) (govCursor m))
         (fetchEvents rpc (mc_tokenContractId cfg) (tokenCursor m)) of
        Inl err \<Rightarrow> m\<lparr>mon_log := mon_log m @ [PollFailed (message_of err)]\<rparr>
      | Inr ((govEvents, gc), (tokenEvents, tc)) \<Rightarrow>
          let m1 = m\<lparr>govCursor := gc, tokenCursor := tc\<rparr>; allEvents = govEvents @ tokenEvents
          in if 0 < length allEvents
             then (case detectAnomalies cfg allEvents (mon_log m1 @ [EventsFetched (length allEvents)]) of
                     (lg, Inl err) \<Rightarrow> m1\<lparr>mon_log := lg @ [PollFailed (message_of err)]\<rparr>
                   | (lg, Inr _) \<Rightarrow> m1\<lparr>mon_log := lg\<rparr>)
             else m1)"

section \<open>What a batch raises\<close>

text \<open>The lines of one event, the \<open>n\<close>-th admin change of its batch if it is one, and of a batch from count \<open>n\<close> on.\<close>

definition large_entries :: "monitor_cfg \<Rightarrow> mon_event \<Rightarrow> mon_entry list" where
  "large_entries cfg ev = (case transfer_entries cfg ev of Inr ts \<Rightarrow> ts | Inl _ \<Rightarrow> [])"

fun batch_entries :: "monitor_cfg \<Rightarrow> nat \<Rightarrow> mon_event list \<Rightarrow> mon_entry list" where
  "batch_entries cfg n [] = []"
| "batch_entries cfg n (ev # evs) =
     (let n' = (if is_admin_change ev then n + 1 else n)
      in admin_entries cfg n' ev @ large_entries cfg ev @ notice_entries ev @ batch_entries cfg n' evs)"

definition amounts_ok :: "monitor_cfg \<Rightarrow> mon_event list \<Rightarrow> bool" where
  "amounts_ok cfg evs \<longleftrightarrow> (\<forall>ev \<in> set evs. \<not> isl (transfer_entries cfg ev))"

lemma detect_loop_ok:
  "amounts_ok cfg evs \<Longrightarrow> detect_loop cfg evs n v lg =
     (lg @ batch_entries cfg n evs, Inr (v + length (filter (has_topic ''vote_cast'') evs)))"
proof (induction evs arbitrary: n v lg)
  case Nil
  then show ?case by simp
next
  case (Cons ev evs)
  then have "amounts_ok cfg evs" and "\<not> isl (transfer_entries cfg ev)"
    by (simp_all add: amounts_ok_def)
  then obtain ts where "transfer_entries cfg ev = Inr ts" by (cases "transfer_entries cfg ev") simp_all
  with Cons.IH [OF \<open>amounts_ok cfg evs\<close>] show ?case
    by (simp add: Let_def large_entries_def)
qed

lemma detectAnomalies_ok:
  assumes "amounts_ok cfg evs"
  shows "detectAnomalies cfg evs lg =
    (lg @ batch_entries cfg 0 evs
       @ (let v = length (filter (has_topic ''vote_cast'') evs)
          in if num_le (rapidVoteBurst cfg) (Fin (of_nat v)) then [RapidVoteBurst v (rapidVoteBurst cfg)] else []),
     Inr ())"
  by (simp add: detectAnomalies_def detect_loop_ok [OF assms] Let_def)

fun is_admin_info :: "mon_entry \<Rightarrow> bool" where
  "is_admin_info (AdminChangeDetected _ _) = True"
| "is_admin_info _ = False"

fun is_suspicious :: "mon_entry \<Rightarrow> bool" where
  "is_suspicious (SuspiciousAdminChanges _ _ _) = True"
| "is_suspicious _ = False"

fun is_large :: "mon_entry \<Rightarrow> bool" where
  "is_large (LargeTokenTransfer _ _ _ _ _) = True"
| "is_large _ = False"

fun is_cancelled :: "mon_entry \<Rightarrow> bool" where
  "is_cancelled (ProposalCancelled _ _ _) = True"
| "is_cancelled _ = False"

fun is_pause :: "mon_entry \<Rightarrow> bool" where
  "is_pause (ContractPaused _ _) = True"
| "is_pause _ = False"

fun is_minted :: "mon_entry \<Rightarrow> bool" where
  "is_minted (TokenMinted _ _ _) = True"
| "is_minted _ = False"

fun is_burst :: "mon_entry \<Rightarrow> bool" where
  "is_burst (RapidVoteBurst _ _) = True"
| "is_burst _ = False"

text \<open>The large-transfer alert of one event, read off the event.\<close>

definition large_alert :: "monitor_cfg \<Rightarrow> mon_event \<Rightarrow> mon_entry list" where
  "large_alert cfg ev =
     (case (if has_topic ''transfer'' ev then map_option BigInt_of_amount (amount_of ev) else None) of
        Some (Inr a) \<Rightarrow> if a \<ge> largeTransferAmount cfg
          then [LargeTokenTransfer (me_contractId ev) (value_field v_from ev) (value_field v_to ev) a (largeTransferAmount cfg)]
          else []
      | _ \<Rightarrow> [])"

lemma large_entries_eq: "large_entries cfg ev = large_alert cfg ev"
  by (simp add: large_entries_def large_alert_def transfer_entries_def split: option.splits sum.splits)

text \<open>The kinds of line each part of the rules can write.\<close>

lemma large_filters [simp]:
  "filter is_large (large_alert cfg ev) = large_alert cfg ev" "filter is_suspicious (large_alert cfg ev) = []"
  "filter is_burst (large_alert cfg ev) = []" "filter is_admin_info (large_alert cfg ev) = []"
  "filter is_cancelled (large_alert cfg ev) = []" "filter is_pause (large_alert cfg ev) = []"
  "filter is_minted (large_alert cfg ev) = []"
  by (simp_all add: large_alert_def split: option.splits sum.splits)

lemma notice_filters [simp]:
  "filter is_large (notice_entries ev) = []" "filter is_suspicious (notice_entries ev) = []"
  "filter is_burst (notice_entries ev) = []" "filter is_admin_info (notice_entries ev) = []"
  "filter is_cancelled (notice_entries ev) = (if has_topic ''proposal_cancelled'' ev
     then [ProposalCancelled (me_contractId ev) (value_field v_proposal_id ev) (value_field v_admin ev)] else [])"
  "filter is_pause (notice_entries ev) = (if has_topic ''contract_paused'' ev
     then [ContractPaused (me_contractId ev) (value_field v_admin ev)] else [])"
  "filter is_minted (notice_entries ev) = (if has_topic ''mint'' ev
     then [TokenMinted (me_contractId ev) (value_field v_to ev) (amount_of ev)] else [])"
  by (simp_all add: notice_entries_def)

lemma admin_filters [simp]:
  "filter is_large (admin_entries cfg n ev) = []" "filter is_burst (admin_entries cfg n ev) = []"
  "filter is_cancelled (admin_entries cfg n ev) = []" "filter is_pause (admin_entries cfg n ev) = []"
  "filter is_minted (admin_entries cfg n ev) = []"
  "filter is_admin_info (admin_entries cfg n ev) =
     (if is_admin_change ev then [AdminChangeDetected (me_contractId ev) (me_topics ev)] else [])"
  "filter is_suspicious (admin_entries cfg n ev) =
     (if is_admin_change ev \<and> num_le (adminChangeCount cfg) (Fin (of_nat n))
      then [SuspiciousAdminChanges (me_contractId ev) n (me_topics ev)] else [])"
  by (simp_all add: admin_entries_def)

lemma batch_filters:
  "filter is_large (batch_entries cfg n evs) = concat (map (large_alert cfg) evs)"
  "filter is_burst (batch_entries cfg n evs) = []"
  "filter is_admin_info (batch_entries cfg n evs) =
     map (\<lambda>ev. AdminChangeDetected (me_contractId ev) (me_topics ev)) (filter is_admin_change evs)"
  "filter is_cancelled (batch_entries cfg n evs) =
     map (\<lambda>ev. ProposalCancelled (me_contractId ev) (value_field v_proposal_id ev) (value_field v_admin ev))
       (filter (has_topic ''proposal_cancelled'') evs)"
  "filter is_pause (batch_entries cfg n evs) =
     map (\<lambda>ev. ContractPaused (me_contractId ev) (value_field v_admin ev)) (filter (has_topic ''contract_paused'') evs)"
  "filter is_minted (batch_entries cfg n evs) =
     map (\<lambda>ev. TokenMinted (me_contractId ev) (value_field v_to ev) (amount_of ev)) (filter (has_topic ''mint'') evs)"
  by (induction evs arbitrary: n) (simp_all add: Let_def large_entries_eq)

lemma batch_suspicious:
  "filter is_suspicious (batch_entries cfg n evs) =
     map (\<lambda>(i, ev). SuspiciousAdminChanges (me_contractId ev) i (me_topics ev))
       (filter (\<lambda>(i, ev). num_le (adminChangeCount cfg) (Fin (of_nat i)))
         (enumerate (n + 1) (filter is_admin_change evs)))"
  by (induction evs arbitrary: n) (simp_all add: Let_def large_entries_eq)

text \<open>No other kind of line, and only the burst alert comes after the events.\<close>

abbreviation event_line :: "mon_entry \<Rightarrow> bool" where
  "event_line e \<equiv> is_admin_info e \<or> is_suspicious e \<or> is_large e \<or> is_cancelled e \<or> is_pause e \<or> is_minted e"

lemma batch_lines: "list_all event_line (batch_entries cfg n evs)"
proof -
  have "list_all event_line (admin_entries cfg m ev)" "list_all event_line (large_alert cfg ev)"
    "list_all event_line (notice_entries ev)" for m ev
    by (simp_all add: admin_entries_def large_alert_def notice_entries_def split: option.splits sum.splits)
  then show ?thesis by (induction evs arbitrary: n) (simp_all add: Let_def large_entries_eq)
qed

text \<open>
  C36. The anomaly rules, on a batch whose amounts are all integers.  The lines before the batch are kept;
  then come the lines of the events, and after them, if the votes of the batch reach the threshold, one burst alert with
  their number.  Of the lines of the events the notes of admin changes are those of the admin changes; the
  alerts of admin changes are those whose running number in the batch, consecutive or not, reaches the threshold, with that number;
  the large-transfer alerts are those of the transfers that reach their threshold, and the alerts of cancellations,
  pauses and mints those of the events with these topics, each once, in the order of the events, and there are
  no others.
\<close>

theorem detectAnomalies_correct:
  assumes "amounts_ok cfg evs"
  shows "\<exists>out. detectAnomalies cfg evs lg =
      (lg @ out @ (let v = length (filter (has_topic ''vote_cast'') evs)
                   in if num_le (rapidVoteBurst cfg) (Fin (of_nat v)) then [RapidVoteBurst v (rapidVoteBurst cfg)] else []),
       Inr ())
    \<and> list_all event_line out
    \<and> filter is_admin_info out =
        map (\<lambda>ev. AdminChangeDetected (me_contractId ev) (me_topics ev)) (filter is_admin_change evs)
    \<and> filter is_suspicious out =
        map (\<lambda>(i, ev). SuspiciousAdminChanges (me_contractId ev) i (me_topics ev))
          (filter (\<lambda>(i, ev). num_le (adminChangeCount cfg) (Fin (of_nat i))) (enumerate 1 (filter is_admin_change evs)))
    \<and> filter is_large out = concat (map (large_alert cfg) evs)
    \<and> filter is_cancelled out =
        map (\<lambda>ev. ProposalCancelled (me_contractId ev) (value_field v_proposal_id ev) (value_field v_admin ev))
          (filter (has_topic ''proposal_cancelled'') evs)
    \<and> filter is_pause out =
        map (\<lambda>ev. ContractPaused (me_contractId ev) (value_field v_admin ev)) (filter (has_topic ''contract_paused'') evs)
    \<and> filter is_minted out =
        map (\<lambda>ev. TokenMinted (me_contractId ev) (value_field v_to ev) (amount_of ev)) (filter (has_topic ''mint'') evs)"
  using detectAnomalies_ok [OF assms, of lg] batch_lines [of cfg 0 evs] batch_filters [where cfg = cfg and n = 0 and evs = evs]
    batch_suspicious [of cfg 0 evs]
  by (intro exI [where x = "batch_entries cfg 0 evs"] conjI) simp_all

section \<open>Rules that never fire\<close>

text \<open>
  The second topics the token contract publishes, in the order of its \<open>Events\<close>, and the events as
  the two contracts publish them: a namespace and a tag.
\<close>

definition contract_token_topics :: "string list" where
  "contract_token_topics =
     [''init'', ''xfer'', ''approve'', ''mint'', ''burn'', ''admin'', ''propose'', ''accept'',
      ''delegate'', ''undelegt'', ''unpause'', ''paused'']"

definition published :: "mon_event \<Rightarrow> bool" where
  "published ev \<longleftrightarrow>
     (\<exists>tag \<in> set contract_gov_topics. me_topics ev = [Some (js ''gov''), Some (js tag)])
     \<or> (\<exists>tag \<in> set contract_token_topics. me_topics ev = [Some (js ''token''), Some (js tag)])"

lemma published_topics:
  assumes "published ev"
    and "t \<in> {''set_admin'', ''update_config'', ''transfer'', ''vote_cast'', ''proposal_cancelled'', ''contract_paused''}"
  shows "\<not> has_topic t ev"
  using assms unfolding published_def has_topic_def contract_gov_topics_def contract_token_topics_def
  by auto

lemma published_entries:
  assumes "published ev"
  shows "\<not> is_admin_change ev" "transfer_entries cfg ev = Inr []" "large_entries cfg ev = []"
    "notice_entries ev = (if has_topic ''mint'' ev
       then [TokenMinted (me_contractId ev) (value_field v_to ev) (amount_of ev)] else [])"
  using published_topics [OF assms]
  by (simp_all add: is_admin_change_def transfer_entries_def large_entries_def notice_entries_def)

lemma batch_published:
  "\<forall>ev \<in> set evs. published ev \<Longrightarrow> batch_entries cfg n evs =
     map (\<lambda>ev. TokenMinted (me_contractId ev) (value_field v_to ev) (amount_of ev)) (filter (has_topic ''mint'') evs)"
  by (induction evs) (simp_all add: Let_def published_entries admin_entries_def)

text \<open>
  Of the topics the monitor looks for the contracts publish only \<^verbatim>\<open>mint\<close>.  On events as the contracts
  publish them it therefore reports the mints and nothing else: no admin change, transfer of any
  size, cancellation, pause or burst of votes ever raises an alert.
\<close>

theorem monitor_sees_only_mints:
  assumes "\<forall>ev \<in> set evs. published ev" and "\<not> num_le (rapidVoteBurst cfg) (Fin 0)"
  shows "detectAnomalies cfg evs lg =
    (lg @ map (\<lambda>ev. TokenMinted (me_contractId ev) (value_field v_to ev) (amount_of ev))
       (filter (has_topic ''mint'') evs), Inr ())"
proof -
  have "amounts_ok cfg evs" using assms(1) by (simp add: amounts_ok_def published_entries)
  moreover have "filter (has_topic ''vote_cast'') evs = []"
    using assms(1) published_topics by (force simp add: filter_empty_conv)
  ultimately show ?thesis
    using assms(2) by (simp add: detectAnomalies_ok batch_published [OF assms(1)])
qed

section \<open>A malformed amount\<close>

lemma detect_loop_bad:
  assumes "amounts_ok cfg pre" and "transfer_entries cfg bad = Inl e"
  shows "detect_loop cfg (pre @ bad # post) n v lg =
    (lg @ batch_entries cfg n pre
       @ (let n' = n + length (filter is_admin_change (pre @ [bad])) in admin_entries cfg n' bad), Inl e)"
  using assms(1)
proof (induction pre arbitrary: n v lg)
  case Nil
  with assms(2) show ?case by (simp add: Let_def admin_entries_def)
next
  case (Cons ev pre)
  then have "amounts_ok cfg pre" and "\<not> isl (transfer_entries cfg ev)"
    by (simp_all add: amounts_ok_def)
  moreover from this obtain ts where "transfer_entries cfg ev = Inr ts" by (cases "transfer_entries cfg ev") simp_all
  ultimately show ?case using Cons.IH by (simp add: Let_def large_entries_def)
qed

text \<open>
  One transfer whose amount is not an integer blinds the round: the lines of the events before it are
  written, a failed poll is logged, both cursors move on all the same, and nothing of the events after it is ever
  examined, whatever they are.
\<close>

theorem malformed_amount_hides_rest:
  assumes "fetchEvents rpc (mc_governanceContractId cfg) (govCursor m) = Inr (gevs, gc)"
    and "fetchEvents rpc (mc_tokenContractId cfg) (tokenCursor m) = Inr (tevs, tc)"
    and "gevs @ tevs = pre @ bad # post"
    and "amounts_ok cfg pre" and "transfer_entries cfg bad = Inl e"
  shows "govCursor (monitor_round cfg rpc sf m) = gc \<and> tokenCursor (monitor_round cfg rpc sf m) = tc
    \<and> mon_log (monitor_round cfg rpc sf m) =
        mon_log m @ [EventsFetched (length (pre @ bad # post))] @ batch_entries cfg 0 pre
          @ admin_entries cfg (length (filter is_admin_change (pre @ [bad]))) bad @ [PollFailed (message_of e)]"
proof -
  have "0 < length (gevs @ tevs)" using assms(3) by simp
  then show ?thesis
    by (simp add: monitor_round_def promise_all2_def assms detectAnomalies_def
        detect_loop_bad [OF assms(4,5)] Let_def del: length_append length_greater_0_conv)
qed

section \<open>Examples\<close>

definition sample_monitor_cfg :: monitor_cfg where
  "sample_monitor_cfg = \<lparr>mc_rpcUrl = js ''u'', mc_governanceContractId = js ''G'', mc_tokenContractId = [],
     mc_pollIntervalMs = Fin 30000, largeTransferAmount = 1000, rapidVoteBurst = Fin 50,
     adminChangeCount = Fin (of_nat 2)\<rparr>"

definition sample_event :: "string list \<Rightarrow> json_amount option \<Rightarrow> mon_event" where
  "sample_event ts a = \<lparr>me_type = js ''contract'', me_contractId = js ''G'', me_topics = map (\<lambda>t. Some (js t)) ts,
     me_value = map_option (\<lambda>x. \<lparr>v_amount = Some x, v_from = None, v_to = None, v_proposal_id = None, v_admin = None\<rparr>) a\<rparr>"

lemma sample_event_topic [simp]: "has_topic t (sample_event ts a) \<longleftrightarrow> t \<in> set ts"
  by (auto simp add: has_topic_def sample_event_def)

lemma sample_event_amount [simp]: "amount_of (sample_event ts a) = a"
  by (simp add: amount_of_def sample_event_def split: option.splits)

text \<open>Two admin changes with a large transfer between them, and fifty votes.\<close>

definition sample_batch :: "mon_event list" where
  "sample_batch = [sample_event [''set_admin''] None, sample_event [''transfer''] (Some (AmountNum (Fin 5000))),
     sample_event [''update_config''] None] @ replicate 50 (sample_event [''vote_cast''] None)"

theorem detectAnomalies_correct_witness:
  "\<exists>out. detectAnomalies sample_monitor_cfg sample_batch [] = (out @ [RapidVoteBurst 50 (Fin 50)], Inr ())
     \<and> filter is_large out = [LargeTokenTransfer (js ''G'') None None 5000 1000]
     \<and> filter is_suspicious out = [SuspiciousAdminChanges (js ''G'') 2 [Some (js ''update_config'')]]
     \<and> filter is_minted out = []"
proof -
  let ?v = "sample_event [''vote_cast''] None"
  have ok: "amounts_ok sample_monitor_cfg sample_batch"
    by (auto simp add: amounts_ok_def transfer_entries_def sample_batch_def)
  have v: "length (filter (has_topic ''vote_cast'') sample_batch) = 50"
    by (simp add: sample_batch_def)
  have a: "filter is_admin_change sample_batch = [sample_event [''set_admin''] None, sample_event [''update_config''] None]"
    by (simp add: sample_batch_def is_admin_change_def)
  have m: "filter (has_topic ''mint'') sample_batch = []" by (simp add: sample_batch_def)
  have "large_alert sample_monitor_cfg ?v = []" by (simp add: large_alert_def)
  then have l: "concat (map (large_alert sample_monitor_cfg) sample_batch) =
      [LargeTokenTransfer (js ''G'') None None 5000 1000]"
    by (simp add: sample_batch_def large_alert_def value_field_def sample_monitor_cfg_def)
       (simp add: sample_event_def)
  from detectAnomalies_correct [OF ok, of "[]", unfolded v a m l] show ?thesis
    by (simp add: sample_monitor_cfg_def) (auto simp add: sample_event_def)
qed

theorem monitor_sees_only_mints_witness:
  "detectAnomalies sample_monitor_cfg [sample_event [''gov'', ''paused''] None, sample_event [''token'', ''mint''] None,
      sample_event [''token'', ''xfer''] (Some (AmountNum (Fin 5000)))] [] =
    ([TokenMinted (js ''G'') None None], Inr ())"
proof -
  let ?evs = "[sample_event [''gov'', ''paused''] None, sample_event [''token'', ''mint''] None,
      sample_event [''token'', ''xfer''] (Some (AmountNum (Fin 5000)))]"
  have "\<forall>ev \<in> set ?evs. published ev"
    by (simp add: published_def sample_event_def contract_gov_topics_def contract_token_topics_def)
  moreover have "\<not> num_le (rapidVoteBurst sample_monitor_cfg) (Fin 0)" by (simp add: sample_monitor_cfg_def)
  ultimately show ?thesis
    using monitor_sees_only_mints [of ?evs sample_monitor_cfg "[]"]
    by (simp add: value_field_def) (simp add: sample_event_def)
qed

definition sample_rpc :: "raw_event list \<Rightarrow> mon_rpc" where
  "sample_rpc es = (\<lambda>_ _. Inr \<lparr>ra_ok = True, ra_status = 200, ra_statusText = [],
     ra_json = Inr (Some (Some es, Some (js ''9'')))\<rparr>)"

definition raw_transfer :: "json_amount \<Rightarrow> raw_event" where
  "raw_transfer a = \<lparr>re_type = js ''contract'', re_contractId = js ''G'', re_topic = Some [SymTopic (js ''transfer'')],
     re_value = Some \<lparr>v_amount = Some a, v_from = None, v_to = None, v_proposal_id = None, v_admin = None\<rparr>\<rparr>"

theorem malformed_amount_hides_rest_witness:
  "\<exists>e. mon_log (monitor_round sample_monitor_cfg
      (sample_rpc [raw_transfer AmountOther, raw_transfer (AmountNum (Fin 5000))]) False
      \<lparr>govCursor = None, tokenCursor = None, mon_log = []\<rparr>) = [EventsFetched 2, PollFailed e]"
proof -
  let ?es = "[raw_transfer AmountOther, raw_transfer (AmountNum (Fin 5000))]"
  let ?m = "\<lparr>govCursor = None, tokenCursor = None, mon_log = []\<rparr>"
  let ?bad = "normalise (raw_transfer AmountOther)"
  let ?post = "[normalise (raw_transfer (AmountNum (Fin 5000)))]"
  have g: "fetchEvents (sample_rpc ?es) (mc_governanceContractId sample_monitor_cfg) (govCursor ?m) =
      Inr (?bad # ?post, Some (js ''9''))"
    by (simp add: fetchEvents_def sample_rpc_def sample_monitor_cfg_def js_def)
  have t: "fetchEvents (sample_rpc ?es) (mc_tokenContractId sample_monitor_cfg) (tokenCursor ?m) = Inr ([], None)"
    by (simp add: fetchEvents_def sample_monitor_cfg_def)
  obtain e where bad: "transfer_entries sample_monitor_cfg ?bad = Inl e"
    by (simp add: transfer_entries_def has_topic_def amount_of_def normalise_def raw_transfer_def)
  have "\<not> is_admin_change ?bad"
    by (simp add: is_admin_change_def has_topic_def normalise_def raw_transfer_def)
  then show ?thesis
    using malformed_amount_hides_rest [OF g t _ _ bad, of "[]" ?post False]
    by (simp add: amounts_ok_def admin_entries_def)
qed

end
