(* ===== verification/Ops_Admin_Monitor.thy ===== *)
theory Ops_Admin_Monitor
  imports Notify_Watcher Contract_Types
begin

text \<open>
  \<^verbatim>\<open>scripts/admin_monitor.js\<close>: the script that posts an alert to Slack for every administrative event.
  It runs on an interval timer without waiting for the previous turn, so a turn is two steps: the
  request with the cursor of that moment (\<open>am_tick\<close>) and the answer (\<open>am_arrives\<close>).  Horizon is a parameter, as
  in the watcher, and so is what the constructor \<open>URL\<close> accepts.
\<close>

section \<open>Alerts\<close>

text \<open>
  \<open>JSON.stringify\<close> of a string: the two-character escapes, \<open>\u\<close> escapes for other control characters
  and for surrogates without a partner, everything else as it is.
\<close>

definition hex_digit :: "nat \<Rightarrow> nat" where
  "hex_digit d = (if d < 10 then 48 + d else 87 + d)"

definition unicode_escape :: "nat \<Rightarrow> jstring" where
  "unicode_escape c = [92, 117, hex_digit (c div 4096 mod 16), hex_digit (c div 256 mod 16),
     hex_digit (c div 16 mod 16), hex_digit (c mod 16)]"

definition is_high :: "nat \<Rightarrow> bool" where
  "is_high c \<longleftrightarrow> 55296 \<le> c \<and> c \<le> 56319"

definition is_low :: "nat \<Rightarrow> bool" where
  "is_low c \<longleftrightarrow> 56320 \<le> c \<and> c \<le> 57343"

definition json_unit :: "nat \<Rightarrow> jstring" where
  "json_unit c =
     (if c = 34 \<or> c = 92 then [92, c]
      else if c = 8 then [92, 98] else if c = 12 then [92, 102] else if c = 10 then [92, 110]
      else if c = 13 then [92, 114] else if c = 9 then [92, 116]
      else if c < 32 \<or> is_high c \<or> is_low c then unicode_escape c
      else [c])"

fun json_chars :: "jstring \<Rightarrow> jstring" where
  "json_chars [] = []"
| "json_chars [c] = json_unit c"
| "json_chars (c # d # s) =
     (if is_high c \<and> is_low d then c # d # json_chars s else json_unit c @ json_chars (d # s))"

record admin_env =
  ae_CONTRACT_ID :: jstring
  ae_SLACK_WEBHOOK_URL :: "jstring option"
  ae_url_ok :: "jstring \<Rightarrow> bool"

datatype admin_alert =
    ConsoleAlert jstring
  | SlackPost (sp_url: jstring) (sp_length: nat) (sp_payload: jstring)

definition slack_payload :: "jstring \<Rightarrow> jstring" where
  "slack_payload message =
     [123] @ [34] @ js ''text'' @ [34, 58, 34]
     @ json_chars ([55357, 57000] @ js '' *Admin Action Alert* '' @ [55357, 57000, 10] @ message) @ [34, 125]"

definition sendSlackAlert :: "admin_env \<Rightarrow> jstring \<Rightarrow> admin_alert result" where
  "sendSlackAlert env message =
     (case ae_SLACK_WEBHOOK_URL env of
        None \<Rightarrow> Inr (ConsoleAlert message)
      | Some url \<Rightarrow>
          if url = [] then Inr (ConsoleAlert message)
          else if \<not> ae_url_ok env url then Inl (ErrorObj (js ''TypeError'') (js ''Invalid URL''))
          else Inr (SlackPost url (length (slack_payload message)) (slack_payload message)))"

section \<open>Events\<close>

definition ADMIN_EVENTS :: "jstring list" where
  "ADMIN_EVENTS = [js ''exec'', js ''cancel'', js ''paused'', js ''unpaused'', js ''admin_trans'', js ''quorum'']"

text \<open>A topic used as it is, and \<open>t.value || t\<close>; an object is equal to no string.\<close>

fun plain_topic :: "topic \<Rightarrow> jstring option" where
  "plain_topic (TopicStr s) = Some s"
| "plain_topic (TopicObj _ _) = None"

fun value_or_self :: "topic \<Rightarrow> jstring option" where
  "value_or_self (TopicStr s) = Some s"
| "value_or_self (TopicObj _ (Some v)) = (if v = [] then None else Some v)"
| "value_or_self (TopicObj _ None) = None"

fun is_object :: "topic \<Rightarrow> bool" where
  "is_object (TopicObj _ _) = True"
| "is_object (TopicStr _) = False"

definition admin_topic :: "horizon_record \<Rightarrow> jstring option" where
  "admin_topic r =
     (case hr_topic r of
        None \<Rightarrow> None
      | Some ts \<Rightarrow>
          if length ts < 2 then None
          else let view = (if is_object (ts ! 0) then value_or_self else plain_topic);
                   nsVal = view (ts ! 0); subtypeVal = view (ts ! 1)
               in if nsVal = Some (js ''gov'') \<and> subtypeVal \<in> Some ` set ADMIN_EVENTS
                  then subtypeVal else None)"

definition admin_message :: "jstring \<Rightarrow> horizon_record \<Rightarrow> jstring" where
  "admin_message subtypeVal r =
     js ''Admin event detected: *'' @ subtypeVal @ js ''*'' @ [10] @ js ''Event ID: '' @ [96] @ hr_id r @ [96, 10]
     @ js ''Ledger: '' @ (case hr_ledger_closed_at r of Some l \<Rightarrow> l | None \<Rightarrow> js ''undefined'')"

section \<open>Turns\<close>

record admin_mon =
  am_cursor :: jstring
  am_pending :: "jstring list"
  am_alerts :: "admin_alert list"
  am_errors :: "jstring list"

definition initial_admin_mon :: admin_mon where
  "initial_admin_mon = \<lparr>am_cursor = js ''now'', am_pending = [], am_alerts = [], am_errors = []\<rparr>"

definition startMonitor :: "admin_env \<Rightarrow> admin_mon option" where
  "startMonitor env = (if ae_CONTRACT_ID env = [] then None else Some initial_admin_mon)"

fun admin_records :: "admin_env \<Rightarrow> horizon_record list \<Rightarrow> admin_mon \<Rightarrow> admin_mon \<times> unit result" where
  "admin_records env [] m = (m, Inr ())"
| "admin_records env (r # rs) m =
     (let m' = m\<lparr>am_cursor := hr_id r\<rparr>
      in case admin_topic r of
           None \<Rightarrow> admin_records env rs m'
         | Some subtypeVal \<Rightarrow>
             (case sendSlackAlert env (admin_message subtypeVal r) of
                Inl e \<Rightarrow> (m', Inl e)
              | Inr a \<Rightarrow> admin_records env rs (m'\<lparr>am_alerts := am_alerts m' @ [a]\<rparr>)))"

definition am_tick :: "admin_mon \<Rightarrow> admin_mon" where
  "am_tick m = m\<lparr>am_pending := am_pending m @ [am_cursor m]\<rparr>"

definition am_arrives :: "admin_env \<Rightarrow> horizon \<Rightarrow> jstring \<Rightarrow> admin_mon \<Rightarrow> admin_mon" where
  "am_arrives env horizon c m =
     (let m1 = m\<lparr>am_pending := remove1 c (am_pending m)\<rparr>
      in case horizon (ae_CONTRACT_ID env) (if c \<noteq> js ''now'' then Some c else None) 50 of
           Inl e \<Rightarrow> m1\<lparr>am_errors := am_errors m1 @ [message_of e]\<rparr>
         | Inr records \<Rightarrow>
             (case admin_records env records m1 of
                (m2, Inl e) \<Rightarrow> m2\<lparr>am_errors := am_errors m2 @ [message_of e]\<rparr>
              | (m2, Inr _) \<Rightarrow> m2))"

section \<open>Every administrative event is reported once\<close>

definition alert_of :: "admin_env \<Rightarrow> horizon_record \<Rightarrow> admin_alert option" where
  "alert_of env r = (case admin_topic r of
     None \<Rightarrow> None
   | Some t \<Rightarrow> (case sendSlackAlert env (admin_message t r) of Inr a \<Rightarrow> Some a | Inl _ \<Rightarrow> None))"

definition slack_ok :: "admin_env \<Rightarrow> bool" where
  "slack_ok env \<longleftrightarrow> (\<forall>url. ae_SLACK_WEBHOOK_URL env = Some url \<longrightarrow> url \<noteq> [] \<longrightarrow> ae_url_ok env url)"

lemma sendSlackAlert_ok: "slack_ok env \<Longrightarrow> \<exists>a. sendSlackAlert env m = Inr a"
  by (auto simp add: slack_ok_def sendSlackAlert_def split: option.splits)

lemma admin_records_ok:
  assumes "slack_ok env"
  shows "admin_records env rs m =
    (m\<lparr>am_cursor := (if rs = [] then am_cursor m else hr_id (last rs)),
       am_alerts := am_alerts m @ List.map_filter (alert_of env) rs\<rparr>, Inr ())"
proof (induction rs arbitrary: m)
  case Nil
  then show ?case by (simp add: map_filter_simps)
next
  case (Cons r rs)
  show ?case
  proof (cases "admin_topic r")
    case None
    with Cons show ?thesis by (simp add: alert_of_def map_filter_simps)
  next
    case (Some t)
    moreover obtain a where "sendSlackAlert env (admin_message t r) = Inr a"
      using sendSlackAlert_ok [OF assms] by blast
    ultimately show ?thesis using Cons by (simp add: alert_of_def map_filter_simps)
  qed
qed

lemma am_arrives_ok:
  assumes "slack_ok env"
    and "horizon (ae_CONTRACT_ID env) (if c \<noteq> js ''now'' then Some c else None) 50 = Inr rs"
  shows "am_arrives env horizon c m = m\<lparr>am_pending := remove1 c (am_pending m),
    am_cursor := (if rs = [] then am_cursor m else hr_id (last rs)),
    am_alerts := am_alerts m @ List.map_filter (alert_of env) rs\<rparr>"
  by (simp add: am_arrives_def assms(2) admin_records_ok [OF assms(1)])

definition am_turn :: "admin_env \<Rightarrow> horizon \<Rightarrow> admin_mon \<Rightarrow> admin_mon" where
  "am_turn env horizon m = am_arrives env horizon (am_cursor m) (am_tick m)"

lemma am_turn_reads_page:
  assumes "slack_ok env" and hz: "\<And>i c. horizon i c 50 = Inr (page L c)"
    and "distinct (map hr_id L)" and "js ''now'' \<notin> hr_id ` set L"
    and "am_cursor m = cursor_after L (min n (length L))" and "am_pending m = []"
  shows "am_turn env horizon m = m\<lparr>am_cursor := cursor_after L (min (n + 50) (length L)),
    am_alerts := am_alerts m @ List.map_filter (alert_of env) (take 50 (drop n L))\<rparr>"
proof -
  let ?c = "am_cursor m"
  have "drop (min n (length L)) L = drop n L" by (simp add: min_def)
  then have "page L (if ?c \<noteq> js ''now'' then Some ?c else None) = take 50 (drop n L)"
    using page_cursor_after [OF assms(3) min.cobounded2 assms(4), of n] unfolding assms(5) by (simp only:)
  then have "am_turn env horizon m = (am_tick m)\<lparr>am_pending := remove1 ?c (am_pending (am_tick m)),
      am_cursor := (if take 50 (drop n L) = [] then am_cursor (am_tick m) else hr_id (last (take 50 (drop n L)))),
      am_alerts := am_alerts (am_tick m) @ List.map_filter (alert_of env) (take 50 (drop n L))\<rparr>"
    unfolding am_turn_def by (intro am_arrives_ok assms(1)) (simp only: hz)
  moreover have "(if take 50 (drop n L) = [] then ?c else hr_id (last (take 50 (drop n L)))) =
      cursor_after L (min (n + 50) (length L))"
    using last_page [of n L] assms(5) by (auto simp add: min_def)
  ultimately show ?thesis using assms(6) by (cases m) (simp add: am_tick_def split: if_splits)
qed

text \<open>
  If every turn is answered before the next one, the admin monitor reports every administrative
  event of the stream exactly once and in order, and unlike the watcher it makes progress on every
  page, whatever the page holds.
\<close>

theorem admin_monitor_exactly_once:
  assumes "slack_ok env" and "\<And>i c. horizon i c 50 = Inr (page L c)"
    and "distinct (map hr_id L)" and "js ''now'' \<notin> hr_id ` set L"
  shows "am_alerts ((am_turn env horizon ^^ k) initial_admin_mon) =
    List.map_filter (alert_of env) (take (50 * k) L)"
proof -
  have "(am_turn env horizon ^^ k) initial_admin_mon =
    initial_admin_mon\<lparr>am_cursor := cursor_after L (min (50 * k) (length L)),
      am_alerts := List.map_filter (alert_of env) (take (50 * k) L)\<rparr>"
  proof (induction k)
    case 0
    then show ?case by (simp add: initial_admin_mon_def cursor_after_def map_filter_simps)
  next
    case (Suc k)
    have "am_turn env horizon (initial_admin_mon\<lparr>am_cursor := cursor_after L (min (50 * k) (length L)),
        am_alerts := List.map_filter (alert_of env) (take (50 * k) L)\<rparr>) =
      initial_admin_mon\<lparr>am_cursor := cursor_after L (min (50 * k + 50) (length L)),
        am_alerts := List.map_filter (alert_of env) (take (50 * k) L)
          @ List.map_filter (alert_of env) (take 50 (drop (50 * k) L))\<rparr>"
      by (subst am_turn_reads_page [where horizon = horizon, OF assms])
         (simp_all add: initial_admin_mon_def)
    with Suc show ?case
      by (simp add: map_filter_append [symmetric] take_add [symmetric] add.commute)
  qed
  then show ?thesis by simp
qed

text \<open>
  When Horizon answers more slowly than the interval, turns overlap: two requests made before the
  first answer use the same cursor, and every alert of that page is sent twice.
\<close>

theorem overlapping_turns_repeat:
  assumes "slack_ok env" and "\<And>i c. horizon i c 50 = Inr (page L c)"
  shows "am_alerts (am_arrives env horizon (js ''now'') (am_arrives env horizon (js ''now'')
      (am_tick (am_tick initial_admin_mon)))) =
    List.map_filter (alert_of env) (take 50 L) @ List.map_filter (alert_of env) (take 50 L)"
proof -
  have "horizon (ae_CONTRACT_ID env) (if js ''now'' \<noteq> js ''now'' then Some (js ''now'') else None) 50 =
      Inr (take 50 L)"
    by (simp only: assms(2)) (simp add: page_def)
  note am_arrives_ok [where horizon = horizon, OF assms(1) this]
  then show ?thesis by (simp add: am_tick_def initial_admin_mon_def)
qed

section \<open>What Slack receives\<close>

lemma slack_payload_eq:
  "slack_payload m = (([123] @ [34] @ js ''text'' @ [34, 58, 34]) @ [55357, 57000])
     @ js '' *Admin Action Alert* '' @ [55357, 57000] @ json_chars (10 # m) @ [34, 125]"
  by (simp add: slack_payload_def js_def of_char_def json_unit_def is_high_def is_low_def)

lemma utf8_len_pair: "is_high h \<Longrightarrow> is_low l \<Longrightarrow> utf8_len (h # l # s) = 4 + utf8_len s"
  by (simp add: is_high_def is_low_def)

lemma utf8_len_framed:
  assumes "ascii a" and "ascii b" and "is_high h" and "is_low l"
  shows "utf8_len ((a @ [h, l]) @ b @ [h, l] @ t) = length a + (4 + (length b + (4 + utf8_len t)))"
  using assms by (simp add: utf8_len_ascii_append utf8_len_pair del: utf8_len.simps)

text \<open>
  Every alert posted to Slack announces too short a body: \<^verbatim>\<open>Content-Length\<close> counts the UTF-16 units of
  the payload, and its UTF-8 encoding, which is what is sent, is at least four bytes longer.
\<close>

theorem slack_alert_truncated:
  assumes "sendSlackAlert env m = Inr (SlackPost url n p)"
  shows "n + 4 \<le> utf8_len p"
proof -
  have p: "p = slack_payload m" "n = length p"
    using assms by (auto simp add: sendSlackAlert_def split: option.splits if_splits)
  let ?a = "[123] @ [34] @ js ''text'' @ [34, 58, 34]"
  let ?b = "js '' *Admin Action Alert* ''"
  have "ascii ?a" "ascii ?b" by (simp_all add: ascii_def js_def of_char_def)
  then have "utf8_len p = length ?a + (4 + (length ?b + (4 + utf8_len (json_chars (10 # m) @ [34, 125]))))"
    unfolding p(1) slack_payload_eq by (rule utf8_len_framed) (simp_all add: is_high_def is_low_def)
  moreover have "n = length ?a + (2 + (length ?b + (2 + length (json_chars (10 # m) @ [34, 125]))))"
    unfolding p slack_payload_eq by simp
  moreover note length_le_utf8_len [of "json_chars (10 # m) @ [34, 125]"]
  ultimately show ?thesis by linarith
qed

section \<open>Examples\<close>

definition sample_admin_env :: admin_env where
  "sample_admin_env = \<lparr>ae_CONTRACT_ID = js ''C1'', ae_SLACK_WEBHOOK_URL = Some (js ''https://s''), ae_url_ok = (\<lambda>_. True)\<rparr>"

definition sample_stream :: "horizon_record list" where
  "sample_stream = [sample_record ''7-1'' ''voted'', sample_record ''7-2'' ''paused'']"

lemma sample_stream_ok:
  "slack_ok sample_admin_env" "distinct (map hr_id sample_stream)" "js ''now'' \<notin> hr_id ` set sample_stream"
  by (simp_all add: slack_ok_def sample_admin_env_def sample_stream_def sample_record_def)

lemma sample_topic: "admin_topic (sample_record i t) = (if js t \<in> set ADMIN_EVENTS then Some (js t) else None)"
  by (auto simp add: admin_topic_def sample_record_def ADMIN_EVENTS_def Let_def js_def of_char_def)

lemma sample_alert:
  shows "\<exists>a. alert_of sample_admin_env (sample_record ''7-2'' ''paused'') = Some a"
    and "alert_of sample_admin_env (sample_record ''7-1'' ''voted'') = None"
proof -
  obtain a where "sendSlackAlert sample_admin_env (admin_message (js ''paused'') (sample_record ''7-2'' ''paused'')) = Inr a"
    using sendSlackAlert_ok [OF sample_stream_ok(1)] by blast
  then show "\<exists>a. alert_of sample_admin_env (sample_record ''7-2'' ''paused'') = Some a"
    by (simp add: alert_of_def sample_topic ADMIN_EVENTS_def)
  show "alert_of sample_admin_env (sample_record ''7-1'' ''voted'') = None"
    by (simp add: alert_of_def sample_topic ADMIN_EVENTS_def)
qed

theorem admin_monitor_exactly_once_witness:
  "\<exists>a. am_alerts ((am_turn sample_admin_env (\<lambda>_ c _. Inr (page sample_stream c)) ^^ 3) initial_admin_mon) = [a]"
proof -
  obtain a where "alert_of sample_admin_env (sample_record ''7-2'' ''paused'') = Some a"
    using sample_alert(1) by blast
  then show ?thesis
    using admin_monitor_exactly_once [where horizon = "\<lambda>_ c _. Inr (page sample_stream c)" and k = 3,
        OF sample_stream_ok(1) refl sample_stream_ok(2,3)]
    by (simp add: sample_stream_def sample_alert(2) map_filter_simps)
qed

theorem overlapping_turns_repeat_witness:
  "\<exists>a. am_alerts (am_arrives sample_admin_env (\<lambda>_ c _. Inr (page sample_stream c)) (js ''now'')
      (am_arrives sample_admin_env (\<lambda>_ c _. Inr (page sample_stream c)) (js ''now'')
        (am_tick (am_tick initial_admin_mon)))) = [a, a]"
proof -
  obtain a where "alert_of sample_admin_env (sample_record ''7-2'' ''paused'') = Some a"
    using sample_alert(1) by blast
  then show ?thesis
    using overlapping_turns_repeat [where horizon = "\<lambda>_ c _. Inr (page sample_stream c)" and L = sample_stream,
        OF sample_stream_ok(1) refl]
    by (simp add: sample_stream_def sample_alert(2) map_filter_simps)
qed

theorem slack_alert_truncated_witness:
  "length (slack_payload (js ''x'')) + 4 \<le> utf8_len (slack_payload (js ''x''))"
  by (rule slack_alert_truncated [of sample_admin_env "js ''x''" "js ''https://s''"])
     (simp add: sendSlackAlert_def sample_admin_env_def js_def)

end
