(* ===== verification/Ops_Inspect.thy ===== *)
theory Ops_Inspect
  imports JS_Number Contract_Types
begin

text \<open>
  \<^verbatim>\<open>scripts/inspect-state.js\<close>: the command line tool that prints the state of the governance contract.
  The Stellar CLI it calls is the parameter \<open>cli\<close>: a command line to parsed JSON, unparsable output or
  an error with its text.  Numbers are shown by \<open>fmt\<close>, as elsewhere.
\<close>

section \<open>JSON values\<close>

datatype json = JNull | JBool bool | JNum jnum | JStr jstring | JArr "json list" | JObj "(jstring \<times> json) list"

text \<open>A property of a value (\<open>None\<close> is undefined), truth, conversion to a string and to a number, and \<open>x + y\<close>.\<close>

fun json_prop :: "string \<Rightarrow> json \<Rightarrow> json option" where
  "json_prop k (JObj fs) = map_of fs (js k)"
| "json_prop k _ = None"

fun json_truthy :: "json option \<Rightarrow> bool" where
  "json_truthy None = False"
| "json_truthy (Some JNull) = False"
| "json_truthy (Some (JBool b)) = b"
| "json_truthy (Some (JNum x)) = (x \<noteq> NaN \<and> x \<noteq> Fin 0)"
| "json_truthy (Some (JStr s)) = (s \<noteq> [])"
| "json_truthy (Some _) = True"

fun json_string :: "(rat \<Rightarrow> jstring) \<Rightarrow> json option \<Rightarrow> jstring" where
  "json_string fmt None = js ''undefined''"
| "json_string fmt (Some JNull) = js ''null''"
| "json_string fmt (Some (JBool b)) = (if b then js ''true'' else js ''false'')"
| "json_string fmt (Some (JNum x)) = num_to_string fmt x"
| "json_string fmt (Some (JStr s)) = s"
| "json_string fmt (Some (JArr vs)) = join_with (js '','') (map (\<lambda>v. if v = JNull then [] else json_string fmt (Some v)) vs)"
| "json_string fmt (Some (JObj _)) = js ''[object Object]''"

text \<open>
  Conversion to a number goes by way of the string for arrays, so \<open>[5]\<close> is 5, \<open>[]\<close> is 0 and \<open>[1, 2]\<close> is
  not a number; the string of an object is never a number.
\<close>

fun to_number :: "(rat \<Rightarrow> jstring) \<Rightarrow> json \<Rightarrow> jnum" where
  "to_number fmt JNull = Fin 0"
| "to_number fmt (JBool b) = Fin (if b then 1 else 0)"
| "to_number fmt (JNum x) = x"
| "to_number fmt (JStr s) = js_Number s"
| "to_number fmt (JArr vs) = js_Number (json_string fmt (Some (JArr vs)))"
| "to_number fmt (JObj _) = NaN"

text \<open>The default of \<open>??\<close>.\<close>

fun nullish :: "json option \<Rightarrow> json \<Rightarrow> json" where
  "nullish None d = d"
| "nullish (Some JNull) d = d"
| "nullish (Some v) d = v"

fun num_add :: "jnum \<Rightarrow> jnum \<Rightarrow> jnum" where
  "num_add NaN _ = NaN"
| "num_add _ NaN = NaN"
| "num_add PosInf NegInf = NaN"
| "num_add NegInf PosInf = NaN"
| "num_add PosInf _ = PosInf"
| "num_add NegInf _ = NegInf"
| "num_add _ PosInf = PosInf"
| "num_add _ NegInf = NegInf"
| "num_add (Fin a) (Fin b) = round64 (a + b)"

fun num_neg :: "jnum \<Rightarrow> jnum" where
  "num_neg NaN = NaN"
| "num_neg PosInf = NegInf"
| "num_neg NegInf = PosInf"
| "num_neg (Fin a) = Fin (- a)"

definition Math_max1 :: "jnum \<Rightarrow> jnum" where
  "Math_max1 x = (if x = NaN then NaN else if num_le (Fin 1) x then x else Fin 1)"

fun is_numeric :: "json \<Rightarrow> bool" where
  "is_numeric JNull = True"
| "is_numeric (JBool _) = True"
| "is_numeric (JNum _) = True"
| "is_numeric _ = False"

definition js_plus :: "(rat \<Rightarrow> jstring) \<Rightarrow> json \<Rightarrow> json \<Rightarrow> json" where
  "js_plus fmt x y =
     (if is_numeric x \<and> is_numeric y then JNum (num_add (to_number fmt x) (to_number fmt y))
      else JStr (json_string fmt (Some x) @ json_string fmt (Some y)))"

section \<open>Command line\<close>

datatype flag_value = FlagTrue | FlagStr jstring

function parseFlags_from :: "jstring list \<Rightarrow> nat \<Rightarrow> (jstring \<rightharpoonup> flag_value) \<Rightarrow> (jstring \<rightharpoonup> flag_value)" where
  "parseFlags_from argv i result =
     (if i < length argv
      then if starts_with (argv ! i) (js ''--'')
           then if i + 1 < length argv \<and> argv ! (i + 1) \<noteq> [] \<and> \<not> starts_with (argv ! (i + 1)) (js ''--'')
                then parseFlags_from argv (i + 2) (result(argv ! i \<mapsto> FlagStr (argv ! (i + 1))))
                else parseFlags_from argv (i + 1) (result(argv ! i \<mapsto> FlagTrue))
           else parseFlags_from argv (i + 1) result
      else result)"
  by pat_completeness auto

termination
  by (relation "measure (\<lambda>(argv, i, _). length argv - i)") auto

declare parseFlags_from.simps [simp del]

definition parseFlags :: "jstring list \<Rightarrow> (jstring \<rightharpoonup> flag_value)" where
  "parseFlags argv = parseFlags_from argv 0 Map.empty"

fun flag_string :: "flag_value \<Rightarrow> jstring" where
  "flag_string FlagTrue = js ''true''"
| "flag_string (FlagStr s) = s"

definition NETWORK_RPC :: "jstring \<Rightarrow> jstring option" where
  "NETWORK_RPC n =
     (if n = js ''testnet'' then Some (js ''https://soroban-testnet.stellar.org'')
      else if n = js ''mainnet'' then Some (js ''https://mainnet.stellar.validationcloud.io/v1/stellar'')
      else None)"

record inspect_env =
  ie_args :: "jstring list"
  ie_STELLAR_RPC_URL :: "jstring option"
  ie_GOVERNANCE_CONTRACT_ID :: "jstring option"

definition RPC_URL :: "inspect_env \<Rightarrow> jstring option" where
  "RPC_URL env =
     (let flags = parseFlags (ie_args env)
      in orelse (map_option flag_string (flags (js ''--rpc-url'')))
           (orelse (ie_STELLAR_RPC_URL env)
             (NETWORK_RPC (case flags (js ''--network'') of Some v \<Rightarrow> flag_string v | None \<Rightarrow> js ''testnet''))))"

definition inspect_CONTRACT_ID :: "inspect_env \<Rightarrow> jstring" where
  "inspect_CONTRACT_ID env =
     (case parseFlags (ie_args env) (js ''--contract-id'') of
        Some v \<Rightarrow> flag_string v
      | None \<Rightarrow> (case ie_GOVERNANCE_CONTRACT_ID env of Some i \<Rightarrow> i | None \<Rightarrow> []))"

definition JSON_OUTPUT :: "inspect_env \<Rightarrow> bool" where
  "JSON_OUTPUT env \<longleftrightarrow> parseFlags (ie_args env) (js ''--json'') \<noteq> None"

definition LIMIT :: "inspect_env \<Rightarrow> jnum" where
  "LIMIT env = js_parseInt (case parseFlags (ie_args env) (js ''--limit'') of
     Some v \<Rightarrow> flag_string v | None \<Rightarrow> js ''10'')"

definition words_of :: "inspect_env \<Rightarrow> jstring list" where
  "words_of env = filter (\<lambda>a. \<not> starts_with a (js ''--'')) (ie_args env)"

definition CMD :: "inspect_env \<Rightarrow> jstring" where
  "CMD env = (case words_of env of w # _ \<Rightarrow> w | [] \<Rightarrow> js ''all'')"

definition CMD_ARG :: "inspect_env \<Rightarrow> jstring option" where
  "CMD_ARG env = (case words_of env of _ # a # _ \<Rightarrow> Some a | _ \<Rightarrow> None)"

section \<open>Views of the contract\<close>

datatype view_reply = Parsed json | Unparsable | CliError jstring

type_synonym cli = "jstring \<Rightarrow> view_reply"

definition view_command :: "inspect_env \<Rightarrow> string \<Rightarrow> jstring list \<Rightarrow> jstring" where
  "view_command env fn fnArgs =
     join_with (js '' '')
       [js ''stellar contract invoke'',
        js ''--rpc-url '' @ [34] @ (case RPC_URL env of Some u \<Rightarrow> u | None \<Rightarrow> js ''undefined'') @ [34],
        js ''--id '' @ [34] @ inspect_CONTRACT_ID env @ [34],
        js ''--network-passphrase '' @ [34] @ js ''Test SDF Network ; September 2015'' @ [34],
        js ''-- '' @ js fn,
        join_with (js '' '') (map (\<lambda>a. js ''--arg '' @ [39] @ a @ [39]) fnArgs)]"

definition rpc_failed :: "string \<Rightarrow> jstring \<Rightarrow> thrown" where
  "rpc_failed fn stderr = new_Error (js ''RPC call failed for '' @ [34] @ js fn @ [34] @ js '': '' @ stderr)"

definition invokeView :: "cli \<Rightarrow> inspect_env \<Rightarrow> string \<Rightarrow> jstring list \<Rightarrow> json result" where
  "invokeView cli env fn fnArgs =
     (case cli (view_command env fn fnArgs) of
        Parsed v \<Rightarrow> Inr v
      | Unparsable \<Rightarrow> Inl (rpc_failed fn [])
      | CliError stderr \<Rightarrow>
          if js_includes stderr (js ''not found'') \<or> js_includes stderr (js ''missing'') then Inr JNull
          else Inl (rpc_failed fn stderr))"

fun view_all :: "cli \<Rightarrow> inspect_env \<Rightarrow> (string \<times> string) list \<Rightarrow> (jstring \<times> json) list result" where
  "view_all cli env [] = Inr []"
| "view_all cli env ((k, fn) # vs) =
     (case invokeView cli env fn [] of
        Inl e \<Rightarrow> Inl e
      | Inr v \<Rightarrow> (case view_all cli env vs of Inl e \<Rightarrow> Inl e | Inr fs \<Rightarrow> Inr ((js k, v) # fs)))"

definition fetchConfig :: "cli \<Rightarrow> inspect_env \<Rightarrow> json result" where
  "fetchConfig cli env =
     map_sum id JObj (view_all cli env
       [(''admin'', ''admin''), (''votingToken'', ''voting_token''), (''paused'', ''is_paused''),
        (''proposalCount'', ''proposal_count''), (''activeProposalCount'', ''active_proposal_count''),
        (''minProposalBalance'', ''min_proposal_balance''), (''proposalCooldown'', ''proposal_cooldown''),
        (''restrictAdminVote'', ''restrict_admin_vote'')])"

definition inspect_fetchProposal :: "cli \<Rightarrow> inspect_env \<Rightarrow> (rat \<Rightarrow> jstring) \<Rightarrow> jnum \<Rightarrow> json result" where
  "inspect_fetchProposal cli env fmt i = invokeView cli env ''get_proposal'' [num_to_string fmt i]"

text \<open>
  The loop \<open>for (let id = start; id <= count; id++)\<close>, on binary64 numbers; \<open>None\<close> when it does not end, as
  from \<open>2 ^ 53\<close> on, where adding one changes nothing.
\<close>

partial_function (option) fetch_from ::
  "cli \<Rightarrow> inspect_env \<Rightarrow> (rat \<Rightarrow> jstring) \<Rightarrow> jnum \<Rightarrow> jnum \<Rightarrow> json list result option" where
  "fetch_from cli env fmt cnt i =
     (if num_le i cnt
      then (case inspect_fetchProposal cli env fmt i of
              Inl e \<Rightarrow> Some (Inl e)
            | Inr p \<Rightarrow>
                Option.bind (fetch_from cli env fmt cnt (num_add i (Fin 1)))
                  (\<lambda>r. Some (case r of
                     Inl e \<Rightarrow> Inl e
                   | Inr ps \<Rightarrow> Inr (if json_truthy (Some p) then p # ps else ps))))
      else Some (Inr []))"

definition fetchProposals :: "cli \<Rightarrow> inspect_env \<Rightarrow> (rat \<Rightarrow> jstring) \<Rightarrow> jnum \<Rightarrow> json list result option" where
  "fetchProposals cli env fmt limit =
     (case invokeView cli env ''proposal_count'' [] of
        Inl e \<Rightarrow> Some (Inl e)
      | Inr v \<Rightarrow>
          let cnt = to_number fmt (nullish (Some v) (JNum (Fin 0)));
              start = Math_max1 (num_add (num_add cnt (num_neg limit)) (Fin 1))
          in fetch_from cli env fmt cnt start)"

section \<open>Output\<close>

datatype out_line = Out jstring | OutJson json | OutVotes jstring json | Err jstring

definition printConfig :: "(rat \<Rightarrow> jstring) \<Rightarrow> json \<Rightarrow> out_line list" where
  "printConfig fmt cfg =
     (let field = (\<lambda>k. json_string fmt (json_prop k cfg));
          or_na = (\<lambda>k. json_string fmt (Some (nullish (json_prop k cfg) (JStr (js ''n/a'')))))
      in map Out
        [[10] @ js ''=== Admin Settings ==='',
         js ''  Admin address       : '' @ or_na ''admin'',
         js ''  Voting token        : '' @ or_na ''votingToken'',
         js ''  Paused              : '' @ field ''paused'',
         js ''  Proposal count      : '' @ field ''proposalCount'',
         js ''  Active proposals    : '' @ field ''activeProposalCount'',
         js ''  Min proposal balance: '' @ field ''minProposalBalance'',
         js ''  Proposal cooldown   : '' @ field ''proposalCooldown'' @ js ''s'',
         js ''  Restrict admin vote : '' @ field ''restrictAdminVote''])"

fun stateLabel :: "(rat \<Rightarrow> jstring) \<Rightarrow> json option \<Rightarrow> jstring" where
  "stateLabel fmt (Some (JStr s)) = (if s = [] then js ''Unknown'' else s)"
| "stateLabel fmt (Some (JObj [])) = js ''{}''"
| "stateLabel fmt (Some (JObj ((k, _) # _))) = k"
| "stateLabel fmt (Some (JArr [])) = js ''[]''"
| "stateLabel fmt (Some (JArr (_ # _))) = js ''0''"
| "stateLabel fmt v = (if json_truthy v then json_string fmt v else js ''Unknown'')"

definition total_votes :: "(rat \<Rightarrow> jstring) \<Rightarrow> json \<Rightarrow> json" where
  "total_votes fmt p =
     (let v = (\<lambda>k. nullish (json_prop k p) (JNum (Fin 0)))
      in js_plus fmt (js_plus fmt (v ''votes_yes'') (v ''votes_no'')) (v ''votes_abstain''))"

definition description_lines :: "(rat \<Rightarrow> jstring) \<Rightarrow> json option \<Rightarrow> out_line list result" where
  "description_lines fmt d =
     (if \<not> json_truthy d then Inr []
      else case d of
             Some (JStr s) \<Rightarrow> Inr [Out (js ''    Description : '' @ take 120 s @ (if 120 < length s then [8230] else []))]
           | Some (JArr vs) \<Rightarrow> Inr [Out (js ''    Description : '' @ json_string fmt (Some (JArr (take 120 vs)))
               @ (if 120 < length vs then [8230] else []))]
           | _ \<Rightarrow> Inl (ErrorObj (js ''TypeError'') (js ''p.description.slice is not a function'')))"

text \<open>The lines printed, and the exception that stopped the printing, if any: the lines before it stay.\<close>

definition printProposal :: "(rat \<Rightarrow> jstring) \<Rightarrow> json \<Rightarrow> out_line list \<times> unit result" where
  "printProposal fmt p =
     (if \<not> json_truthy (Some p) then ([Out (js ''  (not found)'')], Inr ())
      else let field = (\<lambda>k. json_string fmt (json_prop k p));
               ls = map Out
             [[10] @ js ''  Proposal #'' @ field ''id'',
              js ''    Title       : '' @ field ''title'',
              js ''    State       : '' @ stateLabel fmt (json_prop ''state'' p),
              js ''    Proposer    : '' @ field ''proposer'',
              js ''    Quorum      : '' @ field ''quorum'',
              js ''    Votes Yes   : '' @ field ''votes_yes'' @ js ''  No: '' @ field ''votes_no''
                @ js ''  Abstain: '' @ field ''votes_abstain''
                @ js ''  Total: '' @ json_string fmt (Some (total_votes fmt p)),
              js ''    Voters      : '' @ field ''voter_count'',
              js ''    Start/End   : '' @ field ''start_time'' @ js '' / '' @ field ''end_time'']
           in (case description_lines fmt (json_prop ''description'' p) of
                 Inl e \<Rightarrow> (ls, Inl e)
               | Inr ds \<Rightarrow> (ls @ ds, Inr ())))"

fun print_each :: "(rat \<Rightarrow> jstring) \<Rightarrow> json list \<Rightarrow> out_line list \<times> unit result" where
  "print_each fmt [] = ([], Inr ())"
| "print_each fmt (p # ps) =
     (case printProposal fmt p of
        (ls, Inl e) \<Rightarrow> (ls, Inl e)
      | (ls, Inr _) \<Rightarrow> (let (ls', r) = print_each fmt ps in (ls @ ls', r)))"

definition printProposals :: "(rat \<Rightarrow> jstring) \<Rightarrow> json list \<Rightarrow> out_line list \<times> unit result" where
  "printProposals fmt list =
     (if list = [] then ([Out (js ''  No proposals found.'')], Inr ())
      else let (ls, r) = print_each fmt list
           in (Out ([10] @ js ''=== Proposals ('' @ show_nat (length list) @ js '') ==='') # ls, r))"

section \<open>Commands\<close>

text \<open>The lines written and the exit status; \<open>None\<close> when the tool does not end.\<close>

type_synonym inspect_run = "(out_line list \<times> nat) option"

definition die :: "jstring \<Rightarrow> out_line list \<times> nat" where
  "die m = ([Err (js ''Error: '' @ m)], 1)"

text \<open>\<open>main().catch\<close>: the lines written so far, then the message of the exception.\<close>

definition finished :: "out_line list \<times> unit result \<Rightarrow> out_line list \<times> nat" where
  "finished r = (case r of (ls, Inr _) \<Rightarrow> (ls, 0) | (ls, Inl e) \<Rightarrow> (ls @ [Err (message_of e)], 1))"

definition cmd_config :: "cli \<Rightarrow> inspect_env \<Rightarrow> (rat \<Rightarrow> jstring) \<Rightarrow> out_line list \<times> nat" where
  "cmd_config cli env fmt = finished
     (case fetchConfig cli env of
        Inl e \<Rightarrow> ([], Inl e)
      | Inr cfg \<Rightarrow> (if JSON_OUTPUT env then [OutJson cfg] else printConfig fmt cfg, Inr ()))"

definition cmd_proposals :: "cli \<Rightarrow> inspect_env \<Rightarrow> (rat \<Rightarrow> jstring) \<Rightarrow> inspect_run" where
  "cmd_proposals cli env fmt =
     map_option (\<lambda>r. finished (case r of
         Inl e \<Rightarrow> ([], Inl e)
       | Inr list \<Rightarrow> if JSON_OUTPUT env then ([OutJson (JArr list)], Inr ()) else printProposals fmt list))
       (fetchProposals cli env fmt (LIMIT env))"

definition cmd_proposal :: "cli \<Rightarrow> inspect_env \<Rightarrow> (rat \<Rightarrow> jstring) \<Rightarrow> out_line list \<times> nat" where
  "cmd_proposal cli env fmt =
     (if \<not> truthy (CMD_ARG env) then die (js ''Usage: proposal <id>'')
      else finished (case inspect_fetchProposal cli env fmt (js_parseInt (the (CMD_ARG env))) of
         Inl e \<Rightarrow> ([], Inl e)
       | Inr p \<Rightarrow> if JSON_OUTPUT env then ([OutJson p], Inr ())
                  else printProposal fmt p))"

definition field_or_absent :: "string \<Rightarrow> string \<Rightarrow> json \<Rightarrow> (jstring \<times> json) list" where
  "field_or_absent k f p = (case json_prop f p of Some v \<Rightarrow> [(js k, v)] | None \<Rightarrow> [])"

definition cmd_votes :: "cli \<Rightarrow> inspect_env \<Rightarrow> (rat \<Rightarrow> jstring) \<Rightarrow> out_line list \<times> nat" where
  "cmd_votes cli env fmt =
     (if \<not> truthy (CMD_ARG env) then die (js ''Usage: votes <proposal-id>'')
      else finished (case inspect_fetchProposal cli env fmt (js_parseInt (the (CMD_ARG env))) of
         Inl e \<Rightarrow> ([], Inl e)
       | Inr p \<Rightarrow>
           if \<not> json_truthy (Some p) then ([Out (js ''Proposal not found.'')], Inr ())
           else let votes = JObj (field_or_absent ''yes'' ''votes_yes'' p @ field_or_absent ''no'' ''votes_no'' p
                      @ field_or_absent ''abstain'' ''votes_abstain'' p @ field_or_absent ''voters'' ''voter_count'' p)
                in ([if JSON_OUTPUT env then OutJson votes
                     else OutVotes ([10] @ js ''Votes for #'' @ the (CMD_ARG env) @ js '':'') votes], Inr ())))"

definition cmd_all :: "cli \<Rightarrow> inspect_env \<Rightarrow> (rat \<Rightarrow> jstring) \<Rightarrow> inspect_run" where
  "cmd_all cli env fmt =
     (case fetchConfig cli env of
        Inl e \<Rightarrow> Some (finished ([], Inl e))
      | Inr cfg \<Rightarrow>
          map_option (\<lambda>r. finished (case r of
              Inl e \<Rightarrow> ([], Inl e)
            | Inr list \<Rightarrow>
                if JSON_OUTPUT env
                then ([OutJson (JObj [(js ''config'', cfg), (js ''proposals'', JArr list)])], Inr ())
                else (let (ls, r) = printProposals fmt list in (printConfig fmt cfg @ ls, r))))
            (fetchProposals cli env fmt (LIMIT env)))"

definition inspect_main :: "cli \<Rightarrow> inspect_env \<Rightarrow> (rat \<Rightarrow> jstring) \<Rightarrow> inspect_run" where
  "inspect_main cli env fmt =
     (if inspect_CONTRACT_ID env = []
      then Some (die (js ''GOVERNANCE_CONTRACT_ID is not set. Pass --contract-id or set the env var.''))
      else if CMD env = js ''config'' then Some (cmd_config cli env fmt)
      else if CMD env = js ''proposals'' then cmd_proposals cli env fmt
      else if CMD env = js ''proposal'' then Some (cmd_proposal cli env fmt)
      else if CMD env = js ''votes'' then Some (cmd_votes cli env fmt)
      else if CMD env = js ''all'' then cmd_all cli env fmt
      else Some (die (js ''Unknown command: '' @ CMD env
        @ js ''. Use: config | proposals | proposal | votes | all'')))"

section \<open>Flags\<close>

text \<open>The flags of a command line with their values, read from left to right.\<close>

fun flag_pairs :: "jstring list \<Rightarrow> (jstring \<times> flag_value) list" where
  "flag_pairs [] = []"
| "flag_pairs [a] = (if starts_with a (js ''--'') then [(a, FlagTrue)] else [])"
| "flag_pairs (a # b # rest) =
     (if starts_with a (js ''--'')
      then if b \<noteq> [] \<and> \<not> starts_with b (js ''--'') then (a, FlagStr b) # flag_pairs rest
           else (a, FlagTrue) # flag_pairs (b # rest)
      else flag_pairs (b # rest))"

lemma upd_fold: "(\<lambda>a. if a = k then Some v else m a) = m(k \<mapsto> v)"
  by auto

lemma parseFlags_from_eq:
  "parseFlags_from argv i result = result ++ map_of (rev (flag_pairs (drop i argv)))"
proof (induction argv i result rule: parseFlags_from.induct)
  case (1 argv i result)
  show ?case
  proof (cases "i < length argv")
    case False
    then show ?thesis by (simp add: parseFlags_from.simps [of argv i])
  next
    case True
    then have d: "drop i argv = argv ! i # drop (i + 1) argv" by (simp add: Cons_nth_drop_Suc)
    show ?thesis
    proof (cases "i + 1 < length argv")
      case False
      with True have "drop (i + 1) argv = []" by simp
      with True d "1.IH" show ?thesis
        by (simp add: parseFlags_from.simps [of argv i] upd_fold)
    next
      case next': True
      then have "drop (i + 1) argv = argv ! (i + 1) # drop (i + 2) argv" by (simp add: Cons_nth_drop_Suc)
      with True next' d "1.IH" show ?thesis
        by (simp add: parseFlags_from.simps [of argv i] upd_fold)
    qed
  qed
qed

text \<open>
  The flag parser ends on every command line (its index moves by one or two each turn) and agrees with
  the left-to-right reading of the line: a flag has the value of its last occurrence, which is
  the next word unless that is missing, empty or a flag.
\<close>

theorem parseFlags_correct: "parseFlags argv = map_of (rev (flag_pairs argv))"
  by (simp add: parseFlags_def parseFlags_from_eq)

text \<open>One turn of the loop makes progress below \<open>2 ^ 53\<close>, in spite of rounding.\<close>

lemma increment_progress:
  assumes "0 \<le> r"
  shows "num_add (Fin r) (Fin 1) = PosInf
    \<or> (\<exists>q. num_add (Fin r) (Fin 1) = Fin q \<and> (r + 1 / 2 \<le> q \<or> 2 ^ 53 \<le> q))"
proof -
  let ?x = "r + 1"
  have p: "0 < ?x" using assms by simp
  have "r + 1 / 2 \<le> round_mag ?x \<or> 2 ^ 53 \<le> round_mag ?x"
  proof (cases "2 ^ 53 \<le> ?x")
    case True
    then show ?thesis by (intro disjI2 round_mag_ge_2_53)
  next
    case False
    then have "bin_exp ?x \<le> 52" by (intro bin_exp_less p) (simp add: pow2_def)
    then have "pow2 (ulp_exp ?x) \<le> pow2 0" by (intro pow2_mono) (simp add: ulp_exp_def)
    then have "pow2 (ulp_exp ?x) / 2 \<le> 1 / 2" by (simp add: pow2_def)
    with round_mag_error [of ?x] have "r + 1 / 2 \<le> round_mag ?x" by linarith
    then show ?thesis ..
  qed
  with p show ?thesis by (simp add: round64_def)
qed

lemma fetch_from_ends_bounded:
  "0 \<le> r \<Longrightarrow> c < 2 ^ 53 \<Longrightarrow> c - r < of_nat k / 2 \<Longrightarrow> fetch_from cli env fmt (Fin c) (Fin r) \<noteq> None"
proof (induction k arbitrary: r)
  case 0
  then show ?case by (subst fetch_from.simps) simp
next
  case (Suc k)
  have "fetch_from cli env fmt (Fin c) (num_add (Fin r) (Fin 1)) \<noteq> None"
    using increment_progress [OF Suc.prems(1)]
  proof (elim disjE exE conjE)
    fix q assume q: "num_add (Fin r) (Fin 1) = Fin q" and s: "r + 1 / 2 \<le> q"
    have "c - q < of_nat k / 2" "0 \<le> q" using Suc.prems s by (simp_all add: field_simps)
    from Suc.IH [OF this(2) Suc.prems(2) this(1)] show ?thesis unfolding q .
  next
    fix q assume q: "num_add (Fin r) (Fin 1) = Fin q" and s: "2 ^ 53 \<le> q"
    from less_le_trans [OF Suc.prems(2) s] show ?thesis unfolding q by (subst fetch_from.simps) simp
  next
    assume "num_add (Fin r) (Fin 1) = PosInf"
    then show ?thesis by (simp only:) (subst fetch_from.simps, simp)
  qed
  then show ?case
    by (subst fetch_from.simps) (auto simp del: num_add.simps split: sum.splits)
qed

lemma fetch_from_ends:
  assumes "\<not> num_le (Fin (2 ^ 53)) c"
  shows "fetch_from cli env fmt c (Math_max1 x) \<noteq> None"
proof (cases "num_le (Math_max1 x) c")
  case False
  then show ?thesis by (subst fetch_from.simps) simp
next
  case True
  then obtain r d where r: "Math_max1 x = Fin r" "c = Fin d"
    using assms by (cases "Math_max1 x"; cases c) (auto simp add: Math_max1_def split: if_splits)
  then have "1 \<le> r" by (cases x) (auto simp add: Math_max1_def split: if_splits)
  moreover have "d < 2 ^ 53" using assms r by (simp add: not_le)
  moreover obtain k where "2 * (d - r) < of_nat k" using reals_Archimedean2 by blast
  ultimately show ?thesis unfolding r by (intro fetch_from_ends_bounded) (simp_all add: field_simps)
qed

text \<open>
  C33. The tool always ends, with output and an exit status: the only loop runs up to the number of
  proposals, and makes progress as long as the CLI reports fewer than \<open>2 ^ 53\<close> of them.
\<close>

theorem inspect_terminates:
  assumes "\<And>v. cli (view_command env ''proposal_count'' []) = Parsed v \<Longrightarrow> \<not> num_le (Fin (2 ^ 53)) (to_number fmt v)"
  shows "\<exists>ls status. inspect_main cli env fmt = Some (ls, status)"
proof -
  have "\<not> num_le (Fin (2 ^ 53)) (to_number fmt (nullish (Some v) (JNum (Fin 0))))"
    if "invokeView cli env ''proposal_count'' [] = Inr v" for v
    using that assms by (cases v) (auto simp add: invokeView_def split: view_reply.splits if_splits)
  then have p: "fetchProposals cli env fmt l \<noteq> None" for l
    using fetch_from_ends by (simp add: fetchProposals_def Let_def del: not_None_eq split: sum.split)
  have "cmd_proposals cli env fmt \<noteq> None" "cmd_all cli env fmt \<noteq> None"
    using p by (simp_all add: cmd_proposals_def cmd_all_def del: not_None_eq split: sum.splits)
  then have "inspect_main cli env fmt \<noteq> None"
    by (simp add: inspect_main_def del: not_None_eq)
  then show ?thesis by (cases "inspect_main cli env fmt") auto
qed

text \<open>
  The bound is needed: from \<open>2 ^ 53\<close> on the increment is lost in rounding, and as long as the CLI answers the
  loop goes on for ever.
\<close>

lemma add_one_lost: "num_add (Fin (2 ^ 53)) (Fin 1) = Fin (2 ^ 53)"
proof -
  let ?x = "2 ^ 53 + 1 :: rat"
  have "53 \<le> bin_exp ?x" "bin_exp ?x < 54"
    using bin_exp_bounds [of ?x] pow2_less_iff [of 53 "bin_exp ?x + 1"] pow2_less_iff [of "bin_exp ?x" 54]
    by (simp_all add: pow2_def)
  then have u: "ulp_exp ?x = 1" by (simp add: ulp_exp_def)
  have "\<lfloor>?x / 2\<rfloor> = 2 ^ 52" by (rule floor_unique) simp_all
  then have "rne (?x / 2) = 2 ^ 52" by (simp add: rne_def)
  with u have "round_mag ?x = 2 ^ 53" by (simp add: round_mag_def pow2_def)
  moreover have "pow2 53 < pow2 1024" by (simp add: pow2_less_iff)
  ultimately show ?thesis by (simp add: round64_def) (simp add: pow2_def)
qed

lemma fetch_from_stuck:
  assumes "num_le (Fin (2 ^ 53)) cnt" and "\<And>i. \<exists>p. inspect_fetchProposal cli env fmt i = Inr p"
  shows "fetch_from cli env fmt cnt (Fin (2 ^ 53)) = None"
proof -
  have "num_le (Fin (2 ^ 53)) cnt \<and> (\<forall>i. \<exists>p. inspect_fetchProposal cli env fmt i = Inr p) \<longrightarrow> i \<noteq> Fin (2 ^ 53)"
    if "fetch_from cli env fmt cnt i = Some r" for i r
  proof (rule fetch_from.raw_induct [where P = "\<lambda>cli env fmt cnt i r. num_le (Fin (2 ^ 53)) cnt
      \<and> (\<forall>i. \<exists>p. inspect_fetchProposal cli env fmt i = Inr p) \<longrightarrow> i \<noteq> Fin (2 ^ 53)", OF _ that])
    fix fetch and cli :: cli and env fmt cnt i r
    assume ih: "\<And>cli env fmt cnt i r. fetch cli env fmt cnt i = Some r \<Longrightarrow> num_le (Fin (2 ^ 53)) cnt
        \<and> (\<forall>i. \<exists>p. inspect_fetchProposal cli env fmt i = Inr p) \<longrightarrow> i \<noteq> Fin (2 ^ 53)"
      and body: "(if num_le i cnt
        then case inspect_fetchProposal cli env fmt i of Inl e \<Rightarrow> Some (Inl e)
             | Inr p \<Rightarrow> Option.bind (fetch cli env fmt cnt (num_add i (Fin 1)))
                 (\<lambda>r. Some (case r of Inl e \<Rightarrow> Inl e
                    | Inr ps \<Rightarrow> Inr (if json_truthy (Some p) then p # ps else ps)))
        else Some (Inr [])) = Some r"
    show "num_le (Fin (2 ^ 53)) cnt \<and> (\<forall>i. \<exists>p. inspect_fetchProposal cli env fmt i = Inr p) \<longrightarrow> i \<noteq> Fin (2 ^ 53)"
    proof (intro impI notI)
      assume h: "num_le (Fin (2 ^ 53)) cnt \<and> (\<forall>i. \<exists>p. inspect_fetchProposal cli env fmt i = Inr p)" and i: "i = Fin (2 ^ 53)"
      from h obtain p where "inspect_fetchProposal cli env fmt i = Inr p" by blast
      with body h i add_one_lost obtain r' where "fetch cli env fmt cnt (Fin (2 ^ 53)) = Some r'"
        by (cases "fetch cli env fmt cnt (Fin (2 ^ 53))") (simp_all del: num_add.simps)
      from ih [OF this] h show False by simp
    qed
  qed
  with assms show ?thesis by (cases "fetch_from cli env fmt cnt (Fin (2 ^ 53))") auto
qed

section \<open>Which proposals are shown\<close>

text \<open>A contract with proposals \<open>0, \<dots>, n - 1\<close>, as the CLI presents it.\<close>

definition serves :: "cli \<Rightarrow> inspect_env \<Rightarrow> nat \<Rightarrow> (nat \<Rightarrow> json) \<Rightarrow> bool" where
  "serves cli env n P \<longleftrightarrow>
     invokeView cli env ''proposal_count'' [] = Inr (JNum (Fin (of_nat n)))
     \<and> (\<forall>i. invokeView cli env ''get_proposal'' [show_nat i] = Inr (if i < n then P i else JNull))
     \<and> (\<forall>i. json_truthy (Some (P i)))"

lemma fetch_served:
  assumes "serves cli env n P" and "n < 2 ^ 53"
  shows "i \<le> n + 1 \<Longrightarrow> fetch_from cli env fmt (Fin (of_nat n)) (Fin (of_nat i)) = Some (Inr (map P [i..<n]))"
proof (induction "n + 1 - i" arbitrary: i)
  case 0
  then show ?case by (subst fetch_from.simps) simp
next
  case (Suc m)
  have i: "i \<le> n" "i + 1 \<le> 2 ^ 53" using Suc.hyps(2) assms(2) by simp_all
  then have "(of_nat i :: rat) \<le> of_nat (2 ^ 53)" by (simp only: of_nat_le_iff)
  then have "num_to_string fmt (Fin (of_nat i)) = show_nat i" by (simp add: show_int_def)
  then have f: "inspect_fetchProposal cli env fmt (Fin (of_nat i)) = Inr (if i < n then P i else JNull)"
    using assms(1) by (simp add: inspect_fetchProposal_def serves_def)
  have "num_add (Fin (of_nat i)) (Fin 1) = Fin (of_nat (i + 1))"
    using round64_of_nat [OF i(2)] by (simp add: add.commute)
  moreover have "m = n + 1 - (i + 1)" "i + 1 \<le> n + 1" using Suc.hyps(2) i(1) by simp_all
  ultimately have r: "fetch_from cli env fmt (Fin (of_nat n)) (num_add (Fin (of_nat i)) (Fin 1)) = Some (Inr (map P [i + 1..<n]))"
    by (simp only: Suc.hyps(1))
  have t: "json_truthy (Some (P i))" using assms(1) by (simp add: serves_def)
  have "[i..<n] = (if i < n then i # [i + 1..<n] else [])" by (simp add: upt_rec)
  with i(1) show ?case
    by (subst fetch_from.simps) (simp add: f r t del: num_add.simps)
qed

lemma start_value:
  assumes "n < 2 ^ 53" and "l \<le> 2 ^ 53"
  shows "Math_max1 (num_add (num_add (Fin (of_nat n)) (num_neg (Fin (of_nat l)))) (Fin 1)) =
    Fin (of_nat (max 1 (n + 1 - l)))"
proof -
  have n: "int n < 2 ^ 53" "int l \<le> 2 ^ 53" using assms by (simp_all flip: of_nat_less_iff of_nat_le_iff)
  have a: "round64 (of_int (int n - int l)) = Fin (of_int (int n - int l))"
    using n by (intro round64_of_int) (simp add: abs_le_iff)
  have "round64 (of_int (int n - int l + 1)) = Fin (of_int (int n - int l + 1))"
    using n by (intro round64_of_int) (simp add: abs_le_iff)
  with a have sum: "num_add (num_add (Fin (of_nat n)) (num_neg (Fin (of_nat l)))) (Fin 1) =
      Fin (of_int (int n - int l + 1))"
    by (simp add: algebra_simps)
  show ?thesis
  proof (cases "l \<le> n")
    case True
    then have "int n - int l + 1 = int (n + 1 - l)" "1 \<le> n + 1 - l" by simp_all
    then show ?thesis unfolding sum by (simp add: Math_max1_def max_def)
  next
    case False
    then have "int n - int l + 1 \<le> 0" by simp
    then have "\<not> (1 :: rat) \<le> of_int (int n - int l + 1)" by (simp only: of_int_1_le_iff)
    with False show ?thesis unfolding sum by (auto simp add: Math_max1_def max_def)
  qed
qed

text \<open>
  The list of proposals starts at number one: of a contract with the proposals \<open>0, \<dots>, n - 1\<close> it shows, for a
  limit of \<open>l\<close>, the proposals \<open>max 1 (n + 1 - l), \<dots>, n - 1\<close>.  So proposal 0 is never shown, and at
  most \<open>l - 1\<close> of the \<open>l\<close> latest are.
\<close>

theorem inspect_misses_first:
  assumes "serves cli env n P" and "n < 2 ^ 53" and "l \<le> 2 ^ 53"
  shows "fetchProposals cli env fmt (Fin (of_nat l)) = Some (Inr (map P [max 1 (n + 1 - l)..<n]))"
proof -
  have "max 1 (n + 1 - l) \<le> n + 1" by simp
  from fetch_served [OF assms(1,2) this, of fmt] show ?thesis
    using assms(1) start_value [OF assms(2,3)]
    by (simp add: fetchProposals_def serves_def Let_def del: upt_Suc num_add.simps num_neg.simps)
qed

section \<open>Totals and commands\<close>

text \<open>
  The total of votes is a sum only if the CLI prints numbers.  If it prints the 128-bit counts as
  strings, the total is the three strings one after the other.
\<close>

theorem total_votes_by_type:
  assumes "json_prop ''votes_yes'' p = Some y" and "json_prop ''votes_no'' p = Some n"
    and "json_prop ''votes_abstain'' p = Some a"
  shows "(\<forall>i j k. [y, n, a] = map (JNum \<circ> Fin \<circ> of_nat) [i, j, k] \<and> i + j + k \<le> 2 ^ 53 \<longrightarrow>
        total_votes fmt p = JNum (Fin (of_nat (i + j + k))))
    \<and> (\<forall>s t u. [y, n, a] = map JStr [s, t, u] \<longrightarrow> total_votes fmt p = JStr (s @ t @ u))"
proof (intro conjI allI impI)
  fix i j k
  assume v: "[y, n, a] = map (JNum \<circ> Fin \<circ> of_nat) [i, j, k] \<and> i + j + k \<le> 2 ^ 53"
  then have "round64 (of_nat (i + j)) = Fin (of_nat (i + j))"
    "round64 (of_nat (i + j + k)) = Fin (of_nat (i + j + k))"
    by (intro round64_of_nat; simp)+
  with assms v show "total_votes fmt p = JNum (Fin (of_nat (i + j + k)))"
    by (simp add: total_votes_def js_plus_def)
next
  fix s t u
  assume "[y, n, a] = map JStr [s, t, u]"
  with assms show "total_votes fmt p = JStr (s @ t @ u)"
    by (simp add: total_votes_def js_plus_def)
qed

text \<open>
  An option before the command hides the command: the first word that is not a flag is taken as
  the command even when it is the value of an option, so a line with only an option and its value,
  which by the usage text shows everything, is refused.
\<close>

theorem option_value_taken_as_command:
  assumes "ie_args env = [f, v]" and "starts_with f (js ''--'')" and "\<not> starts_with v (js ''--'')"
    and "v \<notin> {js ''config'', js ''proposals'', js ''proposal'', js ''votes'', js ''all''}"
    and "inspect_CONTRACT_ID env \<noteq> []"
  shows "inspect_main cli env fmt = Some ([Err (js ''Error: Unknown command: '' @ v
    @ js ''. Use: config | proposals | proposal | votes | all'')], 1)"
proof -
  have "CMD env = v" using assms(1-3) by (simp add: CMD_def words_of_def)
  with assms(4,5) show ?thesis
    by (simp add: inspect_main_def die_def js_append [symmetric])
qed

section \<open>Examples\<close>

definition sample_inspect_env :: inspect_env where
  "sample_inspect_env = \<lparr>ie_args = [js ''--contract-id'', js ''C1''], ie_STELLAR_RPC_URL = None,
     ie_GOVERNANCE_CONTRACT_ID = None\<rparr>"

definition sample_view :: json where
  "sample_view = JObj [(js ''votes_yes'', JStr (js ''6'')), (js ''votes_no'', JStr (js ''3'')), (js ''votes_abstain'', JStr (js ''1''))]"

lemma sample_contract_id: "inspect_CONTRACT_ID sample_inspect_env = js ''C1''"
  by (simp add: inspect_CONTRACT_ID_def sample_inspect_env_def parseFlags_def parseFlags_from_eq
      starts_with_def js_def of_char_def)

theorem option_value_taken_as_command_witness:
  "inspect_main (\<lambda>_. Unparsable) sample_inspect_env (\<lambda>_. []) =
     Some ([Err (js ''Error: Unknown command: '' @ js ''C1''
       @ js ''. Use: config | proposals | proposal | votes | all'')], 1)"
  by (rule option_value_taken_as_command [of _ "js ''--contract-id''"])
     (simp_all add: sample_contract_id, simp_all add: sample_inspect_env_def starts_with_def js_def of_char_def)

theorem total_votes_by_type_witness:
  "total_votes (\<lambda>_. []) sample_view = JStr (js ''6'' @ js ''3'' @ js ''1'')"
proof -
  have "json_prop ''votes_yes'' sample_view = Some (JStr (js ''6''))" "json_prop ''votes_no'' sample_view = Some (JStr (js ''3''))"
    "json_prop ''votes_abstain'' sample_view = Some (JStr (js ''1''))"
    by (simp_all add: sample_view_def)
  from total_votes_by_type [OF this, of "\<lambda>_. []"] show ?thesis by (metis list.map)
qed

text \<open>A CLI that shows two proposals, with the reply chosen by the end of the command.\<close>

definition sample_cli :: "inspect_env \<Rightarrow> cli" where
  "sample_cli env cmd =
     (if cmd = view_command env ''proposal_count'' [] then Parsed (JNum (Fin (of_nat 2)))
      else if cmd = view_command env ''get_proposal'' [show_nat 0] \<or> cmd = view_command env ''get_proposal'' [show_nat 1]
      then Parsed sample_view else CliError (js ''not found''))"

lemma view_command_inject [simp]:
  "view_command env ''get_proposal'' [x] = view_command env ''get_proposal'' [y] \<longleftrightarrow> x = y"
  "view_command env ''get_proposal'' [x] \<noteq> view_command env ''proposal_count'' []"
  by (simp_all add: view_command_def) (simp add: js_def of_char_def)

lemma sample_cli_serves: "serves (sample_cli env) env 2 (\<lambda>_. sample_view)"
proof -
  have "js_includes (js ''not found'') (js ''not found'')" by (simp add: includes_iff) (metis append_Nil append_Nil2)
  then show ?thesis
    by (auto simp add: serves_def invokeView_def sample_cli_def show_nat_inject less_2_cases_iff sample_view_def)
qed

theorem inspect_misses_first_witness:
  "fetchProposals (sample_cli sample_inspect_env) sample_inspect_env (\<lambda>_. []) (Fin (of_nat 10)) =
     Some (Inr [sample_view])"
proof -
  have "(2 :: nat) < 2 ^ 53" "(10 :: nat) \<le> 2 ^ 53" by simp_all
  from inspect_misses_first [OF sample_cli_serves this, of sample_inspect_env "\<lambda>_. []"] show ?thesis
    by (simp add: upt_rec)
qed

text \<open>The list command on a contract with two proposals: the loop runs, and shows the one it reaches.\<close>

definition list_env :: inspect_env where
  "list_env = \<lparr>ie_args = [js ''proposals''], ie_STELLAR_RPC_URL = None,
     ie_GOVERNANCE_CONTRACT_ID = Some (js ''C1'')\<rparr>"

lemma parse_ten: "js_parseInt (js ''10'') = Fin (of_nat 10)"
proof -
  have "js_parseInt (js ''10'') = round64 (of_nat 10)"
    by (simp add: js_parseInt_def js_def of_char_def is_space_def is_digit_def starts_with_def digits_val_def Let_def)
  then show ?thesis using round64_of_nat [of 10] by (simp only:) simp
qed

lemma list_env_command: "inspect_CONTRACT_ID list_env = js ''C1''" "CMD list_env = js ''proposals''"
  "LIMIT list_env = Fin (of_nat 10)"
proof -
  have "parseFlags (ie_args list_env) = Map.empty" "words_of list_env = [js ''proposals'']"
    by (simp_all add: words_of_def list_env_def parseFlags_def parseFlags_from_eq starts_with_def js_def of_char_def)
  then show "inspect_CONTRACT_ID list_env = js ''C1''" "CMD list_env = js ''proposals''"
    "LIMIT list_env = Fin (of_nat 10)"
    by (simp_all only: inspect_CONTRACT_ID_def CMD_def LIMIT_def parse_ten option.case list.case)
       (simp add: list_env_def)
qed

theorem inspect_terminates_witness:
  "CMD list_env = js ''proposals'' \<and> inspect_CONTRACT_ID list_env \<noteq> []
   \<and> fetchProposals (sample_cli list_env) list_env (\<lambda>_. []) (LIMIT list_env) = Some (Inr [sample_view])
   \<and> (\<exists>ls status. inspect_main (sample_cli list_env) list_env (\<lambda>_. []) = Some (ls, status))"
proof (intro conjI)
  have "(2 :: nat) < 2 ^ 53" "(10 :: nat) \<le> 2 ^ 53" by simp_all
  from inspect_misses_first [OF sample_cli_serves this, of list_env "\<lambda>_. []"]
  show "fetchProposals (sample_cli list_env) list_env (\<lambda>_. []) (LIMIT list_env) = Some (Inr [sample_view])"
    by (simp add: list_env_command upt_rec)
  show "\<exists>ls status. inspect_main (sample_cli list_env) list_env (\<lambda>_. []) = Some (ls, status)"
    by (rule inspect_terminates) (auto simp add: sample_cli_def)
qed (simp_all add: list_env_command js_def)

end
