(* ===== verification/Service_Worker.thy ===== *)
theory Service_Worker
  imports JS_Prelude
begin

text \<open>
  \<^verbatim>\<open>frontend/public/sw.js\<close>: the service worker of the front end, which answers from the network and falls
  back to its cache.  The browser's caches are an association list from names to stores, in the
  order of their creation, as \<open>caches.match\<close> searches them; the network is a parameter.  Storing a
  response, which the handler starts and does not wait for, is part of the step that answers with it: a request is taken to
  come after the storing that earlier ones started.  Of the header \<^verbatim>\<open>Vary\<close> only the value \<^verbatim>\<open>*\<close>, with which nothing can be
  stored, is modelled.
\<close>

section \<open>Definitions\<close>

datatype mode = Navigate | OtherMode

record sw_request =
  rq_method :: jstring
  rq_url :: jstring
  rq_mode :: mode
  rq_http :: bool

record response =
  rs_status :: nat
  rs_body :: jstring
  rs_vary_any :: bool

type_synonym cache = "jstring \<rightharpoonup> response"
type_synonym caches = "(jstring \<times> cache) list"
type_synonym network = "jstring \<Rightarrow> response result"

definition CACHE :: jstring where
  "CACHE = js ''cosmosvote-v1''"

definition APP_SHELL :: "jstring list" where
  "APP_SHELL = [js ''/'', js ''/index.html'', js ''/offline.html'', js ''/manifest.json'', js ''/favicon.svg'']"

text \<open>\<open>caches.open(name)\<close> followed by a change of that cache; opening creates it at the end.\<close>

fun with_cache :: "jstring \<Rightarrow> (cache \<Rightarrow> cache) \<Rightarrow> caches \<Rightarrow> caches" where
  "with_cache n f [] = [(n, f Map.empty)]"
| "with_cache n f ((k, c) # cs) = (if k = n then (k, f c) # cs else (k, c) # with_cache n f cs)"

fun caches_match :: "jstring \<Rightarrow> caches \<Rightarrow> response option" where
  "caches_match u [] = None"
| "caches_match u ((k, c) # cs) = (case c u of Some r \<Rightarrow> Some r | None \<Rightarrow> caches_match u cs)"

text \<open>What a cache accepts: no partial content and no response that varies on everything.\<close>

definition storable :: "response \<Rightarrow> bool" where
  "storable r \<longleftrightarrow> rs_status r \<noteq> 206 \<and> \<not> rs_vary_any r"

text \<open>\<open>cache.addAll\<close>: every request must succeed with a storable response of a status from 200 to 299, or nothing is stored.\<close>

definition response_ok :: "response result \<Rightarrow> bool" where
  "response_ok r = (case r of Inl _ \<Rightarrow> False | Inr s \<Rightarrow> 200 \<le> rs_status s \<and> rs_status s \<le> 299 \<and> storable s)"

definition addAll :: "network \<Rightarrow> jstring list \<Rightarrow> cache \<Rightarrow> cache result" where
  "addAll net urls c =
     (if list_all (\<lambda>u. response_ok (net u)) urls
      then Inr (foldl (\<lambda>m u. m(u \<mapsto> projr (net u))) c urls)
      else Inl (ErrorObj (js ''TypeError'') (js ''Failed to execute 'addAll' on 'Cache': Request failed'')))"

definition on_install :: "network \<Rightarrow> caches \<Rightarrow> caches \<times> unit result" where
  "on_install net cs =
     (let opened = with_cache CACHE id cs;
          c = the (map_of opened CACHE)
      in case addAll net APP_SHELL c of
           Inl e \<Rightarrow> (opened, Inl e)
         | Inr c' \<Rightarrow> (with_cache CACHE (\<lambda>_. c') opened, Inr ()))"

definition on_activate :: "caches \<Rightarrow> caches" where
  "on_activate cs = filter (\<lambda>(k, c). k = CACHE) cs"

text \<open>
  \<open>cache.put\<close> is refused for a request that is not HTTP and for a response that cannot be stored; the handler
  ignores that.  The answer is \<open>None\<close> when the worker does not answer and the browser goes to the network itself.
\<close>

definition put :: "sw_request \<Rightarrow> response \<Rightarrow> cache \<Rightarrow> cache" where
  "put request r c = (if rq_http request \<and> storable r then c(rq_url request \<mapsto> r) else c)"

definition on_fetch :: "network \<Rightarrow> sw_request \<Rightarrow> caches \<Rightarrow> response option option \<times> caches" where
  "on_fetch net request cs =
     (if rq_method request \<noteq> js ''GET'' then (None, cs)
      else case net (rq_url request) of
             Inr r \<Rightarrow> (Some (Some r), with_cache CACHE (put request r) cs)
           | Inl _ \<Rightarrow>
               (Some (case caches_match (rq_url request) cs of
                        Some cached \<Rightarrow> Some cached
                      | None \<Rightarrow> if rq_mode request = Navigate then caches_match (js ''/offline.html'') cs
                                else Some \<lparr>rs_status = 503, rs_body = [], rs_vary_any = False\<rparr>), cs))"

section \<open>Sessions\<close>

text \<open>A session of the active worker: requests, each with the network as it is at that moment.\<close>

fun session :: "(network \<times> sw_request) list \<Rightarrow> caches \<Rightarrow> caches" where
  "session [] cs = cs"
| "session ((net, rq) # rest) cs = session rest (snd (on_fetch net rq cs))"

text \<open>The last response the network gave to a GET request for a URL, of those that can be stored.\<close>

fun last_seen :: "(network \<times> sw_request) list \<Rightarrow> jstring \<Rightarrow> response option" where
  "last_seen [] u = None"
| "last_seen ((net, rq) # rest) u =
     (case last_seen rest u of
        Some r \<Rightarrow> Some r
      | None \<Rightarrow> if rq_method rq = js ''GET'' \<and> rq_url rq = u
                then (case net u of
                        Inr r \<Rightarrow> if rq_http rq \<and> storable r then Some r else None
                      | Inl _ \<Rightarrow> None) else None)"

lemma foldl_upd: "foldl (\<lambda>m u. m(u \<mapsto> f u)) c us = (\<lambda>u. if u \<in> set us then Some (f u) else c u)"
  by (induction us arbitrary: c) (auto simp add: fun_eq_iff)

lemma map_of_with_cache:
  "map_of (with_cache n f cs) n = Some (f (case map_of cs n of Some c \<Rightarrow> c | None \<Rightarrow> Map.empty))"
  by (induction cs) auto

lemma activate_with_cache:
  "distinct (map fst cs) \<Longrightarrow> on_activate (with_cache CACHE f cs) =
     [(CACHE, f (case map_of cs CACHE of Some c \<Rightarrow> c | None \<Rightarrow> Map.empty))]"
proof (induction cs)
  case Nil
  then show ?case by (simp add: on_activate_def)
next
  case (Cons kc cs)
  obtain k c where kc: "kc = (k, c)" by (cases kc)
  show ?case
  proof (cases "k = CACHE")
    case True
    with Cons.prems kc have "filter (\<lambda>(k, c). k = CACHE) cs = []" by (force simp add: filter_empty_conv)
    with True kc show ?thesis by (simp add: on_activate_def)
  next
    case False
    with Cons kc show ?thesis by (simp add: on_activate_def)
  qed
qed

lemma with_cache_twice: "with_cache n f (with_cache n g cs) = with_cache n (f \<circ> g) cs"
  by (induction cs) auto

text \<open>
  After a successful installation and activation there is one cache, and it holds the application
  shell as the network served it.
\<close>

lemma installed:
  assumes "on_install net cs = (cs', Inr ())" and "distinct (map fst cs)"
  obtains c where "on_activate cs' = [(CACHE, c)]"
    and "\<And>u. c u = (if u \<in> set APP_SHELL then Some (projr (net u))
      else case map_of cs CACHE of Some old \<Rightarrow> old u | None \<Rightarrow> None)"
proof -
  obtain c' where a: "addAll net APP_SHELL (the (map_of (with_cache CACHE id cs) CACHE)) = Inr c'"
    and cs': "cs' = with_cache CACHE (\<lambda>_. c') (with_cache CACHE id cs)"
    using assms(1) by (auto simp add: on_install_def Let_def split: sum.splits)
  have "on_activate cs' = [(CACHE, c')]"
    unfolding cs' with_cache_twice activate_with_cache [OF assms(2)] by simp
  moreover from a have "c' u = (if u \<in> set APP_SHELL then Some (projr (net u))
      else case map_of cs CACHE of Some old \<Rightarrow> old u | None \<Rightarrow> None)" for u
    by (auto simp add: addAll_def foldl_upd map_of_with_cache split: if_splits option.splits)
  ultimately show ?thesis using that by blast
qed

lemma session_cache:
  "session evs [(CACHE, c)] = [(CACHE, \<lambda>u. case last_seen evs u of Some r \<Rightarrow> Some r | None \<Rightarrow> c u)]"
proof (induction evs arbitrary: c)
  case Nil
  then show ?case by simp
next
  case (Cons ev evs)
  obtain net rq where ev: "ev = (net, rq)" by (cases ev)
  show ?case
    by (cases "net (rq_url rq)")
       (auto simp add: ev on_fetch_def put_def Cons fun_eq_iff split: option.splits)
qed

text \<open>
  C32. Working offline: once the worker is installed and active, a GET request that the network cannot
  answer gets the last response the network gave for that URL in this session, of those a cache can hold; failing
  that the installed copy, if the URL belongs to the application shell; failing that, and nothing else
  being stored, the offline page for a navigation and an empty 503 answer otherwise.
\<close>

theorem offline_answer:
  assumes "on_install net0 [] = (cs, Inr ())" and "rq_method rq = js ''GET''" and "net (rq_url rq) = Inl e"
  shows "fst (on_fetch net rq (session evs (on_activate cs))) =
    Some (case last_seen evs (rq_url rq) of
            Some r \<Rightarrow> Some r
          | None \<Rightarrow>
              if rq_url rq \<in> set APP_SHELL then Some (projr (net0 (rq_url rq)))
              else if rq_mode rq = Navigate
              then (case last_seen evs (js ''/offline.html'') of
                      Some r \<Rightarrow> Some r | None \<Rightarrow> Some (projr (net0 (js ''/offline.html''))))
              else Some \<lparr>rs_status = 503, rs_body = [], rs_vary_any = False\<rparr>)"
proof -
  obtain c where "on_activate cs = [(CACHE, c)]"
    and c: "\<And>u. c u = (if u \<in> set APP_SHELL then Some (projr (net0 u)) else None)"
    by (rule installed [OF assms(1)]) simp_all
  moreover have "js ''/offline.html'' \<in> set APP_SHELL" by (simp add: APP_SHELL_def)
  ultimately show ?thesis
    using assms(2,3) by (simp add: on_fetch_def session_cache c split: option.splits)
qed

definition sample_request :: "string \<Rightarrow> sw_request" where
  "sample_request u = \<lparr>rq_method = js ''GET'', rq_url = js u, rq_mode = Navigate, rq_http = True\<rparr>"

theorem offline_answer_witness:
  "\<exists>cs. on_install (\<lambda>u. Inr \<lparr>rs_status = 200, rs_body = u, rs_vary_any = False\<rparr>) [] = (cs, Inr ())
    \<and> fst (on_fetch (\<lambda>_. Inl (new_Error [])) (sample_request ''/proposals'') (session [] (on_activate cs))) =
        Some (Some \<lparr>rs_status = 200, rs_body = js ''/offline.html'', rs_vary_any = False\<rparr>)"
proof -
  obtain cs where i: "on_install (\<lambda>u. Inr \<lparr>rs_status = 200, rs_body = u, rs_vary_any = False\<rparr>) [] = (cs, Inr ())"
    by (simp add: on_install_def addAll_def response_ok_def storable_def APP_SHELL_def Let_def)
  have "js ''/proposals'' \<notin> set APP_SHELL" by (simp add: APP_SHELL_def)
  with i offline_answer [OF i, of "sample_request ''/proposals''" "\<lambda>_. Inl (new_Error [])" "new_Error []" "[]"]
  show ?thesis by (intro exI [of _ cs]) (simp add: sample_request_def)
qed

text \<open>Activation removes the caches of earlier versions and keeps its own.\<close>

lemma activate_only_current:
  "set (on_activate cs) \<subseteq> set cs \<and> fst ` set (on_activate cs) \<subseteq> {CACHE}
   \<and> map_of (on_activate cs) CACHE = map_of cs CACHE"
  by (induction cs) (auto simp add: on_activate_def)

end
