(* ===== verification/Soroban_Host.thy ===== *)
theory Soroban_Host
  imports Main
begin

text \<open>
  What the three contracts of \<^verbatim>\<open>src/contracts\<close> use of Rust and of the Soroban host: the ways a call can
  fail, integers at their width, the environment of a call, and sums over maps for the specifications.

  A call either succeeds with a value, returns an error of the contract (\<open>Err\<close>), or traps: a panic, an
  \<open>unwrap\<close> of nothing, a failed authorisation, an arithmetic overflow (the release profile sets
  \<^verbatim>\<open>overflow-checks = true\<close>) or a failing call of another contract.  In all cases but success the host
  discards every change, so a failed call has no new state.
\<close>

section \<open>Outcomes\<close>

datatype 'e fault = Err (the_err: 'e) | Trap

type_synonym ('e, 'a) outcome = "'e fault + 'a"

type_synonym Address = string

text \<open>
  The environment of a call: the time and the number of the ledger, who has authorised the call
  (\<open>require_auth\<close>), and what the host does when a contract extends the lifetime of an entry that does
  not exist (\<open>e_extend_missing\<close>: it goes on; otherwise it traps).
\<close>

record env =
  e_timestamp :: nat
  e_sequence :: nat
  e_auth :: "Address \<Rightarrow> bool"
  e_extend_missing :: bool

section \<open>Guards\<close>

text \<open>Run the rest of an operation when a guard passes.\<close>

definition after :: "'e fault option \<Rightarrow> ('e, 'a) outcome \<Rightarrow> ('e, 'a) outcome" where
  "after guard rest = (case guard of Some f \<Rightarrow> Inl f | None \<Rightarrow> rest)"

definition require_auth :: "env \<Rightarrow> Address \<Rightarrow> 'e fault option" where
  "require_auth env a = (if e_auth env a then None else Some Trap)"

definition ok_or_trap :: "'a option \<Rightarrow> ('a \<Rightarrow> ('e, 'b) outcome) \<Rightarrow> ('e, 'b) outcome" where
  "ok_or_trap x rest = (case x of Some v \<Rightarrow> rest v | None \<Rightarrow> Inl Trap)"

lemma after_Inr [simp]: "after guard rest = Inr x \<longleftrightarrow> guard = None \<and> rest = Inr x"
  by (simp add: after_def split: option.splits)

lemma after_None [simp]: "after None rest = rest"
  by (simp add: after_def)

lemma after_Some [simp]: "after (Some f) rest = Inl f"
  by (simp add: after_def)

lemma require_auth_None [simp]: "require_auth env a = None \<longleftrightarrow> e_auth env a"
  by (simp add: require_auth_def)

lemma ok_or_trap_Inr [simp]: "ok_or_trap x rest = Inr y \<longleftrightarrow> (\<exists>v. x = Some v \<and> rest v = Inr y)"
  by (simp add: ok_or_trap_def split: option.splits)

section \<open>Integers\<close>

definition i128_max :: int where
  "i128_max = 2 ^ 127 - 1"

definition in_i128 :: "int \<Rightarrow> bool" where
  "in_i128 x \<longleftrightarrow> - i128_max - 1 \<le> x \<and> x \<le> i128_max"

definition u64_max :: nat where
  "u64_max = 2 ^ 64 - 1"

definition u32_max :: nat where
  "u32_max = 2 ^ 32 - 1"

text \<open>Results out of range are \<open>None\<close>: an error or a trap, as the caller says.\<close>

definition i128 :: "int \<Rightarrow> int option" where
  "i128 x = (if in_i128 x then Some x else None)"

definition u64_add :: "nat \<Rightarrow> nat \<Rightarrow> nat option" where
  "u64_add a b = (if a + b \<le> u64_max then Some (a + b) else None)"

definition u32_add :: "nat \<Rightarrow> nat \<Rightarrow> nat option" where
  "u32_add a b = (if a + b \<le> u32_max then Some (a + b) else None)"

text \<open>Division of \<open>i128\<close> rounds towards zero.\<close>

definition trunc_div :: "int \<Rightarrow> int \<Rightarrow> int" where
  "trunc_div a b = sgn a * sgn b * (\<bar>a\<bar> div \<bar>b\<bar>)"

definition checked_div :: "int \<Rightarrow> int \<Rightarrow> int option" where
  "checked_div a b = (if b = 0 then None else i128 (trunc_div a b))"

definition saturating_add :: "int \<Rightarrow> int \<Rightarrow> int" where
  "saturating_add a b = max (- i128_max - 1) (min i128_max (a + b))"

lemma i128_Some [simp]: "i128 x = Some y \<longleftrightarrow> y = x \<and> in_i128 x"
  by (auto simp add: i128_def)

lemma i128_None [simp]: "i128 x = None \<longleftrightarrow> \<not> in_i128 x"
  by (simp add: i128_def)

lemma u64_add_Some [simp]: "u64_add a b = Some c \<longleftrightarrow> c = a + b \<and> a + b \<le> u64_max"
  by (auto simp add: u64_add_def)

lemma u64_add_None [simp]: "u64_add a b = None \<longleftrightarrow> \<not> a + b \<le> u64_max"
  by (simp add: u64_add_def)

lemma u32_add_Some [simp]: "u32_add a b = Some c \<longleftrightarrow> c = a + b \<and> a + b \<le> u32_max"
  by (auto simp add: u32_add_def)

lemma u32_add_None [simp]: "u32_add a b = None \<longleftrightarrow> \<not> a + b \<le> u32_max"
  by (simp add: u32_add_def)

lemma in_i128_0 [simp]: "in_i128 0"
  by (simp add: in_i128_def i128_max_def)

lemma in_i128_between: "in_i128 b \<Longrightarrow> 0 \<le> a \<Longrightarrow> a \<le> b \<Longrightarrow> in_i128 a"
  by (simp add: in_i128_def i128_max_def)

lemma in_i128_diff: "in_i128 a \<Longrightarrow> 0 \<le> b \<Longrightarrow> b \<le> a \<Longrightarrow> in_i128 (a - b)"
  by (simp add: in_i128_def i128_max_def)

lemma saturating_add_exact: "in_i128 (a + b) \<Longrightarrow> saturating_add a b = a + b"
  by (simp add: saturating_add_def in_i128_def)

text \<open>A literal is in range when it is below \<open>2 ^ 64\<close>, which simplification decides.\<close>

lemma in_i128_small: "0 \<le> x \<Longrightarrow> x < 18446744073709551616 \<Longrightarrow> in_i128 x"
  by (simp add: in_i128_def i128_max_def)

section \<open>Sums over maps\<close>

definition at_or_0 :: "('k \<rightharpoonup> int) \<Rightarrow> 'k \<Rightarrow> int" where
  "at_or_0 m k = (case m k of None \<Rightarrow> 0 | Some x \<Rightarrow> x)"

definition map_total :: "('k \<rightharpoonup> int) \<Rightarrow> int" where
  "map_total m = (\<Sum>k \<in> dom m. at_or_0 m k)"

lemma at_or_0_upd [simp]:
  "at_or_0 (m(k \<mapsto> x)) k' = (if k' = k then x else at_or_0 m k')"
  "at_or_0 (m(k := None)) k' = (if k' = k then 0 else at_or_0 m k')"
  by (simp_all add: at_or_0_def)

lemma at_or_0_empty [simp]: "at_or_0 Map.empty k = 0"
  by (simp add: at_or_0_def)

lemma map_total_empty [simp]: "map_total Map.empty = 0"
  by (simp add: map_total_def)

lemma map_total_insert_dom: "finite (dom m) \<Longrightarrow> map_total m = (\<Sum>x \<in> insert k (dom m). at_or_0 m x)"
  unfolding map_total_def
  by (rule sum.mono_neutral_left) (auto simp add: at_or_0_def split: option.splits)

lemma map_total_split:
  assumes "finite (dom m)"
  shows "map_total m = at_or_0 m k + (\<Sum>x \<in> dom m - {k}. at_or_0 m x)"
  unfolding map_total_insert_dom [OF assms, of k]
  using sum.insert_remove [OF assms, of "at_or_0 m" k] by simp

lemma map_total_upd [simp]:
  assumes "finite (dom m)"
  shows "map_total (m(k \<mapsto> x)) = map_total m - at_or_0 m k + x"
proof -
  have "(\<Sum>y \<in> dom (m(k \<mapsto> x)) - {k}. at_or_0 (m(k \<mapsto> x)) y) = (\<Sum>y \<in> dom m - {k}. at_or_0 m y)"
    by (rule sum.cong) auto
  then show ?thesis
    using map_total_split [of "m(k \<mapsto> x)" k] map_total_split [OF assms, of k] assms by simp
qed

lemma map_total_del [simp]:
  assumes "finite (dom m)"
  shows "map_total (m(k := None)) = map_total m - at_or_0 m k"
proof -
  have "(\<Sum>y \<in> dom (m(k := None)) - {k}. at_or_0 (m(k := None)) y) = (\<Sum>y \<in> dom m - {k}. at_or_0 m y)"
    by (rule sum.cong) auto
  then show ?thesis
    using map_total_split [of "m(k := None)" k] map_total_split [OF assms, of k] assms by simp
qed

lemma map_total_nonneg: "(\<And>k. 0 \<le> at_or_0 m k) \<Longrightarrow> 0 \<le> map_total m"
  by (simp add: map_total_def sum_nonneg)

lemma sum_le_map_total:
  assumes "finite (dom m)" and "\<And>k. 0 \<le> at_or_0 m k" and "finite A"
  shows "(\<Sum>k \<in> A. at_or_0 m k) \<le> map_total m"
proof -
  have "(\<Sum>k \<in> A. at_or_0 m k) = (\<Sum>k \<in> A \<inter> dom m. at_or_0 m k)"
    using assms(3) by (intro sum.mono_neutral_right) (auto simp add: at_or_0_def split: option.splits)
  also have "\<dots> \<le> map_total m"
    unfolding map_total_def by (rule sum_mono2) (use assms in auto)
  finally show ?thesis .
qed

lemma at_or_0_le_map_total:
  "finite (dom m) \<Longrightarrow> (\<And>k. 0 \<le> at_or_0 m k) \<Longrightarrow> at_or_0 m k \<le> map_total m"
  using sum_le_map_total [of m "{k}"] by simp

lemma two_le_map_total:
  "finite (dom m) \<Longrightarrow> (\<And>k. 0 \<le> at_or_0 m k) \<Longrightarrow> a \<noteq> b \<Longrightarrow> at_or_0 m a + at_or_0 m b \<le> map_total m"
  using sum_le_map_total [of m "{a, b}"] by simp

end
