(* ===== verification/Governance_Contract.thy ===== *)
theory Governance_Contract
  imports Soroban_Host JS_Prelude
begin

text \<open>
  The governance contract, \<^verbatim>\<open>contracts/governance/src\<close>: types, storage, every operation of \<^verbatim>\<open>lib.rs\<close> as a
  function of the environment and the storage, and the transition system they form.  The properties are
  in \<^verbatim>\<open>Governance_Properties\<close>.

  Other contracts are parameters.  \<open>TokenClient\<close> is what the contract at an address answers to the queries
  of \<open>TokenInterface\<close> (no contract there: \<open>None\<close>, a trap); the treasury's \<open>disburse\<close> is a function on the
  rest of the ledger, \<open>'w\<close>.

  The source uses names it does not declare.  \<open>finalise\<close> and \<open>cancel\<close> use the fields \<open>choices\<close>,
  \<open>winning_choice\<close> and \<open>cancellation_reason\<close>, which the model's proposal has beside those of \<^verbatim>\<open>types.rs\<close>;
  \<open>create_proposal\<close> sets none of them, so they start empty.  The accessor \<open>choice_votes\<close> is an argument
  of \<open>finalise\<close>.  The matches on a vote have no arm for \<open>Choice\<close>; in the model a call that reaches one of
  them with a choice traps.  \<open>upgrade\<close> is defined twice, with different events; the event is an
  argument of the model's \<open>gov_upgrade\<close>.
\<close>

section \<open>Types\<close>

datatype GovError =
    AlreadyInitialized | NotInitialized
  | ProposalNotFound | ProposalNotActive | ProposalNotPassed | InvalidTitle | InvalidDescription
  | InvalidQuorum | QuorumExceedsSupply | InvalidDurationRange | InsufficientBalance | ProposalCooldown
  | QuorumBelowFloor | ProposalsStillActive
  | VotingNotStarted | VotingPeriodEnded | VotingStillOpen | AlreadyVoted | NoVotingPower
  | AdminVoteRestricted | VoteNotFound | VoteAlreadySame
  | NotAdmin | InvalidNewAdmin | QuorumUpdateNotAllowed | NoPendingAdmin | NotPendingAdmin | NotProposer
  | VotesAlreadyCast | InvalidLink
  | ContractPaused | NotPaused | ArithmeticOverflow | ExecutionFailed

text \<open>Names and codes, in the order of the declaration.\<close>

definition gov_error_table :: "(GovError \<times> string \<times> nat) list" where
  "gov_error_table =
     [(AlreadyInitialized, ''AlreadyInitialized'', 1), (NotInitialized, ''NotInitialized'', 2),
      (ProposalNotFound, ''ProposalNotFound'', 10), (ProposalNotActive, ''ProposalNotActive'', 11),
      (ProposalNotPassed, ''ProposalNotPassed'', 12), (InvalidTitle, ''InvalidTitle'', 13),
      (InvalidDescription, ''InvalidDescription'', 14), (InvalidQuorum, ''InvalidQuorum'', 15),
      (QuorumExceedsSupply, ''QuorumExceedsSupply'', 16), (InvalidDurationRange, ''InvalidDurationRange'', 17),
      (InsufficientBalance, ''InsufficientBalance'', 18), (ProposalCooldown, ''ProposalCooldown'', 19),
      (QuorumBelowFloor, ''QuorumBelowFloor'', 20), (ProposalsStillActive, ''ProposalsStillActive'', 21),
      (VotingNotStarted, ''VotingNotStarted'', 22), (VotingPeriodEnded, ''VotingPeriodEnded'', 23),
      (VotingStillOpen, ''VotingStillOpen'', 24), (AlreadyVoted, ''AlreadyVoted'', 25),
      (NoVotingPower, ''NoVotingPower'', 26), (AdminVoteRestricted, ''AdminVoteRestricted'', 27),
      (VoteNotFound, ''VoteNotFound'', 28), (VoteAlreadySame, ''VoteAlreadySame'', 29),
      (NotAdmin, ''NotAdmin'', 30), (InvalidNewAdmin, ''InvalidNewAdmin'', 31),
      (QuorumUpdateNotAllowed, ''QuorumUpdateNotAllowed'', 32), (NoPendingAdmin, ''NoPendingAdmin'', 33),
      (NotPendingAdmin, ''NotPendingAdmin'', 34), (NotProposer, ''NotProposer'', 35),
      (VotesAlreadyCast, ''VotesAlreadyCast'', 36), (InvalidLink, ''InvalidLink'', 37),
      (ContractPaused, ''ContractPaused'', 40), (NotPaused, ''NotPaused'', 41),
      (ArithmeticOverflow, ''ArithmeticOverflow'', 50), (ExecutionFailed, ''ExecutionFailed'', 60)]"

definition gov_error_name :: "GovError \<Rightarrow> string" where
  "gov_error_name e = (case map_of gov_error_table e of Some (n, _) \<Rightarrow> n | None \<Rightarrow> [])"

definition gov_error_code :: "GovError \<Rightarrow> nat" where
  "gov_error_code e = (case map_of gov_error_table e of Some (_, c) \<Rightarrow> c | None \<Rightarrow> 0)"

datatype TreasuryAsset = Native | Token Address

record TreasuryAction =
  ta_recipient :: Address
  ta_amount :: int
  ta_asset :: TreasuryAsset

datatype GovProposalState = PActive | PPassed | PRejected | PExecuted | PCancelled

record gov_proposal =
  p_id :: nat
  p_proposer :: Address
  p_title :: string
  p_description :: string
  p_link :: "string option"
  p_votes_yes :: int
  p_votes_no :: int
  p_votes_abstain :: int
  p_quorum :: int
  p_start_time :: nat
  p_end_time :: nat
  p_state :: GovProposalState
  p_snapshot_ledger :: nat
  p_voter_count :: nat
  p_treasury_action :: "TreasuryAction list"
  p_choices :: "string list"
  p_winning_choice :: "nat option"
  p_cancellation_reason :: "string option"

datatype Vote = VYes | VNo | VAbstain | Choice nat

record gov_vote =
  v_vote :: Vote
  v_weight :: int

record GovernanceConfig =
  gc_admin :: Address
  gc_voting_token :: Address
  gc_min_proposal_balance :: int
  gc_proposal_cooldown :: nat
  gc_restrict_admin_vote :: bool
  gc_paused :: bool

datatype gov_event =
    GeInit Address Address
  | GeCreated nat Address string int nat
  | GeVoted nat Address Vote int
  | GeFinal nat GovProposalState
  | GeExec nat Address
  | GeCancel nat Address nat
  | GeUpgraded string
  | GeQuorum nat int int
  | GeRetract nat Address int
  | GeChgvote nat Address Vote Vote int
  | GePropose Address Address
  | GeAccept Address Address
  | GeAdmCncl Address Address
  | GeAmended nat Address string string string string
  | GePaused Address
  | GeUnpause Address
  | GeToken Address Address
  | GeUpgrade string
  | GeMinBalance Address int int
  | GeCooldown Address nat nat
  | GeRestrict Address bool bool

text \<open>
  The second topic of each event (the first is \<^verbatim>\<open>gov\<close>); the last three events are published by functions
  that \<^verbatim>\<open>events.rs\<close> does not declare.
\<close>

fun gov_topic :: "gov_event \<Rightarrow> string option" where
  "gov_topic (GeInit _ _) = Some ''init''"
| "gov_topic (GeCreated _ _ _ _ _) = Some ''created''"
| "gov_topic (GeVoted _ _ _ _) = Some ''voted''"
| "gov_topic (GeFinal _ _) = Some ''final''"
| "gov_topic (GeExec _ _) = Some ''exec''"
| "gov_topic (GeCancel _ _ _) = Some ''cancel''"
| "gov_topic (GeUpgraded _) = Some ''upgraded''"
| "gov_topic (GeQuorum _ _ _) = Some ''quorum''"
| "gov_topic (GeRetract _ _ _) = Some ''retract''"
| "gov_topic (GeChgvote _ _ _ _ _) = Some ''chgvote''"
| "gov_topic (GePropose _ _) = Some ''propose''"
| "gov_topic (GeAccept _ _) = Some ''accept''"
| "gov_topic (GeAdmCncl _ _) = Some ''adm_cncl''"
| "gov_topic (GeAmended _ _ _ _ _ _) = Some ''amended''"
| "gov_topic (GePaused _) = Some ''paused''"
| "gov_topic (GeUnpause _) = Some ''unpause''"
| "gov_topic (GeToken _ _) = Some ''token''"
| "gov_topic (GeUpgrade _) = Some ''upgrade''"
| "gov_topic _ = None"

section \<open>Storage\<close>

record gov =
  g_admin :: "Address option"
  g_pending_admin :: "Address option"
  g_voting_token :: "Address option"
  g_treasury :: "Address option"
  g_proposal_count :: nat
  g_active_count :: nat
  g_min_balance :: int
  g_cooldown :: nat
  g_min_quorum_bps :: nat
  g_restrict_admin_vote :: bool
  g_version :: "nat \<times> nat \<times> nat"
  g_ready :: bool
  g_paused :: bool
  g_proposals :: "nat \<rightharpoonup> gov_proposal"
  g_has_voted :: "nat \<times> Address \<rightharpoonup> bool"
  g_votes :: "nat \<times> Address \<rightharpoonup> gov_vote"
  g_last_proposal :: "Address \<rightharpoonup> nat"
  g_code :: "string option"
  g_events :: "gov_event list"

definition gov_fresh :: gov where
  "gov_fresh = \<lparr>g_admin = None, g_pending_admin = None, g_voting_token = None, g_treasury = None,
     g_proposal_count = 0, g_active_count = 0, g_min_balance = 0, g_cooldown = 0, g_min_quorum_bps = 0,
     g_restrict_admin_vote = False, g_version = (1, 0, 0), g_ready = False, g_paused = False,
     g_proposals = Map.empty, g_has_voted = Map.empty, g_votes = Map.empty, g_last_proposal = Map.empty,
     g_code = None, g_events = []\<rparr>"

type_synonym gov_result = "(GovError, gov) outcome"

definition set_proposal :: "nat \<Rightarrow> gov_proposal \<Rightarrow> gov \<Rightarrow> gov" where
  "set_proposal i p g = g\<lparr>g_proposals := (g_proposals g)(i \<mapsto> p)\<rparr>"

text \<open>
  Reading the flag extends the entry's lifetime even when there is no entry; \<open>None\<close> when the host traps
  on that.
\<close>

definition has_voted_flag :: "env \<Rightarrow> gov \<Rightarrow> nat \<Rightarrow> Address \<Rightarrow> bool option" where
  "has_voted_flag env g i voter =
     (case g_has_voted g (i, voter) of
        Some v \<Rightarrow> Some v
      | None \<Rightarrow> if e_extend_missing env then Some False else None)"

definition set_has_voted :: "nat \<Rightarrow> Address \<Rightarrow> bool \<Rightarrow> gov \<Rightarrow> gov" where
  "set_has_voted i voter v g = g\<lparr>g_has_voted := (g_has_voted g)((i, voter) \<mapsto> v)\<rparr>"

definition set_vote_record :: "nat \<Rightarrow> Address \<Rightarrow> gov_vote \<Rightarrow> gov \<Rightarrow> gov" where
  "set_vote_record i voter r g = g\<lparr>g_votes := (g_votes g)((i, voter) \<mapsto> r)\<rparr>"

definition remove_vote_record :: "nat \<Rightarrow> Address \<Rightarrow> gov \<Rightarrow> gov" where
  "remove_vote_record i voter g = g\<lparr>g_votes := (g_votes g)((i, voter) := None)\<rparr>"

definition is_terminal :: "GovProposalState \<Rightarrow> bool" where
  "is_terminal s \<longleftrightarrow> s = PExecuted \<or> s = PCancelled \<or> s = PRejected"

definition publish :: "gov_event \<Rightarrow> gov \<Rightarrow> gov" where
  "publish ev g = g\<lparr>g_events := g_events g @ [ev]\<rparr>"

text \<open>The queries of the token contract, as the client of \<open>TokenInterface\<close>.\<close>

record TokenClient =
  tc_balance :: "Address \<Rightarrow> int"
  tc_balance_at :: "Address \<Rightarrow> nat \<Rightarrow> int"
  tc_total_supply :: int
  tc_get_delegation :: "Address \<Rightarrow> Address option"

type_synonym clients = "Address \<Rightarrow> TokenClient option"

text \<open>The client for the voting token: no address stored or no contract there is a trap.\<close>

definition voting_client :: "clients \<Rightarrow> gov \<Rightarrow> TokenClient option" where
  "voting_client tokens g = Option.bind (g_voting_token g) tokens"

section \<open>Guards\<close>

definition assert_ready :: "gov \<Rightarrow> GovError fault option" where
  "assert_ready g =
     (if \<not> g_ready g then Some (Err NotInitialized)
      else if g_paused g then Some (Err ContractPaused)
      else None)"

definition assert_admin :: "gov \<Rightarrow> Address \<Rightarrow> GovError fault option" where
  "assert_admin g caller =
     (case g_admin g of None \<Rightarrow> Some Trap
      | Some a \<Rightarrow> if a \<noteq> caller then Some (Err NotAdmin) else None)"

definition reject_if :: "bool \<Rightarrow> GovError \<Rightarrow> GovError fault option" where
  "reject_if b e = (if b then Some (Err e) else None)"

lemma reject_if_None [simp]: "reject_if b e = None \<longleftrightarrow> \<not> b"
  by (simp add: reject_if_def)

text \<open>\<open>ok_or(e)?\<close>.\<close>

definition ok_or :: "'a option \<Rightarrow> GovError \<Rightarrow> ('a \<Rightarrow> (GovError, 'b) outcome) \<Rightarrow> (GovError, 'b) outcome" where
  "ok_or x e rest = (case x of Some v \<Rightarrow> rest v | None \<Rightarrow> Inl (Err e))"

lemma ok_or_Inr [simp]: "ok_or x e rest = Inr y \<longleftrightarrow> (\<exists>v. x = Some v \<and> rest v = Inr y)"
  by (simp add: ok_or_def split: option.splits)

text \<open>Sequencing of fallible steps (\<open>?\<close>).\<close>

definition bind_ok :: "('e, 'a) outcome \<Rightarrow> ('a \<Rightarrow> ('e, 'b) outcome) \<Rightarrow> ('e, 'b) outcome" where
  "bind_ok x f = (case x of Inl e \<Rightarrow> Inl e | Inr v \<Rightarrow> f v)"

lemma bind_ok_Inr [simp]: "bind_ok x f = Inr y \<longleftrightarrow> (\<exists>v. x = Inr v \<and> f v = Inr y)"
  by (simp add: bind_ok_def split: sum.splits)

section \<open>Initialization and queries\<close>

definition gov_initialize ::
  "Address \<Rightarrow> Address \<Rightarrow> int \<Rightarrow> nat \<Rightarrow> nat \<Rightarrow> bool \<Rightarrow> Address option \<Rightarrow> gov \<Rightarrow> gov_result" where
  "gov_initialize admin voting_token min_proposal_balance proposal_cooldown min_quorum_bps restrict_admin_vote
     treasury g =
     after (reject_if (g_ready g) AlreadyInitialized)
     (Inr (publish (GeInit admin voting_token)
       (g\<lparr>g_admin := Some admin, g_voting_token := Some voting_token,
          g_treasury := (case treasury of Some t \<Rightarrow> Some t | None \<Rightarrow> g_treasury g),
          g_proposal_count := 0, g_min_balance := min_proposal_balance, g_cooldown := proposal_cooldown,
          g_min_quorum_bps := min_quorum_bps, g_restrict_admin_vote := restrict_admin_vote,
          g_paused := False, g_ready := True, g_version := (1, 0, 0)\<rparr>)))"

definition get_config :: "gov \<Rightarrow> GovernanceConfig option" where
  "get_config g =
     (case (g_admin g, g_voting_token g) of
        (Some a, Some t) \<Rightarrow> Some \<lparr>gc_admin = a, gc_voting_token = t,
          gc_min_proposal_balance = g_min_balance g, gc_proposal_cooldown = g_cooldown g,
          gc_restrict_admin_vote = g_restrict_admin_vote g, gc_paused = g_paused g\<rparr>
      | _ \<Rightarrow> None)"

definition get_proposal :: "gov \<Rightarrow> nat \<Rightarrow> (GovError, gov_proposal) outcome" where
  "get_proposal g i = ok_or (g_proposals g i) ProposalNotFound Inr"

definition clamp_limit :: "nat \<Rightarrow> nat" where
  "clamp_limit limit = (if limit > 20 then 20 else limit)"

text \<open>\<open>None\<close>: the sum of \<open>from_id\<close> and the limit overflows.\<close>

definition get_proposals :: "gov \<Rightarrow> nat \<Rightarrow> nat \<Rightarrow> gov_proposal list option" where
  "get_proposals g from_id limit =
     (case u64_add from_id (clamp_limit limit) of
        None \<Rightarrow> None
      | Some e \<Rightarrow> Some (List.map_filter (g_proposals g) [from_id..<min e (g_proposal_count g)]))"

function by_state_loop :: "gov \<Rightarrow> GovProposalState \<Rightarrow> nat \<Rightarrow> nat \<Rightarrow> gov_proposal list \<Rightarrow> gov_proposal list" where
  "by_state_loop g s limit current_id proposals =
     (if length proposals < limit \<and> current_id < g_proposal_count g
      then by_state_loop g s limit (current_id + 1)
        (case g_proposals g current_id of
           Some p \<Rightarrow> if p_state p = s then proposals @ [p] else proposals
         | None \<Rightarrow> proposals)
      else proposals)"
  by pat_completeness auto

termination by (relation "measure (\<lambda>(g, _, _, current_id, _). g_proposal_count g - current_id)") auto

declare by_state_loop.simps [simp del]

definition get_proposals_by_state :: "gov \<Rightarrow> GovProposalState \<Rightarrow> nat \<Rightarrow> nat \<Rightarrow> gov_proposal list" where
  "get_proposals_by_state g s from_id limit = by_state_loop g s (clamp_limit limit) from_id []"

definition gov_has_voted :: "env \<Rightarrow> gov \<Rightarrow> nat \<Rightarrow> Address \<Rightarrow> bool option" where
  "gov_has_voted env g i voter = has_voted_flag env g i voter"

definition get_vote :: "gov \<Rightarrow> nat \<Rightarrow> Address \<Rightarrow> (GovError, gov_vote) outcome" where
  "get_vote g i voter = ok_or (g_votes g (i, voter)) VoteNotFound Inr"

section \<open>Proposals\<close>

definition quorum_floor :: "int \<Rightarrow> nat \<Rightarrow> int option" where
  "quorum_floor total_supply bps =
     Option.bind (i128 (total_supply * int bps)) (\<lambda>v. checked_div v 10000)"

text \<open>The checks of \<open>create_proposal\<close> on its arguments alone, in the order of the code.\<close>

definition create_inputs :: "string \<Rightarrow> string \<Rightarrow> string option \<Rightarrow> int \<Rightarrow> nat \<Rightarrow> GovError fault option" where
  "create_inputs ttl desc link quo duration =
     (if length ttl = 0 \<or> length ttl > 128 then Some (Err InvalidTitle)
      else if length desc = 0 \<or> length desc > 1024 then Some (Err InvalidDescription)
      else if (case link of Some l \<Rightarrow> length l = 0 \<or> length l > 256 | None \<Rightarrow> False) then Some (Err InvalidLink)
      else if quo \<le> 0 then Some (Err InvalidQuorum)
      else if duration < 60 \<or> duration > 2592000 then Some (Err InvalidDurationRange)
      else None)"

definition create_floor :: "gov \<Rightarrow> TokenClient \<Rightarrow> int \<Rightarrow> GovError fault option" where
  "create_floor g tc quo =
     (if g_min_quorum_bps g > 0
      then (case quorum_floor (tc_total_supply tc) (g_min_quorum_bps g) of
              None \<Rightarrow> Some (Err ArithmeticOverflow)
            | Some floor \<Rightarrow> if quo < floor then Some (Err QuorumBelowFloor) else None)
      else None)"

definition create_cooldown :: "env \<Rightarrow> gov \<Rightarrow> Address \<Rightarrow> GovError fault option" where
  "create_cooldown env g proposer =
     (if g_cooldown g > 0
      then (case g_last_proposal g proposer of
              None \<Rightarrow> None
            | Some last_time \<Rightarrow>
                (case u64_add last_time (g_cooldown g) of
                   None \<Rightarrow> Some Trap
                 | Some t \<Rightarrow> if e_timestamp env < t then Some (Err ProposalCooldown) else None))
      else None)"

definition new_proposal ::
  "env \<Rightarrow> nat \<Rightarrow> Address \<Rightarrow> string \<Rightarrow> string \<Rightarrow> string option \<Rightarrow> int \<Rightarrow> nat \<Rightarrow> TreasuryAction option \<Rightarrow> gov_proposal" where
  "new_proposal env i proposer ttl desc link quo end_time treasury_action =
     \<lparr>p_id = i, p_proposer = proposer, p_title = ttl, p_description = desc, p_link = link,
      p_votes_yes = 0, p_votes_no = 0, p_votes_abstain = 0, p_quorum = quo,
      p_start_time = e_timestamp env, p_end_time = end_time, p_state = PActive,
      p_snapshot_ledger = e_sequence env, p_voter_count = 0,
      p_treasury_action = (case treasury_action of Some a \<Rightarrow> [a] | None \<Rightarrow> []),
      p_choices = [], p_winning_choice = None, p_cancellation_reason = None\<rparr>"

definition create_proposal ::
  "env \<Rightarrow> clients \<Rightarrow> Address \<Rightarrow> string \<Rightarrow> string \<Rightarrow> int \<Rightarrow> nat \<Rightarrow> string option \<Rightarrow> TreasuryAction option
   \<Rightarrow> gov \<Rightarrow> (GovError, nat \<times> gov) outcome" where
  "create_proposal env tokens proposer ttl desc quo duration link treasury_action g =
     after (require_auth env proposer)
     (after (assert_ready g)
     (after (create_inputs ttl desc link quo duration)
     (after (reject_if (g_active_count g \<ge> 50) ProposalsStillActive)
     (ok_or_trap (voting_client tokens g) (\<lambda>tc.
       after (reject_if (quo > tc_total_supply tc) QuorumExceedsSupply)
       (after (create_floor g tc quo)
       (after (reject_if (g_min_balance g > 0 \<and> tc_balance tc proposer < g_min_balance g) InsufficientBalance)
       (after (create_cooldown env g proposer)
       (ok_or_trap (u64_add (e_timestamp env) duration) (\<lambda>end_time.
         let i = g_proposal_count g;
             p = new_proposal env i proposer ttl desc link quo end_time treasury_action in
         ok_or_trap (u64_add i 1) (\<lambda>count.
         ok_or_trap (u64_add (g_active_count g) 1) (\<lambda>active.
           Inr (i, publish (GeCreated i proposer ttl quo end_time)
             ((set_proposal i p g)\<lparr>g_proposal_count := count, g_active_count := active,
                g_last_proposal := (g_last_proposal g)(proposer \<mapsto> e_timestamp env)\<rparr>))))))))))))))"

definition vote_total :: "gov_proposal \<Rightarrow> int option" where
  "vote_total p = Option.bind (i128 (p_votes_yes p + p_votes_no p)) (\<lambda>v. i128 (v + p_votes_abstain p))"

definition amend_proposal :: "env \<Rightarrow> Address \<Rightarrow> nat \<Rightarrow> string \<Rightarrow> string \<Rightarrow> gov \<Rightarrow> gov_result" where
  "amend_proposal env proposer i new_title new_description g =
     after (require_auth env proposer)
     (after (assert_ready g)
     (ok_or (g_proposals g i) ProposalNotFound (\<lambda>p.
       after (reject_if (p_proposer p \<noteq> proposer) NotProposer)
       (after (reject_if (p_state p \<noteq> PActive) ProposalNotActive)
       (ok_or (vote_total p) ArithmeticOverflow (\<lambda>total.
         after (reject_if (total > 0) VotesAlreadyCast)
         (after (reject_if (length new_title = 0 \<or> length new_title > 128) InvalidTitle)
         (after (reject_if (length new_description = 0 \<or> length new_description > 1024) InvalidDescription)
         (Inr (publish (GeAmended i proposer (p_title p) new_title (p_description p) new_description)
           (set_proposal i (p\<lparr>p_title := new_title, p_description := new_description\<rparr>) g)))))))))))"

section \<open>Voting\<close>

text \<open>The two matches on a vote: \<open>checked_add\<close> to a tally, and unchecked subtraction from it.\<close>

fun add_weight :: "Vote \<Rightarrow> int \<Rightarrow> gov_proposal \<Rightarrow> (GovError, gov_proposal) outcome" where
  "add_weight VYes w p = ok_or (i128 (p_votes_yes p + w)) ArithmeticOverflow (\<lambda>v. Inr (p\<lparr>p_votes_yes := v\<rparr>))"
| "add_weight VNo w p = ok_or (i128 (p_votes_no p + w)) ArithmeticOverflow (\<lambda>v. Inr (p\<lparr>p_votes_no := v\<rparr>))"
| "add_weight VAbstain w p =
     ok_or (i128 (p_votes_abstain p + w)) ArithmeticOverflow (\<lambda>v. Inr (p\<lparr>p_votes_abstain := v\<rparr>))"
| "add_weight (Choice _) w p = Inl Trap"

fun sub_weight :: "Vote \<Rightarrow> int \<Rightarrow> gov_proposal \<Rightarrow> (GovError, gov_proposal) outcome" where
  "sub_weight VYes w p = ok_or_trap (i128 (p_votes_yes p - w)) (\<lambda>v. Inr (p\<lparr>p_votes_yes := v\<rparr>))"
| "sub_weight VNo w p = ok_or_trap (i128 (p_votes_no p - w)) (\<lambda>v. Inr (p\<lparr>p_votes_no := v\<rparr>))"
| "sub_weight VAbstain w p = ok_or_trap (i128 (p_votes_abstain p - w)) (\<lambda>v. Inr (p\<lparr>p_votes_abstain := v\<rparr>))"
| "sub_weight (Choice _) w p = Inl Trap"

text \<open>Only read when the restriction is on; then a missing admin traps.\<close>

definition admin_vote_check :: "gov \<Rightarrow> Address \<Rightarrow> gov_proposal \<Rightarrow> GovError fault option" where
  "admin_vote_check g voter p =
     (if g_restrict_admin_vote g
      then (case g_admin g of None \<Rightarrow> Some Trap
            | Some admin \<Rightarrow> if voter = admin \<and> p_proposer p = admin then Some (Err AdminVoteRestricted) else None)
      else None)"

definition cast_vote :: "env \<Rightarrow> clients \<Rightarrow> Address \<Rightarrow> nat \<Rightarrow> Vote \<Rightarrow> gov \<Rightarrow> gov_result" where
  "cast_vote env tokens voter i vote g =
     after (require_auth env voter)
     (after (assert_ready g)
     (ok_or (g_proposals g i) ProposalNotFound (\<lambda>p.
       after (reject_if (p_state p \<noteq> PActive) ProposalNotActive)
       (after (reject_if (e_timestamp env < p_start_time p) VotingNotStarted)
       (after (reject_if (e_timestamp env > p_end_time p) VotingPeriodEnded)
       (ok_or_trap (has_voted_flag env g i voter) (\<lambda>voted.
         after (reject_if voted AlreadyVoted)
         (after (admin_vote_check g voter p)
         (ok_or_trap (voting_client tokens g) (\<lambda>tc.
           after (reject_if (tc_get_delegation tc voter \<noteq> None) NoVotingPower)
           (let weight = tc_balance_at tc voter (p_snapshot_ledger p) in
            after (reject_if (weight \<le> 0) NoVotingPower)
            (bind_ok (add_weight vote weight p) (\<lambda>p1.
             ok_or_trap (u32_add (p_voter_count p1) 1) (\<lambda>n.
               Inr (publish (GeVoted i voter vote weight)
                 (set_proposal i (p1\<lparr>p_voter_count := n\<rparr>)
                 (set_vote_record i voter \<lparr>v_vote = vote, v_weight = weight\<rparr>
                 (set_has_voted i voter True g))))))))))))))))))"

text \<open>
  What \<open>retract_vote\<close> and \<open>change_vote\<close> begin with: both find the proposal and the voter's record,
  with the same checks in the same order.
\<close>

definition open_vote ::
  "env \<Rightarrow> Address \<Rightarrow> nat \<Rightarrow> gov \<Rightarrow> (gov_proposal \<Rightarrow> gov_vote \<Rightarrow> gov_result) \<Rightarrow> gov_result" where
  "open_vote env voter i g rest =
     after (require_auth env voter)
     (after (assert_ready g)
     (ok_or (g_proposals g i) ProposalNotFound (\<lambda>p.
       after (reject_if (p_state p \<noteq> PActive) ProposalNotActive)
       (after (reject_if (e_timestamp env > p_end_time p) VotingPeriodEnded)
       (ok_or_trap (has_voted_flag env g i voter) (\<lambda>voted.
         after (reject_if (\<not> voted) VoteNotFound)
         (ok_or (g_votes g (i, voter)) VoteNotFound (\<lambda>r. rest p r))))))))"

definition retract_vote :: "env \<Rightarrow> Address \<Rightarrow> nat \<Rightarrow> gov \<Rightarrow> gov_result" where
  "retract_vote env voter i g =
     open_vote env voter i g (\<lambda>p r.
       bind_ok (sub_weight (v_vote r) (v_weight r) p) (\<lambda>p1.
         Inr (publish (GeRetract i voter (v_weight r))
           (set_proposal i p1 (remove_vote_record i voter (set_has_voted i voter False g))))))"

definition change_vote :: "env \<Rightarrow> Address \<Rightarrow> nat \<Rightarrow> Vote \<Rightarrow> gov \<Rightarrow> gov_result" where
  "change_vote env voter i new_vote g =
     open_vote env voter i g (\<lambda>p r.
       after (reject_if (v_vote r = new_vote) VoteAlreadySame)
       (bind_ok (sub_weight (v_vote r) (v_weight r) p) (\<lambda>p1.
        bind_ok (add_weight new_vote (v_weight r) p1) (\<lambda>p2.
         Inr (publish (GeChgvote i voter (v_vote r) new_vote (v_weight r))
           (set_proposal i p2
           (set_vote_record i voter \<lparr>v_vote = new_vote, v_weight = v_weight r\<rparr> g)))))))"

section \<open>Finalization and execution\<close>

definition best_choice :: "(nat \<Rightarrow> int) \<Rightarrow> nat \<Rightarrow> nat" where
  "best_choice votes n =
     fst (foldl (\<lambda>(best, weight) k. if votes k > weight then (k, votes k) else (best, weight))
       (0, votes 0) [1..<n])"

definition outcome_of :: "(nat \<Rightarrow> int) \<Rightarrow> int \<Rightarrow> gov_proposal \<Rightarrow> gov_proposal" where
  "outcome_of choice_votes tv p =
     (if p_choices p \<noteq> []
      then if p_votes_yes p \<ge> p_quorum p
           then p\<lparr>p_winning_choice := Some (best_choice choice_votes (length (p_choices p))), p_state := PPassed\<rparr>
           else p\<lparr>p_state := PRejected\<rparr>
      else p\<lparr>p_state := if tv \<ge> p_quorum p \<and> p_votes_yes p > p_votes_no p then PPassed else PRejected\<rparr>)"

text \<open>One active proposal less, unless the count is zero already.\<close>

definition drop_active :: "gov \<Rightarrow> gov" where
  "drop_active g = (if g_active_count g > 0 then g\<lparr>g_active_count := g_active_count g - 1\<rparr> else g)"

definition finalise :: "env \<Rightarrow> (nat \<Rightarrow> nat \<Rightarrow> int) \<Rightarrow> nat \<Rightarrow> gov \<Rightarrow> gov_result" where
  "finalise env choice_votes i g =
     after (assert_ready g)
     (ok_or (g_proposals g i) ProposalNotFound (\<lambda>p.
       after (reject_if (p_state p \<noteq> PActive) ProposalNotActive)
       (after (reject_if (e_timestamp env \<le> p_end_time p) VotingStillOpen)
       (ok_or (vote_total p) ArithmeticOverflow (\<lambda>tv.
         let p1 = outcome_of (choice_votes i) tv p in
         Inr (publish (GeFinal i (p_state p1)) (drop_active (set_proposal i p1 g))))))))"

definition execute ::
  "env \<Rightarrow> (Address \<Rightarrow> TreasuryAction \<Rightarrow> 'w \<Rightarrow> 'w option) \<Rightarrow> Address \<Rightarrow> nat \<Rightarrow> gov \<times> 'w
   \<Rightarrow> (GovError, gov \<times> 'w) outcome" where
  "execute env disburse admin i gw =
     (let g = fst gw; w = snd gw in
      after (require_auth env admin)
      (after (assert_admin g admin)
      (ok_or (g_proposals g i) ProposalNotFound (\<lambda>p.
        after (reject_if (p_state p \<noteq> PPassed) ProposalNotPassed)
        (ok_or_trap
          (case (p_treasury_action p, g_treasury g) of
             (a # _, Some t) \<Rightarrow> disburse t a w
           | _ \<Rightarrow> Some w)
          (\<lambda>w1. Inr (publish (GeExec i admin) (set_proposal i (p\<lparr>p_state := PExecuted\<rparr>) g), w1)))))))"

definition cancel :: "env \<Rightarrow> Address \<Rightarrow> nat \<Rightarrow> string option \<Rightarrow> gov \<Rightarrow> gov_result" where
  "cancel env admin i reason g =
     after (require_auth env admin)
     (after (assert_admin g admin)
     (ok_or (g_proposals g i) ProposalNotFound (\<lambda>p.
       after (reject_if (p_state p \<noteq> PActive) ProposalNotActive)
       (Inr (publish (GeCancel i admin (p_voter_count p)) (drop_active
         (set_proposal i (p\<lparr>p_state := PCancelled, p_cancellation_reason := reason\<rparr>) g)))))))"

definition gov_upgrade :: "(string \<Rightarrow> gov_event) \<Rightarrow> env \<Rightarrow> Address \<Rightarrow> string \<Rightarrow> gov \<Rightarrow> gov_result" where
  "gov_upgrade ev env admin new_wasm_hash g =
     after (require_auth env admin)
     (after (assert_admin g admin)
     (Inr (publish (ev new_wasm_hash) (g\<lparr>g_code := Some new_wasm_hash\<rparr>))))"

section \<open>Administration\<close>

definition update_quorum :: "env \<Rightarrow> clients \<Rightarrow> Address \<Rightarrow> nat \<Rightarrow> int \<Rightarrow> gov \<Rightarrow> gov_result" where
  "update_quorum env tokens admin i new_quorum g =
     after (require_auth env admin)
     (after (assert_admin g admin)
     (after (reject_if (new_quorum \<le> 0) InvalidQuorum)
     (ok_or_trap (voting_client tokens g) (\<lambda>tc.
       after (reject_if (new_quorum > tc_total_supply tc) QuorumExceedsSupply)
       (ok_or (g_proposals g i) ProposalNotFound (\<lambda>p.
         after (reject_if (p_state p \<noteq> PActive) ProposalNotActive)
         (ok_or_trap (u64_add (p_start_time p) ((p_end_time p - p_start_time p) div 10)) (\<lambda>window_end.
           after (reject_if (e_timestamp env > window_end) QuorumUpdateNotAllowed)
           (Inr (publish (GeQuorum i (p_quorum p) new_quorum)
             (set_proposal i (p\<lparr>p_quorum := new_quorum\<rparr>) g)))))))))))"

definition zero_addr :: Address where
  "zero_addr = ''GAAAAAAAAAAAAAAAAAAAAAAAAAAAAAAAAAAAAAAAAAAAAAAAAAAAAWHF''"

definition gov_propose_admin :: "env \<Rightarrow> Address \<Rightarrow> Address \<Rightarrow> gov \<Rightarrow> gov_result" where
  "gov_propose_admin env admin new_admin g =
     after (require_auth env admin)
     (after (assert_admin g admin)
     (after (reject_if (new_admin = zero_addr) InvalidNewAdmin)
     (Inr (publish (GePropose admin new_admin) (g\<lparr>g_pending_admin := Some new_admin\<rparr>)))))"

definition update_voting_token :: "env \<Rightarrow> Address \<Rightarrow> Address \<Rightarrow> gov \<Rightarrow> gov_result" where
  "update_voting_token env admin new_token g =
     after (require_auth env admin)
     (after (assert_admin g admin)
     (after (reject_if (g_active_count g > 0) ProposalsStillActive)
     (ok_or_trap (g_voting_token g) (\<lambda>old_token.
       Inr (publish (GeToken old_token new_token) (g\<lparr>g_voting_token := Some new_token\<rparr>))))))"

definition gov_accept_admin :: "env \<Rightarrow> Address \<Rightarrow> gov \<Rightarrow> gov_result" where
  "gov_accept_admin env pending_admin g =
     after (require_auth env pending_admin)
     (ok_or (g_pending_admin g) NoPendingAdmin (\<lambda>current_pending.
       after (reject_if (pending_admin \<noteq> current_pending) NotPendingAdmin)
       (ok_or_trap (g_admin g) (\<lambda>previous_admin.
         Inr (publish (GeAccept previous_admin pending_admin)
           (g\<lparr>g_admin := Some pending_admin, g_pending_admin := None\<rparr>))))))"

definition cancel_admin_transfer :: "env \<Rightarrow> Address \<Rightarrow> gov \<Rightarrow> gov_result" where
  "cancel_admin_transfer env admin g =
     after (require_auth env admin)
     (after (assert_admin g admin)
     (ok_or (g_pending_admin g) NoPendingAdmin (\<lambda>pending.
       Inr (publish (GeAdmCncl admin pending) (g\<lparr>g_pending_admin := None\<rparr>)))))"

definition gov_pause :: "env \<Rightarrow> Address \<Rightarrow> gov \<Rightarrow> gov_result" where
  "gov_pause env admin g =
     after (require_auth env admin)
     (after (assert_admin g admin)
     (after (reject_if (g_paused g) ContractPaused)
     (Inr (publish (GePaused admin) (g\<lparr>g_paused := True\<rparr>)))))"

definition gov_unpause :: "env \<Rightarrow> Address \<Rightarrow> gov \<Rightarrow> gov_result" where
  "gov_unpause env admin g =
     after (require_auth env admin)
     (after (assert_admin g admin)
     (after (reject_if (\<not> g_paused g) NotPaused)
     (Inr (publish (GeUnpause admin) (g\<lparr>g_paused := False\<rparr>)))))"

definition set_min_proposal_balance :: "env \<Rightarrow> Address \<Rightarrow> int \<Rightarrow> gov \<Rightarrow> gov_result" where
  "set_min_proposal_balance env admin new_value g =
     after (require_auth env admin)
     (after (assert_admin g admin)
     (after (reject_if (new_value < 0) InsufficientBalance)
     (Inr (publish (GeMinBalance admin (g_min_balance g) new_value) (g\<lparr>g_min_balance := new_value\<rparr>)))))"

definition set_proposal_cooldown :: "env \<Rightarrow> Address \<Rightarrow> nat \<Rightarrow> gov \<Rightarrow> gov_result" where
  "set_proposal_cooldown env admin new_value g =
     after (require_auth env admin)
     (after (assert_admin g admin)
     (Inr (publish (GeCooldown admin (g_cooldown g) new_value) (g\<lparr>g_cooldown := new_value\<rparr>))))"

definition set_restrict_admin_vote :: "env \<Rightarrow> Address \<Rightarrow> bool \<Rightarrow> gov \<Rightarrow> gov_result" where
  "set_restrict_admin_vote env admin new_value g =
     after (require_auth env admin)
     (after (assert_admin g admin)
     (Inr (publish (GeRestrict admin (g_restrict_admin_vote g) new_value)
       (g\<lparr>g_restrict_admin_vote := new_value\<rparr>))))"

section \<open>The contract as a transition system\<close>

datatype gov_call =
    Initialize Address Address int nat nat bool "Address option"
  | CreateProposal Address string string int nat "string option" "TreasuryAction option"
  | AmendProposal Address nat string string
  | CastVote Address nat Vote
  | RetractVote Address nat
  | ChangeVote Address nat Vote
  | Finalise nat
  | Execute Address nat
  | Cancel Address nat "string option"
  | Upgrade Address string
  | UpgradeCode Address string
  | UpdateQuorum Address nat int
  | ProposeAdmin Address Address
  | UpdateVotingToken Address Address
  | AcceptAdmin Address
  | CancelAdminTransfer Address
  | Pause Address
  | Unpause Address
  | SetMinProposalBalance Address int
  | SetProposalCooldown Address nat
  | SetRestrictAdminVote Address bool

text \<open>
  The calls that only change the contract's own storage, and all calls.  The surroundings of a call
  are the environment, the token contracts, the accessor of choice votes and the treasury.
\<close>

record 'w surroundings =
  s_env :: env
  s_tokens :: clients
  s_choice_votes :: "nat \<Rightarrow> nat \<Rightarrow> int"
  s_disburse :: "Address \<Rightarrow> TreasuryAction \<Rightarrow> 'w \<Rightarrow> 'w option"

fun run_local :: "env \<Rightarrow> clients \<Rightarrow> (nat \<Rightarrow> nat \<Rightarrow> int) \<Rightarrow> gov_call \<Rightarrow> gov \<Rightarrow> gov_result" where
  "run_local env tokens cv (Initialize a t mb cd bps r tr) g = gov_initialize a t mb cd bps r tr g"
| "run_local env tokens cv (CreateProposal pr ti de qu du li ta) g =
     bind_ok (create_proposal env tokens pr ti de qu du li ta g) (\<lambda>x. Inr (snd x))"
| "run_local env tokens cv (AmendProposal pr i ti de) g = amend_proposal env pr i ti de g"
| "run_local env tokens cv (CastVote v i vote) g = cast_vote env tokens v i vote g"
| "run_local env tokens cv (RetractVote v i) g = retract_vote env v i g"
| "run_local env tokens cv (ChangeVote v i vote) g = change_vote env v i vote g"
| "run_local env tokens cv (Finalise i) g = finalise env cv i g"
| "run_local env tokens cv (Cancel a i r) g = cancel env a i r g"
| "run_local env tokens cv (Upgrade a h) g = gov_upgrade GeUpgrade env a h g"
| "run_local env tokens cv (UpgradeCode a h) g = gov_upgrade GeUpgraded env a h g"
| "run_local env tokens cv (UpdateQuorum a i q) g = update_quorum env tokens a i q g"
| "run_local env tokens cv (ProposeAdmin a n) g = gov_propose_admin env a n g"
| "run_local env tokens cv (UpdateVotingToken a t) g = update_voting_token env a t g"
| "run_local env tokens cv (AcceptAdmin a) g = gov_accept_admin env a g"
| "run_local env tokens cv (CancelAdminTransfer a) g = cancel_admin_transfer env a g"
| "run_local env tokens cv (Pause a) g = gov_pause env a g"
| "run_local env tokens cv (Unpause a) g = gov_unpause env a g"
| "run_local env tokens cv (SetMinProposalBalance a x) g = set_min_proposal_balance env a x g"
| "run_local env tokens cv (SetProposalCooldown a x) g = set_proposal_cooldown env a x g"
| "run_local env tokens cv (SetRestrictAdminVote a b) g = set_restrict_admin_vote env a b g"
| "run_local env tokens cv (Execute a i) g = Inl Trap"

fun run_gov :: "'w surroundings \<Rightarrow> gov_call \<Rightarrow> gov \<times> 'w \<Rightarrow> (GovError, gov \<times> 'w) outcome" where
  "run_gov s (Execute a i) gw = execute (s_env s) (s_disburse s) a i gw"
| "run_gov s c gw =
     bind_ok (run_local (s_env s) (s_tokens s) (s_choice_votes s) c (fst gw)) (\<lambda>g. Inr (g, snd gw))"

text \<open>
  A step is a successful call in any surroundings, while the code is this code; or the rest of the
  ledger changes.
\<close>

inductive gov_step :: "gov \<times> 'w \<Rightarrow> gov \<times> 'w \<Rightarrow> bool" where
  gov_called: "g_code g = None \<Longrightarrow> run_gov s c (g, w) = Inr gw \<Longrightarrow> gov_step (g, w) gw"
| gov_elsewhere: "gov_step (g, w) (g, w')"

definition gov_init :: "gov \<times> 'w \<Rightarrow> bool" where
  "gov_init gw \<longleftrightarrow> fst gw = gov_fresh"

end
