(* ===== verification/Governance_Ballots.thy ===== *)
theory Governance_Ballots
  imports Governance_Properties
begin

text \<open>
  What the governance contract promises, as a specification without storage: a ballot is a status, a
  quorum and the vote of each voter, and its result is computed from the votes when it is closed.  There
  are no running tallies, no flags of who has voted and no counters.  The contract refines it.
\<close>

section \<open>The specification\<close>

record ballot =
  b_status :: GovProposalState
  b_quorum :: int
  b_votes :: "Address \<rightharpoonup> Vote \<times> int"

type_synonym ballots = "nat \<rightharpoonup> ballot"

definition weight_for :: "ballot \<Rightarrow> Vote \<Rightarrow> int" where
  "weight_for b v = (\<Sum>a \<in> {a. \<exists>w. b_votes b a = Some (v, w)}. snd (the (b_votes b a)))"

definition b_carried :: "ballot \<Rightarrow> bool" where
  "b_carried b \<longleftrightarrow> weight_for b VYes + weight_for b VNo + weight_for b VAbstain \<ge> b_quorum b
     \<and> weight_for b VYes > weight_for b VNo"

definition b_open :: "ballots \<Rightarrow> nat \<Rightarrow> ballot \<Rightarrow> bool" where
  "b_open B i b \<longleftrightarrow> B i = Some b \<and> b_status b = PActive"

inductive ballot_step :: "ballots \<Rightarrow> ballots \<Rightarrow> bool" where
  b_create: "dom B = {..<i} \<Longrightarrow> 0 < q \<Longrightarrow> card {j. \<exists>b. b_open B j b} < 50 \<Longrightarrow>
     ballot_step B (B(i \<mapsto> \<lparr>b_status = PActive, b_quorum = q, b_votes = Map.empty\<rparr>))"
| b_quorum: "b_open B i b \<Longrightarrow> 0 < q \<Longrightarrow> ballot_step B (B(i \<mapsto> b\<lparr>b_quorum := q\<rparr>))"
| b_cast: "b_open B i b \<Longrightarrow> b_votes b a = None \<Longrightarrow> 0 < w \<Longrightarrow> \<not> is_choice v \<Longrightarrow>
     ballot_step B (B(i \<mapsto> b\<lparr>b_votes := (b_votes b)(a \<mapsto> (v, w))\<rparr>))"
| b_retract: "b_open B i b \<Longrightarrow> b_votes b a = Some (v, w) \<Longrightarrow>
     ballot_step B (B(i \<mapsto> b\<lparr>b_votes := (b_votes b)(a := None)\<rparr>))"
| b_change: "b_open B i b \<Longrightarrow> b_votes b a = Some (v, w) \<Longrightarrow> u \<noteq> v \<Longrightarrow> \<not> is_choice u \<Longrightarrow>
     ballot_step B (B(i \<mapsto> b\<lparr>b_votes := (b_votes b)(a \<mapsto> (u, w))\<rparr>))"
| b_close: "b_open B i b \<Longrightarrow>
     ballot_step B (B(i \<mapsto> b\<lparr>b_status := if b_carried b then PPassed else PRejected\<rparr>))"
| b_cancel: "b_open B i b \<Longrightarrow> ballot_step B (B(i \<mapsto> b\<lparr>b_status := PCancelled\<rparr>))"
| b_execute: "B i = Some b \<Longrightarrow> b_status b = PPassed \<Longrightarrow>
     ballot_step B (B(i \<mapsto> b\<lparr>b_status := PExecuted\<rparr>))"

section \<open>Abstraction\<close>

definition ballot_of :: "(nat \<times> Address \<rightharpoonup> gov_vote) \<Rightarrow> nat \<Rightarrow> gov_proposal \<Rightarrow> ballot" where
  "ballot_of V i p = \<lparr>b_status = p_state p, b_quorum = p_quorum p,
     b_votes = (\<lambda>a. map_option (\<lambda>r. (v_vote r, v_weight r)) (V (i, a)))\<rparr>"

definition ballots_of :: "gov \<Rightarrow> ballots" where
  "ballots_of g i = map_option (ballot_of (g_votes g) i) (g_proposals g i)"

lemma weight_for_ballot_of: "weight_for (ballot_of V i p) v = map_total (votes_for V i v)"
  unfolding weight_for_def map_total_def
  by (rule sum.cong) (auto simp add: ballot_of_def votes_for_def at_or_0_def split: option.splits if_splits)

lemma carried_ballot_of:
  assumes "gov_ok g" and "g_proposals g i = Some p"
  shows "b_carried (ballot_of (g_votes g) i p) \<longleftrightarrow> carried p"
  using gov_ok_tally [OF assms, of VYes] gov_ok_tally [OF assms, of VNo] gov_ok_tally [OF assms, of VAbstain]
  by (simp add: b_carried_def carried_def weight_for_ballot_of) (simp add: ballot_of_def)

lemma ballots_of_open:
  "g_proposals g i = Some p \<Longrightarrow> p_state p = PActive \<Longrightarrow> b_open (ballots_of g) i (ballot_of (g_votes g) i p)"
  by (simp add: b_open_def ballots_of_def) (simp add: ballot_of_def)

lemma ballots_of_cong:
  "g_proposals g' = g_proposals g \<Longrightarrow> g_votes g' = g_votes g \<Longrightarrow> ballots_of g' = ballots_of g"
  by (intro ext) (simp add: ballots_of_def)

lemma ballot_of_votes:
  "(\<And>a. V' (i, a) = V (i, a)) \<Longrightarrow> ballot_of V' i p = ballot_of V i p"
  by (simp add: ballot_of_def)

lemma map_option_if_upd [simp]:
  "(\<lambda>a. map_option f (if a = k then x else m a)) = (\<lambda>a. map_option f (m a))(k := map_option f x)"
  by auto

lemma ballots_of_upd:
  assumes "g_proposals g' = (g_proposals g)(i \<mapsto> p)" and "\<And>j a. j \<noteq> i \<Longrightarrow> g_votes g' (j, a) = g_votes g (j, a)"
  shows "ballots_of g' = (ballots_of g)(i \<mapsto> ballot_of (g_votes g') i p)"
proof
  fix j
  show "ballots_of g' j = ((ballots_of g)(i \<mapsto> ballot_of (g_votes g') i p)) j"
    using ballot_of_votes [of "g_votes g'" j "g_votes g"] assms(2)
    by (cases "g_proposals g j") (auto simp add: ballots_of_def assms(1))
qed

lemma drop_active_frame [simp]:
  "g_proposals (drop_active g) = g_proposals g" "g_votes (drop_active g) = g_votes g"
  "g_events (drop_active g) = g_events g" "g_has_voted (drop_active g) = g_has_voted g"
  by (simp_all add: drop_active_def)

lemma ballots_of_proposal:
  "ballots_of (publish ev (drop_active (set_proposal i p g))) = (ballots_of g)(i \<mapsto> ballot_of (g_votes g) i p)"
  "ballots_of (publish ev (set_proposal i p g)) = (ballots_of g)(i \<mapsto> ballot_of (g_votes g) i p)"
  by (subst ballots_of_upd; simp add: gov_upd_defs)+

text \<open>Each operation is a step of the specification.\<close>

lemma ballots_created:
  assumes "gov_ok g" and "create_proposal env tokens pr ti de qu du li ta g = Inr (i, g')"
  shows "ballot_step (ballots_of g) (ballots_of g')"
  using assms(2)
proof (rule create_proposal_Inr)
  assume a: "create_inputs ti de li qu du = None" "g_active_count g < 50" "i = g_proposal_count g"
    "g' = publish (GeCreated i pr ti qu (e_timestamp env + du))
       ((set_proposal i (new_proposal env i pr ti de li qu (e_timestamp env + du) ta) g)
         \<lparr>g_proposal_count := g_proposal_count g + 1, g_active_count := g_active_count g + 1,
          g_last_proposal := (g_last_proposal g)(pr \<mapsto> e_timestamp env)\<rparr>)"
  have no: "g_votes g (i, a) = None" for a
    using gov_ok_record [OF assms(1), of i a] a(3) by (cases "g_votes g (i, a)") auto
  have "ballots_of g' = (ballots_of g)(i \<mapsto> \<lparr>b_status = PActive, b_quorum = qu, b_votes = Map.empty\<rparr>)"
    unfolding a(4) by (subst ballots_of_upd) (auto simp add: gov_upd_defs ballot_of_def new_proposal_def no)
  moreover have "{j. \<exists>b. b_open (ballots_of g) j b} = active_ids (g_proposals g)"
    by (auto simp add: b_open_def ballots_of_def ballot_of_def active_ids_def)
  moreover have "dom (ballots_of g) = {..<i}"
    using assms(1) a(3) by (auto simp add: gov_ok_def ballots_of_def dom_def)
  ultimately show ?thesis
    using a(1,2) assms(1) by (simp add: b_create create_inputs_None gov_ok_def)
qed

lemma ballots_cast:
  assumes "gov_ok g" and "cast_vote env tokens voter i vote g = Inr g'"
  shows "ballot_step (ballots_of g) (ballots_of g')"
  using assms(2)
proof (rule cast_vote_Inr)
  fix p tc w
  assume a: "g_proposals g i = Some p" "p_state p = PActive" "has_voted_flag env g i voter = Some False"
    "0 < w" "\<not> is_choice vote"
    "g' = publish (GeVoted i voter vote w)
       (set_proposal i ((set_tally vote (tally vote p + w) p)\<lparr>p_voter_count := p_voter_count p + 1\<rparr>)
       (set_vote_record i voter \<lparr>v_vote = vote, v_weight = w\<rparr> (set_has_voted i voter True g)))"
  let ?b = "ballot_of (g_votes g) i p"
  have none: "g_votes g (i, voter) = None"
    using a(3) gov_ok_flag [OF assms(1), of i voter]
    by (auto simp add: has_voted_flag_def split: option.splits if_splits)
  have "ballots_of g' = (ballots_of g)(i \<mapsto> ?b\<lparr>b_votes := (b_votes ?b)(voter \<mapsto> (vote, w))\<rparr>)"
    unfolding a(6) by (subst ballots_of_upd) (auto simp add: gov_upd_defs ballot_of_def)
  moreover have "b_votes ?b voter = None" using none by (simp add: ballot_of_def)
  ultimately show ?thesis using b_cast [OF ballots_of_open [OF a(1,2)]] a(4,5) by simp
qed

lemma ballots_retract:
  assumes "retract_vote env voter i g = Inr g'"
  shows "ballot_step (ballots_of g) (ballots_of g')"
  using assms
proof (rule retract_vote_Inr)
  fix p r
  assume a: "g_proposals g i = Some p" "p_state p = PActive" "g_votes g (i, voter) = Some r"
    "g' = publish (GeRetract i voter (v_weight r))
       (set_proposal i (set_tally (v_vote r) (tally (v_vote r) p - v_weight r) p)
       (remove_vote_record i voter (set_has_voted i voter False g)))"
  let ?b = "ballot_of (g_votes g) i p"
  have "ballots_of g' = (ballots_of g)(i \<mapsto> ?b\<lparr>b_votes := (b_votes ?b)(voter := None)\<rparr>)"
    unfolding a(4) by (subst ballots_of_upd) (auto simp add: gov_upd_defs ballot_of_def)
  moreover have "b_votes ?b voter = Some (v_vote r, v_weight r)" using a(3) by (simp add: ballot_of_def)
  ultimately show ?thesis using b_retract [OF ballots_of_open [OF a(1,2)]] by simp
qed

lemma ballots_change:
  assumes "change_vote env voter i new g = Inr g'"
  shows "ballot_step (ballots_of g) (ballots_of g')"
  using assms
proof (rule change_vote_Inr)
  fix p r
  assume a: "g_proposals g i = Some p" "p_state p = PActive" "g_votes g (i, voter) = Some r" "v_vote r \<noteq> new"
    "\<not> is_choice new"
    "g' = publish (GeChgvote i voter (v_vote r) new (v_weight r))
       (set_proposal i (set_tally new (tally new p + v_weight r)
          (set_tally (v_vote r) (tally (v_vote r) p - v_weight r) p))
       (set_vote_record i voter \<lparr>v_vote = new, v_weight = v_weight r\<rparr> g))"
  let ?b = "ballot_of (g_votes g) i p"
  have "ballots_of g' = (ballots_of g)(i \<mapsto> ?b\<lparr>b_votes := (b_votes ?b)(voter \<mapsto> (new, v_weight r))\<rparr>)"
    unfolding a(6) by (subst ballots_of_upd) (auto simp add: gov_upd_defs ballot_of_def)
  moreover have "b_votes ?b voter = Some (v_vote r, v_weight r)" using a(3) by (simp add: ballot_of_def)
  ultimately show ?thesis using b_change [OF ballots_of_open [OF a(1,2)]] a(4,5) by metis
qed

lemma ballots_finalise:
  assumes "gov_ok g" and "finalise env cv i g = Inr g'"
  shows "ballot_step (ballots_of g) (ballots_of g')"
  using assms(2)
proof (rule finalise_Inr)
  fix p
  assume a: "g_proposals g i = Some p" "p_state p = PActive"
    "g' = publish (GeFinal i (p_state (outcome_of (cv i) (p_votes_yes p + p_votes_no p + p_votes_abstain p) p)))
       (drop_active (set_proposal i (outcome_of (cv i) (p_votes_yes p + p_votes_no p + p_votes_abstain p) p) g))"
  let ?b = "ballot_of (g_votes g) i p"
  have "p_choices p = []" using gov_ok_proposal [OF assms(1) a(1)] by (simp add: proposal_ok_def)
  then have "ballots_of g' = (ballots_of g)(i \<mapsto> ?b\<lparr>b_status := if carried p then PPassed else PRejected\<rparr>)"
    by (simp add: a(3) ballots_of_proposal outcome_of_binary) (simp add: ballot_of_def)
  then show ?thesis
    using b_close [OF ballots_of_open [OF a(1,2)]] by (simp add: carried_ballot_of [OF assms(1) a(1)])
qed

lemma ballots_cancel:
  assumes "cancel env admin i reason g = Inr g'"
  shows "ballot_step (ballots_of g) (ballots_of g')"
  using assms
proof (rule cancel_Inr)
  fix p
  assume a: "g_proposals g i = Some p" "p_state p = PActive"
    "g' = publish (GeCancel i admin (p_voter_count p)) (drop_active
       (set_proposal i (p\<lparr>p_state := PCancelled, p_cancellation_reason := reason\<rparr>) g))"
  have "ballots_of g' = (ballots_of g)(i \<mapsto> (ballot_of (g_votes g) i p)\<lparr>b_status := PCancelled\<rparr>)"
    by (simp add: a(3) ballots_of_proposal) (simp add: ballot_of_def)
  then show ?thesis using b_cancel [OF ballots_of_open [OF a(1,2)]] by simp
qed

lemma ballots_execute:
  assumes "execute env disburse admin i (g, w) = Inr (g', w')"
  shows "ballot_step (ballots_of g) (ballots_of g')"
  using assms
proof (rule execute_Inr)
  fix p
  assume a: "g_proposals g i = Some p" "p_state p = PPassed"
    "g' = publish (GeExec i admin) (set_proposal i (p\<lparr>p_state := PExecuted\<rparr>) g)"
  let ?b = "ballot_of (g_votes g) i p"
  have "ballots_of g' = (ballots_of g)(i \<mapsto> ?b\<lparr>b_status := PExecuted\<rparr>)"
    by (simp add: a(3) ballots_of_proposal) (simp add: ballot_of_def)
  moreover have "ballots_of g i = Some ?b" "b_status ?b = PPassed"
    using a(1,2) by (simp_all add: ballots_of_def ballot_of_def)
  ultimately show ?thesis using b_execute by metis
qed

lemma ballots_quorum:
  assumes "update_quorum env tokens admin i q g = Inr g'"
  shows "ballot_step (ballots_of g) (ballots_of g')"
  using assms
proof (rule update_quorum_Inr)
  fix p
  assume a: "g_proposals g i = Some p" "p_state p = PActive" "0 < q"
    "g' = publish (GeQuorum i (p_quorum p) q) (set_proposal i (p\<lparr>p_quorum := q\<rparr>) g)"
  have "ballots_of g' = (ballots_of g)(i \<mapsto> (ballot_of (g_votes g) i p)\<lparr>b_quorum := q\<rparr>)"
    by (simp add: a(4) ballots_of_proposal) (simp add: ballot_of_def)
  then show ?thesis using b_quorum [OF ballots_of_open [OF a(1,2)] a(3)] by simp
qed

lemma ballots_amend:
  assumes "amend_proposal env pr i ti de g = Inr g'"
  shows "ballots_of g' = ballots_of g"
  using assms
proof (rule amend_proposal_Inr)
  fix p
  assume a: "g_proposals g i = Some p"
    "g' = publish (GeAmended i pr (p_title p) ti (p_description p) de)
       (set_proposal i (p\<lparr>p_title := ti, p_description := de\<rparr>) g)"
  have "ballots_of g' = (ballots_of g)(i \<mapsto> ballot_of (g_votes g) i p)"
    by (simp add: a(2) ballots_of_proposal) (simp add: ballot_of_def)
  then show ?thesis using a(1) by (auto simp add: ballots_of_def)
qed

lemma ballots_initialize:
  "gov_initialize a t mb cd bps r tr g = Inr g' \<Longrightarrow> ballots_of g' = ballots_of g"
  by (auto simp add: gov_initialize_def publish_def intro!: ballots_of_cong)

lemma run_local_ballots:
  assumes "gov_ok g" and "run_local env tokens cv c g = Inr g'"
  shows "ballots_of g' = ballots_of g \<or> ballot_step (ballots_of g) (ballots_of g')"
proof (cases "settings_call c")
  case True
  then have "ballots_of g' = ballots_of g"
    using settings_core [OF True assms(2)] by (intro ballots_of_cong) (simp_all add: core_def)
  then show ?thesis ..
next
  case False
  show ?thesis
  proof (cases "\<exists>a t mb cd bps r tr pr i ti de. c = Initialize a t mb cd bps r tr \<or> c = AmendProposal pr i ti de")
    case True
    then have "ballots_of g' = ballots_of g"
      using assms(2) by (elim exE disjE) (simp_all add: ballots_initialize ballots_amend)
    then show ?thesis ..
  next
    case False
    then have "ballot_step (ballots_of g) (ballots_of g')"
      using \<open>\<not> settings_call c\<close> assms
      by (cases c) (auto intro: ballots_created ballots_cast ballots_retract ballots_change ballots_finalise
          ballots_cancel ballots_quorum)
    then show ?thesis ..
  qed
qed

lemma gov_step_ballots:
  assumes "gov_ok (fst gw)" and "gov_step gw gw'"
  shows "ballots_of (fst gw') = ballots_of (fst gw) \<or> ballot_step (ballots_of (fst gw)) (ballots_of (fst gw'))"
  using assms(2)
proof cases
  case (gov_called g s c w)
  obtain g' w' where gw': "gw' = (g', w')" by (cases gw')
  have "run_gov s c (g, w) = Inr (g', w')" using gov_called gw' by simp
  then show ?thesis
  proof (rule run_gov_cases)
    assume "run_local (s_env s) (s_tokens s) (s_choice_votes s) c g = Inr g'"
    then show ?thesis using run_local_ballots assms(1) gov_called(1) gw' by simp
  next
    fix a i
    assume "execute (s_env s) (s_disburse s) a i (g, w) = Inr (g', w')"
    then have "ballot_step (ballots_of g) (ballots_of g')" by (rule ballots_execute)
    then show ?thesis using gov_called(1) gw' by simp
  qed
next
  case (gov_elsewhere g w w')
  then show ?thesis by simp
qed

abbreviation no_ballots :: "ballots \<Rightarrow> bool" where
  "no_ballots B \<equiv> B = Map.empty"

text \<open>
  C2. The governance contract refines the specification of ballots, for every token contract, every
  treasury and every interleaving: each successful call is a step of the specification or changes no
  ballot, and every reachable storage represents ballots the specification can reach.
\<close>

theorem gov_refines_ballots:
  assumes "reachable gov_init gov_step gw"
  shows "reachable no_ballots ballot_step (ballots_of (fst gw))
    \<and> (\<forall>gw'. gov_step gw gw' \<longrightarrow>
         ballots_of (fst gw') = ballots_of (fst gw) \<or> ballot_step (ballots_of (fst gw)) (ballots_of (fst gw')))"
proof
  show "\<forall>gw'. gov_step gw gw' \<longrightarrow>
      ballots_of (fst gw') = ballots_of (fst gw) \<or> ballot_step (ballots_of (fst gw)) (ballots_of (fst gw'))"
    using gov_step_ballots [OF gov_sys.reachable_inv [OF assms]] by blast
  show "reachable no_ballots ballot_step (ballots_of (fst gw))"
    using assms
  proof induction
    case (reach_init gw)
    have "ballots_of (fst gw) = Map.empty"
      using reach_init by (auto simp add: gov_init_def gov_fresh_def ballots_of_def)
    then show ?case by (intro reachable.reach_init)
  next
    case (reach_step gw gw')
    then show ?case
      using gov_step_ballots [OF gov_sys.reachable_inv [OF reach_step.hyps(1)] reach_step.hyps(2)]
        reachable.reach_step by fastforce
  qed
qed

end
