(* ===== verification/Governance_Lifecycle.thy ===== *)
theory Governance_Lifecycle
  imports Governance_Ballots
begin

text \<open>
  What holds in every state the governance contract can reach, and along its runs: tallies and results,
  the life cycle of a proposal, single votes, finalization, authority, and queries.
\<close>

section \<open>Runs\<close>

text \<open>A sequence of calls, each in its own surroundings, all of which must succeed.\<close>

primrec run_all :: "('w surroundings \<times> gov_call) list \<Rightarrow> gov \<times> 'w \<Rightarrow> (GovError, gov \<times> 'w) outcome" where
  "run_all [] gw = Inr gw"
| "run_all (x # xs) gw =
     (if g_code (fst gw) \<noteq> None then Inl Trap else bind_ok (run_gov (fst x) (snd x) gw) (run_all xs))"

lemma run_all_reachable:
  "run_all xs gw = Inr gw' \<Longrightarrow> reachable gov_init gov_step gw \<Longrightarrow> reachable gov_init gov_step gw'"
proof (induction xs arbitrary: gw)
  case (Cons x xs)
  obtain g w where gw: "gw = (g, w)" by (cases gw)
  obtain gw1 where r: "run_gov (fst x) (snd x) (g, w) = Inr gw1" "run_all xs gw1 = Inr gw'" "g_code g = None"
    using Cons.prems(1) by (auto simp add: gw split: if_splits)
  then have "gov_step (g, w) gw1" by (intro gov_called)
  then have "reachable gov_init gov_step gw1"
    using Cons.prems(2) unfolding gw by (rule reach_step [rotated])
  then show ?case using Cons.IH r(2) by blast
qed simp

lemma fresh_reachable: "reachable gov_init gov_step (gov_fresh, w)"
  by (rule reach_init) (simp add: gov_init_def)

text \<open>A small example: a token with two holders, and a proposal with a quorum of 300.\<close>

definition sample_client :: TokenClient where
  "sample_client = \<lparr>tc_balance = (\<lambda>a. if a = ''BOB'' then 400 else if a = ''ADM'' then 600 else 0),
     tc_balance_at = (\<lambda>a _. if a = ''BOB'' then 400 else if a = ''ADM'' then 600 else 0),
     tc_total_supply = 1000, tc_get_delegation = (\<lambda>_. None)\<rparr>"

definition sample_at :: "nat \<Rightarrow> unit surroundings" where
  "sample_at time = \<lparr>s_env = \<lparr>e_timestamp = time, e_sequence = 10, e_auth = (\<lambda>_. True), e_extend_missing = True\<rparr>,
     s_tokens = (\<lambda>a. if a = ''TOK'' then Some sample_client else None),
     s_choice_votes = (\<lambda>_ _. 0), s_disburse = (\<lambda>_ _ _. None)\<rparr>"

definition sample_calls :: "(unit surroundings \<times> gov_call) list" where
  "sample_calls =
     [(sample_at 0, Initialize ''ADM'' ''TOK'' 0 0 0 False None),
      (sample_at 100, CreateProposal ''BOB'' ''T'' ''D'' 300 60 None None),
      (sample_at 120, CastVote ''BOB'' 0 VYes)]"

lemmas gov_run_simps =
  gov_fresh_def gov_initialize_def create_proposal_def cast_vote_def retract_vote_def change_vote_def open_vote_def
  finalise_def execute_def cancel_def amend_proposal_def gov_pause_def gov_upd_defs drop_active_def
  after_def reject_if_def require_auth_def ok_or_def ok_or_trap_def bind_ok_def assert_ready_def assert_admin_def
  create_inputs_def create_floor_def create_cooldown_def admin_vote_check_def new_proposal_def voting_client_def
  has_voted_flag_def vote_total_def outcome_of_def i128_def in_i128_small u64_add_def u32_add_def Let_def

lemma u_max_vals: "u64_max = 18446744073709551615" "u32_max = 4294967295"
  by (simp_all add: u64_max_def u32_max_def)

definition sample_proposal :: gov_proposal where
  "sample_proposal = \<lparr>p_id = 0, p_proposer = ''BOB'', p_title = ''T'', p_description = ''D'', p_link = None,
     p_votes_yes = 400, p_votes_no = 0, p_votes_abstain = 0, p_quorum = 300, p_start_time = 100, p_end_time = 160,
     p_state = PActive, p_snapshot_ledger = 10, p_voter_count = 1, p_treasury_action = [], p_choices = [],
     p_winning_choice = None, p_cancellation_reason = None\<rparr>"

definition sample_gov :: gov where
  "sample_gov = gov_fresh\<lparr>g_admin := Some ''ADM'', g_voting_token := Some ''TOK'', g_ready := True,
     g_proposal_count := 1, g_active_count := 1, g_proposals := [0 \<mapsto> sample_proposal],
     g_has_voted := [(0, ''BOB'') \<mapsto> True], g_votes := [(0, ''BOB'') \<mapsto> \<lparr>v_vote = VYes, v_weight = 400\<rparr>],
     g_last_proposal := [''BOB'' \<mapsto> 100],
     g_events := [GeInit ''ADM'' ''TOK'', GeCreated 0 ''BOB'' ''T'' 300 160, GeVoted 0 ''BOB'' VYes 400]\<rparr>"

lemma sample_run: "run_all sample_calls (gov_fresh, ()) = Inr (sample_gov, ())"
  by (simp add: sample_calls_def sample_gov_def sample_proposal_def sample_at_def sample_client_def gov_run_simps
      u_max_vals)

lemma sample_reachable: "reachable gov_init gov_step (sample_gov, ())"
  using run_all_reachable [OF sample_run fresh_reachable] .

theorem gov_refines_ballots_witness:
  "ballots_of sample_gov 0 = Some \<lparr>b_status = PActive, b_quorum = 300, b_votes = [''BOB'' \<mapsto> (VYes, 400)]\<rparr>
     \<and> reachable no_ballots ballot_step (ballots_of sample_gov)"
proof
  show "reachable no_ballots ballot_step (ballots_of sample_gov)"
    using gov_refines_ballots [OF sample_reachable] by simp
  show "ballots_of sample_gov 0 = Some \<lparr>b_status = PActive, b_quorum = 300, b_votes = [''BOB'' \<mapsto> (VYes, 400)]\<rparr>"
    by (auto simp add: ballots_of_def ballot_of_def sample_gov_def sample_proposal_def gov_fresh_def)
qed

section \<open>Tallies and results\<close>

definition recorded :: "gov \<Rightarrow> nat \<Rightarrow> Vote \<Rightarrow> int" where
  "recorded g i v = (\<Sum>a \<in> {a. \<exists>r. g_votes g (i, a) = Some r \<and> v_vote r = v}. v_weight (the (g_votes g (i, a))))"

lemma recorded_total: "recorded g i v = map_total (votes_for (g_votes g) i v)"
  unfolding recorded_def map_total_def
  by (rule sum.cong) (auto simp add: votes_for_def at_or_0_def split: option.splits if_splits)

text \<open>
  C1. The result of a proposal is what the recorded votes say, in every state the contract can reach and
  whatever token contract it asks for weights: the three tallies are the sums of the weights of the
  stored vote records; a proposal that passed, executed or not, has reached its quorum with more weight
  for yes than for no by those records, and a rejected one has not.
\<close>

theorem result_follows_votes:
  assumes "reachable gov_init gov_step gw" and "g_proposals (fst gw) i = Some p"
  shows "p_votes_yes p = recorded (fst gw) i VYes \<and> p_votes_no p = recorded (fst gw) i VNo
    \<and> p_votes_abstain p = recorded (fst gw) i VAbstain
    \<and> (p_state p \<in> {PPassed, PExecuted} \<longrightarrow>
        recorded (fst gw) i VYes + recorded (fst gw) i VNo + recorded (fst gw) i VAbstain \<ge> p_quorum p
        \<and> recorded (fst gw) i VYes > recorded (fst gw) i VNo)
    \<and> (p_state p = PRejected \<longrightarrow>
        \<not> (recorded (fst gw) i VYes + recorded (fst gw) i VNo + recorded (fst gw) i VAbstain \<ge> p_quorum p
          \<and> recorded (fst gw) i VYes > recorded (fst gw) i VNo))"
proof -
  have ok: "gov_ok (fst gw)" using gov_sys.reachable_inv [OF assms(1)] .
  show ?thesis
    using gov_ok_tally [OF ok assms(2), of VYes] gov_ok_tally [OF ok assms(2), of VNo]
      gov_ok_tally [OF ok assms(2), of VAbstain] gov_ok_proposal [OF ok assms(2)]
    by (auto simp add: recorded_total proposal_ok_def carried_def)
qed

theorem result_follows_votes_witness: "recorded sample_gov 0 VYes = 400 \<and> recorded sample_gov 0 VNo = 0"
  using result_follows_votes [OF sample_reachable, of 0 sample_proposal]
  by (simp add: sample_gov_def sample_proposal_def)

text \<open>
  C23. Counters and flags: the proposals are numbered from zero without gaps, each under its own number;
  the count of active proposals is exact and never above 50; a voter is flagged as having voted exactly
  when a vote record exists, which then carries a positive weight for yes, no or abstain.
\<close>

theorem gov_bookkeeping:
  assumes "reachable gov_init gov_step gw"
  shows "dom (g_proposals (fst gw)) = {..<g_proposal_count (fst gw)}
    \<and> (\<forall>i p. g_proposals (fst gw) i = Some p \<longrightarrow> p_id p = i \<and> p_choices p = [])
    \<and> g_active_count (fst gw) = card {i. \<exists>p. g_proposals (fst gw) i = Some p \<and> p_state p = PActive}
    \<and> g_active_count (fst gw) \<le> 50
    \<and> (\<forall>i a. g_has_voted (fst gw) (i, a) = Some True \<longleftrightarrow> g_votes (fst gw) (i, a) \<noteq> None)
    \<and> (\<forall>i a r. g_votes (fst gw) (i, a) = Some r \<longrightarrow> 0 < v_weight r \<and> v_vote r \<in> {VYes, VNo, VAbstain})"
proof -
  have ok: "gov_ok (fst gw)" using gov_sys.reachable_inv [OF assms] .
  have v: "0 < v_weight r \<and> v_vote r \<in> {VYes, VNo, VAbstain}" if "g_votes (fst gw) (i, a) = Some r" for i a r
    using gov_ok_record [OF ok that] by (cases "v_vote r") auto
  have p: "p_id p = i \<and> p_choices p = []" if "g_proposals (fst gw) i = Some p" for i p
    using gov_ok_proposal [OF ok that] by (simp add: proposal_ok_def)
  have flag: "g_has_voted (fst gw) (i, a) = Some True \<longleftrightarrow> g_votes (fst gw) (i, a) \<noteq> None" for i a
    by (rule gov_ok_flag [OF ok, symmetric])
  have d: "dom (g_proposals (fst gw)) = {..<g_proposal_count (fst gw)}"
    "g_active_count (fst gw) = card {i. \<exists>p. g_proposals (fst gw) i = Some p \<and> p_state p = PActive}"
    "g_active_count (fst gw) \<le> 50"
    using ok unfolding gov_ok_def active_ids_def by blast+
  show ?thesis
    by (intro conjI allI impI; (rule d flag p [THEN conjunct1] p [THEN conjunct2] v [THEN conjunct1] v [THEN conjunct2])?; assumption?)
qed

theorem gov_bookkeeping_witness: "g_active_count sample_gov = 1 \<and> dom (g_proposals sample_gov) = {0}"
proof -
  have "dom (g_proposals sample_gov) = {..<g_proposal_count sample_gov}"
    using gov_bookkeeping [OF sample_reachable] unfolding fst_conv by (elim conjE)
  then show ?thesis by (auto simp add: sample_gov_def)
qed

section \<open>The life of a proposal\<close>

definition may_become :: "GovProposalState \<Rightarrow> GovProposalState \<Rightarrow> bool" where
  "may_become s t \<longleftrightarrow> t = s \<or> s = PActive \<and> t \<noteq> PActive \<or> s = PPassed \<and> t = PExecuted"

lemma may_become_trans: "may_become s t \<Longrightarrow> may_become t u \<Longrightarrow> may_become s u"
  by (cases t) (auto simp add: may_become_def)

definition evolves :: "nat \<Rightarrow> gov \<Rightarrow> gov \<Rightarrow> bool" where
  "evolves i g g' \<longleftrightarrow> (\<forall>p. g_proposals g i = Some p \<longrightarrow> (\<exists>p'. g_proposals g' i = Some p'
     \<and> may_become (p_state p) (p_state p')
     \<and> p_proposer p' = p_proposer p \<and> p_start_time p' = p_start_time p \<and> p_end_time p' = p_end_time p
     \<and> p_snapshot_ledger p' = p_snapshot_ledger p \<and> p_treasury_action p' = p_treasury_action p
     \<and> (p_state p \<noteq> PActive \<longrightarrow> p' = p\<lparr>p_state := p_state p'\<rparr>
          \<and> (\<forall>a. g_votes g' (i, a) = g_votes g (i, a)))))"

lemma evolves_refl: "evolves i g g"
  by (simp add: evolves_def may_become_def)

lemma evolves_cong:
  "g_proposals g' = g_proposals g \<Longrightarrow> g_votes g' = g_votes g \<Longrightarrow> evolves i g g'"
  using evolves_refl [of i g] by (simp add: evolves_def)

lemma evolves_trans:
  assumes "evolves i g1 g2" and "evolves i g2 g3"
  shows "evolves i g1 g3"
  unfolding evolves_def
proof (intro allI impI)
  fix p1
  assume "g_proposals g1 i = Some p1"
  then obtain p2 where p2: "g_proposals g2 i = Some p2" "may_become (p_state p1) (p_state p2)"
    "p_proposer p2 = p_proposer p1" "p_start_time p2 = p_start_time p1" "p_end_time p2 = p_end_time p1"
    "p_snapshot_ledger p2 = p_snapshot_ledger p1" "p_treasury_action p2 = p_treasury_action p1"
    "p_state p1 \<noteq> PActive \<longrightarrow> p2 = p1\<lparr>p_state := p_state p2\<rparr> \<and> (\<forall>a. g_votes g2 (i, a) = g_votes g1 (i, a))"
    using assms(1) unfolding evolves_def by blast
  then obtain p3 where p3: "g_proposals g3 i = Some p3" "may_become (p_state p2) (p_state p3)"
    "p_proposer p3 = p_proposer p2" "p_start_time p3 = p_start_time p2" "p_end_time p3 = p_end_time p2"
    "p_snapshot_ledger p3 = p_snapshot_ledger p2" "p_treasury_action p3 = p_treasury_action p2"
    "p_state p2 \<noteq> PActive \<longrightarrow> p3 = p2\<lparr>p_state := p_state p3\<rparr> \<and> (\<forall>a. g_votes g3 (i, a) = g_votes g2 (i, a))"
    using assms(2) unfolding evolves_def by blast
  have "p3 = p1\<lparr>p_state := p_state p3\<rparr> \<and> (\<forall>a. g_votes g3 (i, a) = g_votes g1 (i, a))" if "p_state p1 \<noteq> PActive"
  proof -
    have "p_state p2 \<noteq> PActive" using that p2(2) by (auto simp add: may_become_def)
    then show ?thesis using that p2(8) p3(8) by (metis (no_types) gov_proposal.surjective gov_proposal.update_convs(12))
  qed
  then show "\<exists>p'. g_proposals g3 i = Some p' \<and> may_become (p_state p1) (p_state p')
     \<and> p_proposer p' = p_proposer p1 \<and> p_start_time p' = p_start_time p1 \<and> p_end_time p' = p_end_time p1
     \<and> p_snapshot_ledger p' = p_snapshot_ledger p1 \<and> p_treasury_action p' = p_treasury_action p1
     \<and> (p_state p1 \<noteq> PActive \<longrightarrow> p' = p1\<lparr>p_state := p_state p'\<rparr> \<and> (\<forall>a. g_votes g3 (i, a) = g_votes g1 (i, a)))"
    using p2 p3 may_become_trans by (intro exI [of _ p3]) auto
qed

lemma evolves_set:
  assumes "g_proposals g j = Some p" and "g_proposals g' j = Some p'"
    and "\<And>k. k \<noteq> j \<Longrightarrow> g_proposals g' k = g_proposals g k"
    and "\<And>k a. k \<noteq> j \<Longrightarrow> g_votes g' (k, a) = g_votes g (k, a)"
    and "may_become (p_state p) (p_state p')"
    and "p_proposer p' = p_proposer p" and "p_start_time p' = p_start_time p" and "p_end_time p' = p_end_time p"
    and "p_snapshot_ledger p' = p_snapshot_ledger p" and "p_treasury_action p' = p_treasury_action p"
    and "p_state p \<noteq> PActive \<Longrightarrow> p' = p\<lparr>p_state := p_state p'\<rparr> \<and> g_votes g' = g_votes g"
  shows "evolves i g g'"
proof (cases "i = j")
  case True
  then show ?thesis using assms by (auto simp add: evolves_def)
next
  case False
  then show ?thesis using assms(3,4) by (auto simp add: evolves_def may_become_def)
qed

lemma set_tally_treasury [simp]: "p_treasury_action (set_tally v x p) = p_treasury_action p"
  by (cases v) simp_all

lemma evolves_local:
  assumes "gov_ok g" and "run_local env tokens cv c g = Inr g'"
  shows "evolves i g g'"
proof (cases "settings_call c")
  case True
  then show ?thesis using settings_core [OF True assms(2)] by (intro evolves_cong) (simp_all add: core_def)
next
  case False
  show ?thesis
  proof (cases c)
    case (Initialize a t mb cd bps r tr)
    then show ?thesis using assms(2) by (auto intro!: evolves_cong simp add: gov_initialize_def publish_def)
  next
    case (CreateProposal pr ti de qu du li ta)
    then obtain n where "create_proposal env tokens pr ti de qu du li ta g = Inr (n, g')" using assms(2) by auto
    then show ?thesis
    proof (rule create_proposal_Inr)
      assume n: "n = g_proposal_count g"
      assume g': "g' = publish (GeCreated n pr ti qu (e_timestamp env + du))
       ((set_proposal n (new_proposal env n pr ti de li qu (e_timestamp env + du) ta) g)
         \<lparr>g_proposal_count := g_proposal_count g + 1, g_active_count := g_active_count g + 1,
          g_last_proposal := (g_last_proposal g)(pr \<mapsto> e_timestamp env)\<rparr>)"
      have "g_proposals g i = Some p \<Longrightarrow> i \<noteq> n" for p using gov_ok_proposal [OF assms(1)] n by auto
      then show ?thesis by (auto simp add: g' gov_upd_defs evolves_def may_become_def)
    qed
  next
    case (AmendProposal pr j ti de)
    then have "amend_proposal env pr j ti de g = Inr g'" using assms(2) by simp
    then show ?thesis by (rule amend_proposal_Inr) (rule evolves_set, assumption, simp add: gov_upd_defs, auto simp add: gov_upd_defs may_become_def)
  next
    case (CastVote v j vote)
    then have "cast_vote env tokens v j vote g = Inr g'" using assms(2) by simp
    then show ?thesis by (rule cast_vote_Inr) (rule evolves_set, assumption, simp add: gov_upd_defs, auto simp add: gov_upd_defs may_become_def)
  next
    case (RetractVote v j)
    then have "retract_vote env v j g = Inr g'" using assms(2) by simp
    then show ?thesis by (rule retract_vote_Inr) (rule evolves_set, assumption, simp add: gov_upd_defs, auto simp add: gov_upd_defs may_become_def)
  next
    case (ChangeVote v j vote)
    then have "change_vote env v j vote g = Inr g'" using assms(2) by simp
    then show ?thesis by (rule change_vote_Inr) (rule evolves_set, assumption, simp add: gov_upd_defs, auto simp add: gov_upd_defs may_become_def)
  next
    case (Finalise j)
    then have "finalise env cv j g = Inr g'" using assms(2) by simp
    then show ?thesis
      by (rule finalise_Inr) (rule evolves_set, assumption, simp add: gov_upd_defs, auto simp add: gov_upd_defs may_become_def outcome_of_def)
  next
    case (Cancel a j r)
    then have "cancel env a j r g = Inr g'" using assms(2) by simp
    then show ?thesis by (rule cancel_Inr) (rule evolves_set, assumption, simp add: gov_upd_defs, auto simp add: gov_upd_defs may_become_def)
  next
    case (UpdateQuorum a j q)
    then have "update_quorum env tokens a j q g = Inr g'" using assms(2) by simp
    then show ?thesis by (rule update_quorum_Inr) (rule evolves_set, assumption, simp add: gov_upd_defs, auto simp add: gov_upd_defs may_become_def)
  qed (use False assms(2) in simp_all)
qed

lemma evolves_execute: "execute env disburse a j (g, w) = Inr (g', w') \<Longrightarrow> evolves i g g'"
  by (erule execute_Inr) (rule evolves_set, assumption, simp add: gov_upd_defs, auto simp add: gov_upd_defs may_become_def)

lemma gov_step_evolves:
  assumes "gov_ok (fst gw)" and "gov_step gw gw'"
  shows "evolves i (fst gw) (fst gw')"
  using assms(2)
proof cases
  case (gov_called g s c w)
  then have "run_gov s c (g, w) = Inr (fst gw', snd gw')" by simp
  then have "evolves i g (fst gw')"
    by (rule run_gov_cases) (use assms(1) gov_called(1) evolves_local in simp, erule evolves_execute)
  then show ?thesis using gov_called(1) by simp
qed (simp add: evolves_refl)

lemma run_evolves:
  assumes "reachable gov_init gov_step gw" and "gov_step\<^sup>*\<^sup>* gw gw'"
  shows "evolves i (fst gw) (fst gw')"
proof -
  have "gov_ok (fst gw') \<and> evolves i (fst gw) (fst gw')"
    using assms(2)
  proof induction
    case base
    show ?case using gov_sys.reachable_inv [OF assms(1)] evolves_refl by simp
  next
    case (step gw1 gw2)
    then show ?case
      using gov_step_evolves [of gw1 gw2 i] evolves_trans gov_sys.inv_step [of gw1 gw2] by blast
  qed
  then show ?thesis ..
qed

lemma evolves_settled:
  assumes "evolves i g g'" and "g_proposals g i = Some p" and "p_state p \<noteq> PActive"
  obtains p' where "g_proposals g' i = Some p'" and "p' = p \<or> p_state p = PPassed \<and> p' = p\<lparr>p_state := PExecuted\<rparr>"
proof -
  obtain p' where p': "g_proposals g' i = Some p'" "may_become (p_state p) (p_state p')"
    "p' = p\<lparr>p_state := p_state p'\<rparr>"
    using assms unfolding evolves_def by blast
  from p'(2) consider "p_state p' = p_state p" | "p_state p = PPassed" "p_state p' = PExecuted"
    using assms(3) by (auto simp add: may_become_def)
  then show thesis
  proof cases
    case 1
    then show ?thesis using that [OF p'(1)] p'(3) by simp
  next
    case 2
    then show ?thesis using that [OF p'(1)] p'(3) by simp
  qed
qed

text \<open>
  C6. The life cycle of a proposal along any run of the contract: a proposal never disappears; it leaves
  the state \<open>Active\<close> once, for passed, rejected or cancelled, and only a passed one becomes executed, so
  rejected, executed and cancelled are final.  Its proposer, voting period, snapshot and treasury action
  never change, and from the moment it is not active nothing of it changes any more but the step from
  passed to executed: no text, no quorum, no tally and no vote record.
\<close>

theorem proposal_lifecycle:
  assumes "reachable gov_init gov_step gw" and "gov_step\<^sup>*\<^sup>* gw gw'" and "g_proposals (fst gw) i = Some p"
  shows "\<exists>p'. g_proposals (fst gw') i = Some p'
    \<and> (p_state p' = p_state p \<or> p_state p = PActive \<and> p_state p' \<noteq> PActive
       \<or> p_state p = PPassed \<and> p_state p' = PExecuted)
    \<and> (is_terminal (p_state p) \<longrightarrow> p' = p)
    \<and> p_proposer p' = p_proposer p \<and> p_start_time p' = p_start_time p \<and> p_end_time p' = p_end_time p
    \<and> p_snapshot_ledger p' = p_snapshot_ledger p \<and> p_treasury_action p' = p_treasury_action p
    \<and> (p_state p \<noteq> PActive \<longrightarrow> p' = p\<lparr>p_state := p_state p'\<rparr>
         \<and> (\<forall>a. g_votes (fst gw') (i, a) = g_votes (fst gw) (i, a)))"
proof -
  have ev: "evolves i (fst gw) (fst gw')" by (rule run_evolves [OF assms(1,2)])
  then obtain p' where p': "g_proposals (fst gw') i = Some p'" "may_become (p_state p) (p_state p')"
    "p_proposer p' = p_proposer p" "p_start_time p' = p_start_time p" "p_end_time p' = p_end_time p"
    "p_snapshot_ledger p' = p_snapshot_ledger p" "p_treasury_action p' = p_treasury_action p"
    "p_state p \<noteq> PActive \<longrightarrow> p' = p\<lparr>p_state := p_state p'\<rparr>
       \<and> (\<forall>a. g_votes (fst gw') (i, a) = g_votes (fst gw) (i, a))"
    using assms(3) unfolding evolves_def by blast
  moreover have "p' = p" if "is_terminal (p_state p)"
    using that evolves_settled [OF ev assms(3)] p'(1) by (force simp add: is_terminal_def)
  ultimately show ?thesis by (intro exI [of _ p']) (simp add: may_become_def)
qed

definition sample_passed :: gov where
  "sample_passed = sample_gov\<lparr>g_active_count := 0, g_proposals := [0 \<mapsto> sample_proposal\<lparr>p_state := PPassed\<rparr>],
     g_events := g_events sample_gov @ [GeFinal 0 PPassed]\<rparr>"

lemma sample_finalised: "run_gov (sample_at 161) (Finalise 0) (sample_gov, ()) = Inr (sample_passed, ())"
  by (simp add: sample_passed_def sample_gov_def sample_proposal_def sample_at_def gov_run_simps)

lemma sample_final_step: "gov_step (sample_gov, ()) (sample_passed, ())"
  by (rule gov_called [OF _ sample_finalised]) (simp add: sample_gov_def gov_fresh_def)

theorem proposal_lifecycle_witness:
  "\<exists>p'. g_proposals sample_passed 0 = Some p' \<and> p_end_time p' = 160 \<and> p_state p' = PPassed"
proof -
  have "g_proposals (fst (sample_gov, ())) 0 = Some sample_proposal" by (simp add: sample_gov_def)
  from proposal_lifecycle [OF sample_reachable r_into_rtranclp [of gov_step, OF sample_final_step] this]
  show ?thesis by (auto simp add: sample_passed_def sample_proposal_def)
qed

section \<open>Single votes\<close>

text \<open>
  C26. Retracting undoes voting: after a successful vote the voter can retract it at any time up to the
  end of the voting period (while the contract is not paused), and then every ballot and every vote
  record is as it was before the vote; of the proposal only the number of voters, which a retraction
  does not lower, stays one higher.
\<close>

theorem cast_then_retract:
  assumes "reachable gov_init gov_step gw" and "cast_vote env tokens voter i vote (fst gw) = Inr g1"
    and "g_proposals (fst gw) i = Some p" and "e_auth env2 voter" and "e_timestamp env2 \<le> p_end_time p"
  shows "\<exists>g2. retract_vote env2 voter i g1 = Inr g2 \<and> ballots_of g2 = ballots_of (fst gw)
    \<and> g_votes g2 = g_votes (fst gw)
    \<and> g_proposals g2 = (g_proposals (fst gw))(i \<mapsto> p\<lparr>p_voter_count := p_voter_count p + 1\<rparr>)"
  using assms(2)
proof (rule cast_vote_Inr)
  fix q tc w
  let ?g = "fst gw"
  assume a: "g_proposals ?g i = Some q" "p_state q = PActive" "has_voted_flag env ?g i voter = Some False"
    "g_ready ?g" "\<not> g_paused ?g" "\<not> is_choice vote"
    "g1 = publish (GeVoted i voter vote w)
       (set_proposal i ((set_tally vote (tally vote q + w) q)\<lparr>p_voter_count := p_voter_count q + 1\<rparr>)
       (set_vote_record i voter \<lparr>v_vote = vote, v_weight = w\<rparr> (set_has_voted i voter True ?g)))"
  have ok: "gov_ok ?g" using gov_sys.reachable_inv [OF assms(1)] .
  have none: "g_votes ?g (i, voter) = None"
    using a(3) gov_ok_flag [OF ok, of i voter] by (auto simp add: has_voted_flag_def split: option.splits if_splits)
  have pq: "q = p" using a(1) assms(3) by simp
  have rng: "in_i128 (tally vote p)" using gov_ok_proposal [OF ok assms(3)] a(6) by (simp add: proposal_ok_def)
  let ?q = "(set_tally vote (tally vote p + w) p)\<lparr>p_voter_count := p_voter_count p + 1\<rparr>"
  have restored: "set_tally vote (tally vote p) ?q = p\<lparr>p_voter_count := p_voter_count p + 1\<rparr>"
    using a(6) by (cases vote) simp_all
  have undo: "(g_votes (fst gw))((i, voter) := None) = g_votes (fst gw)" using none by auto
  let ?g2 = "publish (GeRetract i voter w) (set_proposal i (set_tally vote (tally vote p) ?q)
      (remove_vote_record i voter (set_has_voted i voter False g1)))"
  have r: "retract_vote env2 voter i g1 = Inr ?g2"
    using a assms(4,5) rng pq
    by (simp add: retract_vote_def open_vote_def gov_upd_defs assert_ready_def has_voted_flag_def)
      blast
  have v: "g_votes ?g2 = g_votes ?g" by (simp add: a(7) gov_upd_defs undo)
  have p: "g_proposals ?g2 = (g_proposals ?g)(i \<mapsto> p\<lparr>p_voter_count := p_voter_count p + 1\<rparr>)"
    using restored by (simp add: a(7) gov_upd_defs pq)
  have "ballots_of ?g2 = (ballots_of ?g)(i \<mapsto> ballot_of (g_votes ?g2) i (p\<lparr>p_voter_count := p_voter_count p + 1\<rparr>))"
    by (rule ballots_of_upd [OF p]) (simp only: v)
  also have "ballot_of (g_votes ?g2) i (p\<lparr>p_voter_count := p_voter_count p + 1\<rparr>) = ballot_of (g_votes ?g) i p"
    unfolding v by (simp add: ballot_of_def)
  also have "(ballots_of ?g)(i \<mapsto> ballot_of (g_votes ?g) i p) = ballots_of ?g" using assms(3) by (auto simp add: ballots_of_def)
  finally show ?thesis using r v p by blast
qed

theorem cast_then_retract_witness:
  "\<exists>g1 g2. cast_vote (s_env (sample_at 130)) (s_tokens (sample_at 130)) ''ADM'' 0 VNo sample_gov = Inr g1
     \<and> retract_vote (s_env (sample_at 140)) ''ADM'' 0 g1 = Inr g2 \<and> ballots_of g2 = ballots_of sample_gov"
proof -
  obtain g1 where g1: "cast_vote (s_env (sample_at 130)) (s_tokens (sample_at 130)) ''ADM'' 0 VNo sample_gov = Inr g1"
    by (simp add: sample_gov_def sample_proposal_def sample_at_def sample_client_def gov_run_simps u_max_vals)
  have "g_proposals (fst (sample_gov, ())) 0 = Some sample_proposal" by (simp add: sample_gov_def)
  moreover have "e_auth (s_env (sample_at 140)) ''ADM''" "e_timestamp (s_env (sample_at 140)) \<le> p_end_time sample_proposal"
    by (simp_all add: sample_at_def sample_proposal_def)
  ultimately show ?thesis
    using cast_then_retract [OF sample_reachable, of _ _ "''ADM''" 0 VNo g1 sample_proposal "s_env (sample_at 140)"] g1
    by (metis fst_conv)
qed

end
