(* ===== verification/Governance_Weights.thy ===== *)
theory Governance_Weights
  imports Governance_Guarantees
begin

text \<open>
  What the governance contract owes to its surroundings.  The bound of the tallies by the token supply,
  which a comment in \<open>cast_vote\<close> relies on, holds if \<open>balance_at\<close> answers the same for a ledger at all times;
  and voting works at all only on a host that accepts the extension of an entry that does not exist.
\<close>

section \<open>Runs in restricted surroundings\<close>

inductive gov_step_in :: "('w surroundings \<Rightarrow> bool) \<Rightarrow> gov \<times> 'w \<Rightarrow> gov \<times> 'w \<Rightarrow> bool"
  for S :: "'w surroundings \<Rightarrow> bool" where
  in_called: "S s \<Longrightarrow> g_code g = None \<Longrightarrow> run_gov s c (g, w) = Inr gw \<Longrightarrow> gov_step_in S (g, w) gw"
| in_elsewhere: "gov_step_in S (g, w) (g, w')"

lemma step_in_step: "gov_step_in S gw gw' \<Longrightarrow> gov_step gw gw'"
  by (auto elim!: gov_step_in.cases intro: gov_called gov_elsewhere)

lemma reachable_in: "reachable gov_init (gov_step_in S) gw \<Longrightarrow> reachable gov_init gov_step gw"
  by (erule reachable_mono) (blast intro: step_in_step)

text \<open>An invariant that every successful call in such surroundings keeps.\<close>

locale surrounded =
  fixes S :: "'w surroundings \<Rightarrow> bool" and I :: "gov \<Rightarrow> bool"
  assumes fresh: "I gov_fresh"
    and called: "S s \<Longrightarrow> gov_ok g \<Longrightarrow> I g \<Longrightarrow> run_gov s c (g, w) = Inr (g', w') \<Longrightarrow> I g'"
begin

lemma reachable_I: "reachable gov_init (gov_step_in S) gw \<Longrightarrow> gov_ok (fst gw) \<and> I (fst gw)"
proof (induction rule: reachable.induct)
  case (reach_init gw)
  then show ?case using fresh gov_ok_fresh by (simp add: gov_init_def)
next
  case (reach_step gw gw')
  from reach_step(2) show ?case
  proof cases
    case (in_called s g c w)
    then show ?thesis
      using reach_step.IH called [of s g c w "fst gw'" "snd gw'"] run_gov_ok [of g s c w "fst gw'" "snd gw'"] by simp
  qed (use reach_step.IH in simp)
qed

end

section \<open>The host\<close>

definition trapping_host :: "'w surroundings \<Rightarrow> bool" where
  "trapping_host s \<longleftrightarrow> \<not> e_extend_missing (s_env s)"

lemma run_gov_no_flags:
  assumes "trapping_host s" and "g_has_voted g = Map.empty" and "run_gov s c (g, w) = Inr (g', w')"
  shows "g_has_voted g' = Map.empty"
  using assms(3)
proof (rule run_gov_cases)
  fix a j
  assume "execute (s_env s) (s_disburse s) a j (g, w) = Inr (g', w')"
  then show ?thesis using assms(2) by (auto elim!: execute_Inr simp add: gov_upd_defs)
next
  assume r: "run_local (s_env s) (s_tokens s) (s_choice_votes s) c g = Inr g'"
  have no: "has_voted_flag (s_env s) g j v = None" for j v
    using assms(1,2) by (simp add: has_voted_flag_def trapping_host_def)
  show ?thesis
    using r assms(2) no
    by (cases c) (auto elim!: create_proposal_Inr amend_proposal_Inr finalise_Inr cancel_Inr update_quorum_Inr
        cast_vote_Inr simp add: gov_upd_defs settings_defs gov_initialize_def retract_vote_def change_vote_def open_vote_def)
qed

interpretation trapping: surrounded "trapping_host :: 'w surroundings \<Rightarrow> bool" "\<lambda>g. g_has_voted g = Map.empty"
  by unfold_locales (simp add: gov_fresh_def, rule run_gov_no_flags)

text \<open>
  C40. \<open>has_voted\<close> extends the lifetime of the voter's entry even when the voter has none.  On a host
  that traps on that, as the Soroban host does (extending an entry that does not exist is an error there),
  nobody can ever vote: in every reachable state there is no vote record, all tallies are zero
  and no proposal has passed.
\<close>

theorem no_votes_on_trapping_host:
  assumes "reachable gov_init (gov_step_in trapping_host) gw"
  shows "g_votes (fst gw) = Map.empty
    \<and> (\<forall>i p. g_proposals (fst gw) i = Some p \<longrightarrow>
         p_votes_yes p = 0 \<and> p_votes_no p = 0 \<and> p_votes_abstain p = 0 \<and> p_state p \<notin> {PPassed, PExecuted})"
proof -
  have ok: "gov_ok (fst gw)" and hv: "g_has_voted (fst gw) = Map.empty"
    using trapping.reachable_I [OF assms] by auto
  have v: "g_votes (fst gw) = Map.empty"
  proof
    fix x
    show "g_votes (fst gw) x = None" using gov_ok_flag [OF ok, of "fst x" "snd x"] hv by simp
  qed
  have z: "tally u p = 0" if "g_proposals (fst gw) i = Some p" "\<not> is_choice u" for i p u
    using gov_ok_tally [OF ok that] v by (simp add: votes_for_def [abs_def])
  have "p_votes_yes p = 0 \<and> p_votes_no p = 0 \<and> p_votes_abstain p = 0 \<and> p_state p \<notin> {PPassed, PExecuted}"
    if p: "g_proposals (fst gw) i = Some p" for i p
    using z [OF p, of VYes] z [OF p, of VNo] z [OF p, of VAbstain] gov_ok_proposal [OF ok p]
    by (auto simp add: proposal_ok_def carried_def)
  then show ?thesis using v by blast
qed

definition sample_trap_at :: "nat \<Rightarrow> unit surroundings" where
  "sample_trap_at time = (sample_at time)\<lparr>s_env := (s_env (sample_at time))\<lparr>e_extend_missing := False\<rparr>\<rparr>"

theorem no_votes_on_trapping_host_witness:
  "\<exists>g p. reachable gov_init (gov_step_in trapping_host) (g, ()) \<and> g_proposals g 0 = Some p \<and> p_votes_yes p = 0
     \<and> cast_vote (s_env (sample_trap_at 130)) (s_tokens (sample_trap_at 130)) ''BOB'' 0 VYes g = Inl Trap"
proof -
  obtain g1 where r1: "run_gov (sample_trap_at 0) (Initialize ''ADM'' ''TOK'' 0 0 0 False None) (gov_fresh, ()) = Inr (g1, ())"
    and g1: "g1 = publish (GeInit ''ADM'' ''TOK'') (gov_fresh\<lparr>g_admin := Some ''ADM'', g_voting_token := Some ''TOK'', g_ready := True\<rparr>)"
    by (simp add: gov_run_simps)
  obtain g2 p where r2: "run_gov (sample_trap_at 100) (CreateProposal ''BOB'' ''T'' ''D'' 300 60 None None) (g1, ()) = Inr (g2, ())"
    and g2: "g_proposals g2 0 = Some p"
      "cast_vote (s_env (sample_trap_at 130)) (s_tokens (sample_trap_at 130)) ''BOB'' 0 VYes g2 = Inl Trap"
    by (simp add: g1 sample_trap_at_def sample_at_def sample_client_def gov_run_simps u_max_vals)
  have S: "trapping_host (sample_trap_at time)" for time by (simp add: trapping_host_def sample_trap_at_def)
  have "gov_step_in trapping_host (gov_fresh, ()) (g1, ())"
    by (rule in_called [where S = trapping_host, OF S _ r1]) (simp add: gov_fresh_def)
  then have "reachable gov_init (gov_step_in trapping_host) (g1, ())"
    by (rule reach_step [rotated]) (rule reach_init, simp add: gov_init_def)
  moreover have "gov_step_in trapping_host (g1, ()) (g2, ())"
    by (rule in_called [where S = trapping_host, OF S _ r2]) (simp add: g1 publish_def gov_fresh_def)
  ultimately have "reachable gov_init (gov_step_in trapping_host) (g2, ())" by (rule reach_step)
  with no_votes_on_trapping_host [OF this] g2 show ?thesis by auto
qed

section \<open>Snapshots\<close>

definition snapshots :: "(nat \<Rightarrow> Address \<Rightarrow> int) \<Rightarrow> 'w surroundings \<Rightarrow> bool" where
  "snapshots bal s \<longleftrightarrow> (\<forall>addr tc a l. s_tokens s addr = Some tc \<longrightarrow> tc_balance_at tc a l = bal l a)"

definition weights_from :: "(nat \<Rightarrow> Address \<Rightarrow> int) \<Rightarrow> gov \<Rightarrow> bool" where
  "weights_from bal g \<longleftrightarrow> (\<forall>i a r p. g_votes g (i, a) = Some r \<longrightarrow> g_proposals g i = Some p \<longrightarrow>
     v_weight r = bal (p_snapshot_ledger p) a)"

text \<open>Where a record of the new state comes from.\<close>

lemma run_gov_record:
  assumes "run_gov s c (g, w) = Inr (g', w')" and "g_votes g' (i, a) = Some r"
  shows "(\<exists>r0. g_votes g (i, a) = Some r0 \<and> v_weight r0 = v_weight r)
    \<or> (\<exists>p tc addr. g_proposals g i = Some p \<and> s_tokens s addr = Some tc
         \<and> v_weight r = tc_balance_at tc a (p_snapshot_ledger p))"
proof (cases c)
  case (CastVote v j vote)
  then have "cast_vote (s_env s) (s_tokens s) v j vote g = Inr g'" using assms(1) by auto
  then show ?thesis
  proof (rule cast_vote_Inr)
    fix p tc x
    assume p: "g_proposals g j = Some p" and tc: "voting_client (s_tokens s) g = Some tc"
      and x: "x = tc_balance_at tc v (p_snapshot_ledger p)"
      and g': "g' = publish (GeVoted j v vote x)
       (set_proposal j ((set_tally vote (tally vote p + x) p)\<lparr>p_voter_count := p_voter_count p + 1\<rparr>)
       (set_vote_record j v \<lparr>v_vote = vote, v_weight = x\<rparr> (set_has_voted j v True g)))"
    obtain addr where "s_tokens s addr = Some tc" using tc by (auto simp add: voting_client_def bind_eq_Some_conv)
    then show ?thesis using assms(2) p x unfolding g' by (cases "(i, a) = (j, v)") (auto simp add: gov_upd_defs)
  qed
next
  case (RetractVote v j)
  then have "retract_vote (s_env s) v j g = Inr g'" using assms(1) by auto
  then show ?thesis using assms(2) by (auto elim!: retract_vote_Inr simp add: gov_upd_defs split: if_splits)
next
  case (ChangeVote v j vote)
  then have "change_vote (s_env s) v j vote g = Inr g'" using assms(1) by auto
  then show ?thesis using assms(2) by (auto elim!: change_vote_Inr simp add: gov_upd_defs split: if_splits)
qed (use assms in \<open>auto elim!: create_proposal_Inr amend_proposal_Inr finalise_Inr cancel_Inr update_quorum_Inr
    execute_Inr simp add: gov_upd_defs settings_defs gov_initialize_def\<close>)

lemma run_gov_snapshot:
  assumes "gov_ok g" and "run_gov s c (g, w) = Inr (g', w')" and "g_proposals g i = Some p" and "g_proposals g' i = Some p'"
  shows "p_snapshot_ledger p' = p_snapshot_ledger p"
proof -
  have "evolves i g g'"
    using assms(2) by (rule run_gov_cases) (erule evolves_local [OF assms(1)], erule evolves_execute)
  then show ?thesis using assms(3,4) by (auto simp add: evolves_def)
qed

lemma run_gov_weights:
  assumes "snapshots bal s" and "gov_ok g" and "weights_from bal g" and "run_gov s c (g, w) = Inr (g', w')"
  shows "weights_from bal g'"
  unfolding weights_from_def
proof (intro allI impI)
  fix i a r p'
  assume r: "g_votes g' (i, a) = Some r" and p': "g_proposals g' i = Some p'"
  have ex: "\<exists>p. g_proposals g i = Some p" if "g_votes g (i, a) = Some r0" for r0
    using gov_ok_record [OF assms(2) that] assms(2) by (auto simp add: gov_ok_def)
  from run_gov_record [OF assms(4) r] show "v_weight r = bal (p_snapshot_ledger p') a"
  proof
    assume "\<exists>r0. g_votes g (i, a) = Some r0 \<and> v_weight r0 = v_weight r"
    then obtain r0 where r0: "g_votes g (i, a) = Some r0" "v_weight r0 = v_weight r" by blast
    then obtain p where p: "g_proposals g i = Some p" using ex by blast
    then show ?thesis
      using assms(3) r0 run_gov_snapshot [OF assms(2,4) p p'] by (auto simp add: weights_from_def)
  next
    assume "\<exists>p tc addr. g_proposals g i = Some p \<and> s_tokens s addr = Some tc
         \<and> v_weight r = tc_balance_at tc a (p_snapshot_ledger p)"
    then show ?thesis
      using assms(1) run_gov_snapshot [OF assms(2,4) _ p'] by (auto simp add: snapshots_def)
  qed
qed

interpretation snapshot: surrounded "snapshots bal :: 'w surroundings \<Rightarrow> bool" "weights_from bal" for bal
  by unfold_locales (simp add: weights_from_def gov_fresh_def, rule run_gov_weights)

text \<open>
  C17. The tallies against the token supply: if the token answers \<open>balance_at\<close> for a ledger with the same
  balances at all times, and those balances add up to at most a supply, then the votes on a proposal never
  add up to more than that supply, whoever votes, retracts or changes votes in whatever order.  (With the
  token contract of this repository the condition fails; the system theory shows the consequence.)
\<close>

theorem tally_bounded_by_snapshot:
  assumes "reachable gov_init (gov_step_in (snapshots bal)) gw" and "g_proposals (fst gw) i = Some p"
    and "\<And>A. finite A \<Longrightarrow> (\<Sum>a \<in> A. bal (p_snapshot_ledger p) a) \<le> supply"
  shows "p_votes_yes p + p_votes_no p + p_votes_abstain p \<le> supply"
proof -
  have ok: "gov_ok (fst gw)" and w: "weights_from bal (fst gw)"
    using snapshot.reachable_I [OF assms(1)] by auto
  let ?V = "g_votes (fst gw)" and ?l = "p_snapshot_ledger p"
  let ?D = "\<lambda>v. dom (votes_for ?V i v)"
  have fin: "finite (?D v)" for v using ok by (simp add: gov_ok_def)
  have t: "tally v p = (\<Sum>a \<in> ?D v. bal ?l a)" if "\<not> is_choice v" for v
    unfolding gov_ok_tally [OF ok assms(2) that] map_total_def
  proof (rule sum.cong [OF refl])
    fix a
    assume "a \<in> ?D v"
    then obtain r where "?V (i, a) = Some r" "v_vote r = v"
      by (auto simp add: votes_for_def split: option.splits if_splits)
    then show "at_or_0 (votes_for ?V i v) a = bal ?l a"
      using w assms(2) by (auto simp add: votes_for_some weights_from_def)
  qed
  have disj: "?D u \<inter> ?D v = {}" if "u \<noteq> v" for u v
    using that by (auto simp add: votes_for_def split: option.splits if_splits)
  have "p_votes_yes p + p_votes_no p + p_votes_abstain p = (\<Sum>a \<in> ?D VYes \<union> ?D VNo \<union> ?D VAbstain. bal ?l a)"
    using t [of VYes] t [of VNo] t [of VAbstain] fin disj [of VYes VNo] disj [of VYes VAbstain] disj [of VNo VAbstain]
    by (simp add: sum.union_disjoint Int_Un_distrib2)
  also have "\<dots> \<le> supply" by (intro assms(3)) (simp add: fin)
  finally show ?thesis .
qed

lemma run_all_in:
  assumes "run_all xs gw = Inr gw'" and "reachable gov_init (gov_step_in S) gw" and "\<forall>x \<in> set xs. S (fst x)"
  shows "reachable gov_init (gov_step_in S) gw'"
  using assms
proof (induction xs arbitrary: gw)
  case (Cons x xs)
  obtain g w where gw: "gw = (g, w)" by (cases gw)
  obtain gw1 where r: "run_gov (fst x) (snd x) (g, w) = Inr gw1" "run_all xs gw1 = Inr gw'" "g_code g = None"
    using Cons.prems(1) by (auto simp add: gw split: if_splits)
  have "S (fst x)" using Cons.prems(3) by simp
  then have "gov_step_in S (g, w) gw1" using r by (intro in_called)
  then have "reachable gov_init (gov_step_in S) gw1"
    using Cons.prems(2) unfolding gw by (rule reach_step [rotated])
  then show ?case using Cons.IH r(2) Cons.prems(3) by simp
qed simp

definition sample_balances :: "nat \<Rightarrow> Address \<Rightarrow> int" where
  "sample_balances l a = (if a = ''BOB'' then 400 else if a = ''ADM'' then 600 else 0)"

lemma sample_balances_bounded:
  assumes "finite A"
  shows "(\<Sum>a \<in> A. sample_balances l a) \<le> 1000"
proof -
  have "(\<Sum>a \<in> A. sample_balances l a) = (\<Sum>a \<in> A \<inter> {''BOB'', ''ADM''}. sample_balances l a)"
    using assms by (intro sum.mono_neutral_right) (auto simp add: sample_balances_def)
  also have "\<dots> \<le> (\<Sum>a \<in> {''BOB'', ''ADM''}. sample_balances l a)"
    by (rule sum_mono2) (auto simp add: sample_balances_def)
  finally show ?thesis by (simp add: sample_balances_def)
qed

theorem tally_bounded_by_snapshot_witness:
  "p_votes_yes sample_proposal + p_votes_no sample_proposal + p_votes_abstain sample_proposal \<le> 1000"
proof -
  have S: "\<forall>x \<in> set sample_calls. snapshots sample_balances (fst x)"
    by (auto simp add: sample_calls_def snapshots_def sample_at_def sample_client_def sample_balances_def split: if_splits)
  have "reachable gov_init (gov_step_in (snapshots sample_balances)) (gov_fresh, ())"
    by (rule reach_init) (simp add: gov_init_def)
  from run_all_in [OF sample_run this S]
  have r: "reachable gov_init (gov_step_in (snapshots sample_balances)) (sample_gov, ())" .
  have "g_proposals (fst (sample_gov, ())) 0 = Some sample_proposal" by (simp add: sample_gov_def)
  from tally_bounded_by_snapshot [OF r this sample_balances_bounded] show ?thesis by simp
qed

end
