(* ===== verification/Token_Contract.thy ===== *)
theory Token_Contract
  imports Soroban_Host JS_Prelude
begin

text \<open>
  The governance token, \<^verbatim>\<open>contracts/token/src\<close>: the storage as a record (an entry read with
  \<open>unwrap_or\<close> holds its default from the start), the operations as functions of the environment and
  the storage, and the transition system of the contract.  An allowance is a temporary entry, which the
  host may drop at any time after its lifetime; the transition system has a step for that.
\<close>

section \<open>Types\<close>

datatype TokenError =
    AlreadyInitialized | NotInitialized | NotAdmin | InvalidNewAdmin | InvalidAmount
  | InsufficientBalance | AllowanceExceeded | CannotDelegateSelf | AlreadyDelegating
  | NotDelegating | InvalidExpiry | NoPendingAdmin | NotPendingAdmin | ContractPaused | NotPaused

fun token_error_code :: "TokenError \<Rightarrow> nat" where
  "token_error_code AlreadyInitialized = 1"
| "token_error_code NotInitialized = 2"
| "token_error_code NotAdmin = 10"
| "token_error_code InvalidNewAdmin = 11"
| "token_error_code InvalidAmount = 20"
| "token_error_code InsufficientBalance = 21"
| "token_error_code AllowanceExceeded = 22"
| "token_error_code CannotDelegateSelf = 30"
| "token_error_code AlreadyDelegating = 31"
| "token_error_code NotDelegating = 32"
| "token_error_code InvalidExpiry = 40"
| "token_error_code NoPendingAdmin = 50"
| "token_error_code NotPendingAdmin = 51"
| "token_error_code ContractPaused = 60"
| "token_error_code NotPaused = 61"

record Allowance =
  al_amount :: int
  al_expiry_ledger :: nat

datatype token_event =
    TkInit Address int | TkTransfer Address Address int | TkApproval Address Address int
  | TkMinted Address Address int | TkBurned Address Address int
  | TkAdminProposed Address Address | TkAdminAccepted Address Address
  | TkDelegated Address Address | TkUndelegated Address | TkUnpaused Address | TkPaused Address
  | TkUpgraded string

record token =
  tk_initialized :: bool
  tk_admin :: "Address option"
  tk_pending_admin :: "Address option"
  tk_total_supply :: int
  tk_version :: "nat \<times> nat \<times> nat"
  tk_name :: string
  tk_symbol :: string
  tk_decimals :: nat
  tk_paused :: bool
  tk_balances :: "Address \<rightharpoonup> int"
  tk_delegations :: "Address \<rightharpoonup> Address"
  tk_allowances :: "Address \<times> Address \<rightharpoonup> Allowance"
  tk_code :: "string option"
  tk_events :: "token_event list"

text \<open>The storage of a contract that has just been deployed; \<open>tk_code\<close> is the hash of a later upgrade.\<close>

definition token_fresh :: token where
  "token_fresh = \<lparr>tk_initialized = False, tk_admin = None, tk_pending_admin = None, tk_total_supply = 0,
     tk_version = (1, 0, 0), tk_name = [], tk_symbol = [], tk_decimals = 0, tk_paused = False,
     tk_balances = Map.empty, tk_delegations = Map.empty, tk_allowances = Map.empty,
     tk_code = None, tk_events = []\<rparr>"

type_synonym token_result = "(TokenError, token) outcome"

section \<open>Storage accessors\<close>

definition token_balance :: "token \<Rightarrow> Address \<Rightarrow> int" where
  "token_balance tk owner = (case tk_balances tk owner of Some v \<Rightarrow> v | None \<Rightarrow> 0)"

definition set_balance :: "Address \<Rightarrow> int \<Rightarrow> token \<Rightarrow> token" where
  "set_balance owner v tk = tk\<lparr>tk_balances := (tk_balances tk)(owner \<mapsto> v)\<rparr>"

definition allowance_record :: "env \<Rightarrow> token \<Rightarrow> Address \<Rightarrow> Address \<Rightarrow> Allowance option" where
  "allowance_record env tk owner spender =
     (case tk_allowances tk (owner, spender) of
        None \<Rightarrow> None
      | Some data \<Rightarrow>
          if e_sequence env > al_expiry_ledger data \<or> al_amount data \<le> 0 then None else Some data)"

definition token_allowance :: "env \<Rightarrow> token \<Rightarrow> Address \<Rightarrow> Address \<Rightarrow> int" where
  "token_allowance env tk owner spender =
     (case allowance_record env tk owner spender of Some data \<Rightarrow> al_amount data | None \<Rightarrow> 0)"

definition set_allowance :: "Address \<Rightarrow> Address \<Rightarrow> int \<Rightarrow> nat \<Rightarrow> token \<Rightarrow> token" where
  "set_allowance owner spender amount expiry_ledger tk = tk\<lparr>tk_allowances :=
     (tk_allowances tk)((owner, spender) \<mapsto> \<lparr>al_amount = amount, al_expiry_ledger = expiry_ledger\<rparr>)\<rparr>"

definition tk_publish :: "token_event \<Rightarrow> token \<Rightarrow> token" where
  "tk_publish ev tk = tk\<lparr>tk_events := tk_events tk @ [ev]\<rparr>"

section \<open>Queries\<close>

definition balance_at :: "token \<Rightarrow> Address \<Rightarrow> nat \<Rightarrow> int" where
  "balance_at tk owner ledger = token_balance tk owner"

definition get_delegation :: "token \<Rightarrow> Address \<Rightarrow> Address option" where
  "get_delegation tk owner = tk_delegations tk owner"

fun add_delegators :: "token \<Rightarrow> Address \<Rightarrow> Address list \<Rightarrow> int \<Rightarrow> int" where
  "add_delegators tk voter [] weight = weight"
| "add_delegators tk voter (d # ds) weight =
     add_delegators tk voter ds
       (case tk_delegations tk d of
          Some delegate \<Rightarrow> if delegate = voter then saturating_add weight (token_balance tk d) else weight
        | None \<Rightarrow> weight)"

definition get_delegated_weight :: "token \<Rightarrow> Address \<Rightarrow> Address list \<Rightarrow> int" where
  "get_delegated_weight tk voter delegators = add_delegators tk voter delegators (token_balance tk voter)"

section \<open>Guards\<close>

definition validate_amount :: "int \<Rightarrow> TokenError option" where
  "validate_amount amount = (if amount \<le> 0 then Some InvalidAmount else None)"

definition tk_assert_not_paused :: "token \<Rightarrow> TokenError option" where
  "tk_assert_not_paused tk = (if tk_paused tk then Some ContractPaused else None)"

text \<open>\<open>assert_admin\<close> reads the admin with \<open>unwrap\<close>: it traps before the contract is initialized.\<close>

definition tk_assert_admin :: "token \<Rightarrow> Address \<Rightarrow> TokenError fault option" where
  "tk_assert_admin tk caller =
     (case tk_admin tk of None \<Rightarrow> Some Trap
      | Some a \<Rightarrow> if a \<noteq> caller then Some (Err NotAdmin) else None)"

section \<open>Operations\<close>

definition tok_initialize ::
  "Address \<Rightarrow> int \<Rightarrow> string \<Rightarrow> string \<Rightarrow> nat \<Rightarrow> token \<Rightarrow> token_result" where
  "tok_initialize admin initial_supply name symbol decimals tk =
     (if tk_initialized tk then Inl (Err AlreadyInitialized)
      else Inr (tk_publish (TkInit admin initial_supply)
        (set_balance admin initial_supply (tk\<lparr>tk_admin := Some admin, tk_total_supply := initial_supply,
          tk_name := name, tk_symbol := symbol, tk_decimals := decimals, tk_initialized := True,
          tk_version := (1, 0, 0)\<rparr>))))"

definition transfer :: "env \<Rightarrow> Address \<Rightarrow> Address \<Rightarrow> int \<Rightarrow> token \<Rightarrow> token_result" where
  "transfer env from to amount tk =
     after (require_auth env from)
     (after (map_option Err (tk_assert_not_paused tk))
     (after (map_option Err (validate_amount amount))
     (let from_bal = token_balance tk from in
      if from_bal < amount then Inl (Err InsufficientBalance)
      else if from = to then Inr tk
      else ok_or_trap (i128 (from_bal - amount)) (\<lambda>from_new.
        let tk1 = set_balance from from_new tk;
            to_bal = token_balance tk1 to in
        ok_or_trap (i128 (to_bal + amount)) (\<lambda>to_new.
          Inr (tk_publish (TkTransfer from to amount) (set_balance to to_new tk1)))))))"

definition transfer_from ::
  "env \<Rightarrow> Address \<Rightarrow> Address \<Rightarrow> Address \<Rightarrow> int \<Rightarrow> token \<Rightarrow> token_result" where
  "transfer_from env spender from to amount tk =
     after (require_auth env spender)
     (after (map_option Err (tk_assert_not_paused tk))
     (after (map_option Err (validate_amount amount))
     (case allowance_record env tk from spender of
        None \<Rightarrow> Inl (Err AllowanceExceeded)
      | Some rec \<Rightarrow>
          if al_amount rec < amount then Inl (Err AllowanceExceeded)
          else let from_bal = token_balance tk from in
          if from_bal < amount then Inl (Err InsufficientBalance)
          else ok_or_trap (i128 (al_amount rec - amount)) (\<lambda>remaining.
            ok_or_trap (i128 (from_bal - amount)) (\<lambda>from_new.
              let tk1 = set_balance from from_new
                    (set_allowance from spender remaining (al_expiry_ledger rec) tk);
                  to_bal = token_balance tk1 to in
              ok_or_trap (i128 (to_bal + amount)) (\<lambda>to_new.
                Inr (tk_publish (TkTransfer from to amount) (set_balance to to_new tk1))))))))"

definition approve :: "env \<Rightarrow> Address \<Rightarrow> Address \<Rightarrow> int \<Rightarrow> nat \<Rightarrow> token \<Rightarrow> token_result" where
  "approve env owner spender amount expiry_ledger tk =
     after (require_auth env owner)
     (if amount < 0 then Inl (Err InvalidAmount)
      else if expiry_ledger \<le> e_sequence env then Inl (Err InvalidExpiry)
      else Inr (tk_publish (TkApproval owner spender amount)
        (set_allowance owner spender amount expiry_ledger tk)))"

definition mint :: "env \<Rightarrow> Address \<Rightarrow> Address \<Rightarrow> int \<Rightarrow> token \<Rightarrow> token_result" where
  "mint env admin to amount tk =
     after (require_auth env admin)
     (after (tk_assert_admin tk admin)
     (after (map_option Err (tk_assert_not_paused tk))
     (after (map_option Err (validate_amount amount))
     (ok_or_trap (i128 (tk_total_supply tk + amount)) (\<lambda>supply.
       let tk1 = tk\<lparr>tk_total_supply := supply\<rparr>; bal = token_balance tk1 to in
       ok_or_trap (i128 (bal + amount)) (\<lambda>bal_new.
         Inr (tk_publish (TkMinted admin to amount) (set_balance to bal_new tk1))))))))"

text \<open>What \<open>burn\<close> and \<open>burn_self\<close> have in common: both end with these lines.\<close>

definition burn_from :: "Address \<Rightarrow> Address \<Rightarrow> int \<Rightarrow> token \<Rightarrow> token_result" where
  "burn_from who from amount tk =
     (let bal = token_balance tk from in
      if bal < amount then Inl (Err InsufficientBalance)
      else ok_or_trap (i128 (tk_total_supply tk - amount)) (\<lambda>supply.
        ok_or_trap (i128 (bal - amount)) (\<lambda>bal_new.
          Inr (tk_publish (TkBurned who from amount)
            (set_balance from bal_new (tk\<lparr>tk_total_supply := supply\<rparr>))))))"

definition burn :: "env \<Rightarrow> Address \<Rightarrow> Address \<Rightarrow> int \<Rightarrow> token \<Rightarrow> token_result" where
  "burn env admin from amount tk =
     after (require_auth env admin)
     (after (tk_assert_admin tk admin)
     (after (map_option Err (tk_assert_not_paused tk))
     (after (map_option Err (validate_amount amount))
     (burn_from admin from amount tk))))"

definition burn_self :: "env \<Rightarrow> Address \<Rightarrow> int \<Rightarrow> token \<Rightarrow> token_result" where
  "burn_self env owner amount tk =
     after (require_auth env owner)
     (after (map_option Err (validate_amount amount))
     (burn_from owner owner amount tk))"

definition delegate :: "env \<Rightarrow> Address \<Rightarrow> Address \<Rightarrow> token \<Rightarrow> token_result" where
  "delegate env owner delegate_to tk =
     after (require_auth env owner)
     (if owner = delegate_to then Inl (Err CannotDelegateSelf)
      else if tk_delegations tk owner \<noteq> None then Inl (Err AlreadyDelegating)
      else Inr (tk_publish (TkDelegated owner delegate_to)
        (tk\<lparr>tk_delegations := (tk_delegations tk)(owner \<mapsto> delegate_to)\<rparr>)))"

definition undelegate :: "env \<Rightarrow> Address \<Rightarrow> token \<Rightarrow> token_result" where
  "undelegate env owner tk =
     after (require_auth env owner)
     (if tk_delegations tk owner = None then Inl (Err NotDelegating)
      else Inr (tk_publish (TkUndelegated owner)
        (tk\<lparr>tk_delegations := (tk_delegations tk)(owner := None)\<rparr>)))"

definition tok_propose_admin :: "env \<Rightarrow> Address \<Rightarrow> Address \<Rightarrow> token \<Rightarrow> token_result" where
  "tok_propose_admin env admin new_admin tk =
     after (require_auth env admin)
     (after (tk_assert_admin tk admin)
     (Inr (tk_publish (TkAdminProposed admin new_admin) (tk\<lparr>tk_pending_admin := Some new_admin\<rparr>))))"

definition tok_accept_admin :: "env \<Rightarrow> Address \<Rightarrow> token \<Rightarrow> token_result" where
  "tok_accept_admin env pending_admin tk =
     after (require_auth env pending_admin)
     (case tk_pending_admin tk of
        None \<Rightarrow> Inl (Err NoPendingAdmin)
      | Some current_pending \<Rightarrow>
          if pending_admin \<noteq> current_pending then Inl (Err NotPendingAdmin)
          else ok_or_trap (tk_admin tk) (\<lambda>previous_admin.
            Inr (tk_publish (TkAdminAccepted previous_admin pending_admin)
              (tk\<lparr>tk_admin := Some pending_admin, tk_pending_admin := None\<rparr>))))"

definition tok_pause :: "env \<Rightarrow> Address \<Rightarrow> token \<Rightarrow> token_result" where
  "tok_pause env admin tk =
     after (require_auth env admin)
     (after (tk_assert_admin tk admin)
     (if tk_paused tk then Inl (Err ContractPaused)
      else Inr (tk_publish (TkPaused admin) (tk\<lparr>tk_paused := True\<rparr>))))"

definition tok_unpause :: "env \<Rightarrow> Address \<Rightarrow> token \<Rightarrow> token_result" where
  "tok_unpause env admin tk =
     after (require_auth env admin)
     (after (tk_assert_admin tk admin)
     (if \<not> tk_paused tk then Inl (Err NotPaused)
      else Inr (tk_publish (TkUnpaused admin) (tk\<lparr>tk_paused := False\<rparr>))))"

definition tok_upgrade :: "env \<Rightarrow> Address \<Rightarrow> string \<Rightarrow> token \<Rightarrow> token_result" where
  "tok_upgrade env admin new_wasm_hash tk =
     after (require_auth env admin)
     (after (tk_assert_admin tk admin)
     (Inr (tk_publish (TkUpgraded new_wasm_hash) (tk\<lparr>tk_code := Some new_wasm_hash\<rparr>))))"

section \<open>The contract as a transition system\<close>

datatype token_call =
    TokTransfer Address Address int | TokTransferFrom Address Address Address int
  | TokApprove Address Address int nat | TokMint Address Address int | TokBurn Address Address int
  | TokBurnSelf Address int | TokDelegate Address Address | TokUndelegate Address
  | TokProposeAdmin Address Address | TokAcceptAdmin Address | TokPause Address | TokUnpause Address
  | TokUpgrade Address string | TokInitialize Address int string string nat

fun run_token :: "env \<Rightarrow> token_call \<Rightarrow> token \<Rightarrow> token_result" where
  "run_token env (TokTransfer from to amount) tk = transfer env from to amount tk"
| "run_token env (TokTransferFrom spender from to amount) tk = transfer_from env spender from to amount tk"
| "run_token env (TokApprove owner spender amount expiry) tk = approve env owner spender amount expiry tk"
| "run_token env (TokMint admin to amount) tk = mint env admin to amount tk"
| "run_token env (TokBurn admin from amount) tk = burn env admin from amount tk"
| "run_token env (TokBurnSelf owner amount) tk = burn_self env owner amount tk"
| "run_token env (TokDelegate owner to) tk = delegate env owner to tk"
| "run_token env (TokUndelegate owner) tk = undelegate env owner tk"
| "run_token env (TokProposeAdmin admin new) tk = tok_propose_admin env admin new tk"
| "run_token env (TokAcceptAdmin pending) tk = tok_accept_admin env pending tk"
| "run_token env (TokPause admin) tk = tok_pause env admin tk"
| "run_token env (TokUnpause admin) tk = tok_unpause env admin tk"
| "run_token env (TokUpgrade admin h) tk = tok_upgrade env admin h tk"
| "run_token env (TokInitialize admin supply name symbol decimals) tk =
     tok_initialize admin supply name symbol decimals tk"

text \<open>Arguments of type \<open>i128\<close> are in range; it matters only for the amount that is stored as given.\<close>

fun call_typed :: "token_call \<Rightarrow> bool" where
  "call_typed (TokApprove _ _ amount _) = in_i128 amount"
| "call_typed _ = True"

text \<open>
  A step is a successful call, while the code is this code, or the host dropping an allowance.  The
  contract starts with an initialization whose supply is not negative; \<open>initialize\<close> does not check it.
\<close>

inductive token_step :: "token \<Rightarrow> token \<Rightarrow> bool" where
  token_called: "tk_code tk = None \<Longrightarrow> call_typed c \<Longrightarrow> run_token env c tk = Inr tk' \<Longrightarrow> token_step tk tk'"
| token_expired: "token_step tk (tk\<lparr>tk_allowances := (tk_allowances tk)(k := None)\<rparr>)"

definition token_init :: "token \<Rightarrow> bool" where
  "token_init tk \<longleftrightarrow> (\<exists>admin supply name symbol decimals. 0 \<le> supply \<and> in_i128 supply
     \<and> tok_initialize admin supply name symbol decimals token_fresh = Inr tk)"

lemmas token_op_defs =
  transfer_def transfer_from_def approve_def mint_def burn_def burn_self_def burn_from_def delegate_def
  undelegate_def tok_propose_admin_def tok_accept_admin_def tok_pause_def tok_unpause_def tok_upgrade_def
  tok_initialize_def tk_assert_not_paused_def tk_assert_admin_def validate_amount_def Let_def

lemmas token_upd_defs = set_balance_def set_allowance_def tk_publish_def

section \<open>The invariant\<close>

lemma token_balance_at_or_0: "token_balance tk a = at_or_0 (tk_balances tk) a"
  by (simp add: token_balance_def at_or_0_def split: option.splits)

definition token_ok :: "token \<Rightarrow> bool" where
  "token_ok tk \<longleftrightarrow> tk_initialized tk \<and> tk_admin tk \<noteq> None
     \<and> finite (dom (tk_balances tk)) \<and> (\<forall>a. 0 \<le> token_balance tk a)
     \<and> map_total (tk_balances tk) = tk_total_supply tk \<and> in_i128 (tk_total_supply tk)
     \<and> (\<forall>a. tk_delegations tk a \<noteq> Some a)
     \<and> (\<forall>k d. tk_allowances tk k = Some d \<longrightarrow> 0 \<le> al_amount d \<and> in_i128 (al_amount d))"

lemma token_ok_init: "token_init tk \<Longrightarrow> token_ok tk"
  by (auto simp add: token_init_def token_ok_def tok_initialize_def token_fresh_def token_upd_defs
      token_balance_at_or_0)

lemma token_ok_call:
  assumes "token_ok tk" and "call_typed c" and "run_token env c tk = Inr tk'"
  shows "token_ok tk'"
  using assms
  by (cases c) (auto simp add: token_ok_def token_op_defs token_upd_defs token_balance_at_or_0 allowance_record_def
      split: if_splits option.splits)

interpretation token_sys: invariant_system token_init token_step token_ok
proof
  show "token_init tk \<Longrightarrow> token_ok tk" for tk by (rule token_ok_init)
  show "token_ok tk'" if "token_ok tk" "token_step tk tk'" for tk tk'
    using that(2)
  proof cases
    case (token_called env c)
    then show ?thesis using token_ok_call [OF that(1)] by blast
  next
    case (token_expired k)
    then show ?thesis using that(1) by (simp add: token_ok_def token_balance_def)
  qed
qed

lemma balance_bounds:
  assumes "token_ok tk"
  shows "0 \<le> token_balance tk a" "token_balance tk a \<le> tk_total_supply tk"
    "a \<noteq> b \<Longrightarrow> token_balance tk a + token_balance tk b \<le> tk_total_supply tk"
proof -
  have fin: "finite (dom (tk_balances tk))" and nn: "0 \<le> at_or_0 (tk_balances tk) x"
    and tot: "map_total (tk_balances tk) = tk_total_supply tk" for x
    using assms by (auto simp add: token_ok_def token_balance_at_or_0)
  show "0 \<le> token_balance tk a" using nn by (simp add: token_balance_at_or_0)
  show "token_balance tk a \<le> tk_total_supply tk"
    using at_or_0_le_map_total [OF fin nn, of a] tot by (simp add: token_balance_at_or_0)
  show "a \<noteq> b \<Longrightarrow> token_balance tk a + token_balance tk b \<le> tk_total_supply tk"
    using two_le_map_total [OF fin nn, of a b] tot by (simp add: token_balance_at_or_0)
qed

lemma balance_in_range: "token_ok tk \<Longrightarrow> in_i128 (token_balance tk a)"
  using balance_bounds [of tk a] by (auto simp add: token_ok_def intro: in_i128_between)

lemma pair_in_range:
  "token_ok tk \<Longrightarrow> a \<noteq> b \<Longrightarrow> 0 \<le> x \<Longrightarrow> x \<le> token_balance tk a \<Longrightarrow> in_i128 (token_balance tk b + x)"
  using balance_bounds(1) [of tk b] balance_bounds(3) [of tk a b]
  by (auto simp add: token_ok_def intro!: in_i128_between [of "tk_total_supply tk"])

section \<open>Properties\<close>

text \<open>
  C3. The token's books balance: in every state the contract can reach from an initialization with a
  supply that is not negative, whatever is transferred, minted, burned or approved, the balances add up
  to the total supply, and every balance lies between zero and it.
\<close>

theorem token_supply_conserved:
  assumes "reachable token_init token_step tk"
  shows "finite (dom (tk_balances tk)) \<and> (\<Sum>a \<in> dom (tk_balances tk). token_balance tk a) = tk_total_supply tk
    \<and> (\<forall>a. 0 \<le> token_balance tk a \<and> token_balance tk a \<le> tk_total_supply tk)"
proof -
  have ok: "token_ok tk" using token_sys.reachable_inv [OF assms] .
  then show ?thesis
    using balance_bounds [OF ok] by (simp add: token_ok_def map_total_def token_balance_at_or_0)
qed

definition sample_token :: token where
  "sample_token = tk_publish (TkInit ''ADM'' 1000) (set_balance ''ADM'' 1000 (token_fresh\<lparr>tk_admin := Some ''ADM'',
     tk_total_supply := 1000, tk_name := ''Vote'', tk_symbol := ''VOTE'', tk_decimals := 7,
     tk_initialized := True, tk_version := (1, 0, 0)\<rparr>))"

definition sample_call_env :: env where
  "sample_call_env = \<lparr>e_timestamp = 100, e_sequence = 10, e_auth = (\<lambda>_. True), e_extend_missing = True\<rparr>"

lemma sample_token_init: "token_init sample_token"
  unfolding token_init_def
  by (rule exI [of _ "''ADM''"], rule exI [of _ 1000], rule exI [of _ "''Vote''"],
      rule exI [of _ "''VOTE''"], rule exI [of _ 7])
    (simp add: in_i128_small tok_initialize_def sample_token_def token_fresh_def)

definition sample_token_moved :: token where
  "sample_token_moved = tk_publish (TkTransfer ''ADM'' ''BOB'' 400)
     (set_balance ''BOB'' 400 (set_balance ''ADM'' 600 sample_token))"

lemma sample_transfer: "transfer sample_call_env ''ADM'' ''BOB'' 400 sample_token = Inr sample_token_moved"
  by (simp add: transfer_def sample_token_moved_def sample_call_env_def sample_token_def token_fresh_def
      token_upd_defs require_auth_def tk_assert_not_paused_def validate_amount_def token_balance_def
      ok_or_trap_def i128_def in_i128_small)

lemma sample_token_reachable: "reachable token_init token_step sample_token_moved"
proof (rule reach_step, rule reach_init, rule sample_token_init, rule token_called)
  show "tk_code sample_token = None"
    by (simp add: sample_token_def token_fresh_def token_upd_defs)
  show "call_typed (TokTransfer ''ADM'' ''BOB'' 400)" by simp
  show "run_token sample_call_env (TokTransfer ''ADM'' ''BOB'' 400) sample_token = Inr sample_token_moved"
    by (simp add: sample_transfer)
qed

theorem token_supply_conserved_witness:
  "reachable token_init token_step sample_token_moved
   \<and> (\<Sum>a \<in> dom (tk_balances sample_token_moved). token_balance sample_token_moved a) = tk_total_supply sample_token_moved
   \<and> token_balance sample_token_moved ''BOB'' = 400"
  using sample_token_reachable token_supply_conserved [OF sample_token_reachable]
  by (simp add: sample_token_moved_def token_upd_defs token_balance_def)

lemma transfer_ok_exact:
  assumes ok: "token_ok tk" and "e_auth env from"
  shows "transfer env from to amount tk =
     (if tk_paused tk then Inl (Err ContractPaused)
      else if amount \<le> 0 then Inl (Err InvalidAmount)
      else if token_balance tk from < amount then Inl (Err InsufficientBalance)
      else if from = to then Inr tk
      else Inr (tk\<lparr>tk_balances := (tk_balances tk)(from \<mapsto> token_balance tk from - amount,
                                                  to \<mapsto> token_balance tk to + amount),
                   tk_events := tk_events tk @ [TkTransfer from to amount]\<rparr>))"
proof -
  have sub: "in_i128 (token_balance tk from - amount)" if "0 < amount" "\<not> token_balance tk from < amount"
    using that balance_in_range [OF ok] by (intro in_i128_diff) auto
  have add: "in_i128 (token_balance tk to + amount)"
    if "0 < amount" "\<not> token_balance tk from < amount" "from \<noteq> to"
    using that by (intro pair_in_range [OF ok, of "from"]) auto
  show ?thesis
    using assms(2) sub add
    by (auto simp add: transfer_def require_auth_def tk_assert_not_paused_def validate_amount_def Let_def
        ok_or_trap_def i128_def token_upd_defs token_balance_def)
qed

text \<open>
  C18. What a transfer does, on every branch: called with the sender's authorisation in a reachable
  state it never traps.  It refuses while paused, an amount that is not positive and more than the
  sender has, in this order; otherwise the sender has exactly the amount less, the receiver exactly the
  amount more, and nobody else's balance, no allowance, no delegation and not the supply changes.
\<close>

theorem transfer_exact:
  assumes "reachable token_init token_step tk" and "e_auth env from"
  shows "transfer env from to amount tk =
     (if tk_paused tk then Inl (Err ContractPaused)
      else if amount \<le> 0 then Inl (Err InvalidAmount)
      else if token_balance tk from < amount then Inl (Err InsufficientBalance)
      else if from = to then Inr tk
      else Inr (tk\<lparr>tk_balances := (tk_balances tk)(from \<mapsto> token_balance tk from - amount,
                                                  to \<mapsto> token_balance tk to + amount),
                   tk_events := tk_events tk @ [TkTransfer from to amount]\<rparr>))"
  using transfer_ok_exact [OF token_sys.reachable_inv [OF assms(1)] assms(2)] .

theorem transfer_exact_witness:
  "transfer sample_call_env ''BOB'' ''EVE'' 150 sample_token_moved = Inr (sample_token_moved\<lparr>
     tk_balances := (tk_balances sample_token_moved)(''BOB'' \<mapsto> 250, ''EVE'' \<mapsto> 150),
     tk_events := tk_events sample_token_moved @ [TkTransfer ''BOB'' ''EVE'' 150]\<rparr>)
   \<and> transfer sample_call_env ''BOB'' ''EVE'' 401 sample_token_moved = Inl (Err InsufficientBalance)"
  using transfer_exact [OF sample_token_reachable, of sample_call_env "''BOB''" "''EVE''" 150]
    transfer_exact [OF sample_token_reachable, of sample_call_env "''BOB''" "''EVE''" 401]
  by (simp add: sample_call_env_def sample_token_moved_def sample_token_def token_fresh_def token_upd_defs token_balance_def)

text \<open>
  C28. Spending an allowance: called with the spender's authorisation in a reachable state, it never
  traps, and it succeeds exactly when the contract is not paused and the amount is positive and covered
  by the unexpired allowance and by the owner's balance.  Then the allowance shrinks by exactly the
  amount, other allowances stay, and the tokens move as in a transfer (back, when owner and receiver
  are the same).
\<close>

theorem transfer_from_exact:
  assumes "reachable token_init token_step tk" and "e_auth env spender"
  shows "case transfer_from env spender owner to amount tk of
      Inl f \<Rightarrow> f \<noteq> Trap \<and> \<not> (\<not> tk_paused tk \<and> 0 < amount
        \<and> amount \<le> token_allowance env tk owner spender \<and> amount \<le> token_balance tk owner)
    | Inr tk' \<Rightarrow> \<not> tk_paused tk \<and> 0 < amount
        \<and> amount \<le> token_allowance env tk owner spender \<and> amount \<le> token_balance tk owner
        \<and> token_allowance env tk' owner spender = token_allowance env tk owner spender - amount
        \<and> (\<forall>o' s. (o', s) \<noteq> (owner, spender) \<longrightarrow> token_allowance env tk' o' s = token_allowance env tk o' s)
        \<and> (\<forall>a. token_balance tk' a = token_balance tk a - (if a = owner then amount else 0)
              + (if a = to then amount else 0))
        \<and> tk_total_supply tk' = tk_total_supply tk"
proof -
  have ok: "token_ok tk" using token_sys.reachable_inv [OF assms(1)] .
  have sub: "in_i128 (token_balance tk owner - amount)" if "0 < amount" "amount \<le> token_balance tk owner"
    using that balance_in_range [OF ok] by (intro in_i128_diff) auto
  have add: "in_i128 (token_balance tk to + amount)"
    if "0 < amount" "amount \<le> token_balance tk owner" "owner \<noteq> to"
    using that by (intro pair_in_range [OF ok, of owner]) auto
  have al: "in_i128 (al_amount d - amount)"
    if "0 < amount" "amount \<le> al_amount d" "tk_allowances tk (owner, spender) = Some d" for d
    using that ok by (intro in_i128_diff) (auto simp add: token_ok_def)
  show ?thesis
    using assms(2) sub add al balance_in_range [OF ok, of owner]
    by (auto simp add: transfer_from_def require_auth_def tk_assert_not_paused_def validate_amount_def Let_def
        ok_or_trap_def i128_def token_upd_defs token_balance_def token_allowance_def allowance_record_def
        split: option.splits if_splits)
qed

lemma sample_approved:
  "\<exists>tk. reachable token_init token_step tk \<and> \<not> tk_paused tk \<and> token_balance tk ''BOB'' = 400
     \<and> token_allowance sample_call_env tk ''BOB'' ''EVE'' = 90"
proof -
  obtain tk where tk: "approve sample_call_env ''BOB'' ''EVE'' 90 20 sample_token_moved = Inr tk"
    and p: "\<not> tk_paused tk" "token_balance tk ''BOB'' = 400" "token_allowance sample_call_env tk ''BOB'' ''EVE'' = 90"
    by (simp add: approve_def sample_call_env_def token_upd_defs sample_token_moved_def sample_token_def
        token_fresh_def require_auth_def token_balance_def token_allowance_def allowance_record_def)
  have "token_step sample_token_moved tk"
  proof (rule token_called)
    show "tk_code sample_token_moved = None"
      by (simp add: sample_token_moved_def sample_token_def token_fresh_def token_upd_defs)
    show "call_typed (TokApprove ''BOB'' ''EVE'' 90 20)" by (simp add: in_i128_small)
    show "run_token sample_call_env (TokApprove ''BOB'' ''EVE'' 90 20) sample_token_moved = Inr tk"
      using tk by simp
  qed
  then show ?thesis using p reach_step [OF sample_token_reachable] by blast
qed

theorem transfer_from_exact_witness:
  "\<exists>tk tk'. transfer_from sample_call_env ''EVE'' ''BOB'' ''JIM'' 70 tk = Inr tk'
     \<and> token_allowance sample_call_env tk' ''BOB'' ''EVE'' = 20 \<and> token_balance tk' ''BOB'' = 330"
proof -
  obtain tk where tk: "reachable token_init token_step tk" "\<not> tk_paused tk" "token_balance tk ''BOB'' = 400"
    "token_allowance sample_call_env tk ''BOB'' ''EVE'' = 90"
    using sample_approved by blast
  have "e_auth sample_call_env ''EVE''" by (simp add: sample_call_env_def)
  note spec = transfer_from_exact [OF tk(1) this, where owner = "''BOB''" and to = "''JIM''" and amount = 70]
  then obtain tk' where r: "transfer_from sample_call_env ''EVE'' ''BOB'' ''JIM'' 70 tk = Inr tk'"
    using tk(2-4) by (auto split: sum.splits)
  have "token_balance tk' ''BOB'' = 330"
    using spec tk(3) unfolding r by simp
  moreover have "token_allowance sample_call_env tk' ''BOB'' ''EVE'' = 20"
    using spec tk(4) unfolding r by simp
  ultimately show ?thesis using r by blast
qed

text \<open>The weight the loop over delegators adds: every occurrence counts, up to the largest 128-bit number.\<close>

definition delegators_of :: "token \<Rightarrow> Address \<Rightarrow> Address list \<Rightarrow> Address list" where
  "delegators_of tk voter ds = filter (\<lambda>d. tk_delegations tk d = Some voter) ds"

lemma add_delegators_min:
  assumes "\<And>a. 0 \<le> token_balance tk a" and "0 \<le> w" and "w \<le> i128_max"
  shows "add_delegators tk voter ds w =
    min i128_max (w + (\<Sum>d \<leftarrow> delegators_of tk voter ds. token_balance tk d))"
  using assms(2,3)
proof (induction ds arbitrary: w)
  case (Cons d ds)
  let ?S = "\<Sum>d \<leftarrow> delegators_of tk voter ds. token_balance tk d"
  have S: "0 \<le> ?S" using assms(1) by (intro sum_list_nonneg) auto
  show ?case
  proof (cases "tk_delegations tk d = Some voter")
    case True
    let ?v = "saturating_add w (token_balance tk d)"
    have v: "?v = min i128_max (w + token_balance tk d)" "0 \<le> ?v" "?v \<le> i128_max"
      using assms(1) [of d] Cons.prems by (simp_all add: saturating_add_def i128_max_def)
    with True S Cons.IH [of ?v] show ?thesis by (simp add: delegators_of_def min_def)
  next
    case False
    then show ?thesis using Cons.IH [of w] Cons.prems by (auto simp add: delegators_of_def split: option.splits)
  qed
qed (simp add: delegators_of_def)

text \<open>
  C22. The delegated weight of a voter, in every reachable state and for every list of delegators: the voter's own
  balance and, for every occurrence in the list of an account that delegates to the voter, that account's balance,
  capped at the largest 128-bit number.  For a list without repetition it never exceeds the total supply;
  the contract does not test for repetitions, and an account listed \<open>n\<close> times counts \<open>n\<close> times.
\<close>

theorem delegated_weight_correct:
  assumes "reachable token_init token_step tk"
  shows "get_delegated_weight tk voter ds =
      min i128_max (token_balance tk voter + (\<Sum>d \<leftarrow> delegators_of tk voter ds. token_balance tk d))
    \<and> (distinct ds \<longrightarrow> get_delegated_weight tk voter ds \<le> tk_total_supply tk)
    \<and> (tk_delegations tk d = Some voter \<longrightarrow>
        get_delegated_weight tk voter (replicate n d) = min i128_max (token_balance tk voter + int n * token_balance tk d))"
proof -
  have ok: "token_ok tk" using token_sys.reachable_inv [OF assms] .
  have nn: "0 \<le> token_balance tk a" for a using ok by (simp add: token_ok_def)
  have le: "(\<Sum>a \<in> A. token_balance tk a) \<le> tk_total_supply tk" if "finite A" for A
    using sum_le_map_total [of "tk_balances tk" A] that ok by (simp add: token_ok_def token_balance_at_or_0)
  have "token_balance tk voter \<le> i128_max"
    using le [of "{voter}"] ok by (auto simp add: token_ok_def in_i128_def)
  then have eq: "get_delegated_weight tk voter xs =
      min i128_max (token_balance tk voter + (\<Sum>d \<leftarrow> delegators_of tk voter xs. token_balance tk d))" for xs
    unfolding get_delegated_weight_def by (intro add_delegators_min nn)
  have "get_delegated_weight tk voter ds \<le> tk_total_supply tk" if "distinct ds"
  proof -
    let ?D = "set (delegators_of tk voter ds)"
    have "(\<Sum>d \<leftarrow> delegators_of tk voter ds. token_balance tk d) = (\<Sum>d \<in> ?D. token_balance tk d)"
      using that by (simp add: delegators_of_def sum_list_distinct_conv_sum_set)
    moreover have "voter \<notin> ?D" using ok by (simp add: token_ok_def delegators_of_def)
    ultimately show ?thesis using le [of "insert voter ?D"] eq [of ds] by simp
  qed
  moreover have "get_delegated_weight tk voter (replicate n d) =
      min i128_max (token_balance tk voter + int n * token_balance tk d)" if "tk_delegations tk d = Some voter"
    using that eq [of "replicate n d"] by (simp add: delegators_of_def sum_list_replicate)
  ultimately show ?thesis using eq by blast
qed

text \<open>\<^verbatim>\<open>BOB\<close> delegates 400 of the 1000 units to \<^verbatim>\<open>ADM\<close>, who has 600; named twice, \<^verbatim>\<open>BOB\<close> counts twice.\<close>

theorem delegated_weight_correct_witness:
  "\<exists>tk. run_token sample_call_env (TokDelegate ''BOB'' ''ADM'') sample_token_moved = Inr tk
     \<and> get_delegated_weight tk ''ADM'' [''BOB'', ''EVE''] = 1000
     \<and> get_delegated_weight tk ''ADM'' [''BOB'', ''BOB''] = 1400 \<and> tk_total_supply tk = 1000"
proof -
  let ?tk = "tk_publish (TkDelegated ''BOB'' ''ADM'')
    (sample_token_moved\<lparr>tk_delegations := (tk_delegations sample_token_moved)(''BOB'' \<mapsto> ''ADM'')\<rparr>)"
  note v = sample_token_moved_def sample_token_def token_fresh_def token_upd_defs token_balance_def
  have r: "run_token sample_call_env (TokDelegate ''BOB'' ''ADM'') sample_token_moved = Inr ?tk"
    by (simp add: delegate_def sample_call_env_def require_auth_def v)
  have "token_step sample_token_moved ?tk" by (rule token_called [OF _ _ r]) (simp_all add: v)
  then have "reachable token_init token_step ?tk" by (rule reach_step [OF sample_token_reachable])
  note d = delegated_weight_correct [OF this, THEN conjunct1]
  have "delegators_of ?tk ''ADM'' [''BOB'', ''EVE''] = [''BOB'']" "delegators_of ?tk ''ADM'' [''BOB'', ''BOB''] = [''BOB'', ''BOB'']"
    by (simp_all add: delegators_of_def v)
  then have "get_delegated_weight ?tk ''ADM'' [''BOB'', ''EVE''] = 1000" "get_delegated_weight ?tk ''ADM'' [''BOB'', ''BOB''] = 1400"
    unfolding d by (simp_all add: v i128_max_def)
  moreover have "tk_total_supply ?tk = 1000" by (simp add: v)
  ultimately show ?thesis using r by blast
qed

text \<open>Allowances change by an approval of the owner, or shrink by a transfer.\<close>

lemma allowances_of_call:
  assumes "tk_initialized tk" and "run_token env c tk = Inr tk'"
  shows "tk_allowances tk' = tk_allowances tk
    \<or> (\<exists>p x. e_auth env (fst p) \<and> tk_allowances tk' = (tk_allowances tk)(p \<mapsto> x))
    \<or> (\<exists>p r x. tk_allowances tk p = Some r \<and> e_sequence env \<le> al_expiry_ledger r \<and> 0 < x \<and> x \<le> al_amount r
        \<and> tk_allowances tk' = (tk_allowances tk)(p \<mapsto> \<lparr>al_amount = al_amount r - x, al_expiry_ledger = al_expiry_ledger r\<rparr>))"
proof (cases c)
  case (TokApprove owner sp x e)
  then have "e_auth env owner" "\<exists>y. tk_allowances tk' = (tk_allowances tk)((owner, sp) \<mapsto> y)"
    using assms by (auto simp add: approve_def token_upd_defs split: if_splits)
  then show ?thesis by (metis fst_conv)
next
  case (TokTransferFrom sp f to x)
  then obtain r where "tk_allowances tk (f, sp) = Some r" "e_sequence env \<le> al_expiry_ledger r" "0 < x" "x \<le> al_amount r"
    "tk_allowances tk' = (tk_allowances tk)((f, sp) \<mapsto> \<lparr>al_amount = al_amount r - x, al_expiry_ledger = al_expiry_ledger r\<rparr>)"
    using assms
    by (auto simp add: transfer_from_def Let_def token_upd_defs validate_amount_def allowance_record_def
        split: option.splits if_splits)
  then show ?thesis by blast
qed (use assms in \<open>auto simp add: token_op_defs token_upd_defs split: if_splits option.splits\<close>)

lemma allowance_raised_by_owner:
  assumes "tk_initialized tk" and "run_token env c tk = Inr tk'" and "token_allowance env tk a s < token_allowance env tk' a s"
  shows "e_auth env a"
  using allowances_of_call [OF assms(1,2)]
proof (elim disjE exE conjE)
  fix p x
  assume "e_auth env (fst p)" "tk_allowances tk' = (tk_allowances tk)(p \<mapsto> x)"
  with assms(3) show ?thesis
    by (cases "p = (a, s)") (auto simp add: token_allowance_def allowance_record_def)
next
  fix p r x
  assume "tk_allowances tk p = Some r" "e_sequence env \<le> al_expiry_ledger r" "0 < x" "x \<le> al_amount r"
    "tk_allowances tk' = (tk_allowances tk)(p \<mapsto> \<lparr>al_amount = al_amount r - x, al_expiry_ledger = al_expiry_ledger r\<rparr>)"
  with assms(3) show ?thesis
    by (cases "p = (a, s)") (auto simp add: token_allowance_def allowance_record_def split: if_splits)
qed (use assms(3) in \<open>simp add: token_allowance_def allowance_record_def\<close>)

lemma token_authority_state:
  assumes "tk_initialized tk" and "run_token env c tk = Inr tk'"
  shows "(token_balance tk' a < token_balance tk a \<longrightarrow>
       e_auth env a
     \<or> (\<exists>admin amount. c = TokBurn admin a amount \<and> tk_admin tk = Some admin \<and> e_auth env admin)
     \<or> (\<exists>s. e_auth env s \<and> token_balance tk a - token_balance tk' a \<le> token_allowance env tk a s))
   \<and> (tk_total_supply tk < tk_total_supply tk' \<longrightarrow>
       (\<exists>admin to amount. c = TokMint admin to amount \<and> tk_admin tk = Some admin \<and> e_auth env admin))
   \<and> (tk_admin tk' \<noteq> tk_admin tk \<longrightarrow>
       (\<exists>new. tk_admin tk' = Some new \<and> tk_pending_admin tk = Some new \<and> e_auth env new))
   \<and> (tk_pending_admin tk' \<noteq> tk_pending_admin tk \<longrightarrow> tk_pending_admin tk' \<noteq> None \<longrightarrow>
       (\<exists>admin. tk_admin tk = Some admin \<and> e_auth env admin))
   \<and> (tk_delegations tk' a \<noteq> tk_delegations tk a \<longrightarrow> e_auth env a)
   \<and> (tk_paused tk' \<noteq> tk_paused tk \<or> tk_code tk' \<noteq> tk_code tk \<longrightarrow>
       (\<exists>admin. tk_admin tk = Some admin \<and> e_auth env admin))"
proof (cases c)
  case (TokTransferFrom sp f to x)
  obtain r where r: "allowance_record env tk f sp = Some r" "x \<le> al_amount r" and au: "e_auth env sp"
    and b: "tk_balances tk' = (tk_balances tk)(f \<mapsto> token_balance tk f - x,
       to \<mapsto> at_or_0 ((tk_balances tk)(f \<mapsto> token_balance tk f - x)) to + x)" and "0 < x"
    and fr: "tk_total_supply tk' = tk_total_supply tk" "tk_admin tk' = tk_admin tk"
      "tk_pending_admin tk' = tk_pending_admin tk" "tk_delegations tk' = tk_delegations tk"
      "tk_paused tk' = tk_paused tk" "tk_code tk' = tk_code tk"
    using assms TokTransferFrom
    by (auto simp add: transfer_from_def Let_def token_upd_defs token_balance_at_or_0 validate_amount_def
        split: option.splits if_splits)
  then have "token_balance tk a - token_balance tk' a \<le> token_allowance env tk a sp"
    if "token_balance tk' a < token_balance tk a"
    using that by (auto simp add: token_allowance_def token_balance_at_or_0 split: if_splits)
  then show ?thesis using au fr by auto
qed (use assms in \<open>auto simp add: token_op_defs token_upd_defs token_balance_at_or_0
      split: if_splits option.splits\<close>)

text \<open>
  C27. Who can change what.  A call that lowers somebody's balance was authorised by that account, or
  by the admin in a \<open>burn\<close>, or by a spender whose unexpired allowance covers the difference.  A call
  that raises the supply is a \<open>mint\<close> authorised by the admin.  A call that changes the admin was
  authorised by the new one, whom the previous admin had proposed.  Delegations change and allowances grow only with the
  owner's authorisation; pausing, resuming and upgrading need the admin's.
\<close>

theorem token_authority:
  assumes "tk_initialized tk" and "run_token env c tk = Inr tk'"
  shows "(token_balance tk' a < token_balance tk a \<longrightarrow>
       e_auth env a
     \<or> (\<exists>admin amount. c = TokBurn admin a amount \<and> tk_admin tk = Some admin \<and> e_auth env admin)
     \<or> (\<exists>s. e_auth env s \<and> token_balance tk a - token_balance tk' a \<le> token_allowance env tk a s))
   \<and> (tk_total_supply tk < tk_total_supply tk' \<longrightarrow>
       (\<exists>admin to amount. c = TokMint admin to amount \<and> tk_admin tk = Some admin \<and> e_auth env admin))
   \<and> (tk_admin tk' \<noteq> tk_admin tk \<longrightarrow>
       (\<exists>new. tk_admin tk' = Some new \<and> tk_pending_admin tk = Some new \<and> e_auth env new))
   \<and> (tk_pending_admin tk' \<noteq> tk_pending_admin tk \<longrightarrow> tk_pending_admin tk' \<noteq> None \<longrightarrow>
       (\<exists>admin. tk_admin tk = Some admin \<and> e_auth env admin))
   \<and> (tk_delegations tk' a \<noteq> tk_delegations tk a \<longrightarrow> e_auth env a)
   \<and> (tk_paused tk' \<noteq> tk_paused tk \<or> tk_code tk' \<noteq> tk_code tk \<longrightarrow>
       (\<exists>admin. tk_admin tk = Some admin \<and> e_auth env admin))
   \<and> (token_allowance env tk a s < token_allowance env tk' a s \<longrightarrow> e_auth env a)"
  using token_authority_state [OF assms, of a] allowance_raised_by_owner [OF assms] by blast

theorem token_authority_witness:
  "tk_initialized sample_token \<and> e_auth sample_call_env ''ADM''
   \<and> token_balance sample_token_moved ''ADM'' < token_balance sample_token ''ADM''"
proof -
  have "tk_initialized sample_token" by (simp add: sample_token_def token_upd_defs)
  moreover have "run_token sample_call_env (TokTransfer ''ADM'' ''BOB'' 400) sample_token = Inr sample_token_moved"
    by (simp add: sample_transfer)
  moreover have "token_balance sample_token_moved ''ADM'' < token_balance sample_token ''ADM''"
    by (simp add: sample_token_moved_def sample_token_def token_upd_defs token_balance_def)
  ultimately show ?thesis
    using token_authority [of sample_token sample_call_env "TokTransfer ''ADM'' ''BOB'' 400" sample_token_moved "''ADM''"]
    by (simp add: sample_call_env_def)
qed

end
