(* ===== verification/Treasury_Contract.thy ===== *)
theory Treasury_Contract
  imports Governance_Contract
begin

text \<open>
  The treasury, \<^verbatim>\<open>contracts/treasury/src/lib.rs\<close>.  Its action type is the one of the governance contract.  The
  transfer of the token at an address is a function on the rest of the ledger, \<open>'w\<close>: contract, sender,
  receiver and amount.  The native asset is transferred through a client for the treasury's own address,
  as the code has it.
\<close>

record treasury =
  tr_governance :: "Address option"
  tr_events :: "(Address \<times> int) list"

definition treasury_fresh :: treasury where
  "treasury_fresh = \<lparr>tr_governance = None, tr_events = []\<rparr>"

text \<open>\<open>None\<close> is a panic; the contract has no error codes.\<close>

definition treasury_initialize :: "Address \<Rightarrow> treasury \<Rightarrow> treasury option" where
  "treasury_initialize governance tr =
     (if tr_governance tr \<noteq> None then None else Some (tr\<lparr>tr_governance := Some governance\<rparr>))"

definition disburse ::
  "env \<Rightarrow> Address \<Rightarrow> (Address \<Rightarrow> Address \<Rightarrow> Address \<Rightarrow> int \<Rightarrow> 'w \<Rightarrow> 'w option) \<Rightarrow> TreasuryAction
   \<Rightarrow> treasury \<times> 'w \<Rightarrow> (treasury \<times> 'w) option" where
  "disburse env self token_transfer action trw =
     (let tr = fst trw; w = snd trw in
      case tr_governance tr of
        None \<Rightarrow> None
      | Some governance \<Rightarrow>
          if \<not> e_auth env governance then None
          else case token_transfer
                 (case ta_asset action of Native \<Rightarrow> self | Token token_addr \<Rightarrow> token_addr)
                 self (ta_recipient action) (ta_amount action) w of
            None \<Rightarrow> None
          | Some w' \<Rightarrow> Some (tr\<lparr>tr_events := tr_events tr @ [(ta_recipient action, ta_amount action)]\<rparr>, w'))"

definition treasury_governance :: "treasury \<Rightarrow> Address option" where
  "treasury_governance tr = tr_governance tr"

text \<open>A disbursement needs the authorisation of the governance address stored once and for all.\<close>

lemma disburse_Some:
  "disburse env self tt action (tr, w) = Some (tr', w') \<longleftrightarrow>
     (\<exists>governance. tr_governance tr = Some governance \<and> e_auth env governance)
     \<and> tt (case ta_asset action of Native \<Rightarrow> self | Token t \<Rightarrow> t) self (ta_recipient action) (ta_amount action) w = Some w'
     \<and> tr' = tr\<lparr>tr_events := tr_events tr @ [(ta_recipient action, ta_amount action)]\<rparr>"
  by (auto simp add: disburse_def split: option.splits)

lemma treasury_initialize_once:
  "treasury_initialize a tr = Some tr' \<Longrightarrow> treasury_initialize b tr' = None"
  by (auto simp add: treasury_initialize_def split: if_splits)

end
