(* ===== verification/Contract_System.thy ===== *)
theory Contract_System
  imports Governance_Weights Token_Contract Treasury_Contract
begin

text \<open>
  The three contracts together: a ledger of deployed token and treasury contracts beside the governance
  contract at its address.  The governance contract asks the token at its voting-token address for weights,
  and an executed proposal makes the treasury transfer tokens.  A contract that calls another authorises
  that call for its own address, beside the authorisations the transaction carries.
\<close>

section \<open>The ledger\<close>

datatype deployed = DToken token | DTreasury treasury

type_synonym ledger = "Address \<rightharpoonup> deployed"

definition called_by :: "Address \<Rightarrow> env \<Rightarrow> env" where
  "called_by a env = env\<lparr>e_auth := (\<lambda>x. e_auth env x \<or> x = a)\<rparr>"

definition client_of :: "token \<Rightarrow> TokenClient" where
  "client_of tk = \<lparr>tc_balance = token_balance tk, tc_balance_at = balance_at tk,
     tc_total_supply = tk_total_supply tk, tc_get_delegation = get_delegation tk\<rparr>"

text \<open>
  What a token does after an upgrade is the new code's matter and not known here; such a token answers no call of
  the model, neither of the governance contract nor of the treasury nor of a user.
\<close>

definition token_clients :: "ledger \<Rightarrow> clients" where
  "token_clients L a = (case L a of
     Some (DToken tk) \<Rightarrow> if tk_code tk = None then Some (client_of tk) else None
   | _ \<Rightarrow> None)"

text \<open>A client's call of \<open>transfer\<close>: it traps when the contract has no such function or returns an error.\<close>

definition ledger_transfer :: "env \<Rightarrow> Address \<Rightarrow> Address \<Rightarrow> Address \<Rightarrow> int \<Rightarrow> ledger \<Rightarrow> ledger option" where
  "ledger_transfer env contract from to amount L =
     (case L contract of
        Some (DToken tk) \<Rightarrow>
          if tk_code tk \<noteq> None then None
          else (case transfer env from to amount tk of
             Inr tk' \<Rightarrow> Some (L(contract \<mapsto> DToken tk'))
           | Inl _ \<Rightarrow> None)
      | _ \<Rightarrow> None)"

definition ledger_disburse :: "Address \<Rightarrow> env \<Rightarrow> Address \<Rightarrow> TreasuryAction \<Rightarrow> ledger \<Rightarrow> ledger option" where
  "ledger_disburse gov_addr env t action L =
     (case L t of
        Some (DTreasury tr) \<Rightarrow>
          (case disburse (called_by gov_addr env) t (ledger_transfer (called_by t env)) action (tr, L) of
             Some (tr', L') \<Rightarrow> Some (L'(t \<mapsto> DTreasury tr'))
           | None \<Rightarrow> None)
      | _ \<Rightarrow> None)"

definition sys_surroundings :: "Address \<Rightarrow> env \<Rightarrow> (nat \<Rightarrow> nat \<Rightarrow> int) \<Rightarrow> ledger \<Rightarrow> ledger surroundings" where
  "sys_surroundings gov_addr env cv L = \<lparr>s_env = env, s_tokens = token_clients L, s_choice_votes = cv,
     s_disburse = ledger_disburse gov_addr env\<rparr>"

datatype sys_call = CallGov gov_call | CallToken Address token_call | InitTreasury Address Address

fun run_sys :: "Address \<Rightarrow> env \<Rightarrow> (nat \<Rightarrow> nat \<Rightarrow> int) \<Rightarrow> sys_call \<Rightarrow> gov \<times> ledger \<Rightarrow> (gov \<times> ledger) option" where
  "run_sys gov_addr env cv (CallGov c) (g, L) =
     (if g_code g \<noteq> None then None
      else case run_gov (sys_surroundings gov_addr env cv L) c (g, L) of Inr gw \<Rightarrow> Some gw | Inl _ \<Rightarrow> None)"
| "run_sys gov_addr env cv (CallToken a c) (g, L) =
     (case L a of
        Some (DToken tk) \<Rightarrow>
          if tk_code tk \<noteq> None \<or> \<not> call_typed c then None
          else (case run_token env c tk of Inr tk' \<Rightarrow> Some (g, L(a \<mapsto> DToken tk')) | Inl _ \<Rightarrow> None)
      | _ \<Rightarrow> None)"
| "run_sys gov_addr env cv (InitTreasury t governance) (g, L) =
     (case L t of
        Some (DTreasury tr) \<Rightarrow>
          (case treasury_initialize governance tr of Some tr' \<Rightarrow> Some (g, L(t \<mapsto> DTreasury tr')) | None \<Rightarrow> None)
      | _ \<Rightarrow> None)"

inductive sys_step :: "Address \<Rightarrow> gov \<times> ledger \<Rightarrow> gov \<times> ledger \<Rightarrow> bool"
  for gov_addr :: Address where
  sys_called: "run_sys gov_addr env cv c gw = Some gw' \<Longrightarrow> sys_step gov_addr gw gw'"

text \<open>At the start governance is not initialized; tokens are, treasuries are deployed.\<close>

definition sys_init :: "gov \<times> ledger \<Rightarrow> bool" where
  "sys_init gw \<longleftrightarrow> fst gw = gov_fresh
     \<and> (\<forall>a tk. snd gw a = Some (DToken tk) \<longrightarrow> token_init tk)
     \<and> (\<forall>a tr. snd gw a = Some (DTreasury tr) \<longrightarrow> tr = treasury_fresh)"

section \<open>Each contract within the system\<close>

lemma sys_gov_step: "sys_step gov_addr gw gw' \<Longrightarrow> gov_step gw gw'"
proof (erule sys_step.cases)
  fix env cv c gw1 gw1'
  assume e: "gw = gw1" "gw' = gw1'" "run_sys gov_addr env cv c gw1 = Some gw1'"
  obtain g L where gw1: "gw1 = (g, L)" by (cases gw1)
  show "gov_step gw gw'"
  proof (cases c)
    case (CallGov d)
    then have "run_gov (sys_surroundings gov_addr env cv L) d (g, L) = Inr gw1'" "g_code g = None"
      using e(3) gw1 by (auto split: if_splits sum.splits)
    then have "gov_step (g, L) gw1'" by (intro gov_called)
    then show ?thesis using e(1,2) gw1 by simp
  qed (use e gw1 in \<open>auto intro: gov_elsewhere split: option.splits deployed.splits if_splits sum.splits\<close>)
qed

lemma sys_gov_reachable:
  assumes "reachable sys_init (sys_step gov_addr) gw"
  shows "reachable gov_init gov_step gw"
  using assms
proof induction
  case (reach_init gw)
  then show ?case by (intro reachable.reach_init) (simp add: sys_init_def gov_init_def)
next
  case (reach_step gw gw')
  show ?case using reach_step.IH sys_gov_step [OF reach_step.hyps(2)] by (rule reachable.reach_step)
qed

definition tokens_ok :: "ledger \<Rightarrow> bool" where
  "tokens_ok L \<longleftrightarrow> (\<forall>a tk. L a = Some (DToken tk) \<longrightarrow> token_ok tk)"

lemma tokens_ok_upd: "tokens_ok L \<Longrightarrow> token_ok tk \<Longrightarrow> tokens_ok (L(a \<mapsto> DToken tk))"
  by (auto simp add: tokens_ok_def)

lemma tokens_ok_treasury: "tokens_ok L \<Longrightarrow> tokens_ok (L(t \<mapsto> DTreasury tr))"
  by (auto simp add: tokens_ok_def)

lemma ledger_transfer_Some:
  assumes "ledger_transfer env contract from to amount L = Some L'"
  obtains tk tk' where "L contract = Some (DToken tk)" "transfer env from to amount tk = Inr tk'"
    "L' = L(contract \<mapsto> DToken tk')"
  using assms that by (auto simp add: ledger_transfer_def split: option.splits deployed.splits sum.splits if_splits)

lemma ledger_transfer_ok:
  assumes "tokens_ok L" and "ledger_transfer env contract from to amount L = Some L'"
  shows "tokens_ok L'"
  using assms(2)
proof (rule ledger_transfer_Some)
  fix tk tk'
  assume a: "L contract = Some (DToken tk)" "transfer env from to amount tk = Inr tk'" "L' = L(contract \<mapsto> DToken tk')"
  have "token_ok tk" using assms(1) a(1) by (simp add: tokens_ok_def)
  then have "token_ok tk'" using token_ok_call [of tk "TokTransfer from to amount" env tk'] a(2) by simp
  then show ?thesis using tokens_ok_upd [OF assms(1)] a(3) by simp
qed

lemma ledger_disburse_Some:
  assumes "ledger_disburse gov_addr env t action L = Some L'"
  obtains tr L1 where "L t = Some (DTreasury tr)" "tr_governance tr \<noteq> None"
    "ledger_transfer (called_by t env) (case ta_asset action of Native \<Rightarrow> t | Token a \<Rightarrow> a) t
       (ta_recipient action) (ta_amount action) L = Some L1"
    "L' = L1(t \<mapsto> DTreasury (tr\<lparr>tr_events := tr_events tr @ [(ta_recipient action, ta_amount action)]\<rparr>))"
  using assms that
  by (auto simp add: ledger_disburse_def disburse_Some split: option.splits deployed.splits)

lemma ledger_disburse_ok:
  assumes "tokens_ok L" and "ledger_disburse gov_addr env t action L = Some L'"
  shows "tokens_ok L'"
  using assms(2)
  by (rule ledger_disburse_Some) (use assms(1) in \<open>auto intro: tokens_ok_treasury ledger_transfer_ok\<close>)

lemma run_sys_tokens_ok:
  assumes "tokens_ok L" and "run_sys gov_addr env cv c (g, L) = Some (g', L')"
  shows "tokens_ok L'"
proof (cases c)
  case (CallGov d)
  then have "run_gov (sys_surroundings gov_addr env cv L) d (g, L) = Inr (g', L')"
    using assms(2) by (auto split: if_splits sum.splits)
  then show ?thesis
  proof (rule run_gov_cases)
    fix a i
    assume "execute (s_env (sys_surroundings gov_addr env cv L)) (s_disburse (sys_surroundings gov_addr env cv L)) a i (g, L)
      = Inr (g', L')"
    then show ?thesis
      by (rule execute_Inr) (use assms(1) in \<open>auto simp add: sys_surroundings_def intro: ledger_disburse_ok
          split: list.splits option.splits\<close>)
  qed (use assms(1) in simp)
next
  case (CallToken a d)
  then obtain tk tk' where a: "L a = Some (DToken tk)" "call_typed d" "run_token env d tk = Inr tk'" "L' = L(a \<mapsto> DToken tk')"
    using assms(2) by (auto split: option.splits deployed.splits if_splits sum.splits)
  have "token_ok tk" using assms(1) a(1) by (simp add: tokens_ok_def)
  then have "token_ok tk'" using token_ok_call a(2,3) by metis
  then show ?thesis unfolding a(4) by (rule tokens_ok_upd [OF assms(1)])
next
  case (InitTreasury t h)
  then show ?thesis
    using assms by (auto intro: tokens_ok_treasury split: option.splits deployed.splits if_splits)
qed

interpretation sys: invariant_system sys_init "sys_step gov_addr" "\<lambda>gw. tokens_ok (snd gw)" for gov_addr
proof
  show "sys_init gw \<Longrightarrow> tokens_ok (snd gw)" for gw
    by (auto simp add: sys_init_def tokens_ok_def intro: token_ok_init)
  show "tokens_ok (snd gw')" if "tokens_ok (snd gw)" "sys_step gov_addr gw gw'" for gw gw'
    using that(2)
  proof cases
    case (sys_called env cv c)
    then show ?thesis
      using run_sys_tokens_ok [of "snd gw" gov_addr env cv c "fst gw" "fst gw'" "snd gw'"] that(1) by simp
  qed
qed

section \<open>Execution and the treasury\<close>

lemma run_sys_execute:
  assumes "run_sys ga env cv (CallGov (Execute admin i)) (g, L) = Some (g', L')"
  shows "execute env (ledger_disburse ga env) admin i (g, L) = Inr (g', L')"
  using assms by (auto simp add: sys_surroundings_def split: if_splits sum.splits)

lemma sys_steps_gov_steps: "(sys_step ga)\<^sup>*\<^sup>* gw gw' \<Longrightarrow> gov_step\<^sup>*\<^sup>* gw gw'"
  by (induction rule: rtranclp.induct) (auto intro: sys_gov_step rtranclp.rtrancl_into_rtrancl)

lemma executed_stays:
  assumes "reachable gov_init gov_step (g', L')" and "g_proposals g' i = Some p" and "p_state p = PExecuted"
    and "(sys_step ga)\<^sup>*\<^sup>* (g', L') (g2, L2)"
  shows "run_sys ga env cv (CallGov (Execute admin i)) (g2, L2) = None"
proof -
  have "g_proposals g2 i = Some p"
    using evolves_settled [OF run_evolves [OF assms(1) sys_steps_gov_steps [OF assms(4)]], of i p] assms(2,3) by auto
  then have "execute env (ledger_disburse ga env) admin i (g2, L2) \<noteq> Inr gw" for gw
    using assms(3) by (cases gw) (auto elim!: execute_Inr)
  then show ?thesis
    using run_sys_execute [of ga env cv admin i g2 L2]
    by (cases "run_sys ga env cv (CallGov (Execute admin i)) (g2, L2)") auto
qed

text \<open>
  C5. An executed proposal pays exactly once.  When the execution of a proposal with a disbursement of a
  token succeeds, the treasury holds exactly the amount less of that token and the recipient exactly the
  amount more, everybody else's balance and the supply are unchanged, the amount was positive and covered;
  and in no later state of the system does any call execute the proposal again.
\<close>

theorem execution_pays_once:
  assumes "reachable sys_init (sys_step ga) (g, L)"
    and "run_sys ga env cv (CallGov (Execute admin i)) (g, L) = Some (g', L')"
    and "g_proposals g i = Some p" and "p_treasury_action p = [act]" and "ta_asset act = Token c"
    and "g_treasury g = Some t"
  shows "\<exists>tk tk'. L c = Some (DToken tk) \<and> L' c = Some (DToken tk')
    \<and> 0 < ta_amount act \<and> ta_amount act \<le> token_balance tk t
    \<and> (\<forall>x. token_balance tk' x = token_balance tk x - (if x = t then ta_amount act else 0)
         + (if x = ta_recipient act then ta_amount act else 0))
    \<and> tk_total_supply tk' = tk_total_supply tk
    \<and> (\<forall>g2 L2 env2 cv2 admin2. (sys_step ga)\<^sup>*\<^sup>* (g', L') (g2, L2) \<longrightarrow>
         run_sys ga env2 cv2 (CallGov (Execute admin2 i)) (g2, L2) = None)"
  using run_sys_execute [OF assms(2)]
proof (rule execute_Inr)
  fix q
  assume q: "g_proposals g i = Some q" "p_state q = PPassed"
    "Some L' = (case (p_treasury_action q, g_treasury g) of (a # _, Some t) \<Rightarrow> ledger_disburse ga env t a L | _ \<Rightarrow> Some L)"
    "g' = publish (GeExec i admin) (set_proposal i (q\<lparr>p_state := PExecuted\<rparr>) g)"
  have "ledger_disburse ga env t act L = Some L'" using q(1,3) assms(3,4,6) by simp
  then obtain tr L1 where tr: "L t = Some (DTreasury tr)"
    and L1: "ledger_transfer (called_by t env) c t (ta_recipient act) (ta_amount act) L = Some L1"
    and L': "L' = L1(t \<mapsto> DTreasury (tr\<lparr>tr_events := tr_events tr @ [(ta_recipient act, ta_amount act)]\<rparr>))"
    using assms(5) by (auto elim!: ledger_disburse_Some)
  obtain tk tk' where tk: "L c = Some (DToken tk)"
    "transfer (called_by t env) t (ta_recipient act) (ta_amount act) tk = Inr tk'" "L1 = L(c \<mapsto> DToken tk')"
    using L1 by (rule ledger_transfer_Some)
  have "token_ok tk" using sys.reachable_inv [OF assms(1)] tk(1) by (simp add: tokens_ok_def)
  from transfer_ok_exact [OF this, of "called_by t env" t "ta_recipient act" "ta_amount act"] tk(2)
  have moved: "0 < ta_amount act \<and> ta_amount act \<le> token_balance tk t \<and> tk_total_supply tk' = tk_total_supply tk
      \<and> (\<forall>x. token_balance tk' x = token_balance tk x - (if x = t then ta_amount act else 0)
         + (if x = ta_recipient act then ta_amount act else 0))"
    by (auto simp add: called_by_def token_balance_at_or_0 split: if_splits)
  have "L' c = Some (DToken tk')" using tr tk L' by auto
  moreover have "reachable gov_init gov_step (g', L')"
    using sys_gov_reachable [OF assms(1)] sys_gov_step [OF sys_called [OF assms(2)]] by (rule reach_step)
  moreover have "g_proposals g' i = Some (q\<lparr>p_state := PExecuted\<rparr>)" by (simp add: q(4) gov_upd_defs)
  ultimately show ?thesis using tk(1) moved executed_stays [of g' L' i "q\<lparr>p_state := PExecuted\<rparr>" ga] by auto
qed

text \<open>
  C39. A proposal that disburses the native asset can never be executed while a treasury is set: the
  treasury asks its own address for the transfer, where there is no token, and the call traps for every
  admin, at every time, in every state of the ledger; nothing is paid and the proposal stays passed.
\<close>

theorem native_disbursement_fails:
  assumes "g_proposals g i = Some p" and "p_treasury_action p = [act]" and "ta_asset act = Native"
    and "g_treasury g = Some t"
  shows "run_sys ga env cv (CallGov (Execute admin i)) (g, L) = None"
proof (cases "run_sys ga env cv (CallGov (Execute admin i)) (g, L)")
  case (Some gw)
  then have "execute env (ledger_disburse ga env) admin i (g, L) = Inr (fst gw, snd gw)"
    using run_sys_execute [of ga env cv admin i g L "fst gw" "snd gw"] by simp
  then have "ledger_disburse ga env t act L = Some (snd gw)"
    by (rule execute_Inr) (use assms in auto)
  then show ?thesis using assms(3) by (auto elim!: ledger_disburse_Some ledger_transfer_Some)
qed

section \<open>Example runs\<close>

primrec run_sys_all :: "Address \<Rightarrow> (env \<times> sys_call) list \<Rightarrow> gov \<times> ledger \<Rightarrow> (gov \<times> ledger) option" where
  "run_sys_all ga [] gw = Some gw"
| "run_sys_all ga (x # xs) gw =
     (case run_sys ga (fst x) (\<lambda>_ _. 0) (snd x) gw of None \<Rightarrow> None | Some gw' \<Rightarrow> run_sys_all ga xs gw')"

lemma run_sys_all_reachable:
  "run_sys_all ga xs gw = Some gw' \<Longrightarrow> reachable sys_init (sys_step ga) gw \<Longrightarrow> reachable sys_init (sys_step ga) gw'"
proof (induction xs arbitrary: gw)
  case (Cons x xs)
  then obtain gw1 where r: "run_sys ga (fst x) (\<lambda>_ _. 0) (snd x) gw = Some gw1" "run_sys_all ga xs gw1 = Some gw'"
    by (auto split: option.splits)
  then have "reachable sys_init (sys_step ga) gw1"
    using Cons.prems(2) sys_called [OF r(1)] reach_step by metis
  then show ?case using Cons.IH r(2) by blast
qed simp

definition sample_ledger :: ledger where
  "sample_ledger = [''TOK'' \<mapsto> DToken sample_token, ''TRE'' \<mapsto> DTreasury treasury_fresh]"

lemma sample_sys_init: "sys_init (gov_fresh, sample_ledger)"
  using sample_token_init by (auto simp add: sys_init_def sample_ledger_def split: if_splits)

definition env_at :: "nat \<Rightarrow> env" where
  "env_at time = \<lparr>e_timestamp = time, e_sequence = 10, e_auth = (\<lambda>_. True), e_extend_missing = True\<rparr>"

definition sample_action :: TreasuryAction where
  "sample_action = \<lparr>ta_recipient = ''BOB'', ta_amount = 40, ta_asset = Token ''TOK''\<rparr>"

definition pay_calls :: "(env \<times> sys_call) list" where
  "pay_calls =
     [(env_at 0, CallGov (Initialize ''ADM'' ''TOK'' 0 0 0 False (Some ''TRE''))),
      (env_at 0, InitTreasury ''TRE'' ''GOV''),
      (env_at 0, CallToken ''TOK'' (TokTransfer ''ADM'' ''TRE'' 100)),
      (env_at 100, CallGov (CreateProposal ''ADM'' ''T'' ''D'' 300 60 None (Some sample_action))),
      (env_at 110, CallGov (CastVote ''ADM'' 0 VYes)),
      (env_at 161, CallGov (Finalise 0))]"

definition attack_calls :: "(env \<times> sys_call) list" where
  "attack_calls =
     [(env_at 0, CallGov (Initialize ''ADM'' ''TOK'' 0 0 0 False None)),
      (env_at 0, CallToken ''TOK'' (TokTransfer ''ADM'' ''BOB'' 400)),
      (env_at 100, CallGov (CreateProposal ''BOB'' ''T'' ''D'' 1000 60 None None)),
      (env_at 110, CallGov (CastVote ''ADM'' 0 VNo)),
      (env_at 120, CallGov (CastVote ''BOB'' 0 VYes)),
      (env_at 130, CallToken ''TOK'' (TokTransfer ''BOB'' ''EVE'' 400)),
      (env_at 140, CallGov (CastVote ''EVE'' 0 VYes)),
      (env_at 161, CallGov (Finalise 0))]"

lemmas sys_run_simps =
  gov_run_simps u_max_vals env_at_def sample_ledger_def sample_token_def token_fresh_def token_upd_defs transfer_def
  tk_assert_not_paused_def validate_amount_def token_balance_def balance_at_def get_delegation_def client_of_def
  token_clients_def sys_surroundings_def treasury_initialize_def treasury_fresh_def

lemma attack_run:
  "\<exists>g L tk p. run_sys_all ''GOV'' attack_calls (gov_fresh, sample_ledger) = Some (g, L)
     \<and> g_voting_token g = Some ''TOK'' \<and> L ''TOK'' = Some (DToken tk) \<and> tk_total_supply tk = 1000
     \<and> token_balance tk ''ADM'' = 600 \<and> g_proposals g 0 = Some p \<and> p_votes_yes p = 800 \<and> p_votes_no p = 600
     \<and> p_quorum p = 1000 \<and> p_state p = PPassed"
  by (simp add: attack_calls_def sys_run_simps)

text \<open>
  An example of what a snapshot is needed for: \<open>balance_at\<close> of the token contract answers with the current balance
  for every ledger, so tokens that have voted vote again after a transfer.  In this run a proposal passes with 800
  for and 600 against at a supply of 1000.  The run is on a host that tolerates extending the lifetime of an entry
  that does not exist; on one that traps nobody votes at all (\<open>no_votes_on_trapping_host\<close>).
\<close>

lemma votes_exceed_supply:
  "\<exists>g L tk p. reachable sys_init (sys_step ''GOV'') (g, L)
     \<and> g_voting_token g = Some ''TOK'' \<and> L ''TOK'' = Some (DToken tk) \<and> g_proposals g 0 = Some p
     \<and> p_state p = PPassed \<and> p_votes_yes p + p_votes_no p > tk_total_supply tk
     \<and> g_votes g (0, ''ADM'') = Some \<lparr>v_vote = VNo, v_weight = 600\<rparr> \<and> tk_total_supply tk = 1000"
proof -
  obtain g L tk p where r: "run_sys_all ''GOV'' attack_calls (gov_fresh, sample_ledger) = Some (g, L)"
    and p: "g_voting_token g = Some ''TOK''" "L ''TOK'' = Some (DToken tk)" "tk_total_supply tk = 1000"
      "g_proposals g 0 = Some p" "p_votes_yes p = 800" "p_votes_no p = 600" "p_state p = PPassed"
    using attack_run by blast
  have "g_votes g (0, ''ADM'') = Some \<lparr>v_vote = VNo, v_weight = 600\<rparr>"
    using r by (auto simp add: attack_calls_def sys_run_simps)
  moreover have "reachable sys_init (sys_step ''GOV'') (g, L)"
    using run_sys_all_reachable [OF r reach_init [of sys_init, OF sample_sys_init]] .
  ultimately show ?thesis using p by (intro exI [of _ g] exI [of _ L] exI [of _ tk] exI [of _ p]) simp
qed

lemma pay_run:
  "\<exists>g L p. run_sys_all ''GOV'' pay_calls (gov_fresh, sample_ledger) = Some (g, L) \<and> g_proposals g 0 = Some p
     \<and> p_treasury_action p = [sample_action] \<and> g_treasury g = Some ''TRE''
     \<and> (\<exists>tk. L ''TOK'' = Some (DToken tk) \<and> token_balance tk ''BOB'' = 0 \<and> token_balance tk ''TRE'' = 100)
     \<and> (\<exists>g' L'. run_sys ''GOV'' (env_at 200) (\<lambda>_ _. 0) (CallGov (Execute ''ADM'' 0)) (g, L) = Some (g', L'))"
  by (simp add: pay_calls_def sys_run_simps sample_action_def ledger_disburse_def disburse_def ledger_transfer_def called_by_def)

theorem execution_pays_once_witness:
  "\<exists>g L g' L' tk'. reachable sys_init (sys_step ''GOV'') (g, L)
     \<and> run_sys ''GOV'' (env_at 200) (\<lambda>_ _. 0) (CallGov (Execute ''ADM'' 0)) (g, L) = Some (g', L')
     \<and> L' ''TOK'' = Some (DToken tk') \<and> token_balance tk' ''BOB'' = 40 \<and> token_balance tk' ''TRE'' = 60"
proof -
  obtain g L p tk g' L' where r: "run_sys_all ''GOV'' pay_calls (gov_fresh, sample_ledger) = Some (g, L)"
    and p: "g_proposals g 0 = Some p" "p_treasury_action p = [sample_action]" "g_treasury g = Some ''TRE''"
    and tk: "L ''TOK'' = Some (DToken tk)" "token_balance tk ''BOB'' = 0" "token_balance tk ''TRE'' = 100"
    and x: "run_sys ''GOV'' (env_at 200) (\<lambda>_ _. 0) (CallGov (Execute ''ADM'' 0)) (g, L) = Some (g', L')"
    using pay_run by blast
  have re: "reachable sys_init (sys_step ''GOV'') (g, L)"
    using run_sys_all_reachable [OF r reach_init [of sys_init, OF sample_sys_init]] .
  have a: "ta_asset sample_action = Token ''TOK''" "ta_recipient sample_action = ''BOB''" "ta_amount sample_action = 40"
    by (simp_all add: sample_action_def)
  obtain tk2 tk' where "L ''TOK'' = Some (DToken tk2)" "L' ''TOK'' = Some (DToken tk')"
    and b: "\<forall>y. token_balance tk' y = token_balance tk2 y - (if y = ''TRE'' then ta_amount sample_action else 0)
         + (if y = ta_recipient sample_action then ta_amount sample_action else 0)"
    using execution_pays_once [OF re x p(1,2) a(1) p(3)] by blast
  moreover have "token_balance tk' ''BOB'' = 40" "token_balance tk' ''TRE'' = 60"
    using spec [OF b, of "''BOB''"] spec [OF b, of "''TRE''"] tk calculation(1) a by simp_all
  ultimately show ?thesis using re x by blast
qed

theorem native_disbursement_fails_witness:
  "run_sys ''GOV'' (env_at 200) (\<lambda>_ _. 0) (CallGov (Execute ''ADM'' 0))
     (sample_passed\<lparr>g_treasury := Some ''TRE'', g_proposals :=
        [0 \<mapsto> sample_proposal\<lparr>p_state := PPassed, p_treasury_action := [sample_action\<lparr>ta_asset := Native\<rparr>]\<rparr>]\<rparr>,
      sample_ledger) = None"
  by (rule native_disbursement_fails [where act = "sample_action\<lparr>ta_asset := Native\<rparr>" and t = "''TRE''" and p =
        "sample_proposal\<lparr>p_state := PPassed, p_treasury_action := [sample_action\<lparr>ta_asset := Native\<rparr>]\<rparr>"]) simp_all

end
