(* ===== verification/Frontend_Contract.thy ===== *)
theory Frontend_Contract
  imports Contract_System Contract_Errors Contract_Types Create_Proposal_Form
begin

text \<open>
  The front end against the contracts' models: error codes and topics are those the contracts use, the
  checks the forms mirror are those of \<open>create_proposal\<close>, and an accepted form becomes a proposal.
\<close>

section \<open>Codes and topics\<close>

text \<open>The tables of codes that the front end's catalogue is compared with are the contracts' own.\<close>

lemma gov_error_codes: "map snd gov_error_table = ContractError"
  unfolding gov_error_table_def ContractError_def list.map snd_conv ..

lemma gov_error_table_complete: "e \<in> set (map fst gov_error_table)"
  unfolding gov_error_table_def list.map fst_conv by (cases e; simp only: list.set insert_iff simp_thms)

lemma token_error_codes:
  "map snd TokenContractError = map token_error_code
     [TokenError.AlreadyInitialized, TokenError.NotInitialized, TokenError.NotAdmin, TokenError.InvalidNewAdmin,
      InvalidAmount, TokenError.InsufficientBalance, AllowanceExceeded, CannotDelegateSelf, AlreadyDelegating,
      NotDelegating, InvalidExpiry, TokenError.NoPendingAdmin, TokenError.NotPendingAdmin,
      TokenError.ContractPaused, TokenError.NotPaused]"
  by (simp add: TokenContractError_def)

lemma gov_topics_published: "gov_topic ev = Some tp \<Longrightarrow> tp \<in> set contract_gov_topics"
  by (cases ev) (auto simp add: contract_gov_topics_def)

section \<open>Input checks\<close>

fun fault_name :: "GovError fault \<Rightarrow> string" where
  "fault_name (Err e) = gov_error_name e"
| "fault_name Trap = []"

text \<open>
  The reference that both proposal forms are checked against, \<open>contract_input_check\<close>, is what the
  contract does: for all lengths, quorums and durations it names exactly the error with which
  \<open>create_proposal\<close> refuses its arguments, or none.
\<close>

lemma create_inputs_check:
  "map_option fault_name (create_inputs ti de li qu du) =
     contract_input_check (length ti) (length de) (map_option length li) qu (int du)"
  by (auto simp add: create_inputs_def contract_input_check_def gov_error_name_def gov_error_table_def
      split: option.splits)

section \<open>From the form to the contract\<close>

text \<open>The bytes of an ASCII text.\<close>

definition ascii_bytes :: "jstring \<Rightarrow> string" where
  "ascii_bytes s = map char_of s"

lemma length_ascii_bytes [simp]: "length (ascii_bytes s) = length s"
  by (simp add: ascii_bytes_def)

lemma create_proposal_succeeds:
  assumes "e_auth env pr" and "g_ready g" and "\<not> g_paused g" and "create_inputs ti de li qu du = None"
    and "g_active_count g < 50" and "voting_client tokens g = Some tc" and "qu \<le> tc_total_supply tc"
    and "create_floor g tc qu = None" and "g_min_balance g \<le> tc_balance tc pr"
    and "create_cooldown env g pr = None" and "e_timestamp env + du \<le> u64_max" and "g_proposal_count g < u64_max"
  shows "\<exists>g'. create_proposal env tokens pr ti de qu du li ta g = Inr (g_proposal_count g, g')
    \<and> g_proposals g' (g_proposal_count g) =
        Some (new_proposal env (g_proposal_count g) pr ti de li qu (e_timestamp env + du) ta)"
  using assms
  by (simp add: create_proposal_def assert_ready_def require_auth_def reject_if_def ok_or_trap_def u64_add_def Let_def)
    (simp add: gov_upd_defs u64_max_def)

lemma ascii_bytes_js [simp]: "ascii_bytes (js s) = s"
  by (simp add: ascii_bytes_def js_def o_def)

text \<open>
  A call of \<open>create_proposal\<close> as it arrives at the contract: its arguments as values, \<open>None\<close> for the absent
  value of an optional one.  The function has seven parameters after the environment; the host traps when the number of arguments
  is another one, and when one does not convert to the type of its parameter.
\<close>

definition invoke_create ::
  "env \<Rightarrow> clients \<Rightarrow> ScVal option list \<Rightarrow> gov \<Rightarrow> (GovError, nat \<times> gov) outcome" where
  "invoke_create env tokens args g =
     (if length args \<noteq> 7 then Inl Trap
      else case (args ! 0, args ! 1, args ! 2, args ! 3, args ! 4, args ! 5, args ! 6) of
             (Some (Sc_address a), Some (Sc_string ti), Some (Sc_string de), Some (Sc_i128 qu), Some (Sc_u64 du), li, None) \<Rightarrow>
               (case li of
                  None \<Rightarrow> create_proposal env tokens (ascii_bytes a) (ascii_bytes ti) (ascii_bytes de) qu (nat du) None None g
                | Some (Sc_string l) \<Rightarrow>
                    create_proposal env tokens (ascii_bytes a) (ascii_bytes ti) (ascii_bytes de) qu (nat du)
                      (Some (ascii_bytes l)) None g
                | _ \<Rightarrow> Inl Trap)
           | _ \<Rightarrow> Inl Trap)"

lemma proposal_args_Inr:
  assumes "proposal_args conv wallet f = Inr args"
  obtains q d where "BigInt_of_Number (Math_round (js_Number (f_quorum f))) = Inr q"
    and "BigInt_of_Number (Math_round (js_Number (f_duration f))) = Inr d"
    and "args = [Sc_address wallet, Sc_string (trim (f_title f)), Sc_string (trim (f_description f)), Sc_i128 q, Sc_u64 d]"
proof -
  show thesis
    using assms that
    by (cases "BigInt_of_Number (Math_round (js_Number (f_quorum f)))";
        cases "BigInt_of_Number (Math_round (js_Number (f_duration f)))")
       (auto simp add: proposal_args_def split: sum.splits)
qed

lemma form_call_refused:
  assumes "proposal_args conv wallet f = Inr args"
  shows "invoke_create env tokens (map Some args) g = Inl Trap"
  using assms by (rule proposal_args_Inr) (simp add: invoke_create_def)

text \<open>
  C7. The create-proposal form against the contract.  The call as the form makes it, with five arguments, is
  refused by the contract in every state, so no form ever creates a proposal.  It lacks only the two optional arguments: the same
  call with a link and a treasury action that are absent is stored, as an active proposal under the next number with
  exactly the trimmed texts, the rounded quorum and the chosen duration, whenever the form shows no error, its texts are ASCII, its
  quorum rounds to a positive number within the supply, and the contract is initialized and not paused, has room for another
  active proposal and no floor, balance or cooldown rule against it.
\<close>

theorem form_call_against_contract:
  assumes "\<not> hasErrors f" and "ascii (f_title f)" and "ascii (f_description f)"
    and "js_Number (f_quorum f) = Fin r" and "1 / 2 \<le> r"
    and "e_auth env (ascii_bytes wallet)" and "g_ready g" and "\<not> g_paused g" and "g_active_count g < 50"
    and "voting_client tokens g = Some tc" and "\<lfloor>r + 1 / 2\<rfloor> \<le> tc_total_supply tc"
    and "create_floor g tc \<lfloor>r + 1 / 2\<rfloor> = None" and "g_min_balance g \<le> tc_balance tc (ascii_bytes wallet)"
    and "create_cooldown env g (ascii_bytes wallet) = None" and "e_timestamp env + 2592000 \<le> u64_max"
    and "g_proposal_count g < u64_max" and "proposal_args conv wallet f = Inr args"
  shows "(\<forall>env' tokens' g'. invoke_create env' tokens' (map Some args) g' = Inl Trap)
    \<and> (\<exists>d g' p. BigInt_of_Number (Math_round (js_Number (f_duration f))) = Inr (int d)
      \<and> invoke_create env tokens (map Some args @ [None, None]) g = Inr (g_proposal_count g, g')
      \<and> g_proposals g' (g_proposal_count g) = Some p \<and> p_state p = PActive \<and> p_proposer p = ascii_bytes wallet
      \<and> p_title p = ascii_bytes (trim (f_title f)) \<and> p_description p = ascii_bytes (trim (f_description f))
      \<and> p_quorum p = \<lfloor>r + 1 / 2\<rfloor> \<and> p_end_time p = e_timestamp env + d)"
proof -
  obtain n where n: "BigInt_of_Number (Math_round (js_Number (f_duration f))) = Inr n" "60 \<le> n" "n \<le> 2592000"
    using create_form.duration_rounds [OF assms(1)] by blast
  have q: "0 < \<lfloor>r + 1 / 2\<rfloor>" using assms(5) by (simp add: zero_less_floor)
  have len: "utf8_len (trim (f_title f)) = length (trim (f_title f))"
    "utf8_len (trim (f_description f)) = length (trim (f_description f))"
    using assms(2,3) by (simp_all add: utf8_len_ascii ascii_trim)
  have "map_option fault_name (create_inputs (ascii_bytes (trim (f_title f))) (ascii_bytes (trim (f_description f)))
      None \<lfloor>r + 1 / 2\<rfloor> (nat n)) = None"
    unfolding create_inputs_check using create_form.contract_accepts [OF assms(1-3) q n(1)] n(2) len by simp
  then have "create_inputs (ascii_bytes (trim (f_title f))) (ascii_bytes (trim (f_description f))) None
      \<lfloor>r + 1 / 2\<rfloor> (nat n) = None" by simp
  moreover have "e_timestamp env + nat n \<le> u64_max" using assms(15) n(3) by linarith
  ultimately obtain g' where "create_proposal env tokens (ascii_bytes wallet) (ascii_bytes (trim (f_title f)))
        (ascii_bytes (trim (f_description f))) \<lfloor>r + 1 / 2\<rfloor> (nat n) None None g = Inr (g_proposal_count g, g')"
    and st: "g_proposals g' (g_proposal_count g) = Some (new_proposal env (g_proposal_count g) (ascii_bytes wallet) (ascii_bytes (trim (f_title f)))
        (ascii_bytes (trim (f_description f))) None \<lfloor>r + 1 / 2\<rfloor> (e_timestamp env + nat n) None)"
    using create_proposal_succeeds [OF assms(6-8) _ assms(9-14) _ assms(16)] by blast
  moreover obtain q d where "BigInt_of_Number (Math_round (js_Number (f_quorum f))) = Inr q"
    "BigInt_of_Number (Math_round (js_Number (f_duration f))) = Inr d"
    and a: "args = [Sc_address wallet, Sc_string (trim (f_title f)), Sc_string (trim (f_description f)), Sc_i128 q, Sc_u64 d]"
    using assms(17) by (rule proposal_args_Inr)
  moreover have "q = \<lfloor>r + 1 / 2\<rfloor>" "d = n" using calculation(3,4) assms(4) n(1) by simp_all
  ultimately have "invoke_create env tokens (map Some args @ [None, None]) g = Inr (g_proposal_count g, g')"
    by (simp add: invoke_create_def)
  moreover note form_call_refused [OF assms(17)]
  ultimately show ?thesis using n(1,2) st
    by (intro conjI allI exI [of _ "nat n"] exI [of _ g']) (auto simp add: new_proposal_def)
qed

theorem form_call_against_contract_witness:
  "\<exists>args g' p. proposal_args (\<lambda>_. Inr ()) (js ''BOB'') ok_form = Inr args
     \<and> invoke_create (s_env (sample_at 500)) (s_tokens (sample_at 500)) (map Some args) sample_gov = Inl Trap
     \<and> invoke_create (s_env (sample_at 500)) (s_tokens (sample_at 500)) (map Some args @ [None, None]) sample_gov = Inr (1, g')
     \<and> g_proposals g' 1 = Some p \<and> p_state p = PActive \<and> p_proposer p = ''BOB'' \<and> p_quorum p = 1000"
proof -
  have f: "\<lfloor>(1000 :: rat) + 1 / 2\<rfloor> = 1000" by (simp add: floor_eq_iff)
  have b: "ascii_bytes (js ''BOB'') = ''BOB''" by simp
  obtain args where a: "proposal_args (\<lambda>_. Inr ()) (js ''BOB'') ok_form = Inr args"
    by (simp add: proposal_args_def ok_form_def numeral_fields)
  have c: "voting_client (s_tokens (sample_at 500)) sample_gov = Some sample_client"
    by (simp add: voting_client_def sample_gov_def sample_at_def)
  have h: "ascii (f_title ok_form)" "ascii (f_description ok_form)" "js_Number (f_quorum ok_form) = Fin 1000"
    "(1 / 2 :: rat) \<le> 1000"
    by (simp_all add: ok_form_def numeral_fields)
  have g: "e_auth (s_env (sample_at 500)) (ascii_bytes (js ''BOB''))" "g_ready sample_gov" "\<not> g_paused sample_gov"
    "g_active_count sample_gov < 50"
    by (simp_all add: sample_at_def sample_gov_def gov_fresh_def)
  have t: "\<lfloor>(1000 :: rat) + 1 / 2\<rfloor> \<le> tc_total_supply sample_client"
    "create_floor sample_gov sample_client \<lfloor>(1000 :: rat) + 1 / 2\<rfloor> = None"
    "g_min_balance sample_gov \<le> tc_balance sample_client (ascii_bytes (js ''BOB''))"
    "create_cooldown (s_env (sample_at 500)) sample_gov (ascii_bytes (js ''BOB'')) = None"
    "e_timestamp (s_env (sample_at 500)) + 2592000 \<le> u64_max" "g_proposal_count sample_gov < u64_max"
    unfolding f b by (simp_all add: sample_client_def sample_gov_def gov_fresh_def create_floor_def create_cooldown_def
        sample_at_def u_max_vals)
  have "g_proposal_count sample_gov = 1" by (simp add: sample_gov_def)
  with form_call_against_contract [OF ok_form_accepted h g c t a] a show ?thesis
    unfolding f b by auto
qed

end
