(* ===== verification/Dashboard.thy ===== *)
theory Dashboard
  imports Api
begin

text \<open>
  \<^verbatim>\<open>frontend/src/components/UserDashboard.tsx\<close> and \<^verbatim>\<open>components/DelegationPanel.tsx\<close>: the user's
  figures and the panel for delegating voting power.  The answers of \<open>fetchDelegation\<close> and the changes of the
  account are steps of their own.
\<close>

section \<open>The dashboard\<close>

type_synonym voted_map = "int \<rightharpoonup> VoteRecord"

definition db_active :: "Proposal list \<Rightarrow> Proposal list" where
  "db_active ps = filter (\<lambda>p. state p = Active) ps"

definition db_voted :: "voted_map \<Rightarrow> Proposal list \<Rightarrow> Proposal list" where
  "db_voted vm ps = filter (\<lambda>p. vm (prop_id p) \<noteq> None) ps"

definition db_unvoted :: "voted_map \<Rightarrow> Proposal list \<Rightarrow> Proposal list" where
  "db_unvoted vm ps = filter (\<lambda>p. vm (prop_id p) = None) (db_active ps)"

fun vote_name :: "VoteType \<Rightarrow> jstring" where
  "vote_name Yes = js ''Yes''"
| "vote_name No = js ''No''"
| "vote_name Abstain = js ''Abstain''"

fun VOTE_ICON :: "VoteType \<Rightarrow> jstring" where
  "VOTE_ICON Yes = [9989]"
| "VOTE_ICON No = [10060]"
| "VOTE_ICON Abstain = [11036]"

definition db_vote_lines :: "voted_map \<Rightarrow> Proposal list \<Rightarrow> (jstring \<times> jstring) list" where
  "db_vote_lines vm ps =
     map (\<lambda>p. (js ''#'' @ show_int (prop_id p) @ js '' '' @ title p,
               case vm (prop_id p) of
                 Some r \<Rightarrow> VOTE_ICON (vr_vote r) @ js '' '' @ vote_name (vr_vote r)
               | None \<Rightarrow> js '' ''))
       (slice (db_voted vm ps) 0 5)"

definition db_more :: "voted_map \<Rightarrow> Proposal list \<Rightarrow> jstring option" where
  "db_more vm ps =
     (let n = length (db_voted vm ps)
      in if n > 5 then Some (js ''+'' @ show_nat (n - 5) @ js '' more'') else None)"

definition db_nudge :: "voted_map \<Rightarrow> Proposal list \<Rightarrow> jstring option" where
  "db_nudge vm ps =
     (let n = length (db_unvoted vm ps)
      in if n > 0 then Some ([55357, 56596] @ js '' You have '' @ show_nat n @ js '' active proposal''
           @ (if n > 1 then js ''s'' else []) @ js '' you haven't voted on yet.'') else None)"

definition short_wallet :: "jstring \<Rightarrow> jstring" where
  "short_wallet a = slice a 0 8 @ [8230] @ slice_from a (-6)"

text \<open>
  The dashboard's figures add up: every active proposal is either voted on or counted as awaiting the
  user's vote, and never both; at most five votes are listed, the rest being counted.
\<close>

lemma dashboard_counts:
  "length (db_active ps) = length (db_unvoted vm ps) + length (filter (\<lambda>p. state p = Active) (db_voted vm ps))"
  by (induction ps) (auto simp add: db_active_def db_unvoted_def db_voted_def)

lemma dashboard_listed:
  "length (db_vote_lines vm ps) = min 5 (length (db_voted vm ps))"
  using slice_0_nonneg [of "db_voted vm ps" 5] by (simp add: db_vote_lines_def min.commute)

section \<open>Delegation\<close>

datatype PanelState = idle | delegating | revoking

record delegation_ui =
  dg_currentDelegate :: "jstring option"
  dg_loading :: bool
  dg_panel :: PanelState
  dg_input :: jstring
  dg_error :: "jstring option"
  dg_success :: "jstring option"

definition initial_delegation :: delegation_ui where
  "initial_delegation = \<lparr>dg_currentDelegate = None, dg_loading = True, dg_panel = idle, dg_input = [],
     dg_error = None, dg_success = None\<rparr>"

definition delegation_arrives :: "jstring option result \<Rightarrow> delegation_ui \<Rightarrow> delegation_ui" where
  "delegation_arrives reply u =
     u\<lparr>dg_currentDelegate := (case reply of Inr d \<Rightarrow> d | Inl _ \<Rightarrow> None), dg_loading := False\<rparr>"

definition typeDelegate :: "jstring \<Rightarrow> delegation_ui \<Rightarrow> delegation_ui" where
  "typeDelegate v u = u\<lparr>dg_input := trim v\<rparr>"

definition openDelegate :: "delegation_ui \<Rightarrow> delegation_ui" where
  "openDelegate u = u\<lparr>dg_panel := delegating, dg_success := None\<rparr>"

definition openRevoke :: "delegation_ui \<Rightarrow> delegation_ui" where
  "openRevoke u = u\<lparr>dg_panel := revoking, dg_success := None\<rparr>"

definition cancelDelegate :: "delegation_ui \<Rightarrow> delegation_ui" where
  "cancelDelegate u = u\<lparr>dg_panel := idle, dg_input := [], dg_error := None\<rparr>"

definition cancelRevoke :: "delegation_ui \<Rightarrow> delegation_ui" where
  "cancelRevoke u = u\<lparr>dg_panel := idle, dg_error := None\<rparr>"

definition handleDelegate :: "jstring \<Rightarrow> delegation_ui \<Rightarrow> delegation_ui" where
  "handleDelegate walletAddress u =
     (let u1 = u\<lparr>dg_error := None\<rparr>; i = dg_input u
      in if \<not> starts_with i (js ''G'') \<or> length i < 56
         then u1\<lparr>dg_error := Some (js ''Enter a valid Stellar address (G'' @ [8230] @ js '')'')\<rparr>
         else if i = walletAddress
         then u1\<lparr>dg_error := Some (js ''You cannot delegate to yourself.'')\<rparr>
         else u1\<lparr>dg_currentDelegate := Some i, dg_input := [], dg_panel := idle,
                 dg_success := Some (js ''Voting power delegated to '' @ slice i 0 8 @ [8230]
                   @ slice_from i (-6) @ js ''.'')\<rparr>)"

definition handleRevoke :: "delegation_ui \<Rightarrow> delegation_ui" where
  "handleRevoke u = u\<lparr>dg_error := None, dg_currentDelegate := None, dg_panel := idle,
     dg_success := Some (js ''Delegation revoked. Voting power returned to your account.'')\<rparr>"

text \<open>What the user can do on the panel, what it does, and when it is offered.\<close>

datatype delegation_act =
    DgOpenDelegate | DgOpenRevoke | DgType jstring | DgSubmit | DgCancelDelegate | DgRevoke | DgCancelRevoke

fun delegation_run :: "jstring \<Rightarrow> delegation_act \<Rightarrow> delegation_ui \<Rightarrow> delegation_ui" where
  "delegation_run w DgOpenDelegate u = openDelegate u"
| "delegation_run w DgOpenRevoke u = openRevoke u"
| "delegation_run w (DgType v) u = typeDelegate v u"
| "delegation_run w DgSubmit u = handleDelegate w u"
| "delegation_run w DgCancelDelegate u = cancelDelegate u"
| "delegation_run w DgRevoke u = handleRevoke u"
| "delegation_run w DgCancelRevoke u = cancelRevoke u"

fun panel_of_act :: "delegation_act \<Rightarrow> PanelState" where
  "panel_of_act DgOpenDelegate = idle"
| "panel_of_act DgOpenRevoke = idle"
| "panel_of_act DgRevoke = revoking"
| "panel_of_act DgCancelRevoke = revoking"
| "panel_of_act _ = delegating"

definition delegation_offers :: "delegation_ui \<Rightarrow> delegation_act \<Rightarrow> bool" where
  "delegation_offers u a \<longleftrightarrow> \<not> dg_loading u \<and> dg_panel u = panel_of_act a
     \<and> (a = DgOpenDelegate \<longrightarrow> \<not> truthy (dg_currentDelegate u))
     \<and> (a = DgOpenRevoke \<longrightarrow> truthy (dg_currentDelegate u))"

section \<open>The panel over time\<close>

text \<open>
  The account the panel is shown for, its state, and the accounts whose delegation has been asked for and not
  been answered.  The effect runs when the panel is mounted and whenever the account changes; it
  sets the loading flag and asks, and leaves the rest of the state as it is.  Requests are never cancelled:
  an answer is taken over whatever account it is for.
\<close>

record delegation_sys =
  dy_wallet :: jstring
  dy_ui :: delegation_ui
  dy_requests :: "jstring list"

definition load_delegation :: "jstring \<Rightarrow> delegation_sys \<Rightarrow> delegation_sys" where
  "load_delegation w y = y\<lparr>dy_wallet := w, dy_ui := (dy_ui y)\<lparr>dg_loading := True\<rparr>, dy_requests := dy_requests y @ [w]\<rparr>"

definition mount_delegation :: "jstring \<Rightarrow> delegation_sys" where
  "mount_delegation w = load_delegation w \<lparr>dy_wallet = w, dy_ui = initial_delegation, dy_requests = []\<rparr>"

definition answer_delegation :: "jstring \<Rightarrow> jstring option result \<Rightarrow> delegation_sys \<Rightarrow> delegation_sys" where
  "answer_delegation w reply y = y\<lparr>dy_ui := delegation_arrives reply (dy_ui y), dy_requests := remove1 w (dy_requests y)\<rparr>"

inductive delegation_step :: "delegation_sys \<Rightarrow> delegation_sys \<Rightarrow> bool" where
  ds_account: "w \<noteq> dy_wallet y \<Longrightarrow> delegation_step y (load_delegation w y)"
| ds_answer: "w \<in> set (dy_requests y) \<Longrightarrow> delegation_step y (answer_delegation w reply y)"
| ds_act: "delegation_offers (dy_ui y) a \<Longrightarrow>
    delegation_step y (y\<lparr>dy_ui := delegation_run (dy_wallet y) a (dy_ui y)\<rparr>)"

lemmas delegation_ops = load_delegation_def answer_delegation_def delegation_arrives_def typeDelegate_def
  openDelegate_def openRevoke_def cancelDelegate_def cancelRevoke_def handleDelegate_def handleRevoke_def

definition delegation_ok :: "delegation_sys \<Rightarrow> bool" where
  "delegation_ok y \<longleftrightarrow> (dg_loading (dy_ui y) \<longrightarrow> dy_requests y \<noteq> [])
     \<and> (dg_error (dy_ui y) \<noteq> None \<longrightarrow> dg_panel (dy_ui y) = delegating)
     \<and> (dg_success (dy_ui y) \<noteq> None \<longrightarrow> dg_panel (dy_ui y) = idle)"

lemma delegation_step_ok: "delegation_ok y \<Longrightarrow> delegation_step y z \<Longrightarrow> delegation_ok z"
proof (erule delegation_step.cases)
  fix y' a
  assume "delegation_ok y" "y = y'" "z = y'\<lparr>dy_ui := delegation_run (dy_wallet y') a (dy_ui y')\<rparr>"
    "delegation_offers (dy_ui y') a"
  then show "delegation_ok z"
    by (cases a) (auto simp add: delegation_ok_def delegation_offers_def delegation_ops Let_def)
qed (auto simp add: delegation_ok_def delegation_ops)

interpretation delegation: invariant_system "\<lambda>y. \<exists>w. y = mount_delegation w" delegation_step delegation_ok
proof unfold_locales
  show "\<exists>w. y = mount_delegation w \<Longrightarrow> delegation_ok y" for y
    by (auto simp add: delegation_ok_def mount_delegation_def load_delegation_def initial_delegation_def)
qed (rule delegation_step_ok)

text \<open>While the account stays the same there is one request, and the open panel fits the delegate.\<close>

abbreviation same_account :: "(delegation_sys \<Rightarrow> delegation_sys \<Rightarrow> bool) \<Rightarrow> delegation_sys \<Rightarrow> delegation_sys \<Rightarrow> bool" where
  "same_account step y z \<equiv> step y z \<and> dy_wallet z = dy_wallet y"

definition account_ok :: "delegation_sys \<Rightarrow> bool" where
  "account_ok y \<longleftrightarrow> (if dg_loading (dy_ui y) then length (dy_requests y) = 1 \<and> dg_panel (dy_ui y) = idle else dy_requests y = [])
     \<and> (dg_panel (dy_ui y) = delegating \<longrightarrow> \<not> truthy (dg_currentDelegate (dy_ui y)))
     \<and> (dg_panel (dy_ui y) = revoking \<longrightarrow> truthy (dg_currentDelegate (dy_ui y)))"

lemma account_step_ok: "account_ok y \<Longrightarrow> same_account delegation_step y z \<Longrightarrow> account_ok z"
proof (erule conjE, erule delegation_step.cases)
  fix y' a
  assume "account_ok y" "y = y'" "z = y'\<lparr>dy_ui := delegation_run (dy_wallet y') a (dy_ui y')\<rparr>"
    "delegation_offers (dy_ui y') a"
  then show "account_ok z"
    by (cases a) (auto simp add: account_ok_def delegation_offers_def delegation_ops Let_def)
next
  fix y' w reply
  assume a: "account_ok y" "y = y'" "z = answer_delegation w reply y'" "w \<in> set (dy_requests y')"
  then have "dg_loading (dy_ui y')" "dy_requests y' = [w]" "dg_panel (dy_ui y') = idle"
    by (auto simp add: account_ok_def length_Suc_conv split: if_splits)
  with a show "account_ok z" by (simp add: account_ok_def delegation_ops)
qed (auto simp add: load_delegation_def)

interpretation one_account: invariant_system "\<lambda>y. \<exists>w. y = mount_delegation w" "same_account delegation_step" account_ok
proof unfold_locales
  show "\<exists>w. y = mount_delegation w \<Longrightarrow> account_ok y" for y
    by (auto simp add: account_ok_def mount_delegation_def load_delegation_def initial_delegation_def)
qed (rule account_step_ok)

text \<open>Submitting the form never names the user's own account, nor a text that cannot be an address.\<close>

lemma handleDelegate_result:
  "dg_currentDelegate (handleDelegate w u) = dg_currentDelegate u \<and> dg_error (handleDelegate w u) \<noteq> None
   \<or> (\<exists>r. dg_currentDelegate (handleDelegate w u) = Some (js ''G'' @ r) \<and> 55 \<le> length r \<and> js ''G'' @ r \<noteq> w)"
  by (auto simp add: handleDelegate_def Let_def starts_with_iff)

end
