(* ===== verification/Vote_Preview.thy ===== *)
theory Vote_Preview
  imports Contract_Types Format_Utils
begin

text \<open>
  \<^verbatim>\<open>frontend/src/components/VoteSimulationPreview.tsx\<close>: the preview of a vote's fee.  The function
  \<open>simulateCastVote\<close> it imports is not in the repository; its answer is an argument.  The notation
  of numbers of \<open>10 ^ 21\<close> and more is the parameter \<open>big\<close>.
\<close>

section \<open>Definitions\<close>

definition stroopsToXlm :: "(rat \<Rightarrow> jstring) \<Rightarrow> jstring \<Rightarrow> jstring" where
  "stroopsToXlm big stroops =
     (let n = js_Number stroops
      in if isNaN n then stroops else toFixed big 7 (num_div_pos n 10000000) @ js '' XLM'')"

record sim_error =
  se_isContract :: bool
  se_message :: jstring

record preview_ui =
  pv_selectedVote :: VoteType
  pv_preview :: "jstring option"
  pv_simError :: "sim_error option"
  pv_loading :: bool

definition initial_preview :: preview_ui where
  "initial_preview = \<lparr>pv_selectedVote = Yes, pv_preview = None, pv_simError = None, pv_loading = False\<rparr>"

definition setSelectedVote :: "VoteType \<Rightarrow> preview_ui \<Rightarrow> preview_ui" where
  "setSelectedVote v u = u\<lparr>pv_selectedVote := v\<rparr>"

definition begin_simulate :: "preview_ui \<Rightarrow> preview_ui" where
  "begin_simulate u = u\<lparr>pv_loading := True, pv_preview := None, pv_simError := None\<rparr>"

definition is_SimulationError :: "thrown \<Rightarrow> bool" where
  "is_SimulationError e = (case e of ErrorObj n m \<Rightarrow> n = js ''SimulationError'' | OtherThrown s \<Rightarrow> False)"

definition end_simulate :: "jstring result \<Rightarrow> preview_ui \<Rightarrow> preview_ui" where
  "end_simulate reply u =
     (let u' = (case reply of
                  Inr feeStoops \<Rightarrow> u\<lparr>pv_preview := Some feeStoops\<rparr>
                | Inl err \<Rightarrow>
                    if is_SimulationError err
                    then u\<lparr>pv_simError := Some \<lparr>se_isContract = True, se_message = message_of err\<rparr>\<rparr>
                    else u\<lparr>pv_simError := Some \<lparr>se_isContract = False, se_message = String_of_thrown err\<rparr>\<rparr>)
      in u'\<lparr>pv_loading := False\<rparr>)"

definition handleSimulate :: "(VoteType \<Rightarrow> jstring result) \<Rightarrow> preview_ui \<Rightarrow> preview_ui" where
  "handleSimulate simulateCastVote u =
     end_simulate (simulateCastVote (pv_selectedVote u)) (begin_simulate u)"

section \<open>Properties\<close>

lemma fixed_digits_eq:
  "0 < f \<Longrightarrow> fixed_digits f n = show_nat (n div 10 ^ f) @ [46] @ width f (n mod 10 ^ f)"
proof -
  assume f: "0 < f"
  have "length (width f (n mod 10 ^ f)) = f" using f by (simp add: length_width)
  with f padStart_show_nat_split [OF f, of n] show ?thesis by (simp add: fixed_digits_def Let_def)
qed

lemma near_scaled: "\<bar>y - x\<bar> \<le> 1 / 33554432 \<Longrightarrow> \<bar>y * 10000000 - x * 10000000\<bar> < 1 / 2" for x y :: rat
  by linarith

lemma round_quotient:
  assumes "0 < n" and "n < 2 ^ 29 * 10 ^ 7"
  shows "\<exists>r. round64 (of_nat n / 10000000) = Fin r \<and> 0 < r \<and> r < 10 ^ 21
    \<and> \<lfloor>r * 10 ^ 7 + 1 / 2\<rfloor> = int n"
proof -
  let ?x = "of_nat n / 10000000 :: rat"
  have "(of_nat n :: rat) < of_nat (2 ^ 29 * 10 ^ 7)" using assms(2) by (simp only: of_nat_less_iff)
  then have up: "?x < 536870912" by simp
  have "(1 :: rat) \<le> of_nat n" using assms(1) by simp
  then have lo: "1 / 10000000 \<le> ?x" by (simp add: divide_right_mono)
  have "bin_exp ?x \<le> 28" using up lo by (intro bin_exp_less) (simp_all add: pow2_def)
  then have "ulp_exp ?x \<le> -24" by (simp add: ulp_exp_def)
  then have "pow2 (ulp_exp ?x) \<le> pow2 (-24)" by (rule pow2_mono)
  also have "pow2 (-24) = 1 / 16777216" by (simp add: pow2_def)
  finally have err: "\<bar>round_mag ?x - ?x\<bar> \<le> 1 / 33554432"
    using round_mag_error [of ?x] by linarith
  then have pos: "0 < round_mag ?x" and small: "round_mag ?x < 1073741824"
    using lo up by linarith+
  have near: "\<bar>round_mag ?x * 10 ^ 7 - of_nat n\<bar> < 1 / 2"
    using near_scaled [OF err] by simp
  have "\<lfloor>round_mag ?x * 10 ^ 7 + 1 / 2\<rfloor> = int n"
    by (rule floor_unique) (use near in \<open>simp_all add: abs_if split: if_splits\<close>)
  moreover have "round64 ?x = Fin (round_mag ?x)"
  proof -
    have "\<not> pow2 1024 \<le> round_mag ?x"
      using small pow2_mono [of 30 1024] by (simp add: pow2_def [of 30])
    with lo show ?thesis by (simp add: round64_def)
  qed
  ultimately show ?thesis using pos small by (intro exI [of _ "round_mag ?x"]) simp
qed

text \<open>
  C30. Fees are shown exactly: although the number of stroops is divided in binary floating point, for
  every amount below \<open>2 ^ 29\<close> XLM the text shown is the exact decimal value with seven decimals.
\<close>

theorem stroopsToXlm_exact:
  assumes "n < 2 ^ 29 * 10 ^ 7"
  shows "stroopsToXlm big (show_nat n) =
    show_nat (n div 10 ^ 7) @ [46] @ width 7 (n mod 10 ^ 7) @ js '' XLM''"
proof -
  have j: "js_Number (show_nat n) = Fin (of_nat n)"
    using assms by (simp add: js_Number_show_nat round64_of_nat)
  have "toFixed big 7 (num_div_pos (Fin (of_nat n)) 10000000) = fixed_digits 7 n"
  proof (cases "n = 0")
    case True
    then show ?thesis by (simp add: round64_def)
  next
    case False
    with round_quotient [OF _ assms] obtain r where "round64 (of_nat n / 10000000) = Fin r"
      "0 < r" "r < 10 ^ 21" "\<lfloor>r * 10 ^ 7 + 1 / 2\<rfloor> = int n" by auto
    then show ?thesis by simp
  qed
  with j fixed_digits_eq [of 7 n] show ?thesis by (simp add: stroopsToXlm_def isNaN_def)
qed

theorem stroopsToXlm_exact_witness:
  "stroopsToXlm (\<lambda>_. []) (show_nat 123) = show_nat 0 @ [46] @ width 7 123 @ js '' XLM''"
  using stroopsToXlm_exact [of 123 "\<lambda>_. []"] by simp

text \<open>
  A simulation ends with the spinner off and with exactly one of a fee and an error to show, where
  a rejection by the contract is told apart from every other failure.
\<close>

lemma handleSimulate_outcome:
  "\<not> pv_loading (handleSimulate f u)
   \<and> (pv_preview (handleSimulate f u) = None \<longleftrightarrow> isl (f (pv_selectedVote u)))
   \<and> (pv_simError (handleSimulate f u) = None \<longleftrightarrow> \<not> isl (f (pv_selectedVote u)))"
  by (cases "f (pv_selectedVote u)")
     (simp_all add: handleSimulate_def end_simulate_def begin_simulate_def Let_def)

end
