(* ===== verification/Panel_Views.thy ===== *)
theory Panel_Views
  imports Dom Dashboard Vote_Preview Ui_Shell List_Views
begin

text \<open>
  What the panels of a connected user render: \<^verbatim>\<open>components/DelegationPanel.tsx\<close>,
  \<^verbatim>\<open>components/UserDashboard.tsx\<close>, \<^verbatim>\<open>components/VoteSimulationPreview.tsx\<close>, and of
  \<^verbatim>\<open>components/ProposalDetail.tsx\<close> the heading, the table of details and the vote status; the rest of
  that dialog is in \<open>Detail_Views\<close>.
\<close>

section \<open>Delegation\<close>

definition dg_status :: "delegation_ui \<Rightarrow> 'a node" where
  "dg_status u =
     El ''div'' [(''role'', AStr (js ''status'')), (''aria-live'', AStr (js ''polite''))] []
       (if truthy (dg_currentDelegate u)
        then let d = the (dg_currentDelegate u)
             in [El ''span'' [] [] [Txt (js ''Delegating to: '')],
                 El ''code'' [] [] [Txt (slice d 0 8), Txt [8230], Txt (slice_from d (-6))],
                 El ''span'' [(''title'', AStr d), (''aria-label'', AStr (js ''Full address: '' @ d))] [] [Txt [8505, 65039]]]
        else [El ''span'' [] [] [Txt (js ''No active delegation '' @ [8212] @ js '' you vote with your own balance.'')]])"

definition dg_messages :: "delegation_ui \<Rightarrow> 'a node list" where
  "dg_messages u =
     jsx_if (truthy (dg_success u)) [El ''p'' [(''role'', AStr (js ''status''))] [] [Txt ([9989] @ js '' ''), Txt (the (dg_success u))]]
     @ jsx_if (truthy (dg_error u)) [El ''p'' [(''role'', AStr (js ''alert''))] [] [Txt ([9888, 65039] @ js '' ''), Txt (the (dg_error u))]]"

definition dg_idle :: "(delegation_act \<Rightarrow> 'a) \<Rightarrow> delegation_ui \<Rightarrow> 'a node" where
  "dg_idle k u = El ''div'' [] []
     (jsx_if (\<not> truthy (dg_currentDelegate u))
        [El ''button'' [(''aria-label'', AStr (js ''Set a delegate for your voting power''))]
           [(''click'', Do (\<lambda>_. [k DgOpenDelegate]))] [Txt (js ''Delegate voting power'')]]
      @ jsx_if (truthy (dg_currentDelegate u))
        [El ''button'' [(''aria-label'', AStr (js ''Revoke current delegation''))]
           [(''click'', Do (\<lambda>_. [k DgOpenRevoke]))] [Txt (js ''Revoke delegation'')]])"

definition dg_form :: "(delegation_act \<Rightarrow> 'a) \<Rightarrow> delegation_ui \<Rightarrow> 'a node" where
  "dg_form k u = El ''form'' [] [(''submit'', Do (\<lambda>_. [k DgSubmit]))]
     [El ''label'' [(''for'', AStr (js ''delegate-address''))] []
        [Txt (js ''Delegate address (Stellar G'' @ [8230] @ js '' address)'')],
      El ''input'' [(''id'', AStr (js ''delegate-address'')), (''type'', AStr (js ''text'')), (''value'', AStr (dg_input u)),
          (''placeholder'', AStr (js ''GABC'' @ [8230] @ js ''XYZ'')), (''autocomplete'', AStr (js ''off''))]
        [(''change'', Do (\<lambda>v. [k (DgType v)]))] [],
      El ''div'' [] []
        [El ''button'' [(''type'', AStr (js ''submit''))] [] [Txt (js ''Confirm delegation'')],
         El ''button'' [(''type'', AStr (js ''button''))] [(''click'', Do (\<lambda>_. [k DgCancelDelegate]))] [Txt (js ''Cancel'')]]]"

definition dg_confirm_revoke :: "(delegation_act \<Rightarrow> 'a) \<Rightarrow> 'a node" where
  "dg_confirm_revoke k = El ''div'' [] []
     [El ''p'' [] [] [Txt (js ''Are you sure you want to revoke your delegation? Your voting power will return to your account.'')],
      El ''div'' [] []
        [El ''button'' [] [(''click'', Do (\<lambda>_. [k DgRevoke]))] [Txt (js ''Yes, revoke'')],
         El ''button'' [] [(''click'', Do (\<lambda>_. [k DgCancelRevoke]))] [Txt (js ''Cancel'')]]]"

definition DelegationPanel :: "(delegation_act \<Rightarrow> 'a) \<Rightarrow> delegation_ui \<Rightarrow> 'a node" where
  "DelegationPanel k u =
     El ''section'' [(''aria-label'', AStr (js ''Delegation management''))] []
       (El ''h2'' [] [] [Txt ([55357, 56819, 65039] @ js '' Vote Delegation'')]
        # (if dg_loading u then [El ''p'' [] [] [Txt (js ''Loading delegation status'' @ [8230])]]
           else [dg_status u] @ dg_messages u
             @ jsx_if (dg_panel u = idle) [dg_idle k u]
             @ jsx_if (dg_panel u = delegating) [dg_form k u]
             @ jsx_if (dg_panel u = revoking) [dg_confirm_revoke k]))"

section \<open>Dashboard\<close>

datatype dashboard_act = DbCreate | DbDisconnect | DbDelegation delegation_act

definition db_wallet :: "jstring \<Rightarrow> int option \<Rightarrow> nat \<Rightarrow> dashboard_act node" where
  "db_wallet w balance decs = El ''div'' [] []
     [El ''div'' [] []
        ([El ''div'' [] [] [Txt (js ''Connected wallet'')],
          El ''code'' [] [] [Txt (slice w 0 8), Txt [8230], Txt (slice_from w (-6))]]
         @ (case balance of None \<Rightarrow> [] | Some b \<Rightarrow> [El ''div'' [] [] [Txt (formatTokenAmount b decs)]])),
      El ''div'' [] []
        [El ''button'' [(''aria-label'', AStr (js ''Create a new proposal''))]
           [(''click'', Do (\<lambda>_. [DbCreate]))] [Txt (js ''+ New Proposal'')],
         El ''button'' [(''aria-label'', AStr (js ''Disconnect wallet''))]
           [(''click'', Do (\<lambda>_. [DbDisconnect]))] [Txt (js ''Disconnect'')]]]"

definition db_stats :: "voted_map \<Rightarrow> Proposal list \<Rightarrow> dashboard_act node" where
  "db_stats vm ps = El ''div'' [] []
     (map (\<lambda>(label, n). El ''div'' [] [] [El ''div'' [] [] [Txt (show_nat n)], El ''div'' [] [] [Txt label]])
        [(js ''Active proposals'', length (db_active ps)),
         (js ''You voted'', length (db_voted vm ps)),
         (js ''Awaiting your vote'', length (db_unvoted vm ps))])"

definition db_vote_item :: "voted_map \<Rightarrow> Proposal \<Rightarrow> dashboard_act node" where
  "db_vote_item vm p = El ''li'' [] []
     [El ''span'' [] [] [Txt (js ''#''), Txt (show_int (prop_id p)), Txt (js '' ''), Txt (title p)],
      El ''span'' [] []
        (case vm (prop_id p) of
           Some r \<Rightarrow> [Txt (VOTE_ICON (vr_vote r)), Txt (js '' ''), Txt (vote_name (vr_vote r))]
         | None \<Rightarrow> [Txt [], Txt (js '' '')])]"

definition db_votes :: "voted_map \<Rightarrow> Proposal list \<Rightarrow> dashboard_act node list" where
  "db_votes vm ps =
     (let voted = db_voted vm ps
      in jsx_if (length voted > 0)
        [El ''div'' [] []
          [El ''div'' [] [] [Txt (js ''Your votes'')],
           El ''ul'' [] []
             (map (db_vote_item vm) (slice voted 0 5)
              @ jsx_if (length voted > 5)
                  [El ''li'' [] [] [Txt (js ''+''), Txt (show_nat (length voted - 5)), Txt (js '' more'')]])]])"

definition db_note :: "voted_map \<Rightarrow> Proposal list \<Rightarrow> dashboard_act node list" where
  "db_note vm ps =
     (let n = length (db_unvoted vm ps)
      in jsx_if (n > 0)
        [El ''div'' [(''role'', AStr (js ''note''))] []
          [Txt ([55357, 56596] @ js '' You have ''), Txt (show_nat n), Txt (js '' active proposal''),
           Txt (if n > 1 then js ''s'' else []), Txt (js '' you haven't voted on yet.'')]])"

definition UserDashboard ::
  "jstring \<Rightarrow> int option \<Rightarrow> nat \<Rightarrow> Proposal list \<Rightarrow> voted_map \<Rightarrow> delegation_ui \<Rightarrow> dashboard_act node" where
  "UserDashboard w balance decs ps vm u =
     El ''aside'' [(''aria-label'', AStr (js ''User dashboard''))] []
       ([db_wallet w balance decs, db_stats vm ps] @ db_votes vm ps @ db_note vm ps
        @ [DelegationPanel DbDelegation u])"

section \<open>Vote preview\<close>

datatype preview_act = PvSelect VoteType | PvSimulate

definition pv_radio :: "jnum \<Rightarrow> (rat \<Rightarrow> jstring) \<Rightarrow> preview_ui \<Rightarrow> VoteType \<Rightarrow> preview_act node" where
  "pv_radio proposalId fmt u v = El ''label'' [] []
     [El ''input'' [(''type'', AStr (js ''radio'')), (''name'', AStr (js ''sim-vote-'' @ num_to_string fmt proposalId)),
         (''value'', AStr (vote_name v)), (''checked'', ABool (pv_selectedVote u = v))]
        [(''change'', Do (\<lambda>_. [PvSelect v]))] [],
      Txt (vote_name v)]"

definition pv_success :: "(rat \<Rightarrow> jstring) \<Rightarrow> preview_ui \<Rightarrow> preview_act node list" where
  "pv_success fmt u = (case pv_preview u of
     None \<Rightarrow> []
   | Some fee \<Rightarrow>
       [El ''div'' [(''role'', AStr (js ''status'')), (''aria-live'', AStr (js ''polite''))] []
          [El ''strong'' [] [] [Txt ([10003] @ js '' Simulation successful'')],
           El ''div'' [] [] [Txt (js ''Estimated fee: ''), El ''strong'' [] [] [Txt (stroopsToXlm fmt fee)]],
           El ''div'' [] [] [Txt (js ''This is a dry-run '' @ [8212] @ js '' no transaction has been submitted.'')]]])"

definition pv_failure :: "preview_ui \<Rightarrow> preview_act node list" where
  "pv_failure u = (case pv_simError u of
     None \<Rightarrow> []
   | Some e \<Rightarrow>
       if se_isContract e
       then [El ''div'' [(''role'', AStr (js ''alert'')), (''aria-live'', AStr (js ''assertive''))] []
               [El ''strong'' [] [] [Txt ([9888] @ js '' Contract simulation rejected'')],
                El ''p'' [] [] [Txt (se_message e)],
                El ''p'' [] [] [Txt (js ''This would fail on-chain. Check if you have already voted or if the proposal is still active.'')]]]
       else [El ''div'' [(''role'', AStr (js ''alert'')), (''aria-live'', AStr (js ''assertive''))] []
               [El ''strong'' [] [] [Txt ([10007] @ js '' Simulation failed'')],
                El ''p'' [] [] [Txt (se_message e)]]])"

definition VoteSimulationPreview :: "jnum \<Rightarrow> (rat \<Rightarrow> jstring) \<Rightarrow> preview_ui \<Rightarrow> preview_act node" where
  "VoteSimulationPreview proposalId fmt u =
     El ''div'' [(''aria-label'', AStr (js ''Vote simulation preview''))] []
       ([El ''h4'' [] [] [Txt (js ''Preview transaction before voting'')],
         El ''div'' [] []
           (map (pv_radio proposalId fmt u) [Yes, No, Abstain]
            @ [El ''button'' [(''disabled'', ABool (pv_loading u)), (''aria-busy'', ABool (pv_loading u))]
                 [(''click'', Do (\<lambda>_. [PvSimulate]))]
                 [Txt (if pv_loading u then js ''Simulating'' @ [8230] else js ''Simulate'')]])]
        @ pv_success fmt u @ pv_failure u)"

section \<open>Proposal details\<close>

datatype detail_act = DtClose | DtToggleProposer | DtVote VoteType

definition detail_heading :: "Proposal \<Rightarrow> detail_act node list" where
  "detail_heading p =
     [El ''div'' [] []
        [El ''h2'' [(''id'', AStr (js ''proposal-dialog-title''))] [] [Txt (js ''Proposal #''), Txt (show_int (prop_id p))],
         El ''button'' [(''aria-label'', AStr (js ''Close dialog''))] [(''click'', Do (\<lambda>_. [DtClose]))] [Txt [215]]],
      El ''h3'' [] [] [Txt (title p)],
      El ''p'' [] [] [Txt (description p)]]"

definition detail_proposer :: "vite_env \<Rightarrow> bool \<Rightarrow> Proposal \<Rightarrow> detail_act node" where
  "detail_proposer env showFullProposer p = El ''span'' [] []
     [El ''a'' [(''href'', AStr (explorerAccountUrl env (proposer p))), (''target'', AStr (js ''_blank'')),
         (''rel'', AStr (js ''noopener noreferrer'')), (''title'', AStr (proposer p))] []
        [Txt (if showFullProposer then proposer p else maskAddress (proposer p))],
      El ''button'' [(''aria-label'', AStr (if showFullProposer then js ''Hide full proposer address'' else js ''Reveal full proposer address''))]
        [(''click'', Do (\<lambda>_. [DtToggleProposer]))]
        [Txt (if showFullProposer then [55357, 56904] else [55357, 56385])]]"

definition detail_table :: "vite_env \<Rightarrow> (int \<Rightarrow> jstring) \<Rightarrow> nat \<Rightarrow> bool \<Rightarrow> Proposal \<Rightarrow> detail_act node" where
  "detail_table env formatDate decs showFullProposer p = El ''table'' [] []
     [El ''tbody'' [] []
        (map (\<lambda>(k, v). El ''tr'' [] [] [El ''td'' [] [] [Txt k], El ''td'' [] [] [v]])
          [(js ''State'', Txt (state_name (state p))),
           (js ''Proposer'', detail_proposer env showFullProposer p),
           (js ''Start'', Txt (formatDate (start_time p))),
           (js ''End'', Txt (formatDate (end_time p))),
           (js ''Quorum'', Txt (formatTokenAmount (quorum p) decs)),
           (js ''Total Votes'', Txt (formatTokenAmount (votes_yes p + votes_no p + votes_abstain p) decs))])]"

definition detail_vote_status :: "jstring option \<Rightarrow> nat \<Rightarrow> Proposal \<Rightarrow> detail_ui \<Rightarrow> detail_act node list" where
  "detail_vote_status walletAddress' decs p u =
     jsx_if (truthy walletAddress')
       [El ''div'' [] []
          [case (pd_hasVoted u, pd_voteRecord u) of
             (None, _) \<Rightarrow> Txt (js ''Checking vote status...'')
           | (Some True, Some r) \<Rightarrow>
               Txt (js ''You voted '' @ vote_name (vr_vote r) @ js '' with weight '' @ formatTokenAmount (vr_weight r) decs)
           | _ \<Rightarrow>
               if state p = Active
               then El ''div'' [] []
                 [El ''div'' [] [] [Txt (js ''Cast your vote:'')],
                  El ''div'' [] []
                    (map (\<lambda>v. El ''button'' [] [(''click'', Do (\<lambda>_. [DtVote v]))]
                       [Txt (VOTE_ICON v), Txt (js '' ''), Txt (vote_name v)]) [Yes, No, Abstain])]
               else Txt (js ''You have not voted on this proposal.'')]]"

section \<open>The delegation panel implements its state machine\<close>

lemma dg_parts_clicks [simp]:
  "acts_of ev v (dg_status u) = {}" "forms (dg_status u) = []"
  "(\<Union>c \<in> set (dg_messages u). acts_of ev v c) = {}" "c \<in> set (dg_messages u) \<Longrightarrow> forms c = []"
  by (auto simp add: dg_status_def dg_messages_def Let_def jsx_if_def split: if_splits)

lemma dg_block_acts [simp]:
  "acts_of ''click'' v (dg_idle k u) = {k (if truthy (dg_currentDelegate u) then DgOpenRevoke else DgOpenDelegate)}"
  "acts_of ''click'' v (dg_form k u) = {k DgCancelDelegate}"
  "acts_of ''click'' v (dg_confirm_revoke k) = {k DgRevoke, k DgCancelRevoke}"
  "acts_of ''change'' v (dg_idle k u) = {}" "acts_of ''change'' v (dg_form k u) = {k (DgType v)}"
  "acts_of ''change'' v (dg_confirm_revoke k) = {}" "acts_of ''blur'' v (dg_idle k u) = {}"
  "acts_of ''blur'' v (dg_form k u) = {}" "acts_of ''blur'' v (dg_confirm_revoke k) = {}"
  by (simp_all add: dg_idle_def dg_form_def dg_confirm_revoke_def jsx_if_def disabled_def get_attr_def insert_commute)

lemma panel_acts:
  "acts_of ''click'' v (DelegationPanel (\<lambda>a. a) u) =
     (if dg_loading u then {}
      else case dg_panel u of
             idle \<Rightarrow> {if truthy (dg_currentDelegate u) then DgOpenRevoke else DgOpenDelegate}
           | delegating \<Rightarrow> {DgCancelDelegate}
           | revoking \<Rightarrow> {DgRevoke, DgCancelRevoke})"
  "acts_of ''change'' v (DelegationPanel (\<lambda>a. a) u) =
     (if \<not> dg_loading u \<and> dg_panel u = delegating then {DgType v} else {})"
  "acts_of ''blur'' v (DelegationPanel (\<lambda>a. a) u) = {}"
  by (cases "dg_loading u"; cases "dg_panel u"; simp add: DelegationPanel_def)+

lemma panel_forms:
  "forms (DelegationPanel (\<lambda>a. a) u) = (if \<not> dg_loading u \<and> dg_panel u = delegating then [dg_form (\<lambda>a. a) u] else [])"
  by (cases "dg_panel u") (simp_all add: DelegationPanel_def dg_idle_def dg_form_def dg_confirm_revoke_def jsx_if_def)

lemma dg_form_submits: "user_click [length xs, 2, 0] (El ''section'' as [] (xs @ [dg_form k u])) = [k DgSubmit]"
  by (simp add: dg_form_def user_click_def fire_def receive_def disabled_def get_attr_def is_submit_def submit_calls_def)

text \<open>The rendered panel offers exactly what the table of the state machine says.\<close>

lemma panel_can: "user_can (DelegationPanel (\<lambda>a. a) u) a \<longleftrightarrow> delegation_offers u a"
proof
  assume "user_can (DelegationPanel (\<lambda>a. a) u) a"
  then show "delegation_offers u a"
  proof (cases rule: user_can_cases)
    case (event ev v)
    then show ?thesis by (cases "dg_panel u") (auto simp add: delegation_offers_def panel_acts split: if_splits)
  next
    case (submit f b)
    then show ?thesis by (auto simp add: delegation_offers_def panel_forms dg_form_def submit_calls_def split: if_splits)
  qed
next
  assume o: "delegation_offers u a"
  show "user_can (DelegationPanel (\<lambda>a. a) u) a"
  proof (cases a)
    case DgSubmit
    let ?xs = "El ''h2'' [] [] [Txt ([55357, 56819, 65039] @ js '' Vote Delegation'')] # dg_status u # dg_messages u
      :: delegation_act node list"
    have "DelegationPanel (\<lambda>a. a) u = El ''section'' [(''aria-label'', AStr (js ''Delegation management''))] []
        (?xs @ [dg_form (\<lambda>a. a) u])"
      using o DgSubmit by (simp add: delegation_offers_def DelegationPanel_def)
    then have "user_click [length ?xs, 2, 0] (DelegationPanel (\<lambda>a. a) u) = [DgSubmit]"
      by (simp only:) (rule dg_form_submits)
    then have "DgSubmit \<in> set (user_click [length ?xs, 2, 0] (DelegationPanel (\<lambda>a. a) u))" by (simp only: list.set_intros)
    with DgSubmit show ?thesis unfolding user_can_def by blast
  next
    case (DgType v)
    with o show ?thesis by (intro user_can_change [of _ v]) (simp add: delegation_offers_def panel_acts)
  qed (use o in \<open>auto intro!: user_can_click simp add: delegation_offers_def panel_acts\<close>)
qed

inductive panel_step :: "delegation_sys \<Rightarrow> delegation_sys \<Rightarrow> bool" where
  pn_user: "user_can (DelegationPanel (\<lambda>a. a) (dy_ui y)) a \<Longrightarrow>
    panel_step y (y\<lparr>dy_ui := delegation_run (dy_wallet y) a (dy_ui y)\<rparr>)"
| pn_answer: "w \<in> set (dy_requests y) \<Longrightarrow> panel_step y (answer_delegation w reply y)"
| pn_account: "w \<noteq> dy_wallet y \<Longrightarrow> panel_step y (load_delegation w y)"

lemma panel_step_iff: "panel_step = delegation_step"
  by (intro ext iffI; erule panel_step.cases delegation_step.cases)
     (auto simp add: panel_can intro: delegation_step.intros panel_step.intros)


text \<open>
  What an account change leaves behind: a question to revoke opened for one account stays open for the next, and
  is then offered without any delegate; and an answer that comes late is shown for the account that replaced its own.
\<close>

theorem account_change_leaves_question:
  "\<exists>y. reachable (\<lambda>y. \<exists>w. y = mount_delegation w) panel_step y \<and> dy_wallet y = js ''GB''
     \<and> user_can (DelegationPanel (\<lambda>a. a) (dy_ui y)) DgRevoke \<and> dg_currentDelegate (dy_ui y) = None"
proof -
  let ?R = "reachable (\<lambda>y. \<exists>w. y = mount_delegation w) panel_step"
  define y1 where "y1 = answer_delegation (js ''GA'') (Inr (Some (js ''GD''))) (mount_delegation (js ''GA''))"
  define y2 where "y2 = y1\<lparr>dy_ui := delegation_run (dy_wallet y1) DgOpenRevoke (dy_ui y1)\<rparr>"
  define y3 where "y3 = load_delegation (js ''GB'') y2"
  define y4 where "y4 = answer_delegation (js ''GB'') (Inr None) y3"
  note y = y1_def y2_def y3_def y4_def mount_delegation_def initial_delegation_def delegation_ops delegation_offers_def
  have "?R (mount_delegation (js ''GA''))" by (rule reach_init) blast
  then have "?R y1" unfolding y1_def by (rule reach_step) (rule pn_answer, simp add: y)
  then have "?R y2" unfolding y2_def by (rule reach_step) (rule pn_user, auto simp add: panel_can y js_def)
  then have "?R y3" unfolding y3_def by (rule reach_step) (rule pn_account, simp add: y)
  then have "?R y4" unfolding y4_def by (rule reach_step) (rule pn_answer, simp add: y)
  moreover have "dy_wallet y4 = js ''GB''" "delegation_offers (dy_ui y4) DgRevoke" "dg_currentDelegate (dy_ui y4) = None"
    by (simp_all add: y)
  ultimately show ?thesis unfolding panel_can by blast
qed

theorem late_answer_for_other_account:
  "\<exists>y. reachable (\<lambda>y. \<exists>w. y = mount_delegation w) panel_step
         (answer_delegation (js ''GA'') (Inr (Some d)) y) \<and> dy_wallet y = js ''GB'' \<and> \<not> dg_loading (dy_ui y)
     \<and> dg_currentDelegate (dy_ui (answer_delegation (js ''GA'') (Inr (Some d)) y)) = Some d"
proof -
  let ?R = "reachable (\<lambda>y. \<exists>w. y = mount_delegation w) panel_step"
  define y1 where "y1 = load_delegation (js ''GB'') (mount_delegation (js ''GA''))"
  define y2 where "y2 = answer_delegation (js ''GB'') (Inr None) y1"
  note y = y1_def y2_def mount_delegation_def initial_delegation_def delegation_ops
  have "?R (mount_delegation (js ''GA''))" by (rule reach_init) blast
  then have "?R y1" unfolding y1_def by (rule reach_step) (rule pn_account, simp add: y)
  then have "?R y2" unfolding y2_def by (rule reach_step) (rule pn_answer, simp add: y)
  then have "?R (answer_delegation (js ''GA'') (Inr (Some d)) y2)" by (rule reach_step) (rule pn_answer, simp add: y)
  moreover have "dy_wallet y2 = js ''GB''" "\<not> dg_loading (dy_ui y2)"
    "dg_currentDelegate (dy_ui (answer_delegation (js ''GA'') (Inr (Some d)) y2)) = Some d"
    by (simp_all add: y)
  ultimately show ?thesis by blast
qed

text \<open>The panel of an account with a delegate, after the question to revoke was opened.\<close>

definition sample_delegation :: delegation_sys where
  "sample_delegation = (let y = answer_delegation (js ''GA'') (Inr (Some (js ''GD''))) (mount_delegation (js ''GA''))
     in y\<lparr>dy_ui := openRevoke (dy_ui y)\<rparr>)"


section \<open>The preview\<close>

lemma pv_results_inert [simp]:
  "(\<Union>c \<in> set (pv_success fmt u). acts_of ev v c) = {}" "(\<Union>c \<in> set (pv_failure u). acts_of ev v c) = {}"
  "c \<in> set (pv_success fmt u) \<Longrightarrow> forms c = []" "c \<in> set (pv_failure u) \<Longrightarrow> forms c = []"
  by (auto simp add: pv_success_def pv_failure_def split: option.splits if_splits)

lemma preview_acts:
  "acts_of ''click'' v (VoteSimulationPreview i fmt u) = (if pv_loading u then {} else {PvSimulate})"
  "acts_of ''change'' v (VoteSimulationPreview i fmt u) = range PvSelect"
  "acts_of ''blur'' v (VoteSimulationPreview i fmt u) = {}" "forms (VoteSimulationPreview i fmt u) = []"
  using VoteType.exhaust
  by (auto simp add: VoteSimulationPreview_def pv_radio_def disabled_def get_attr_def)

text \<open>
  The preview: a simulation can be started exactly when none is running; while one runs no earlier result
  is on display, and when it has ended exactly one result is, the fee if it succeeded and an alert
  otherwise.
\<close>

theorem preview_one_result:
  "(user_can (VoteSimulationPreview i fmt u) PvSimulate \<longleftrightarrow> \<not> pv_loading u)
   \<and> pv_success fmt (begin_simulate u) @ pv_failure (begin_simulate u) = []
   \<and> (case sim (pv_selectedVote u) of
        Inr fee \<Rightarrow> length (pv_success fmt (handleSimulate sim u)) = 1 \<and> pv_failure (handleSimulate sim u) = []
      | Inl e \<Rightarrow> pv_success fmt (handleSimulate sim u) = [] \<and> length (pv_failure (handleSimulate sim u)) = 1)"
proof (intro conjI)
  show "user_can (VoteSimulationPreview i fmt u) PvSimulate \<longleftrightarrow> \<not> pv_loading u"
  proof
    assume "user_can (VoteSimulationPreview i fmt u) PvSimulate"
    then show "\<not> pv_loading u" by (cases rule: user_can_cases) (auto simp add: preview_acts split: if_splits)
  qed (auto intro!: user_can_click simp add: preview_acts)
  show "pv_success fmt (begin_simulate u) @ pv_failure (begin_simulate u) = []"
    by (simp add: pv_success_def pv_failure_def begin_simulate_def)
  show "case sim (pv_selectedVote u) of
        Inr fee \<Rightarrow> length (pv_success fmt (handleSimulate sim u)) = 1 \<and> pv_failure (handleSimulate sim u) = []
      | Inl e \<Rightarrow> pv_success fmt (handleSimulate sim u) = [] \<and> length (pv_failure (handleSimulate sim u)) = 1"
    by (simp add: handleSimulate_def end_simulate_def begin_simulate_def pv_success_def pv_failure_def Let_def
        split: sum.split)
qed

section \<open>Voting from the details\<close>

text \<open>
  Who is offered to vote: once the node has answered, the buttons are there exactly for an active
  proposal on which no vote \<^emph>\<open>record\<close> of the user was found.  A user who has voted, but whose record
  could not be read, is offered to vote again, since \<open>fetchVoteRecord\<close> reports any failure as no record.
\<close>

theorem detail_offers_vote:
  assumes "truthy wallet" and "fetchHasVoted k cfg (Number_of_BigInt (prop_id p)) (the wallet) = Inr voted"
    and "fetchVoteRecord k cfg (Number_of_BigInt (prop_id p)) (the wallet) = Inr r"
  shows "(\<exists>n \<in> set (detail_vote_status wallet decs p (vote_status_effect k cfg wallet p u)). user_can n (DtVote v))
    \<longleftrightarrow> state p = Active \<and> (\<not> voted \<or> r = None)"
proof -
  let ?u = "vote_status_effect k cfg wallet p u"
  have e: "pd_hasVoted ?u = Some voted" "pd_voteRecord ?u = r"
    using assms by (simp_all add: vote_status_effect_def)
  have "\<exists>n. detail_vote_status wallet decs p ?u = [n] \<and> forms n = []
      \<and> acts_of ''change'' [] n = {} \<and> acts_of ''blur'' [] n = {}
      \<and> (\<forall>x. acts_of ''change'' x n = {} \<and> acts_of ''blur'' x n = {}
        \<and> acts_of ''click'' x n = (if state p = Active \<and> (\<not> voted \<or> r = None) then range DtVote else {}))"
    using assms(1) VoteType.exhaust
    by (cases voted; cases r) (auto simp add: detail_vote_status_def e disabled_def get_attr_def)
  then obtain n where n: "detail_vote_status wallet decs p ?u = [n]" "forms n = []"
    "\<And>x. acts_of ''change'' x n = {}" "\<And>x. acts_of ''blur'' x n = {}"
    "\<And>x. acts_of ''click'' x n = (if state p = Active \<and> (\<not> voted \<or> r = None) then range DtVote else {})" by blast
  have "user_can n (DtVote v) \<longleftrightarrow> state p = Active \<and> (\<not> voted \<or> r = None)"
  proof
    assume "user_can n (DtVote v)"
    then show "state p = Active \<and> (\<not> voted \<or> r = None)"
      by (cases rule: user_can_cases) (auto simp add: n split: if_splits)
  qed (auto intro!: user_can_click simp add: n)
  then show ?thesis by (simp add: n(1))
qed

theorem detail_offers_vote_witness:
  "\<not> (\<exists>n \<in> set (detail_vote_status (Some (js ''G1'')) 7 sample_proposal
       (vote_status_effect sample_sdk sample_net (Some (js ''G1'')) sample_proposal \<lparr>pd_hasVoted = None, pd_voteRecord = None\<rparr>)).
     user_can n (DtVote Yes))"
proof -
  have t: "truthy (Some (js ''G1''))" by simp
  have n: "Number_of_BigInt (prop_id sample_proposal) = Fin 0"
    by (simp add: sample_proposal_def Number_of_BigInt_exact)
  have h: "fetchHasVoted sample_sdk sample_net (Number_of_BigInt (prop_id sample_proposal)) (the (Some (js ''G1''))) = Inr True"
    unfolding n by (simp add: fetchHasVoted_def callContract_def simulateCall_def buildTx_def sample_sdk_def Let_def)
  have r: "fetchVoteRecord sample_sdk sample_net (Number_of_BigInt (prop_id sample_proposal)) (the (Some (js ''G1''))) =
      Inr (Some \<lparr>vr_vote = Yes, vr_weight = 7\<rparr>)"
    unfolding n by (simp add: fetchVoteRecord_def callContract_def simulateCall_def buildTx_def sample_sdk_def Let_def)
  from detail_offers_vote [OF t h r] show ?thesis by simp
qed

end
