(* ===== verification/Detail_Views.thy ===== *)
theory Detail_Views
  imports Panel_Views Shell_Views
begin

text \<open>
  The dialog of \<^verbatim>\<open>components/ProposalDetail.tsx\<close> around the parts that \<open>Panel_Views\<close> renders: its actions,
  the placeholder that stands for voting, the vote buttons with their notes and the confirmation.  The
  component uses names that it does not declare (\<^verbatim>\<open>canVote\<close>, \<^verbatim>\<open>isVoting\<close>, \<^verbatim>\<open>ACTION_CONFIG\<close> and others);
  they are collected in a record and are parameters of the view.
\<close>

section \<open>Actions\<close>

datatype PendingAction = finalize | execute' | cancel'

record action_config =
  ac_confirmTitle :: jstring
  ac_confirmMsg :: jstring
  ac_confirmLabel :: jstring

record detail_vars =
  dv_canVote :: bool
  dv_isVoting :: bool
  dv_isProposalActive :: bool
  dv_votingOpen :: bool
  dv_votingMessage :: "jstring option"
  dv_votingError :: "jstring option"
  dv_pendingAction :: "PendingAction option"
  dv_ACTION_CONFIG :: "PendingAction \<Rightarrow> action_config"

section \<open>The placeholder for voting\<close>

text \<open>
  What \<open>handleVote\<close> does, as the list of its effects, and the exception it ends with, if any.  \<open>onToast\<close> is another name the
  component does not declare; it is a parameter, absent or a function that returns or throws.  No effect is a
  request: the place of the SDK call is taken by a timer.
\<close>

datatype vote_effect = VToast ToastType jstring | VSleep nat

definition handleVote ::
  "jstring option \<Rightarrow> (ToastType \<Rightarrow> jstring \<Rightarrow> unit result) option \<Rightarrow> jstring \<Rightarrow> Proposal \<Rightarrow> vote_effect list \<times> unit result" where
  "handleVote walletAddress' onToast voteType p =
     (case onToast of
        None \<Rightarrow> ([], Inr ())
      | Some toast \<Rightarrow>
          if \<not> truthy walletAddress' then ([], Inr ())
          else
            let m = js ''Submitting '' @ voteType @ js '' vote '' @ [8212] @ js '' confirm in wallet'' @ [8230];
                done = js ''Vote '' @ [34] @ voteType @ [34] @ js '' submitted on proposal #'' @ show_int (prop_id p) @ js ''.''
            in case toast pending m of
                 Inl e \<Rightarrow> ([VToast pending m], Inl e)
               | Inr _ \<Rightarrow>
                   (case toast success done of
                      Inr _ \<Rightarrow> ([VToast pending m, VSleep 1000, VToast success done], Inr ())
                    | Inl e \<Rightarrow>
                        let failed = js ''Vote failed: '' @ (case e of ErrorObj _ msg \<Rightarrow> msg | OtherThrown _ \<Rightarrow> js ''unknown error'')
                        in ([VToast pending m, VSleep 1000, VToast success done, VToast ToastType.error failed], toast ToastType.error failed)))"

section \<open>The view\<close>

datatype dialog_act = DaClose | DaToggleProposer | DaVote VoteType | DaConfirm PendingAction | DaDismiss

fun detail_call :: "detail_act \<Rightarrow> dialog_act" where
  "detail_call DtClose = DaClose"
| "detail_call DtToggleProposer = DaToggleProposer"
| "detail_call (DtVote v) = DaVote v"

fun confirm_call :: "PendingAction \<Rightarrow> confirm_act \<Rightarrow> dialog_act" where
  "confirm_call a CmConfirm = DaConfirm a"
| "confirm_call a CmCancel = DaDismiss"

definition detail_messages :: "detail_vars \<Rightarrow> dialog_act node list" where
  "detail_messages x =
     jsx_if (truthy (dv_votingMessage x)) [El ''div'' [] [] [Txt (the (dv_votingMessage x))]]
     @ jsx_if (truthy (dv_votingError x)) [El ''div'' [] [] [Txt (the (dv_votingError x))]]"

definition detail_buttons :: "detail_vars \<Rightarrow> dialog_act node" where
  "detail_buttons x = El ''div'' [] []
     (map (\<lambda>(label, v). El ''button'' [(''disabled'', ABool (\<not> dv_canVote x \<or> dv_isVoting x))]
          [(''click'', Do (\<lambda>_. [DaVote v]))]
          [Txt (if dv_isVoting x then js ''Submitting...'' else label)])
        [(js ''Vote Yes'', Yes), (js ''Vote No'', No), (js ''Abstain'', Abstain)])"

definition detail_notes :: "jstring option \<Rightarrow> detail_ui \<Rightarrow> detail_vars \<Rightarrow> dialog_act node list" where
  "detail_notes walletAddress' u x =
     jsx_if (\<not> truthy walletAddress')
       [El ''div'' [] [] [Txt ([8505, 65039] @ js '' Connect your wallet to vote on this proposal'')]]
     @ jsx_if (truthy walletAddress' \<and> pd_hasVoted u = Some True)
       [El ''div'' [] [] [Txt ([10003] @ js '' You have already voted on this proposal'')]]
     @ jsx_if (truthy walletAddress' \<and> \<not> dv_isProposalActive x)
       [El ''div'' [] [] [Txt ([8505, 65039] @ js '' This proposal is not active and cannot receive new votes'')]]
     @ jsx_if (truthy walletAddress' \<and> dv_isProposalActive x \<and> \<not> dv_votingOpen x)
       [El ''div'' [] [] [Txt ([8505, 65039] @ js '' Voting is not open yet or has ended for this proposal'')]]"

text \<open>The attributes that occur twice have their second value.\<close>

definition detail_content ::
  "vite_env \<Rightarrow> (int \<Rightarrow> jstring) \<Rightarrow> nat \<Rightarrow> jstring option \<Rightarrow> bool \<Rightarrow> Proposal \<Rightarrow> detail_ui \<Rightarrow> detail_vars \<Rightarrow> dialog_act node list" where
  "detail_content env formatDate decs walletAddress' showFullProposer p u x =
     map (map_node detail_call) (detail_heading p @ [detail_table env formatDate decs showFullProposer p]
       @ detail_vote_status walletAddress' decs p u)
     @ detail_messages x @ [detail_buttons x] @ detail_notes walletAddress' u x"

definition detail_dialog ::
  "vite_env \<Rightarrow> (int \<Rightarrow> jstring) \<Rightarrow> nat \<Rightarrow> jstring option \<Rightarrow> bool \<Rightarrow> Proposal \<Rightarrow> detail_ui \<Rightarrow> detail_vars \<Rightarrow> dialog_act node" where
  "detail_dialog env formatDate decs walletAddress' showFullProposer p u x =
     dialog_of [(''aria-hidden'', AStr (js ''true''))] DaClose
       [(''role'', AStr (js ''dialog'')), (''aria-modal'', AStr (js ''true'')), (''aria-labelledby'', AStr (js ''detail-title''))]
       (detail_content env formatDate decs walletAddress' showFullProposer p u x)"

definition detail_confirm :: "detail_vars \<Rightarrow> dialog_act node list" where
  "detail_confirm x = (case dv_pendingAction x of
     None \<Rightarrow> []
   | Some a \<Rightarrow> (let c = dv_ACTION_CONFIG x a in
       [map_node (confirm_call a) (ConfirmModal (ac_confirmTitle c) (ac_confirmMsg c) (ac_confirmLabel c))]))"

definition ProposalDetail ::
  "vite_env \<Rightarrow> (int \<Rightarrow> jstring) \<Rightarrow> nat \<Rightarrow> jstring option \<Rightarrow> bool \<Rightarrow> Proposal \<Rightarrow> detail_ui \<Rightarrow> detail_vars \<Rightarrow> dialog_act node list" where
  "ProposalDetail env formatDate decs walletAddress' showFullProposer p u x =
     detail_dialog env formatDate decs walletAddress' showFullProposer p u x # detail_confirm x"

text \<open>The focus: on the close button when the dialog opens, back on what opened it when it is gone.\<close>

datatype dialog_focus = FocusClose | FocusTrigger nat | FocusElsewhere

definition detail_mount :: "dialog_focus \<Rightarrow> dialog_focus" where
  "detail_mount f = FocusClose"

definition detail_unmount :: "nat option \<Rightarrow> dialog_focus \<Rightarrow> dialog_focus" where
  "detail_unmount trigger f = (case trigger of None \<Rightarrow> f | Some e \<Rightarrow> FocusTrigger e)"

interpretation detail_dialog: modal_dialog
  "\<lambda>(env, formatDate, decs, w, sf, p, u, x). detail_dialog env formatDate decs w sf p u x" DaClose
  "\<lambda>_. [(''aria-hidden'', AStr (js ''true''))]"
  "\<lambda>_. [(''role'', AStr (js ''dialog'')), (''aria-modal'', AStr (js ''true'')), (''aria-labelledby'', AStr (js ''detail-title''))]"
  "\<lambda>(env, formatDate, decs, w, sf, p, u, x). detail_content env formatDate decs w sf p u x"
  by unfold_locales (simp add: detail_dialog_def split: prod.split)

section \<open>What the dialog offers\<close>

lemma range_VoteType: "range f = {f Yes, f No, f Abstain}"
proof -
  have "UNIV = {Yes, No, Abstain}" using VoteType.exhaust by auto
  then have "range f = f ` {Yes, No, Abstain}" by simp
  then show ?thesis by simp
qed

lemma detail_parts_clicks:
  "acts_of ''click'' v (detail_table env fd decs sf p) = {DtToggleProposer}"
  "(\<Union>n \<in> set (detail_heading p). acts_of ''click'' v n) = {DtClose}"
  by (simp_all add: detail_table_def detail_proposer_def detail_heading_def disabled_def get_attr_def)

lemma vote_status_clicks:
  "(\<Union>n \<in> set (detail_vote_status w decs p u). acts_of ''click'' v n) =
     (if truthy w \<and> state p = Active \<and> (pd_hasVoted u = Some False \<or> pd_hasVoted u = Some True \<and> pd_voteRecord u = None)
      then range DtVote else {})"
  unfolding range_VoteType
  by (simp add: detail_vote_status_def disabled_def get_attr_def jsx_if_def insert_commute split: option.split bool.split)

lemma detail_parts_quiet:
  assumes "ev \<in> {''change'', ''blur''}"
  shows "acts_of ev v (detail_table env fd decs sf p) = {}"
    and "(\<Union>n \<in> set (detail_heading p). acts_of ev v n) = {}"
    and "(\<Union>n \<in> set (detail_vote_status w decs p u). acts_of ev v n) = {}"
    and "acts_of ev v (detail_buttons x) = {}"
  using assms
  by (auto simp add: detail_table_def detail_proposer_def detail_heading_def detail_buttons_def)
    (auto simp add: detail_vote_status_def jsx_if_def split: option.splits bool.splits if_splits)

lemma detail_parts_forms:
  "forms (detail_table env fd decs sf p) = []" "concat (map forms (detail_heading p)) = []"
  "concat (map forms (detail_vote_status w decs p u)) = []" "forms (detail_buttons x) = []"
  "concat (map forms (detail_messages x)) = []" "concat (map forms (detail_notes w u x)) = []"
  by (simp_all add: detail_table_def detail_proposer_def detail_heading_def detail_vote_status_def detail_buttons_def
      detail_messages_def detail_notes_def jsx_if_def split: option.split bool.split)

lemma detail_rest_clicks:
  "acts_of ''click'' v (detail_buttons x) = (if dv_canVote x \<and> \<not> dv_isVoting x then range DaVote else {})"
  "(\<Union>n \<in> set (detail_messages x). acts_of ev v n) = {}" "(\<Union>n \<in> set (detail_notes w u x). acts_of ev v n) = {}"
  unfolding range_VoteType
  by (simp_all add: detail_buttons_def detail_messages_def detail_notes_def disabled_def get_attr_def jsx_if_def
      insert_commute)

definition vote_prompted :: "jstring option \<Rightarrow> Proposal \<Rightarrow> detail_ui \<Rightarrow> bool" where
  "vote_prompted w p u \<longleftrightarrow> truthy w \<and> state p = Active
     \<and> (pd_hasVoted u = Some False \<or> pd_hasVoted u = Some True \<and> pd_voteRecord u = None)"

lemma detail_content_acts:
  "(\<Union>n \<in> set (detail_content env fd decs w sf p u x). acts_of ev v n) =
     detail_call ` ((\<Union>n \<in> set (detail_heading p). acts_of ev v n) \<union> acts_of ev v (detail_table env fd decs sf p)
       \<union> (\<Union>n \<in> set (detail_vote_status w decs p u). acts_of ev v n)) \<union> acts_of ev v (detail_buttons x)"
  using detail_rest_clicks(2) [where x = x and ev = ev and v = v]
    detail_rest_clicks(3) [where w = w and u = u and x = x and ev = ev and v = v]
  by (auto simp add: detail_content_def)

lemma detail_dialog_forms: "forms (detail_dialog env fd decs w sf p u x) = []"
proof -
  have nested: "concat (map (forms \<circ> map_node detail_call) ns) = []" if "concat (map forms ns) = []" for ns
    using that by (induction ns) simp_all
  show ?thesis
    using nested [OF detail_parts_forms(2), of p] nested [OF detail_parts_forms(3), of w decs p u] detail_parts_forms
    by (simp add: detail_dialog_def dialog_of_def detail_content_def del: concat_eq_Nil_conv)
qed

lemma detail_dialog_can:
  "user_can (detail_dialog env fd decs w sf p u x) a \<longleftrightarrow>
     a \<in> {DaClose, DaToggleProposer} \<union> (if vote_prompted w p u \<or> dv_canVote x \<and> \<not> dv_isVoting x then range DaVote else {})"
proof (rule user_can_iff_acts)
  show "forms (detail_dialog env fd decs w sf p u x) = []" by (rule detail_dialog_forms)
  show "acts_of ev v (detail_dialog env fd decs w sf p u x) = {}" if "ev \<in> {''change'', ''blur''}" for ev v
    using that by (auto simp add: detail_dialog_def dialog_of_def detail_content_acts detail_parts_quiet)
  show "acts_of ''click'' v (detail_dialog env fd decs w sf p u x)
      = {DaClose, DaToggleProposer} \<union> (if vote_prompted w p u \<or> dv_canVote x \<and> \<not> dv_isVoting x then range DaVote else {})" for v
  proof -
    have "acts_of ''click'' v (detail_dialog env fd decs w sf p u x)
        = insert DaClose (\<Union>n \<in> set (detail_content env fd decs w sf p u x). acts_of ''click'' v n)"
      by (simp add: detail_dialog_def dialog_of_def disabled_def)
    then show ?thesis
      unfolding detail_content_acts detail_parts_clicks vote_status_clicks detail_rest_clicks
      by (auto simp add: vote_prompted_def range_VoteType)
  qed
qed

lemma confirm_dialog_can: "user_can (map_node f (ConfirmModal ti msg label)) a \<longleftrightarrow> a \<in> {f CmConfirm, f CmCancel}"
  by (rule user_can_iff_acts)
    (auto simp add: ConfirmModal_def dialog_of_def disabled_def get_attr_def)

lemma ProposalDetail_forms: "n \<in> set (ProposalDetail env fd decs w sf p u x) \<Longrightarrow> forms n = []"
  by (auto simp add: ProposalDetail_def detail_dialog_forms detail_confirm_def ConfirmModal_def dialog_of_def Let_def
      split: option.splits)

text \<open>
  What a user can do in the details of a proposal.  Closing and revealing the proposer are always possible;
  an action can be confirmed or dismissed exactly while it is pending.  A vote can be started with the lower buttons
  when the component allows it and no vote is under way; but the upper buttons, shown while the status finds
  no vote record of the user, do not look at either, so a second vote can be started during the first.
\<close>

theorem detail_offers:
  "(\<exists>n \<in> set (ProposalDetail env fd decs w sf p u x). user_can n a) \<longleftrightarrow>
     (case a of
        DaClose \<Rightarrow> True
      | DaToggleProposer \<Rightarrow> True
      | DaVote v \<Rightarrow> dv_canVote x \<and> \<not> dv_isVoting x
          \<or> truthy w \<and> state p = Active
            \<and> (pd_hasVoted u = Some False \<or> pd_hasVoted u = Some True \<and> pd_voteRecord u = None)
      | DaConfirm b \<Rightarrow> dv_pendingAction x = Some b
      | DaDismiss \<Rightarrow> dv_pendingAction x \<noteq> None)"
proof -
  have "(\<exists>n \<in> set (detail_confirm x). user_can n a) \<longleftrightarrow>
      (case dv_pendingAction x of None \<Rightarrow> False | Some b \<Rightarrow> a \<in> {DaConfirm b, DaDismiss})"
    by (cases "dv_pendingAction x") (simp_all add: detail_confirm_def Let_def confirm_dialog_can)
  then show ?thesis
    by (cases a) (auto simp add: ProposalDetail_def detail_dialog_can vote_prompted_def split: option.split)
qed

text \<open>Opening the details and closing them again returns the focus to the card they were opened from.\<close>

lemma focus_returns: "detail_unmount (Some e) (detail_mount f) = FocusTrigger e"
  by (simp add: detail_unmount_def)

end
