(* ===== verification/Url_Params.thy ===== *)
theory Url_Params
  imports JS_Prelude
begin

text \<open>
  The search text and the state filter in the address of the page: \<open>getUrlParams\<close> and \<open>setUrlParams\<close> of
  \<^verbatim>\<open>App.tsx\<close>, with the parts of the web platform they use.  Those are scalar values and UTF-8 (the
  decoder with its replacement of malformed input), the form encoding of \<open>URLSearchParams\<close>, and
  \<open>history.replaceState\<close> with a relative address.  The round trip shows that whatever the user searches
  for is read back from the address.
\<close>

section \<open>Scalar values\<close>

definition lead_unit :: "nat \<Rightarrow> bool" where
  "lead_unit c \<longleftrightarrow> 55296 \<le> c \<and> c \<le> 56319"

definition trail_unit :: "nat \<Rightarrow> bool" where
  "trail_unit c \<longleftrightarrow> 56320 \<le> c \<and> c \<le> 57343"

definition scalar :: "nat \<Rightarrow> bool" where
  "scalar n \<longleftrightarrow> n < 55296 \<or> 57343 < n \<and> n < 1114112"

text \<open>The code points of a string; a surrogate without partner is replaced by U+FFFD.\<close>

definition lone :: "nat \<Rightarrow> nat" where
  "lone c = (if lead_unit c \<or> trail_unit c then 65533 else c)"

fun code_points :: "jstring \<Rightarrow> nat list" where
  "code_points [] = []"
| "code_points [c] = [lone c]"
| "code_points (c # d # s) =
     (if lead_unit c \<and> trail_unit d then (65536 + (c - 55296) * 1024 + (d - 56320)) # code_points s
      else lone c # code_points (d # s))"

definition utf16_of :: "nat \<Rightarrow> jstring" where
  "utf16_of n = (if n < 65536 then [n] else [55296 + (n - 65536) div 1024, 56320 + (n - 65536) mod 1024])"

definition of_code_points :: "nat list \<Rightarrow> jstring" where
  "of_code_points ns = concat (map utf16_of ns)"

text \<open>The conversion of an argument to a string of scalar values.\<close>

definition toUSVString :: "jstring \<Rightarrow> jstring" where
  "toUSVString s = of_code_points (code_points s)"

section \<open>UTF-8\<close>

definition utf8_bytes :: "nat \<Rightarrow> nat list" where
  "utf8_bytes n =
     (if n < 128 then [n]
      else if n < 2048 then [192 + n div 64, 128 + n mod 64]
      else if n < 65536 then [224 + n div 4096, 128 + n div 64 mod 64, 128 + n mod 64]
      else [240 + n div 262144, 128 + n div 4096 mod 64, 128 + n div 64 mod 64, 128 + n mod 64])"

definition utf8_encode :: "nat list \<Rightarrow> nat list" where
  "utf8_encode ns = concat (map utf8_bytes ns)"

text \<open>
  The decoder with its state: the code point so far, the bytes still needed and the bounds for the next
  one.  A byte out of bounds ends the sequence with a replacement and is read again.
\<close>

fun utf8_decode :: "nat \<Rightarrow> nat \<Rightarrow> nat \<Rightarrow> nat \<Rightarrow> nat list \<Rightarrow> nat list" where
  "utf8_decode cp 0 lo up [] = []"
| "utf8_decode cp (Suc k) lo up [] = [65533]"
| "utf8_decode cp 0 lo up (b # bs) =
     (if b < 128 then b # utf8_decode 0 0 128 191 bs
      else if 194 \<le> b \<and> b \<le> 223 then utf8_decode (b - 192) 1 128 191 bs
      else if 224 \<le> b \<and> b \<le> 239 then
        utf8_decode (b - 224) 2 (if b = 224 then 160 else 128) (if b = 237 then 159 else 191) bs
      else if 240 \<le> b \<and> b \<le> 244 then
        utf8_decode (b - 240) 3 (if b = 240 then 144 else 128) (if b = 244 then 143 else 191) bs
      else 65533 # utf8_decode 0 0 128 191 bs)"
| "utf8_decode cp (Suc k) lo up (b # bs) =
     (if b < lo \<or> up < b then 65533 # utf8_decode 0 0 128 191 (b # bs)
      else if k = 0 then (cp * 64 + (b - 128)) # utf8_decode 0 0 128 191 bs
      else utf8_decode (cp * 64 + (b - 128)) k 128 191 bs)"

abbreviation decode_utf8 :: "nat list \<Rightarrow> nat list" where
  "decode_utf8 \<equiv> utf8_decode 0 0 128 191"

section \<open>Form encoding\<close>

definition plain_byte :: "nat \<Rightarrow> bool" where
  "plain_byte b \<longleftrightarrow> 48 \<le> b \<and> b \<le> 57 \<or> 65 \<le> b \<and> b \<le> 90 \<or> 97 \<le> b \<and> b \<le> 122 \<or> b \<in> {42, 45, 46, 95}"

definition hex_digit :: "nat \<Rightarrow> nat" where
  "hex_digit n = (if n < 10 then 48 + n else 55 + n)"

definition hex_value :: "nat \<Rightarrow> nat option" where
  "hex_value c =
     (if 48 \<le> c \<and> c \<le> 57 then Some (c - 48)
      else if 65 \<le> c \<and> c \<le> 70 then Some (c - 55)
      else if 97 \<le> c \<and> c \<le> 102 then Some (c - 87) else None)"

definition form_byte :: "nat \<Rightarrow> jstring" where
  "form_byte b =
     (if b = 32 then [43] else if plain_byte b then [b] else [37, hex_digit (b div 16), hex_digit (b mod 16)])"

definition form_encode :: "jstring \<Rightarrow> jstring" where
  "form_encode s = concat (map form_byte (utf8_encode (code_points s)))"

fun percent_decode :: "nat list \<Rightarrow> nat list" where
  "percent_decode (c # h # l # r) =
     (if c = 37 \<and> hex_value h \<noteq> None \<and> hex_value l \<noteq> None
      then (16 * the (hex_value h) + the (hex_value l)) # percent_decode r
      else c # percent_decode (h # l # r))"
| "percent_decode s = s"

definition unplus :: "nat \<Rightarrow> nat" where
  "unplus b = (if b = 43 then 32 else b)"

definition form_decode :: "nat list \<Rightarrow> jstring" where
  "form_decode bs = of_code_points (decode_utf8 (percent_decode (map unplus bs)))"

type_synonym params = "(jstring \<times> jstring) list"

definition form_pair :: "nat list \<Rightarrow> jstring \<times> jstring" where
  "form_pair bs = (form_decode (takeWhile (\<lambda>b. b \<noteq> 61) bs), form_decode (drop 1 (dropWhile (\<lambda>b. b \<noteq> 61) bs)))"

text \<open>\<open>new URLSearchParams(s)\<close>, \<open>set\<close>, \<open>get\<close> and \<open>toString\<close>.\<close>

definition new_URLSearchParams :: "jstring \<Rightarrow> params" where
  "new_URLSearchParams s =
     map form_pair (filter (\<lambda>bs. bs \<noteq> [])
       (split_on 38 (utf8_encode (code_points (if starts_with s (js ''?'') then drop 1 s else s)))))"

definition param_set :: "jstring \<Rightarrow> jstring \<Rightarrow> params \<Rightarrow> params" where
  "param_set n v ps =
     (let n' = toUSVString n; v' = toUSVString v; others = dropWhile (\<lambda>p. fst p \<noteq> n') ps in
      if others = [] then ps @ [(n', v')]
      else takeWhile (\<lambda>p. fst p \<noteq> n') ps @ (n', v') # filter (\<lambda>p. fst p \<noteq> n') (drop 1 others))"

definition param_get :: "params \<Rightarrow> jstring \<Rightarrow> jstring option" where
  "param_get ps n = map_of ps (toUSVString n)"

definition params_string :: "params \<Rightarrow> jstring" where
  "params_string ps = join_with (js ''&'') (map (\<lambda>(n, v). form_encode n @ js ''='' @ form_encode v) ps)"

section \<open>The address of the page\<close>

record location =
  loc_pathname :: jstring
  loc_search :: jstring
  loc_hash :: jstring

text \<open>
  \<open>history.replaceState(null, '', url)\<close> for the two forms of address the code passes: a query relative
  to the page, and a path, which is refused when it would name another host.
\<close>

definition replaceState :: "jstring \<Rightarrow> location \<Rightarrow> location result" where
  "replaceState url loc =
     (if starts_with url (js ''?'') then Inr (loc\<lparr>loc_search := url, loc_hash := []\<rparr>)
      else if starts_with url (js ''//'')
      then Inl (ErrorObj (js ''SecurityError'') (js ''A history state object with that URL cannot be created.''))
      else Inr (loc\<lparr>loc_pathname := url, loc_search := [], loc_hash := []\<rparr>))"

definition getUrlParams :: "location \<Rightarrow> jstring \<times> jstring" where
  "getUrlParams loc =
     (let p = new_URLSearchParams (loc_search loc) in
      (case param_get p (js ''q'') of None \<Rightarrow> [] | Some s \<Rightarrow> s,
       case param_get p (js ''state'') of None \<Rightarrow> js ''All'' | Some s \<Rightarrow> s))"

definition setUrlParams :: "jstring \<Rightarrow> jstring \<Rightarrow> location \<Rightarrow> location result" where
  "setUrlParams search stateFilter loc =
     (let p1 = (if search \<noteq> [] then param_set (js ''q'') search [] else []);
          p2 = (if stateFilter \<noteq> js ''All'' then param_set (js ''state'') stateFilter p1 else p1);
          qs = params_string p2
      in replaceState (if qs \<noteq> [] then js ''?'' @ qs else loc_pathname loc) loc)"

section \<open>Decoding what was encoded\<close>

lemma lone_id: "scalar c \<Longrightarrow> lone c = c"
  by (auto simp add: lone_def lead_unit_def trail_unit_def scalar_def)

lemma scalar_lone: "c < 65536 \<Longrightarrow> scalar (lone c)"
  by (auto simp add: lone_def lead_unit_def trail_unit_def scalar_def)

lemma code_points_scalar: "\<forall>c \<in> set s. c < 65536 \<Longrightarrow> n \<in> set (code_points s) \<Longrightarrow> scalar n"
  by (induction s rule: code_points.induct)
    (auto simp add: scalar_lone split: if_splits, auto simp add: scalar_def lead_unit_def trail_unit_def)

lemma code_points_Cons: "\<not> lead_unit c \<Longrightarrow> code_points (c # s) = lone c # code_points s"
  by (cases s) simp_all

lemma code_points_of_cons:
  assumes "scalar n"
  shows "code_points (utf16_of n @ s) = n # code_points s"
proof (cases "n < 65536")
  case True
  then show ?thesis
    using assms by (simp add: utf16_of_def code_points_Cons lone_id) (auto simp add: code_points_Cons lone_id lead_unit_def scalar_def)
next
  case False
  let ?m = "n - 65536"
  have m: "?m < 1048576" using assms False by (auto simp add: scalar_def)
  then have "lead_unit (55296 + ?m div 1024)" "trail_unit (56320 + ?m mod 1024)"
    by (simp_all add: lead_unit_def trail_unit_def)
  moreover have "65536 + ?m div 1024 * 1024 + ?m mod 1024 = n"
    using False by (simp add: div_mult_mod_eq add.assoc)
  ultimately show ?thesis using False by (simp add: utf16_of_def)
qed

lemma code_points_of_code_points: "\<forall>n \<in> set ns. scalar n \<Longrightarrow> code_points (of_code_points ns) = ns"
  by (induction ns) (simp_all add: of_code_points_def code_points_of_cons)

lemma code_points_toUSVString:
  "\<forall>c \<in> set s. c < 65536 \<Longrightarrow> code_points (toUSVString s) = code_points s"
  unfolding toUSVString_def using code_points_scalar by (intro code_points_of_code_points) blast

lemma code_points_ascii: "ascii s \<Longrightarrow> code_points s = s"
  by (induction s rule: code_points.induct) (auto simp add: ascii_def lone_def lead_unit_def trail_unit_def)

lemma utf8_encode_ascii: "ascii s \<Longrightarrow> utf8_encode s = s"
  by (induction s) (simp_all add: ascii_def utf8_encode_def utf8_bytes_def)

lemma of_code_points_ascii: "ascii s \<Longrightarrow> of_code_points s = s"
  by (induction s) (simp_all add: ascii_def of_code_points_def utf16_of_def)

lemma toUSVString_ascii: "ascii s \<Longrightarrow> toUSVString s = s"
  by (simp add: toUSVString_def code_points_ascii of_code_points_ascii)

text \<open>One byte after the first, and the sequences of two, three and four bytes.\<close>

lemma utf8_next:
  "lo \<le> b \<Longrightarrow> b \<le> up \<Longrightarrow> utf8_decode cp (Suc (Suc k)) lo up (b # bs) = utf8_decode (cp * 64 + (b - 128)) (Suc k) 128 191 bs"
  "lo \<le> b \<Longrightarrow> b \<le> up \<Longrightarrow> utf8_decode cp (Suc 0) lo up (b # bs) = (cp * 64 + (b - 128)) # decode_utf8 bs"
  by simp_all

lemma decode_two:
  assumes "2 \<le> a" and "a < 32" and "b < 64"
  shows "decode_utf8 ((192 + a) # (128 + b) # r) = (a * 64 + b) # decode_utf8 r"
proof -
  have "decode_utf8 ((192 + a) # (128 + b) # r) = utf8_decode a (Suc 0) 128 191 ((128 + b) # r)" using assms by simp
  then show ?thesis using assms(3) by (simp only: utf8_next(2)) simp
qed

lemma decode_three:
  assumes "a < 16" and "b < 64" and "c < 64" and "a = 0 \<Longrightarrow> 32 \<le> b" and "a = 13 \<Longrightarrow> b < 32"
  shows "decode_utf8 ((224 + a) # (128 + b) # (128 + c) # r) = ((a * 64 + b) * 64 + c) # decode_utf8 r"
proof -
  let ?lo = "if a = 0 then 160 else 128 :: nat" and ?up = "if a = 13 then 159 else 191 :: nat"
  have "decode_utf8 ((224 + a) # (128 + b) # (128 + c) # r) = utf8_decode a (Suc (Suc 0)) ?lo ?up ((128 + b) # (128 + c) # r)"
    using assms(1) by (simp add: numeral_2_eq_2)
  also have "\<dots> = utf8_decode (a * 64 + b) (Suc 0) 128 191 ((128 + c) # r)"
    using assms(2,4,5) by (subst utf8_next(1)) auto
  also have "\<dots> = ((a * 64 + b) * 64 + c) # decode_utf8 r"
    using assms(3) by (subst utf8_next(2)) auto
  finally show ?thesis .
qed

lemma decode_four:
  assumes "a < 5" and "b < 64" and "c < 64" and "d < 64" and "a = 0 \<Longrightarrow> 16 \<le> b" and "a = 4 \<Longrightarrow> b < 16"
  shows "decode_utf8 ((240 + a) # (128 + b) # (128 + c) # (128 + d) # r) = (((a * 64 + b) * 64 + c) * 64 + d) # decode_utf8 r"
proof -
  let ?lo = "if a = 0 then 144 else 128 :: nat" and ?up = "if a = 4 then 143 else 191 :: nat"
  have "decode_utf8 ((240 + a) # (128 + b) # (128 + c) # (128 + d) # r)
      = utf8_decode a (Suc (Suc (Suc 0))) ?lo ?up ((128 + b) # (128 + c) # (128 + d) # r)"
    using assms(1) by (simp add: numeral_3_eq_3)
  also have "\<dots> = utf8_decode (a * 64 + b) (Suc (Suc 0)) 128 191 ((128 + c) # (128 + d) # r)"
    using assms(2,5,6) by (subst utf8_next(1)) auto
  also have "\<dots> = utf8_decode ((a * 64 + b) * 64 + c) (Suc 0) 128 191 ((128 + d) # r)"
    using assms(3) by (subst utf8_next(1)) auto
  also have "\<dots> = (((a * 64 + b) * 64 + c) * 64 + d) # decode_utf8 r"
    using assms(4) by (subst utf8_next(2)) auto
  finally show ?thesis .
qed

lemma three_parts: "(n div 4096 * 64 + n div 64 mod 64) * 64 + n mod 64 = (n :: nat)"
proof -
  have "n div 4096 = n div 64 div 64" by (simp add: div_mult2_eq)
  then have "n div 4096 * 64 + n div 64 mod 64 = n div 64" by (simp add: div_mult_mod_eq)
  then show ?thesis by (simp add: div_mult_mod_eq)
qed

lemma four_parts:
  "((n div 262144 * 64 + n div 4096 mod 64) * 64 + n div 64 mod 64) * 64 + n mod 64 = (n :: nat)"
proof -
  have "n div 262144 = n div 4096 div 64" by (simp add: div_mult2_eq)
  then have "n div 262144 * 64 + n div 4096 mod 64 = n div 4096" by (simp add: div_mult_mod_eq)
  then show ?thesis using three_parts [of n] by simp
qed

lemma decode_bytes:
  assumes "scalar n"
  shows "decode_utf8 (utf8_bytes n @ r) = n # decode_utf8 r"
proof -
  consider "n < 128" | "128 \<le> n" "n < 2048" | "2048 \<le> n" "n < 65536" | "65536 \<le> n" "n < 1114112"
    using assms unfolding scalar_def by linarith
  then show ?thesis
  proof cases
    case 1
    then show ?thesis by (simp add: utf8_bytes_def)
  next
    case 2
    then have "2 \<le> n div 64" "n div 64 < 32" by simp_all
    then show ?thesis using 2 decode_two [of "n div 64" "n mod 64" r] by (simp add: utf8_bytes_def div_mult_mod_eq)
  next
    case 3
    obtain a b c where p: "a = n div 4096" "b = n div 64 mod 64" "c = n mod 64" by blast
    have n: "(a * 64 + b) * 64 + c = n" unfolding p by (rule three_parts)
    have "a < 16" "b < 64" "c < 64" using 3 by (simp_all add: p)
    moreover have "32 \<le> b" if "a = 0" using that n 3 \<open>c < 64\<close> by simp
    moreover have "b < 32" if "a = 13" using that n assms \<open>b < 64\<close> \<open>c < 64\<close> by (auto simp add: scalar_def)
    ultimately have "decode_utf8 ((224 + a) # (128 + b) # (128 + c) # r) = n # decode_utf8 r" using decode_three n by metis
    then show ?thesis using 3 by (simp add: utf8_bytes_def p)
  next
    case 4
    obtain a b c d where p: "a = n div 262144" "b = n div 4096 mod 64" "c = n div 64 mod 64" "d = n mod 64" by blast
    have n: "((a * 64 + b) * 64 + c) * 64 + d = n" unfolding p by (rule four_parts)
    have "a < 5" "b < 64" "c < 64" "d < 64" using 4 by (simp_all add: p)
    moreover have "16 \<le> b" if "a = 0" using that n 4 \<open>c < 64\<close> \<open>d < 64\<close> by simp
    moreover have "b < 16" if "a = 4" using that n 4 by simp
    ultimately have "decode_utf8 ((240 + a) # (128 + b) # (128 + c) # (128 + d) # r) = n # decode_utf8 r" using decode_four n by metis
    then show ?thesis using 4 by (simp add: utf8_bytes_def p)
  qed
qed

lemma decode_encode: "\<forall>n \<in> set ns. scalar n \<Longrightarrow> decode_utf8 (utf8_encode ns) = ns"
  by (induction ns) (simp_all add: utf8_encode_def decode_bytes)

lemma percent_decode_plain: "c \<noteq> 37 \<Longrightarrow> percent_decode (c # r) = c # percent_decode r"
  by (cases r; cases "tl r") (auto simp add: neq_Nil_conv)

lemma hex_value_digit: "n < 16 \<Longrightarrow> hex_value (hex_digit n) = Some n"
  by (simp add: hex_value_def hex_digit_def)

lemma hex_digit_range: "n < 16 \<Longrightarrow> hex_digit n \<in> {48..57} \<union> {65..70}"
  by (auto simp add: hex_digit_def)

lemma percent_decode_byte:
  assumes "b < 256"
  shows "percent_decode (map unplus (form_byte b) @ r) = b # percent_decode r"
proof -
  have h: "b div 16 < 16" "b mod 16 < 16" using assms by simp_all
  have "unplus (hex_digit n) = hex_digit n" if "n < 16" for n
    using hex_digit_range [OF that] by (auto simp add: unplus_def)
  moreover have "unplus b = b" "b \<noteq> 37" if "plain_byte b" using that by (auto simp add: plain_byte_def unplus_def)
  ultimately show ?thesis
    using h by (auto simp add: form_byte_def percent_decode_plain hex_value_digit) (simp_all add: unplus_def percent_decode_plain)
qed

lemma percent_decode_bytes:
  "\<forall>b \<in> set bs. b < 256 \<Longrightarrow> percent_decode (map unplus (concat (map form_byte bs))) = bs"
  by (induction bs) (simp_all add: percent_decode_byte)

lemma utf8_encode_bytes: "\<forall>n \<in> set ns. scalar n \<Longrightarrow> b \<in> set (utf8_encode ns) \<Longrightarrow> b < 256"
  by (auto simp add: utf8_encode_def utf8_bytes_def scalar_def split: if_splits)

lemma form_decode_encode:
  assumes "\<forall>c \<in> set s. c < 65536"
  shows "form_decode (form_encode s) = toUSVString s"
proof -
  have sc: "\<forall>n \<in> set (code_points s). scalar n" using code_points_scalar [OF assms] by blast
  then have "percent_decode (map unplus (form_encode s)) = utf8_encode (code_points s)"
    unfolding form_encode_def using utf8_encode_bytes by (intro percent_decode_bytes) blast
  then show ?thesis using decode_encode [OF sc] by (simp add: form_decode_def toUSVString_def)
qed

text \<open>What the encoding produces: letters, digits and a few marks, never a separator.\<close>

lemma form_byte_units:
  assumes "b < 256" and "c \<in> set (form_byte b)"
  shows "c < 128 \<and> c \<notin> {38, 61, 63}"
proof (cases "b = 32 \<or> plain_byte b")
  case True
  then show ?thesis using assms(2) by (auto simp add: form_byte_def plain_byte_def split: if_splits)
next
  case False
  have "b div 16 < 16" "b mod 16 < 16" using assms(1) by simp_all
  moreover have "c = 37 \<or> c = hex_digit (b div 16) \<or> c = hex_digit (b mod 16)"
    using assms(2) False by (simp add: form_byte_def)
  ultimately have "c \<in> {37} \<union> {48..57} \<union> {65..70}" using hex_digit_range by blast
  then show ?thesis by auto
qed

lemma form_encode_units:
  assumes "\<forall>c \<in> set s. c < 65536" and "c \<in> set (form_encode s)"
  shows "c < 128 \<and> c \<notin> {38, 61, 63}"
proof -
  obtain b where "b \<in> set (utf8_encode (code_points s))" "c \<in> set (form_byte b)"
    using assms(2) by (auto simp add: form_encode_def)
  then show ?thesis using form_byte_units utf8_encode_bytes code_points_scalar [OF assms(1)] by blast
qed

lemma split_on_join:
  "d \<notin> set w \<Longrightarrow> split_on d (w @ d # s) = w # split_on d s"
  by (induction w) auto

definition pair_string :: "jstring \<times> jstring \<Rightarrow> jstring" where
  "pair_string p = form_encode (fst p) @ js ''='' @ form_encode (snd p)"

definition units_ok :: "jstring \<times> jstring \<Rightarrow> bool" where
  "units_ok p \<longleftrightarrow> (\<forall>c \<in> set (fst p) \<union> set (snd p). c < 65536)"

lemma js_separators: "js ''='' = [61]" "js ''&'' = [38]" "js ''?'' = [63]"
  by (simp_all add: js_def)

lemma pair_string_units: "units_ok p \<Longrightarrow> c \<in> set (pair_string p) \<Longrightarrow> c < 128 \<and> c \<notin> {38, 63}"
  using form_encode_units [of "fst p" c] form_encode_units [of "snd p" c]
  by (auto simp add: pair_string_def units_ok_def js_separators)

lemma form_pair_string:
  assumes "units_ok p"
  shows "form_pair (pair_string p) = (toUSVString (fst p), toUSVString (snd p))"
proof -
  have "\<forall>c \<in> set (form_encode (fst p)). c \<noteq> 61" using form_encode_units [of "fst p"] assms by (auto simp add: units_ok_def)
  then have "takeWhile (\<lambda>b. b \<noteq> 61) (pair_string p) = form_encode (fst p)"
    "drop 1 (dropWhile (\<lambda>b. b \<noteq> 61) (pair_string p)) = form_encode (snd p)"
    by (simp_all add: pair_string_def js_separators takeWhile_append2 dropWhile_append2)
  then show ?thesis using assms by (simp add: form_pair_def form_decode_encode units_ok_def)
qed

lemma split_params:
  "\<forall>p \<in> set ps. units_ok p \<Longrightarrow> ps \<noteq> [] \<Longrightarrow> split_on 38 (join_with [38] (map pair_string ps)) = map pair_string ps"
proof (induction ps)
  case (Cons p ps)
  have "38 \<notin> set (pair_string p)" using pair_string_units Cons.prems(1) by fastforce
  then show ?case using Cons by (cases ps) (simp_all add: split_on_no_sep split_on_join)
qed simp

lemma params_string_units:
  "\<forall>p \<in> set ps. units_ok p \<Longrightarrow> c \<in> set (params_string ps) \<Longrightarrow> c < 128 \<and> c \<noteq> 63"
proof (induction ps)
  case (Cons p ps)
  then show ?case
    using pair_string_units [of p c] by (cases ps) (auto simp add: params_string_def pair_string_def js_separators split_beta)
qed (simp add: params_string_def)

lemma read_params:
  assumes "\<forall>p \<in> set ps. units_ok p"
  shows "new_URLSearchParams (js ''?'' @ params_string ps) = map (\<lambda>p. (toUSVString (fst p), toUSVString (snd p))) ps"
proof (cases "ps = []")
  case True
  then show ?thesis
    by (simp add: new_URLSearchParams_def params_string_def js_separators starts_with_def utf8_encode_def)
next
  case False
  have q: "params_string ps = join_with [38] (map pair_string ps)"
    unfolding params_string_def js_separators by (simp add: pair_string_def js_separators split_beta' cong: map_cong)
  have "ascii (params_string ps)" using params_string_units [OF assms] by (auto simp add: ascii_def)
  then have "utf8_encode (code_points (params_string ps)) = params_string ps"
    by (simp add: code_points_ascii utf8_encode_ascii)
  then have "new_URLSearchParams (js ''?'' @ params_string ps) = map form_pair (filter (\<lambda>bs. bs \<noteq> []) (map pair_string ps))"
    using split_params [OF assms False] by (simp add: new_URLSearchParams_def starts_with_def js_separators q)
  also have "filter (\<lambda>bs. bs \<noteq> []) (map pair_string ps) = map pair_string ps"
    by (simp add: filter_id_conv pair_string_def js_separators)
  finally show ?thesis using form_pair_string assms by simp
qed

lemma utf16_of_units:
  assumes "scalar n" and "c \<in> set (utf16_of n)"
  shows "c < 65536"
proof -
  have "(n - 65536) div 1024 < 1024" if "n < 1114112" using that by (simp add: div_less_iff_less_mult)
  then show ?thesis using assms by (auto simp add: utf16_of_def scalar_def split: if_splits)
qed

lemma toUSVString_units: "\<forall>c \<in> set s. c < 65536 \<Longrightarrow> c \<in> set (toUSVString s) \<Longrightarrow> c < 65536"
  using code_points_scalar [of s] utf16_of_units by (auto simp add: toUSVString_def of_code_points_def)

lemma toUSVString_idem: "\<forall>c \<in> set s. c < 65536 \<Longrightarrow> toUSVString (toUSVString s) = toUSVString s"
  using code_points_toUSVString [of s] by (simp add: toUSVString_def [of "toUSVString s"]) (simp add: toUSVString_def)

section \<open>The round trip through the address\<close>

definition url_pairs :: "jstring \<Rightarrow> jstring \<Rightarrow> params" where
  "url_pairs search stateFilter =
     (if search \<noteq> [] then [(js ''q'', toUSVString search)] else [])
     @ (if stateFilter \<noteq> js ''All'' then [(js ''state'', toUSVString stateFilter)] else [])"

lemma param_names: "toUSVString (js ''q'') = js ''q''" "toUSVString (js ''state'') = js ''state''"
  "toUSVString (js ''All'') = js ''All''"
  by (rule toUSVString_ascii, simp add: ascii_def js_def)+

lemma setUrlParams_pairs:
  "setUrlParams search stateFilter loc =
     replaceState (if url_pairs search stateFilter \<noteq> [] then js ''?'' @ params_string (url_pairs search stateFilter)
       else loc_pathname loc) loc"
proof -
  have "params_string (url_pairs search stateFilter) = [] \<longleftrightarrow> url_pairs search stateFilter = []"
    by (simp add: url_pairs_def params_string_def js_separators)
  moreover have "(if stateFilter \<noteq> js ''All'' then param_set (js ''state'') stateFilter
        (if search \<noteq> [] then param_set (js ''q'') search [] else [])
      else if search \<noteq> [] then param_set (js ''q'') search [] else []) = url_pairs search stateFilter"
    by (simp add: url_pairs_def param_set_def param_names)
  ultimately show ?thesis by (simp add: setUrlParams_def Let_def)
qed

lemma url_pairs_units:
  assumes "\<forall>c \<in> set search. c < 65536" and "\<forall>c \<in> set stateFilter. c < 65536"
  shows "\<forall>p \<in> set (url_pairs search stateFilter). units_ok p"
  using toUSVString_units [OF assms(1)] toUSVString_units [OF assms(2)]
  by (auto simp add: url_pairs_def units_ok_def js_def)

lemma read_url_pairs:
  assumes "\<forall>c \<in> set search. c < 65536" and "\<forall>c \<in> set stateFilter. c < 65536"
  shows "new_URLSearchParams (js ''?'' @ params_string (url_pairs search stateFilter)) = url_pairs search stateFilter"
  unfolding read_params [OF url_pairs_units [OF assms]]
  using toUSVString_idem [OF assms(1)] toUSVString_idem [OF assms(2)] by (simp add: url_pairs_def param_names)

lemma get_url_pairs:
  "(case param_get (url_pairs s f) (js ''q'') of None \<Rightarrow> [] | Some x \<Rightarrow> x) = toUSVString s"
  "(case param_get (url_pairs s f) (js ''state'') of None \<Rightarrow> js ''All'' | Some x \<Rightarrow> x) = toUSVString f"
  using param_names by (auto simp add: url_pairs_def param_get_def toUSVString_ascii ascii_def)

text \<open>
  C10. The address remembers the search: after \<open>setUrlParams\<close>, \<open>getUrlParams\<close> reads back the same search text
  and the same state filter, for every text of UTF-16 units: spaces, separators, percent signs, letters
  of any script and emoji included (only an unpaired surrogate becomes the replacement character).  The
  path is unchanged, and with nothing to remember the address has no query.
\<close>

theorem url_params_roundtrip:
  assumes "\<forall>c \<in> set search. c < 65536" and "\<forall>c \<in> set stateFilter. c < 65536"
    and "starts_with (loc_pathname loc) (js ''/'')" and "\<not> starts_with (loc_pathname loc) (js ''//'')"
  shows "\<exists>loc'. setUrlParams search stateFilter loc = Inr loc'
    \<and> getUrlParams loc' = (toUSVString search, toUSVString stateFilter)
    \<and> ((\<forall>c \<in> set search. \<not> lead_unit c \<and> \<not> trail_unit c) \<longrightarrow> toUSVString search = search)
    \<and> loc_pathname loc' = loc_pathname loc
    \<and> (loc_search loc' = [] \<longleftrightarrow> search = [] \<and> stateFilter = js ''All'')"
proof -
  let ?ps = "url_pairs search stateFilter"
  let ?url = "if ?ps \<noteq> [] then js ''?'' @ params_string ?ps else loc_pathname loc"
  let ?loc' = "loc\<lparr>loc_search := if ?ps \<noteq> [] then ?url else [], loc_hash := []\<rparr>"
  have plain: "code_points search = search" if "\<forall>c \<in> set search. \<not> lead_unit c \<and> \<not> trail_unit c"
    using that by (induction search rule: code_points.induct) (auto simp add: lone_def)
  have bmp: "of_code_points search = search"
    using assms(1) by (induction search) (simp_all add: of_code_points_def utf16_of_def)
  have "\<not> starts_with (loc_pathname loc) (js ''?'')"
    using assms(3) by (cases "loc_pathname loc") (auto simp add: starts_with_def js_def)
  then have "setUrlParams search stateFilter loc = Inr ?loc'"
    using assms(4) by (auto simp add: setUrlParams_pairs replaceState_def starts_with_def)
  moreover have "new_URLSearchParams (loc_search ?loc') = ?ps"
    using read_url_pairs [OF assms(1,2)]
    by (cases "?ps = []") (simp_all add: new_URLSearchParams_def starts_with_def js_separators utf8_encode_def)
  then have "getUrlParams ?loc' = (toUSVString search, toUSVString stateFilter)"
    by (simp add: getUrlParams_def get_url_pairs)
  moreover have "toUSVString search = search" if "\<forall>c \<in> set search. \<not> lead_unit c \<and> \<not> trail_unit c"
    using plain [OF that] bmp by (simp add: toUSVString_def)
  moreover have "loc_search ?loc' = [] \<longleftrightarrow> search = [] \<and> stateFilter = js ''All''"
    by (simp add: url_pairs_def)
  ultimately show ?thesis by (intro exI [of _ ?loc']) simp
qed

definition sample_location :: location where
  "sample_location = \<lparr>loc_pathname = js ''/app'', loc_search = [], loc_hash = []\<rparr>"

theorem url_params_roundtrip_witness:
  "\<exists>loc'. setUrlParams (js ''100% & '' @ [233, 55357, 56832]) (js ''Active'') sample_location = Inr loc'
     \<and> getUrlParams loc' = (js ''100% & '' @ [233, 55357, 56832], js ''Active'')"
proof -
  let ?s = "js ''100% & '' @ [233, 55357, 56832]"
  have usv: "toUSVString ?s = ?s" "toUSVString (js ''Active'') = js ''Active''"
    by (simp_all add: js_def toUSVString_def lead_unit_def trail_unit_def lone_def of_code_points_def utf16_of_def)
  have "\<forall>c \<in> set ?s. c < 65536" "\<forall>c \<in> set (js ''Active''). c < 65536"
    "starts_with (loc_pathname sample_location) (js ''/'')" "\<not> starts_with (loc_pathname sample_location) (js ''//'')"
    by (simp_all add: js_def sample_location_def starts_with_def)
  from url_params_roundtrip [OF this] usv show ?thesis by auto
qed

text \<open>
  The filter is read without a check: any text after \<open>state=\<close> becomes the filter, also one that names no
  state, and a malformed percent sequence is kept as it is.
\<close>

lemma unknown_state_accepted:
  "getUrlParams (sample_location\<lparr>loc_search := js ''?state=Foo&q=a+b%2''\<rparr>) = (js ''a b%2'', js ''Foo'')"
proof -
  have "new_URLSearchParams (js ''?state=Foo&q=a+b%2'') = [(js ''state'', js ''Foo''), (js ''q'', js ''a b%2'')]"
    by (simp add: js_def new_URLSearchParams_def starts_with_def lone_def lead_unit_def trail_unit_def
        utf8_encode_def utf8_bytes_def form_pair_def form_decode_def unplus_def hex_value_def of_code_points_def
        utf16_of_def)
  then show ?thesis by (simp add: getUrlParams_def param_get_def param_names)
qed

end
