(* ===== verification/App_Views.thy ===== *)
theory App_Views
  imports Detail_Views Url_Params
begin

text \<open>
  The page of \<^verbatim>\<open>App.tsx\<close> around its list: the header with the wallet, the balance of the connected
  account, the dialogs, and their composition into one page.  The module declares the functions for
  connecting and the effect that fetches the balance several times; each different body has one
  definition here.  What the module uses without declaring it, such as the flags of the two proposal
  forms, is a field of the state.
\<close>

section \<open>State and handlers\<close>

datatype ActiveTab = ProposalsTab | DashboardTab | TreasuryTab

record app_ui =
  ap_walletAddress :: "jstring option"
  ap_tokenBalance :: "int option"
  ap_requests :: "jstring list"
  ap_showFullAddress :: bool
  ap_showModal :: bool
  ap_selected :: "Proposal option"
  ap_triggerRef :: "nat option"
  ap_scrollPositionRef :: nat
  ap_scrollY :: nat
  ap_focus :: dialog_focus
  ap_activeTab :: ActiveTab
  ap_showCreateProposal :: bool
  ap_showNewForm :: bool

definition initial_app :: app_ui where
  "initial_app = \<lparr>ap_walletAddress = None, ap_tokenBalance = None, ap_requests = [], ap_showFullAddress = False,
     ap_showModal = False, ap_selected = None, ap_triggerRef = None, ap_scrollPositionRef = 0, ap_scrollY = 0,
     ap_focus = FocusElsewhere, ap_activeTab = ProposalsTab, ap_showCreateProposal = False, ap_showNewForm = False\<rparr>"

text \<open>The effect on the wallet address; a request under way is kept with the address it was made for.\<close>

definition balance_effect :: "app_ui \<Rightarrow> app_ui" where
  "balance_effect s =
     (if \<not> truthy (ap_walletAddress s) then s\<lparr>ap_tokenBalance := None\<rparr>
      else s\<lparr>ap_requests := ap_requests s @ [the (ap_walletAddress s)]\<rparr>)"

definition setWalletAddress :: "jstring option \<Rightarrow> app_ui \<Rightarrow> app_ui" where
  "setWalletAddress a s =
     (if a = ap_walletAddress s then s else balance_effect (s\<lparr>ap_walletAddress := a\<rparr>))"

definition app_balance_settles :: "jstring \<Rightarrow> int result \<Rightarrow> app_ui \<Rightarrow> app_ui" where
  "app_balance_settles a reply s =
     s\<lparr>ap_requests := remove1 a (ap_requests s),
       ap_tokenBalance := (case reply of Inr b \<Rightarrow> Some b | Inl _ \<Rightarrow> None)\<rparr>"

text \<open>The answer to the prompt: nothing when it is cancelled.\<close>

definition app_connect :: "jstring option \<Rightarrow> app_ui \<Rightarrow> app_ui" where
  "app_connect answer s =
     (case answer of
        None \<Rightarrow> s
      | Some addr \<Rightarrow> if starts_with addr (js ''G'') then setWalletAddress (Some addr) s else s)"

definition app_connect_fetching :: "jstring option \<Rightarrow> app_ui \<Rightarrow> app_ui" where
  "app_connect_fetching answer s =
     (case answer of
        None \<Rightarrow> s
      | Some addr \<Rightarrow>
          if starts_with addr (js ''G'')
          then let s' = setWalletAddress (Some addr) s in s'\<lparr>ap_requests := ap_requests s' @ [addr]\<rparr>
          else s)"

definition app_disconnect :: "app_ui \<Rightarrow> app_ui" where
  "app_disconnect s = setWalletAddress None s"

definition handleDisconnect :: "app_ui \<Rightarrow> app_ui" where
  "handleDisconnect s = (setWalletAddress None s)\<lparr>ap_tokenBalance := None, ap_activeTab := ProposalsTab\<rparr>"

definition toggle_address :: "app_ui \<Rightarrow> app_ui" where
  "toggle_address s = s\<lparr>ap_showFullAddress := \<not> ap_showFullAddress s\<rparr>"

definition open_detail :: "Proposal \<Rightarrow> nat \<Rightarrow> app_ui \<Rightarrow> app_ui" where
  "open_detail p e s =
     s\<lparr>ap_triggerRef := Some e, ap_scrollPositionRef := ap_scrollY s, ap_selected := Some p,
       ap_focus := detail_mount (ap_focus s)\<rparr>"

definition close_detail :: "app_ui \<Rightarrow> app_ui" where
  "close_detail s =
     s\<lparr>ap_selected := None, ap_scrollY := ap_scrollPositionRef s,
       ap_focus := detail_unmount (ap_triggerRef s) (ap_focus s)\<rparr>"

text \<open>The list after a proposal was created: fetched again, silently kept when that fails.\<close>

definition refreshProposals :: "'v sdk \<Rightarrow> NetworkConfig \<Rightarrow> list_page \<Rightarrow> list_page" where
  "refreshProposals k cfg g = (case fetchAllProposals k cfg of Inr ps \<Rightarrow> g\<lparr>lp_proposals := ps\<rparr> | Inl _ \<Rightarrow> g)"

definition handleProposalCreated ::
  "'v sdk \<Rightarrow> NetworkConfig \<Rightarrow> app_ui \<times> list_page \<Rightarrow> app_ui \<times> list_page" where
  "handleProposalCreated k cfg sg = ((fst sg)\<lparr>ap_showCreateProposal := False\<rparr>, refreshProposals k cfg (snd sg))"

definition announceProposalCreated :: "nat \<Rightarrow> app_ui \<times> list_page \<Rightarrow> app_ui \<times> list_page" where
  "announceProposalCreated i sg =
     ((fst sg)\<lparr>ap_showNewForm := False\<rparr>,
      (snd sg)\<lparr>lp_announcement := js ''Proposal #'' @ show_nat i @ js '' created. Refreshing list'' @ [8230]\<rparr>)"

definition app_meta :: "Proposal option \<Rightarrow> jstring \<times> jstring" where
  "app_meta selected =
     (case selected of
        Some p \<Rightarrow> (title p, title p @ js '' '' @ [8212] @ js '' '' @ slice (description p) 0 120)
      | None \<Rightarrow> (js ''Proposals'',
          js ''Browse and vote on on-chain governance proposals for CosmosVote on Stellar Soroban.''))"

section \<open>The view\<close>

datatype app_act = AaTheme | AaToggleAddress | AaDisconnect | AaOpenModal | AaRetry
  | AaList list_act | AaDialog dialog_act | AaWallet wallet_act

definition ah_theme_button :: "Theme \<Rightarrow> app_act node" where
  "ah_theme_button theme =
     El ''button'' [(''aria-label'', AStr (js ''Switch to '' @ (if theme = Dark then js ''light'' else js ''dark'') @ js '' mode''))]
       [(''click'', Do (\<lambda>_. [AaTheme]))]
       [Txt (if theme = Dark then [9728, 65039] else [55356, 57113])]"

definition ah_address :: "jstring \<Rightarrow> bool \<Rightarrow> app_act node" where
  "ah_address w full =
     El ''div''
       [(''title'', AStr (if full then js ''Click to hide address'' else w)),
        (''aria-label'', AStr (if full then js ''Click to hide full address'' else js ''Click to reveal full address'')),
        (''role'', AStr (js ''button'')), (''tabIndex'', ANum 0)]
       [(''click'', Do (\<lambda>_. [AaToggleAddress])),
        (''keydown'', Do (\<lambda>key. if key = js ''Enter'' then [AaToggleAddress] else []))]
       [Txt (if full then w else maskAddress w)]"

definition ah_wallet :: "nat \<Rightarrow> jstring \<Rightarrow> app_ui \<Rightarrow> app_act node" where
  "ah_wallet decs connect_wallet s =
     (if truthy (ap_walletAddress s)
      then El ''div'' [] []
        ([ah_address (the (ap_walletAddress s)) (ap_showFullAddress s)]
         @ (case ap_tokenBalance s of None \<Rightarrow> [] | Some b \<Rightarrow> [El ''div'' [] [] [Txt (formatTokenAmount b decs)]])
         @ [El ''button'' [] [(''click'', Do (\<lambda>_. [AaDisconnect]))] [Txt (js ''Disconnect'')]])
      else El ''button'' [] [(''click'', Do (\<lambda>_. [AaOpenModal]))] [Txt connect_wallet])"

definition app_header :: "vite_env \<Rightarrow> Theme \<Rightarrow> nat \<Rightarrow> jstring \<Rightarrow> app_ui \<Rightarrow> app_act node" where
  "app_header env theme decs connect_wallet s =
     El ''header'' [] []
       [El ''div'' [] []
          [El ''h1'' [] [] [Txt ([55356, 57100] @ js '' CosmosVote'')],
           El ''span'' [] [] [Txt (js ''On-chain governance '' @ [183] @ js '' ''), Txt (ACTIVE_NETWORK env)]],
        El ''div'' [] [] [ah_theme_button theme, ah_wallet decs connect_wallet s]]"

text \<open>What the other components contribute: their own states, and the error the boundary has caught.\<close>

record app_parts =
  pt_env :: vite_env
  pt_theme :: Theme
  pt_formats :: formats
  pt_lower :: "jstring \<Rightarrow> jstring"
  pt_formatDate :: "int \<Rightarrow> jstring"
  pt_connect_wallet :: jstring
  pt_page :: list_page
  pt_list :: list_ui
  pt_modal :: modal_ui
  pt_detail :: detail_ui
  pt_showFullProposer :: bool
  pt_vars :: detail_vars
  pt_caught :: "thrown option"

definition app_modals :: "app_parts \<Rightarrow> app_ui \<Rightarrow> app_act node list" where
  "app_modals q s =
     (case ap_selected s of
        None \<Rightarrow> []
      | Some p \<Rightarrow> map (map_node AaDialog)
          (ProposalDetail (pt_env q) (pt_formatDate q) (whole (lp_decimals (pt_page q))) (ap_walletAddress s)
             (pt_showFullProposer q) p (pt_detail q) (pt_vars q)))
     @ jsx_if (ap_showModal s) [map_node AaWallet (ConnectWalletModal (pt_modal q))]"

definition App :: "app_parts \<Rightarrow> app_ui \<Rightarrow> app_act node" where
  "App q s = El ''div'' [] []
     (AriaLive (Some (lp_announcement (pt_page q))) (lp_error (pt_page q))
      @ [app_header (pt_env q) (pt_theme q) (whole (lp_decimals (pt_page q))) (pt_connect_wallet q) s]
      @ boundary_render AaRetry None
          [map_node AaList (app_main (pt_lower q) (pt_formats q) (pt_page q) (pt_list q))] (pt_caught q)
      @ app_modals q s)"

section \<open>The page offers what its parts offer\<close>

lemma AriaLive_inert: "n \<in> set (AriaLive a b) \<Longrightarrow> forms n = [] \<and> \<not> user_can n x"
  by (auto simp add: AriaLive_def user_can_no_forms split: option.splits)

lemma app_header_forms: "forms (app_header env theme decs cw s) = []"
  by (cases "ap_tokenBalance s") (simp_all add: app_header_def ah_theme_button_def ah_wallet_def ah_address_def)

lemma app_header_can:
  "user_can (app_header env theme decs cw s) a \<longleftrightarrow>
     a \<in> {AaTheme} \<union> (if truthy (ap_walletAddress s) then {AaToggleAddress, AaDisconnect} else {AaOpenModal})"
proof (rule user_can_iff_acts [OF app_header_forms])
  show "acts_of ev v (app_header env theme decs cw s) = {}" if "ev \<in> {''change'', ''blur''}" for ev v
  proof -
    from that consider "ev = ''change''" | "ev = ''blur''" by blast
    then show ?thesis
      by cases (cases "ap_tokenBalance s"; simp add: app_header_def ah_theme_button_def ah_wallet_def ah_address_def)+
  qed
  show "acts_of ''click'' v (app_header env theme decs cw s) =
     {AaTheme} \<union> (if truthy (ap_walletAddress s) then {AaToggleAddress, AaDisconnect} else {AaOpenModal})" for v
    by (cases "ap_tokenBalance s")
      (simp_all add: app_header_def ah_theme_button_def ah_wallet_def ah_address_def disabled_def get_attr_def insert_commute)
qed

lemma boundary_can:
  assumes "forms n = []"
  shows "(\<exists>m \<in> set (boundary_render AaRetry None [map_node AaList n] st). user_can m a) \<longleftrightarrow>
     (if st = None then \<exists>b. a = AaList b \<and> user_can n b else a = AaRetry)"
    and "m \<in> set (boundary_render AaRetry None [map_node AaList n] st) \<Longrightarrow> forms m = []"
proof -
  have "forms (El ''p'' [] [] (case e of ErrorObj n m \<Rightarrow> [Txt m] | OtherThrown s \<Rightarrow> []) :: app_act node) = []"
    "acts_of ev v (El ''p'' [] [] (case e of ErrorObj n m \<Rightarrow> [Txt m] | OtherThrown s \<Rightarrow> []) :: app_act node) = {}" for e ev v
    by (cases e; simp)+
  then show "(\<exists>m \<in> set (boundary_render AaRetry None [map_node AaList n] st). user_can m a) \<longleftrightarrow>
     (if st = None then \<exists>b. a = AaList b \<and> user_can n b else a = AaRetry)"
    "m \<in> set (boundary_render AaRetry None [map_node AaList n] st) \<Longrightarrow> forms m = []"
    using assms
    by (cases st; auto simp add: boundary_render_def user_can_map_node user_can_no_forms disabled_def get_attr_def)+
qed

lemma wallet_modal_forms: "forms (ConnectWalletModal m) = []"
  by (simp add: ConnectWalletModal_def dialog_of_def wm_content_def wm_button_def jsx_if_def)

lemma map_nodes_can:
  assumes "\<And>n. n \<in> set ns \<Longrightarrow> forms n = []"
  shows "(\<exists>m \<in> set (map (map_node f) ns). user_can m a) \<longleftrightarrow> (\<exists>b. a = f b \<and> (\<exists>n \<in> set ns. user_can n b))"
  using assms by (auto simp add: user_can_map_node)

lemma app_modals_can:
  "(\<exists>n \<in> set (app_modals q s). user_can n a) \<longleftrightarrow>
     (\<exists>p b. ap_selected s = Some p \<and> a = AaDialog b \<and> (\<exists>n \<in> set (ProposalDetail (pt_env q) (pt_formatDate q)
        (whole (lp_decimals (pt_page q))) (ap_walletAddress s) (pt_showFullProposer q) p (pt_detail q) (pt_vars q)). user_can n b))
   \<or> (\<exists>b. ap_showModal s \<and> a = AaWallet b \<and> user_can (ConnectWalletModal (pt_modal q)) b)"
  unfolding app_modals_def set_append bex_Un
  by (cases "ap_selected s"; cases "ap_showModal s")
    (simp_all add: map_nodes_can [OF ProposalDetail_forms] user_can_map_node wallet_modal_forms del: set_map)

lemma app_modals_forms: "n \<in> set (app_modals q s) \<Longrightarrow> forms n = []"
  by (auto simp add: app_modals_def jsx_if_def ProposalDetail_forms wallet_modal_forms split: option.splits if_splits)

text \<open>
  C11. The whole page, composed of its parts: in every state a user can do exactly this.  The theme can always be changed;
  a wallet is connected exactly without one, disconnected exactly with one; the list offers what it offers by itself,
  unless it has failed, and then retrying is offered; the details of the selected proposal and the wallet dialog
  offer what they offer by themselves, exactly while they are open.
\<close>

theorem app_offers:
  "user_can (App q s) a \<longleftrightarrow>
     (case a of
        AaTheme \<Rightarrow> True
      | AaToggleAddress \<Rightarrow> truthy (ap_walletAddress s)
      | AaDisconnect \<Rightarrow> truthy (ap_walletAddress s)
      | AaOpenModal \<Rightarrow> \<not> truthy (ap_walletAddress s)
      | AaRetry \<Rightarrow> pt_caught q \<noteq> None
      | AaList b \<Rightarrow> pt_caught q = None
          \<and> user_can (app_main (pt_lower q) (pt_formats q) (pt_page q) (pt_list q)) b
      | AaDialog b \<Rightarrow> (\<exists>p. ap_selected s = Some p
          \<and> (\<exists>n \<in> set (ProposalDetail (pt_env q) (pt_formatDate q) (whole (lp_decimals (pt_page q))) (ap_walletAddress s)
               (pt_showFullProposer q) p (pt_detail q) (pt_vars q)). user_can n b))
      | AaWallet b \<Rightarrow> ap_showModal s \<and> user_can (ConnectWalletModal (pt_modal q)) b)"
proof -
  note main = app_main_changes(3) [of "pt_lower q" "pt_formats q" "pt_page q" "pt_list q"]
  have "user_can (App q s) a \<longleftrightarrow>
      user_can (app_header (pt_env q) (pt_theme q) (whole (lp_decimals (pt_page q))) (pt_connect_wallet q) s) a
    \<or> (\<exists>m \<in> set (boundary_render AaRetry None
          [map_node AaList (app_main (pt_lower q) (pt_formats q) (pt_page q) (pt_list q))] (pt_caught q)). user_can m a)
    \<or> (\<exists>n \<in> set (app_modals q s). user_can n a)"
  proof -
    have "\<not> (\<exists>n \<in> set (AriaLive (Some (lp_announcement (pt_page q))) (lp_error (pt_page q))). user_can n a)"
      using AriaLive_inert [where x = a] by blast
    moreover have "user_can (App q s) a \<longleftrightarrow> (\<exists>c \<in> set (children_of (App q s)). user_can c a)"
      unfolding App_def children_of.simps
    proof (rule user_can_El)
      fix c
      assume "c \<in> set (AriaLive (Some (lp_announcement (pt_page q))) (lp_error (pt_page q))
          @ [app_header (pt_env q) (pt_theme q) (whole (lp_decimals (pt_page q))) (pt_connect_wallet q) s]
          @ boundary_render AaRetry None
              [map_node AaList (app_main (pt_lower q) (pt_formats q) (pt_page q) (pt_list q))] (pt_caught q)
          @ app_modals q s)"
      then show "forms c = []"
        unfolding set_append Un_iff
        using AriaLive_inert app_header_forms boundary_can(2) [OF main] app_modals_forms by fastforce
    qed simp
    ultimately show ?thesis by (simp add: App_def bex_Un)
  qed
  then show ?thesis
    unfolding app_header_can boundary_can(1) [OF main] app_modals_can by (cases a) auto
qed

section \<open>Opening and closing the details\<close>

text \<open>What can happen while the details are open: scrolling, answers of the node, the address in the header.\<close>

inductive browse_step :: "app_ui \<Rightarrow> app_ui \<Rightarrow> bool" where
  br_scroll: "browse_step s (s\<lparr>ap_scrollY := y\<rparr>)"
| br_settle: "browse_step s (app_balance_settles a reply s)"
| br_toggle: "browse_step s (toggle_address s)"
| br_disconnect: "browse_step s (handleDisconnect s)"

lemma balance_effect_frame [simp]:
  "ap_triggerRef (setWalletAddress a s) = ap_triggerRef s"
  "ap_scrollPositionRef (setWalletAddress a s) = ap_scrollPositionRef s"
  by (simp_all add: setWalletAddress_def balance_effect_def)

lemma browse_keeps:
  "browse_step\<^sup>*\<^sup>* s s' \<Longrightarrow> ap_triggerRef s' = ap_triggerRef s \<and> ap_scrollPositionRef s' = ap_scrollPositionRef s"
  by (induction rule: rtranclp.induct)
    (auto elim!: browse_step.cases simp add: app_balance_settles_def toggle_address_def handleDisconnect_def)

text \<open>
  The details return the user to where they were opened: whatever is scrolled, answered or toggled meanwhile, closing
  them restores the scroll position of the list and puts the focus on the card.
\<close>

theorem detail_returns:
  assumes "browse_step\<^sup>*\<^sup>* (open_detail p e s) s'"
  shows "ap_scrollY (close_detail s') = ap_scrollY s \<and> ap_focus (close_detail s') = FocusTrigger e
    \<and> ap_selected (close_detail s') = None"
  using browse_keeps [OF assms] by (simp add: open_detail_def close_detail_def detail_unmount_def)

theorem detail_returns_witness:
  "ap_scrollY (close_detail ((open_detail sample_proposal 3 (initial_app\<lparr>ap_scrollY := 700\<rparr>))\<lparr>ap_scrollY := 0\<rparr>)) = 700"
proof -
  have "browse_step\<^sup>*\<^sup>* (open_detail sample_proposal 3 (initial_app\<lparr>ap_scrollY := 700\<rparr>))
      ((open_detail sample_proposal 3 (initial_app\<lparr>ap_scrollY := 700\<rparr>))\<lparr>ap_scrollY := 0\<rparr>)"
    by (rule r_into_rtranclp) (rule br_scroll)
  from detail_returns [OF this] show ?thesis by simp
qed

section \<open>The balance in the header\<close>

text \<open>
  Runs in which the account changes only when no request is under way, as when the user waits for the balance; \<open>node\<close> is
  what the node answers for an account.
\<close>

inductive patient_step :: "(jstring \<Rightarrow> int result) \<Rightarrow> app_ui \<Rightarrow> app_ui \<Rightarrow> bool" for node where
  pa_connect: "ap_walletAddress s = None \<Longrightarrow> ap_requests s = [] \<Longrightarrow> patient_step node s (app_connect answer s)"
| pa_fetching: "ap_walletAddress s = None \<Longrightarrow> ap_requests s = [] \<Longrightarrow> patient_step node s (app_connect_fetching answer s)"
| pa_disconnect: "ap_requests s = [] \<Longrightarrow> patient_step node s (app_disconnect s)"
| pa_settle: "a \<in> set (ap_requests s) \<Longrightarrow> patient_step node s (app_balance_settles a (node a) s)"
| pa_open: "patient_step node s (open_detail p e s)"
| pa_close: "patient_step node s (close_detail s)"
| pa_toggle: "patient_step node s (toggle_address s)"

definition balance_ok :: "(jstring \<Rightarrow> int result) \<Rightarrow> app_ui \<Rightarrow> bool" where
  "balance_ok node s \<longleftrightarrow> (\<forall>a \<in> set (ap_requests s). ap_walletAddress s = Some a)
     \<and> (\<forall>b. ap_tokenBalance s = Some b \<longrightarrow> (\<exists>a. ap_walletAddress s = Some a \<and> node a = Inr b))"

lemma starts_G_nonempty: "starts_with a (js ''G'') \<Longrightarrow> a \<noteq> []"
  by (auto simp add: starts_with_def js_def)

lemma patient_step_ok:
  assumes "balance_ok node s" and "patient_step node s s'"
  shows "balance_ok node s'"
  using assms(2)
proof cases
  case (pa_settle a)
  have w: "ap_walletAddress s = Some x" if "x \<in> set (ap_requests s)" for x using that assms(1) by (simp add: balance_ok_def)
  have "ap_walletAddress s' = ap_walletAddress s" "set (ap_requests s') \<subseteq> set (ap_requests s)"
    and b: "ap_tokenBalance s' = (case node a of Inr b \<Rightarrow> Some b | Inl _ \<Rightarrow> None)"
    by (simp_all add: pa_settle(1) app_balance_settles_def set_remove1_subset)
  then show ?thesis using w [OF pa_settle(2)] w by (auto simp add: balance_ok_def split: sum.splits)
qed (use assms(1) starts_G_nonempty in \<open>auto simp add: balance_ok_def app_connect_def app_connect_fetching_def app_disconnect_def
      setWalletAddress_def balance_effect_def open_detail_def close_detail_def toggle_address_def Let_def
      split: option.splits if_splits\<close>)

interpretation patient: invariant_system "\<lambda>s. s = initial_app" "patient_step node" "balance_ok node" for node
  by unfold_locales (auto intro: patient_step_ok, simp add: balance_ok_def initial_app_def)

text \<open>
  The balance in the header is the connected account's, as long as the account is not changed while a request is under
  way: a displayed balance is what the node answered for the account displayed beside it.
\<close>

theorem header_balance_correct:
  assumes "reachable (\<lambda>s. s = initial_app) (patient_step node) s" and "ap_tokenBalance s = Some b"
  shows "\<exists>a. ap_walletAddress s = Some a \<and> node a = Inr b"
  using patient.reachable_inv [OF assms(1)] assms(2) by (auto simp add: balance_ok_def)

text \<open>
  Without that patience it is not: when the account is changed and the answers arrive in the other order, the second
  account is shown with the first one's balance.
\<close>

lemma stale_balance_shown:
  assumes "starts_with a (js ''G'')" and "starts_with c (js ''G'')" and "a \<noteq> c"
  shows "let s = app_balance_settles a (Inr x) (app_balance_settles c (Inr y)
             (app_connect (Some c) (app_disconnect (app_connect (Some a) initial_app))))
    in ap_walletAddress s = Some c \<and> ap_tokenBalance s = Some x \<and> ap_requests s = []"
  using assms starts_G_nonempty [of a] starts_G_nonempty [of c]
  by (simp add: app_balance_settles_def app_connect_def app_disconnect_def setWalletAddress_def balance_effect_def
      initial_app_def Let_def)

theorem header_balance_correct_witness:
  "ap_walletAddress (app_balance_settles (js ''G1'') (Inr 5) (app_connect (Some (js ''G1'')) initial_app)) = Some (js ''G1'')"
proof -
  let ?node = "\<lambda>a. if a = js ''G1'' then Inr 5 else Inr 0 :: int result"
  let ?c = "app_connect (Some (js ''G1'')) initial_app"
  have "patient_step ?node initial_app ?c" by (rule pa_connect) (simp_all add: initial_app_def)
  then have c: "reachable (\<lambda>s. s = initial_app) (patient_step ?node) ?c"
    by (rule reach_step [rotated]) (simp add: reach_init)
  have "js ''G1'' \<in> set (ap_requests ?c)"
    by (simp add: app_connect_def starts_with_def js_def setWalletAddress_def balance_effect_def initial_app_def)
  from pa_settle [of _ _ ?node, OF this]
  have "patient_step ?node ?c (app_balance_settles (js ''G1'') (Inr 5) ?c)" by simp
  then have r: "reachable (\<lambda>s. s = initial_app) (patient_step ?node) (app_balance_settles (js ''G1'') (Inr 5) ?c)"
    by (rule reach_step [OF c])
  have "ap_tokenBalance (app_balance_settles (js ''G1'') (Inr 5) ?c) = Some 5" by (simp add: app_balance_settles_def)
  from header_balance_correct [OF r this] show ?thesis by (auto split: if_splits)
qed

end
