(* ===== verification/Spec2Isabelle.thy ===== *)
theory Spec2Isabelle
  imports Notify_Auth Notify_Cli Backend_Service Contract_Errors Wallet_Store Proposal_Store
    Polling Analytics Theme I18n New_Proposal_Form Create_Proposal_Form Proposal_List Toasts
    Styles Locale_Context Ops_Monitor Ops_Admin_Monitor Ops_Inspect Service_Worker Frontend_Contract App_Views
begin

text \<open>
  CosmosVote is a governance application on Stellar: three contracts in Rust (governance, token,
  treasury), a browser front end, a notification service run from the command line, a small webhook
  service, the last three in TypeScript, and operators' scripts in JavaScript. This library models the
  contracts of \<^verbatim>\<open>src/contracts\<close>, the code of \<^verbatim>\<open>src/frontend/src\<close>, \<^verbatim>\<open>src/notification-service/src\<close>,
  \<^verbatim>\<open>src/backend/src\<close>, the scripts \<^verbatim>\<open>monitor.js\<close>, \<^verbatim>\<open>admin_monitor.js\<close> and \<^verbatim>\<open>inspect-state.js\<close> of \<^verbatim>\<open>src/scripts\<close>,
  and the service worker \<^verbatim>\<open>src/frontend/public/sw.js\<close>.

  \<^bold>\<open>How the parts interact.\<close> The governance contract
  asks the token for balances and supply and calls the treasury when a proposal is executed; the
  treasury calls the token. The contracts publish events. The notification service reads them from
  Horizon page by page, keeps its position and its subscribers in one JSON file, and sends messages
  over four channels. The webhook service polls an RPC endpoint and posts each event to one URL. The
  front end reads proposals, votes and balances by simulated calls, shows them in stores, lists and
  forms, and submits transactions; its settings live in the browser's local storage, and a service
  worker answers for it when the network is down. Two scripts watch the contracts' events for
  anomalies and administrative actions, a third prints the contract's state.

  \<^bold>\<open>Foundations.\<close>
  \<^item> \<^verbatim>\<open>JS_Prelude\<close>: strings as lists of UTF-16 code units with the library functions used
    (\<^verbatim>\<open>trim\<close>, \<^verbatim>\<open>split\<close>, \<^verbatim>\<open>slice\<close>, \<^verbatim>\<open>padStart\<close>, \<^verbatim>\<open>includes\<close>, ...), decimal numerals, thrown values and
    \<^verbatim>\<open>result\<close> (\<^verbatim>\<open>Inl\<close> for a throw), and the locale \<^verbatim>\<open>invariant_system\<close>: an invariant that holds
    initially and is kept by every step holds in every reachable state. The state machines below
    interpret it.
  \<^item> \<^verbatim>\<open>JS_Number\<close>: numbers as rationals with the infinities and NaN, rounding to binary64
    (nearest, ties to even; proved to be within half a unit and exact on integers up to 2^53),
    \<^verbatim>\<open>Number(string)\<close>, \<^verbatim>\<open>Math.round\<close>, \<^verbatim>\<open>toFixed\<close> and \<^verbatim>\<open>BigInt\<close>.
  \<^item> \<^verbatim>\<open>Browser_Storage\<close>: local storage that may refuse access; locale \<^verbatim>\<open>key_value_store\<close>.
  \<^item> \<^verbatim>\<open>Dom\<close>: what a component renders, as a tree with attributes and event handlers, and how the
    browser delivers events to it: bubbling, \<^verbatim>\<open>stopPropagation\<close>, disabled controls, submission by
    button or Enter key. \<^verbatim>\<open>user_can\<close> is what a user can cause; \<^verbatim>\<open>acts_of\<close> computes it. The locale
    \<^verbatim>\<open>modal_dialog\<close> is the construction all dialogs share, interpreted by the dialogs.
    Components compose: \<^verbatim>\<open>user_can_El\<close> and \<^verbatim>\<open>user_can_map_node\<close>.

  \<^bold>\<open>Contracts.\<close>
  \<^item> \<^verbatim>\<open>Soroban_Host\<close>: outcomes of a call (a value, a declared error or a trap), authorisation and the ledger's
    time and number, integers \<^verbatim>\<open>i128\<close>, \<^verbatim>\<open>u64\<close>, \<^verbatim>\<open>u32\<close> with a trap or an error on overflow, sums over
    finite maps. A failed call changes nothing, for its result carries no state.
  \<^item> \<^verbatim>\<open>Token_Contract\<close> (\<^verbatim>\<open>token/src\<close>): storage, every entry point with its guards in order, events. Reachable
    states balance (the balances add up to the supply); what each transfer does on every branch; delegated
    weight, with repeated delegators as the code counts them; who can change what.
  \<^item> \<^verbatim>\<open>Governance_Contract\<close> (\<^verbatim>\<open>governance/src\<close>): storage, every entry point, events, error codes. The token and
    the treasury are parameters, the clients and \<^verbatim>\<open>disburse\<close>; \<^verbatim>\<open>'w\<close> is the rest of the ledger.
    \<^verbatim>\<open>Governance_Properties\<close>: the invariant \<^verbatim>\<open>gov_ok\<close> and an elimination rule for each operation.
    \<^verbatim>\<open>Governance_Ballots\<close>: the specification, ballots without counters or tallies, and the refinement.
    \<^verbatim>\<open>Governance_Lifecycle\<close>, \<^verbatim>\<open>Governance_Guarantees\<close>: results follow the recorded votes, the life cycle of a
    proposal, retracting, finalizing once, authority, pausing, paging. \<^verbatim>\<open>Governance_Weights\<close>: runs under a
    condition on the surroundings (locale \<^verbatim>\<open>surrounded\<close>, interpreted for a token that keeps snapshots
    and for a host that traps on extending a missing entry).
  \<^item> \<^verbatim>\<open>Treasury_Contract\<close> (\<^verbatim>\<open>treasury/src\<close>), \<^verbatim>\<open>Contract_System\<close>: the contracts deployed together on one
    ledger. Executing pays exactly once; the native asset cannot be paid. A token that was upgraded answers no
    call of the model.
  \<^item> \<^verbatim>\<open>Frontend_Contract\<close>: the front end against the contracts. Codes, topics and input checks
    are the same; the call of the create-proposal form is refused for its five arguments, and stored as the form
    has it when the two optional ones are added.

  \<^bold>\<open>Notification service.\<close>
  \<^item> \<^verbatim>\<open>Notify_Subscriptions\<close> (\<^verbatim>\<open>types.ts\<close>, \<^verbatim>\<open>subscriptions.ts\<close>): the file as a value (missing,
    unparsable or a store, writable or not) and every operation. The locale \<^verbatim>\<open>subscription_repo\<close> is
    what the watcher and the command line rely on; it is interpreted on the operations. What the file holds
    after any sequence of operations is read off the sequence; unsubscribing undoes subscribing.
  \<^item> \<^verbatim>\<open>Notify_Channels\<close> (\<^verbatim>\<open>channels.ts\<close>, \<^verbatim>\<open>notifier.ts\<close>): the messages and the four plugins, each an
    interpretation of \<^verbatim>\<open>channel_plugin\<close>. The transport is a function from the number of requests sent
    before and the request to an answer. A failing channel changes nothing for the others.
  \<^item> \<^verbatim>\<open>Notify_Watcher\<close> (\<^verbatim>\<open>watcher.ts\<close>): parsing, fetching and polling over an arbitrary Horizon.
    What a poll sends, exactly-once delivery under Horizon's documented paging by cursor, and the stall
    on a page without governance events.
  \<^item> \<^verbatim>\<open>Notify_Cli\<close> (\<^verbatim>\<open>index.ts\<close>): arguments, commands, output and exit status.
  \<^item> \<^verbatim>\<open>Notify_Auth\<close> (\<^verbatim>\<open>auth.ts\<close>): roles, ordered as an instance of \<^verbatim>\<open>linorder\<close>, and the guard.

  \<^bold>\<open>Webhook service.\<close> \<^verbatim>\<open>Backend_Service\<close> (\<^verbatim>\<open>notificationService.ts\<close>, \<^verbatim>\<open>errorTracking.ts\<close>, \<^verbatim>\<open>index.ts\<close>): a
  round posts every event, failures raise the alert from the third in a row, and the start/stop loop
  is a transition system with armed timers and rounds under way: a stopped service starts no round.

  \<^bold>\<open>Front end, data.\<close>
  \<^item> \<^verbatim>\<open>Contract_Types\<close> (\<^verbatim>\<open>types.ts\<close>, \<^verbatim>\<open>events.ts\<close>), \<^verbatim>\<open>Contract_Errors\<close> (\<^verbatim>\<open>errors.ts\<close>): data types, event
    topics and error catalogue, compared with what the contracts publish and return.
  \<^item> \<^verbatim>\<open>Frontend_Config\<close> (\<^verbatim>\<open>config.ts\<close>): network choice and validation as functions of the environment.
  \<^item> \<^verbatim>\<open>Api\<close> (\<^verbatim>\<open>api.ts\<close>): every call, its transaction and its error paths. The record \<^verbatim>\<open>sdk\<close> holds the
    functions of the Stellar SDK and the node.
  \<^item> \<^verbatim>\<open>Wallet_Store\<close>, \<^verbatim>\<open>Proposal_Store\<close> (\<^verbatim>\<open>store/\<close>): all actions; balance requests are answered in any
    order. Whose balance is shown, what the vote map contains, loading all or nothing.

  \<^bold>\<open>Front end, user interface.\<close>
  \<^item> \<^verbatim>\<open>Proposal_Form_Rules\<close>: the fields both forms have, the contract's input checks and the locale
    \<^verbatim>\<open>proposal_validator\<close> (accepted input passes those checks), interpreted by both forms.
  \<^item> \<^verbatim>\<open>New_Proposal_Form\<close>, \<^verbatim>\<open>Create_Proposal_Form\<close>: validation, form state, and the submission with
    signing, sending and waiting for confirmation. Displayed errors are current; a submission ends
    in exactly one outcome.
  \<^item> \<^verbatim>\<open>Proposal_List\<close> (\<^verbatim>\<open>App.tsx\<close>, \<^verbatim>\<open>Pagination.tsx\<close>, \<^verbatim>\<open>ProposalCard.tsx\<close>): search, filter, paging and
    quorum figures; the pages partition the matches.
  \<^item> \<^verbatim>\<open>Theme\<close>, \<^verbatim>\<open>I18n\<close>, \<^verbatim>\<open>Analytics\<close>, \<^verbatim>\<open>Polling\<close>, \<^verbatim>\<open>Toasts\<close>, \<^verbatim>\<open>Dashboard\<close>, \<^verbatim>\<open>Vote_Preview\<close>, \<^verbatim>\<open>Format_Utils\<close>,
    \<^verbatim>\<open>Ui_Shell\<close>: the hooks and components of these names, each with its state machine where it has
    state: settings survive a reload, usage events are conserved, the back-off is bounded, toasts are
    dismissed, amounts are rounded down, fees are exact.

  \<^bold>\<open>Front end, views.\<close> The render functions, as trees of \<^verbatim>\<open>Dom\<close> over the states above; inline styles, class
  names, keys and refs are left out there, and \<^verbatim>\<open>Styles\<close> models the style objects the components name.
  \<^item> \<^verbatim>\<open>Form_Views\<close>: both forms. What the user can do on the new-proposal form refines its state machine,
    so the error texts in the document are current; fields are controlled; at most one submission runs on a
    mounted form, also after it is closed; labels, fields and error texts belong together.
  \<^item> \<^verbatim>\<open>Shell_Views\<close>: \<^verbatim>\<open>Header.tsx\<close>, \<^verbatim>\<open>ConfirmModal.tsx\<close>, \<^verbatim>\<open>ConnectWalletModal.tsx\<close>, \<^verbatim>\<open>Toast.tsx\<close>,
    \<^verbatim>\<open>ToastContext.tsx\<close>, \<^verbatim>\<open>ErrorBoundary.tsx\<close>, \<^verbatim>\<open>LanguageSwitcher.tsx\<close>, \<^verbatim>\<open>AriaLive.tsx\<close>, \<^verbatim>\<open>Spinner.tsx\<close>,
    \<^verbatim>\<open>ProposalSkeleton.tsx\<close>: which actions are offered when, and where clicks lead.
  \<^item> \<^verbatim>\<open>List_Views\<close>: \<^verbatim>\<open>Pagination.tsx\<close>, \<^verbatim>\<open>ProposalCard.tsx\<close> and the main part of \<^verbatim>\<open>App.tsx\<close> with its loading
    effects: for every answer to loading, what can be opened and which error is shown.
  \<^item> \<^verbatim>\<open>Panel_Views\<close>: \<^verbatim>\<open>DelegationPanel.tsx\<close> (the view is the state machine of \<^verbatim>\<open>Dashboard\<close>, with changes of the account and
    late answers),
    \<^verbatim>\<open>UserDashboard.tsx\<close>, \<^verbatim>\<open>VoteSimulationPreview.tsx\<close> and the upper part of \<^verbatim>\<open>ProposalDetail.tsx\<close>.
  \<^item> \<^verbatim>\<open>Detail_Views\<close>: the dialog of \<^verbatim>\<open>ProposalDetail.tsx\<close> with its buttons, notes, confirmation, focus and the
    placeholder for voting. \<^verbatim>\<open>App_Views\<close>: the page of \<^verbatim>\<open>App.tsx\<close>, composed of header, list and dialogs; what
    it offers is what its parts offer. \<^verbatim>\<open>Url_Params\<close>: the search in the page's address, with UTF-8,
    form encoding and their decoders; the round trip. \<^verbatim>\<open>Locale_Context\<close>: the two language contexts.
  \<^item> \<^verbatim>\<open>Service_Worker\<close>: the three handlers of \<^verbatim>\<open>sw.js\<close> over named caches; what is answered offline. Storing
    a response is taken to be complete before the next request.

  \<^bold>\<open>Operators' scripts.\<close>
  \<^item> \<^verbatim>\<open>Ops_Monitor\<close> (\<^verbatim>\<open>monitor.js\<close>): the anomaly rules and the polling round; exactly which lines a batch writes,
    and which events of the contracts can raise any.
  \<^item> \<^verbatim>\<open>Ops_Admin_Monitor\<close> (\<^verbatim>\<open>admin_monitor.js\<close>): the interval callback split at its await, so that turns
    may overlap; exactly-once alerts when they do not, and the request to Slack.
  \<^item> \<^verbatim>\<open>Ops_Inspect\<close> (\<^verbatim>\<open>inspect-state.js\<close>): flags, commands, output and exit status; the tool ends
    as long as the count is below 2^53, and need not beyond.

  \<^bold>\<open>Bounds.\<close> The contracts' integers are numbers with the ranges of
  their types written out; an operation the code checks gives its error on overflow, any other traps.
  Loops are structural recursion, but for a few: the UTF-8 decoder, which may read a byte twice, the index loop over command-line flags, with
  a measure, and the loop over proposal numbers of \<^verbatim>\<open>inspect-state.js\<close>, a partial function on binary64
  numbers that is proved to end below 2^53. Waiting for a confirmation makes at most 20 status
  requests, as the code does, so its recursion runs on that number; pages hold 50 records (Horizon)
  and 20 proposals (list); an array has at most 2^32 - 1 elements, so a larger proposal count is the
  RangeError it is in JavaScript. Fees are shown exactly below 2^29 XLM. At most
  50 proposals are active and a query returns at most 20, as the contract has it. Nothing depends on fuel.

  \<^bold>\<open>Parameters.\<close> Code outside the repository is an argument of the definitions: Horizon, the mail and
  HTTP transports, the Stellar SDK and node, the wallet extensions, local storage, \<^verbatim>\<open>toLowerCase\<close>,
  \<^verbatim>\<open>toLocaleString\<close>, the notation of non-integer numbers, the Stellar CLI, random ids, the host's treatment of missing
  entries, the tallies of choices, which the governance contract uses and does not declare, and \<^verbatim>\<open>simulateCastVote\<close>, which \<^verbatim>\<open>VoteSimulationPreview.tsx\<close> imports but
  no file defines. Hypotheses about them are documented behaviour: pages in stream order after the
  cursor, account ids of 56 characters.

  \<^bold>\<open>Not modelled.\<close> Inline styles and class names; build configuration, re-exports and shell scripts; the
  expiry of ledger entries that nobody extends, the code a contract is upgraded to, and the encoding of
  calls and storage, which the host does. \<^verbatim>\<open>App.tsx\<close> and \<^verbatim>\<open>ProposalDetail.tsx\<close> declare some names several times
  and others not at all: each different body has one definition, and what is not declared is a parameter or
  a field of the state. Promise scheduling appears as explicit interleaving where the code depends on it
  (wallet balances, analytics batches, service rounds, polling, monitor turns), and as sequential evaluation
  where every interleaving gives the same state.
\<close>

section \<open>From a subscription to a delivery\<close>

lemma deliveries_member:
  assumes "ev \<in> set evs" and "x \<in> set ss" and "wants (ev_type ev) (ev_proposalId ev) x"
    and "q \<in> set (requests_for env x ev)"
  shows "q \<in> set (deliveries env ss evs)"
  using assms by (fastforce simp add: deliveries_def)

lemma email_requested:
  "email x = Some a \<Longrightarrow> a \<noteq> [] \<Longrightarrow>
     SendMail (EMAIL_FROM env) a (buildSubjectLine ev) (buildTextMessage env ev) \<in> set (requests_for env x ev)"
  by (simp add: requests_for_def plugins_def EmailChannel_def email_request_def)

lemma addSubscriber_fwritable:
  "addSubscriber u o' f = Inr (x, f') \<Longrightarrow> fwritable f \<and> fwritable f'"
  by (auto simp add: addSubscriber_def save_def Let_def split: if_splits)

lemma map_filter_member: "r \<in> set rs \<Longrightarrow> f r = Some e \<Longrightarrow> e \<in> set (List.map_filter f rs)"
  by (auto simp add: set_map_filter)

text \<open>
  C8. The notification service end to end: after \<^verbatim>\<open>subscribe --email addr\<close> (with no
  \<^verbatim>\<open>--proposal-id\<close>), a poll that finds a governance event of a subscribed type on its page sends
  the mail about that event to the address, whatever the transports answer to other requests and
  whoever else is subscribed.
\<close>

theorem subscribe_then_delivered:
  assumes "parseArgs argv = (js ''subscribe'', args)"
    and "flag args (js ''email'') = Some addr" and "addr \<noteq> []"
    and "flag args (js ''proposal-id'') = None"
    and "fwritable (w_file w)"
    and "w' = fst (main cfg net horizon uuid argv w)"
    and "horizon (CONTRACT_ID cfg) (if cursor (getStore (w_file w')) \<noteq> js ''now''
      then Some (cursor (getStore (w_file w'))) else None) 50 = Inr rs"
    and "r \<in> set rs" and "parseEvent r = Some ev"
    and "ev_type ev \<in> set (parseEvents (flag args (js ''events'')))"
  shows "SendMail (EMAIL_FROM (w_env cfg)) addr (buildSubjectLine ev) (buildTextMessage (w_env cfg) ev)
    \<in> set (w_log (poll cfg net horizon w'))"
proof -
  have ch: "truthy (flag args (js ''email'')) \<or> truthy (flag args (js ''webhook''))
      \<or> truthy (flag args (js ''slack'')) \<or> truthy (flag args (js ''discord''))"
    using assms(2,3) by simp
  obtain x f where a: "addSubscriber uuid (cli_opts args) (w_file w) = Inr (x, f)"
    and m: "main cfg net horizon uuid argv w =
      (w\<lparr>w_file := f\<rparr>, [Log (js ''Subscriber added:''), LogSubscriber x], None)"
    using subscribe_runs [OF assms(1) ch assms(5)] .
  have w': "w_file w' = f" using assms(6) m by simp
  have x: "x = subscriber_of uuid (cli_opts args)" "x \<in> set (listSubscribers f)"
    using subs.added [OF a] by auto
  then have em: "email x = Some addr" and wa: "wants (ev_type ev) (ev_proposalId ev) x"
    using assms(2,4,10) by (simp_all add: subscriber_of_def cli_opts_def wants_def)
  have ev: "ev \<in> set (List.map_filter parseEvent rs)" using map_filter_member [of r rs parseEvent ev, OF assms(8,9)] .
  have "fwritable (w_file w')" using addSubscriber_fwritable [OF a] w' by simp
  from poll_ok [where horizon = horizon and cfg = cfg and w = w' and rs = rs and net = net, OF assms(7) this] ev
  have "w_log (poll cfg net horizon w') =
      w_log w' @ deliveries (w_env cfg) (listSubscribers f) (List.map_filter parseEvent rs)"
    using w' by auto
  moreover note deliveries_member [OF ev x(2) wa email_requested [OF em assms(3)]]
  ultimately show ?thesis by simp
qed

theorem subscribe_then_delivered_witness:
  "\<exists>ev. SendMail None (js ''a@b.c'') (buildSubjectLine ev) (buildTextMessage sample_env ev)
     \<in> set (w_log (poll sample_cfg (\<lambda>_ _. Inl (new_Error [])) (\<lambda>_ _ _. Inr [sample_record ''7-1'' ''final''])
          (fst (main sample_cfg (\<lambda>_ _. Inl (new_Error [])) (\<lambda>_ _ _. Inr [sample_record ''7-1'' ''final''])
             (js ''u9'') sample_argv sample_watcher))))"
proof -
  let ?args = "[js ''--email'', js ''a@b.c'', js ''--events'', js ''final, exec'']"
  let ?h = "\<lambda>_ _ _. Inr [sample_record ''7-1'' ''final'']"
  have fl: "flag ?args (js ''email'') = Some (js ''a@b.c'')" "flag ?args (js ''proposal-id'') = None"
    "flag ?args (js ''events'') = Some (js ''final, exec'')"
    by (simp_all add: flag_def js_append [symmetric])
  have e: "js ''final'' \<in> set (parseEvents (flag ?args (js ''events'')))"
    unfolding fl(3) by (simp add: parseEvents_def js_def of_char_def trim_def is_space_def)
  obtain ev where ev: "parseEvent (sample_record ''7-1'' ''final'') = Some ev" "ev_type ev = js ''final''"
    by (simp add: parse_sample TRACKED_TOPICS_def)
  have wr: "fwritable (w_file sample_watcher)" by (simp add: sample_watcher_def)
  have "SendMail (EMAIL_FROM (w_env sample_cfg)) (js ''a@b.c'') (buildSubjectLine ev) (buildTextMessage (w_env sample_cfg) ev)
     \<in> set (w_log (poll sample_cfg (\<lambda>_ _. Inl (new_Error [])) ?h
          (fst (main sample_cfg (\<lambda>_ _. Inl (new_Error [])) ?h (js ''u9'') sample_argv sample_watcher))))"
    by (rule subscribe_then_delivered [OF sample_parse fl(1) _ fl(2) wr refl refl _ ev(1)])
       (use e ev(2) in simp_all)
  then show ?thesis by (auto simp add: sample_cfg_def sample_env_def)
qed

end
